(* ===== verification/Prelude.thy ===== *)
theory Prelude
  imports Main "HOL-Library.AList" "HOL-Library.List_Lexorder" "HOL-Library.Char_ord"
    "HOL-Library.Word"
begin

text \<open>
  Shared vocabulary of the development: fallible results and state-passing actions (Rust's
  \<open>anyhow::Result\<close> and \<open>async fn\<close> bodies), the two dictionaries of the Rust standard library
  (\<open>BTreeMap\<close> as a sorted association list, \<open>HashMap\<close> as an association list with distinct keys)
  behind one locale \<open>dict\<close>, and the string operations of \<open>str\<close> that the source calls.

  A Rust \<open>String\<close> is a UTF-8 byte string and a HOL \<open>string\<close> is a list of 8-bit characters, so a
  \<open>string\<close> here is exactly the bytes of the Rust value; \<open>len\<close>, slicing and comparison agree.
\<close>

section \<open>Collections of rewrite rules\<close>

named_theorems dict_simps \<open>lookups after dictionary updates\<close>
named_theorems str_simps \<open>string prefix, split and search facts\<close>
named_theorems act_simps \<open>evaluation of state-passing actions\<close>

section \<open>Results and actions\<close>

text \<open>
  An \<open>anyhow::Error\<close> is a message with layers of context; \<open>to_string\<close> shows the outermost layer.
\<close>

datatype error = Error string | Context string error

fun display :: "error \<Rightarrow> string" where
  "display (Error s) = s"
| "display (Context s _) = s"

type_synonym 'a res = "error + 'a"

type_synonym ('w, 'a) act = "'w \<Rightarrow> 'a res \<times> 'w"

definition ret :: "'a \<Rightarrow> ('w, 'a) act" where
  "ret a = (\<lambda>w. (Inr a, w))"

definition fail :: "error \<Rightarrow> ('w, 'a) act" where
  "fail e = (\<lambda>w. (Inl e, w))"

text \<open>Sequencing with the \<open>?\<close> operator: the first error ends the computation.\<close>

definition and_then :: "('w, 'a) act \<Rightarrow> ('a \<Rightarrow> ('w, 'b) act) \<Rightarrow> ('w, 'b) act" where
  "and_then m f = (\<lambda>w. case m w of (Inl e, w') \<Rightarrow> (Inl e, w') | (Inr a, w') \<Rightarrow> f a w')"

text \<open>\<open>match x.await { Ok(..) => .., Err(..) => .. }\<close>: the error becomes a value.\<close>

definition attempt :: "('w, 'a) act \<Rightarrow> ('w, 'a res) act" where
  "attempt m = (\<lambda>w. case m w of (r, w') \<Rightarrow> (Inr r, w'))"

text \<open>\<open>.map_err(|e| anyhow!(..))\<close>\<close>

definition map_err :: "(error \<Rightarrow> error) \<Rightarrow> ('w, 'a) act \<Rightarrow> ('w, 'a) act" where
  "map_err f m = (\<lambda>w. case m w of (Inl e, w') \<Rightarrow> (Inl (f e), w') | (Inr a, w') \<Rightarrow> (Inr a, w'))"

definition with_context :: "string \<Rightarrow> ('w, 'a) act \<Rightarrow> ('w, 'a) act" where
  "with_context s m = (\<lambda>w. case m w of (Inl e, w') \<Rightarrow> (Inl (Context s e), w') | (Inr a, w') \<Rightarrow> (Inr a, w'))"

definition gets :: "('w \<Rightarrow> 'a) \<Rightarrow> ('w, 'a) act" where
  "gets f = (\<lambda>w. (Inr (f w), w))"

definition modify :: "('w \<Rightarrow> 'w) \<Rightarrow> ('w, unit) act" where
  "modify f = (\<lambda>w. (Inr (), f w))"

definition ok_or :: "error \<Rightarrow> 'a option \<Rightarrow> ('w, 'a) act" where
  "ok_or e x = (case x of None \<Rightarrow> fail e | Some a \<Rightarrow> ret a)"

definition lift_res :: "'a res \<Rightarrow> ('w, 'a) act" where
  "lift_res r = (\<lambda>w. (r, w))"

text \<open>Running an action of a sub-state (a field of the world) inside the whole state.\<close>

definition zoom :: "('w \<Rightarrow> 's) \<Rightarrow> ('s \<Rightarrow> 'w \<Rightarrow> 'w) \<Rightarrow> ('s, 'a) act \<Rightarrow> ('w, 'a) act" where
  "zoom g p m = (\<lambda>w. case m (g w) of (r, s) \<Rightarrow> (r, p s w))"

fun for_each :: "('a \<Rightarrow> ('w, unit) act) \<Rightarrow> 'a list \<Rightarrow> ('w, unit) act" where
  "for_each f [] = ret ()"
| "for_each f (x # xs) = and_then (f x) (\<lambda>_. for_each f xs)"

lemma ret_apply [simp, act_simps]: "ret a w = (Inr a, w)"
  by (simp add: ret_def)

lemma fail_apply [simp, act_simps]: "fail e w = (Inl e, w)"
  by (simp add: fail_def)

lemma gets_apply [simp, act_simps]: "gets f w = (Inr (f w), w)"
  by (simp add: gets_def)

lemma modify_apply [simp, act_simps]: "modify f w = (Inr (), f w)"
  by (simp add: modify_def)

lemma lift_res_apply [simp, act_simps]: "lift_res r w = (r, w)"
  by (simp add: lift_res_def)

lemma ok_or_None [simp, act_simps]: "ok_or e None = fail e"
  by (simp add: ok_or_def)

lemma ok_or_Some [simp, act_simps]: "ok_or e (Some a) = ret a"
  by (simp add: ok_or_def)

lemma and_then_Inl [act_simps]: "m w = (Inl e, w') \<Longrightarrow> and_then m f w = (Inl e, w')"
  by (simp add: and_then_def)

lemma and_then_Inr [act_simps]: "m w = (Inr a, w') \<Longrightarrow> and_then m f w = f a w'"
  by (simp add: and_then_def)

lemma and_then_ret [simp]: "and_then (ret a) f = f a"
  by (simp add: and_then_def fun_eq_iff)

lemma and_then_fail [simp]: "and_then (fail e) f = fail e"
  by (simp add: and_then_def fun_eq_iff)

lemma and_then_gets [simp]: "and_then (gets g) f w = f (g w) w"
  by (simp add: and_then_def)

lemma and_then_modify [simp]: "and_then (modify g) f w = f () (g w)"
  by (simp add: and_then_def)

lemma and_then_ok:
  "and_then m f w = (Inr b, w'') \<longleftrightarrow> (\<exists>a w'. m w = (Inr a, w') \<and> f a w' = (Inr b, w''))"
  by (auto simp: and_then_def split: prod.splits sum.splits)

lemma and_then_err:
  "and_then m f w = (Inl e, w'') \<longleftrightarrow>
     m w = (Inl e, w'') \<or> (\<exists>a w'. m w = (Inr a, w') \<and> f a w' = (Inl e, w''))"
  by (auto simp: and_then_def split: prod.splits sum.splits)

lemma and_then_assoc: "and_then (and_then m f) g = and_then m (\<lambda>a. and_then (f a) g)"
  by (auto simp: and_then_def fun_eq_iff split: prod.splits sum.splits)

lemma attempt_apply [act_simps]: "m w = (r, w') \<Longrightarrow> attempt m w = (Inr r, w')"
  by (simp add: attempt_def)

lemma attempt_never_fails: "fst (attempt m w) \<noteq> Inl e"
  by (simp add: attempt_def split: prod.splits)

lemma with_context_Inr [act_simps]: "m w = (Inr a, w') \<Longrightarrow> with_context s m w = (Inr a, w')"
  by (simp add: with_context_def)

lemma with_context_Inl [act_simps]:
  "m w = (Inl e, w') \<Longrightarrow> with_context s m w = (Inl (Context s e), w')"
  by (simp add: with_context_def)

lemma with_context_ok: "with_context s m w = (Inr a, w') \<longleftrightarrow> m w = (Inr a, w')"
  by (auto simp: with_context_def split: prod.splits sum.splits)

lemma map_err_Inr [act_simps]: "m w = (Inr a, w') \<Longrightarrow> map_err f m w = (Inr a, w')"
  by (simp add: map_err_def)

lemma map_err_ok: "map_err f m w = (Inr a, w') \<longleftrightarrow> m w = (Inr a, w')"
  by (auto simp: map_err_def split: prod.splits sum.splits)

lemma with_context_snd [simp]: "snd (with_context s m w) = snd (m w)"
  by (auto simp: with_context_def split: prod.splits sum.splits)

lemma zoom_apply [act_simps]: "m (g w) = (r, s) \<Longrightarrow> zoom g p m w = (r, p s w)"
  by (simp add: zoom_def)

text \<open>
  The invariant rule for actions: what every step keeps, the whole action keeps, whether it
  succeeds or stops at an error.
\<close>

definition keeps :: "('w \<Rightarrow> bool) \<Rightarrow> ('w, 'a) act \<Rightarrow> bool" where
  "keeps P m \<longleftrightarrow> (\<forall>w. P w \<longrightarrow> P (snd (m w)))"

lemma keepsI: "(\<And>w. P w \<Longrightarrow> P (snd (m w))) \<Longrightarrow> keeps P m"
  by (simp add: keeps_def)

lemma keepsD: "keeps P m \<Longrightarrow> P w \<Longrightarrow> P (snd (m w))"
  by (simp add: keeps_def)

lemma keeps_ret [simp, intro]: "keeps P (ret a)"
  and keeps_fail [simp, intro]: "keeps P (fail e)"
  and keeps_gets [simp, intro]: "keeps P (gets f)"
  and keeps_lift_res [simp, intro]: "keeps P (lift_res r)"
  and keeps_ok_or [simp, intro]: "keeps P (ok_or e x)"
  by (auto simp: keeps_def ok_or_def split: option.splits)

lemma keeps_modify: "(\<And>w. P w \<Longrightarrow> P (f w)) \<Longrightarrow> keeps P (modify f)"
  by (simp add: keeps_def)

lemma keeps_and_then [intro]: "keeps P m \<Longrightarrow> (\<And>a. keeps P (f a)) \<Longrightarrow> keeps P (and_then m f)"
  unfolding keeps_def and_then_def by (auto split: prod.splits sum.splits)

text \<open>What an action returns, wherever it starts.\<close>

definition yields :: "('w, 'a) act \<Rightarrow> ('a \<Rightarrow> bool) \<Rightarrow> bool" where
  "yields m Q \<longleftrightarrow> (\<forall>w a w'. m w = (Inr a, w') \<longrightarrow> Q a)"

lemma yieldsI: "(\<And>w a w'. m w = (Inr a, w') \<Longrightarrow> Q a) \<Longrightarrow> yields m Q"
  by (simp add: yields_def)

lemma yields_attempt: "yields m Q \<Longrightarrow> yields (attempt m) (case_sum (\<lambda>_. True) Q)"
  by (auto simp: yields_def attempt_def split: prod.splits sum.splits)

lemma yields_zoom: "yields m Q \<Longrightarrow> yields (zoom g p m) Q"
  by (auto simp: yields_def zoom_def split: prod.splits)

lemma keeps_and_then_yields: "keeps P m \<Longrightarrow> yields m Q \<Longrightarrow> (\<And>a. Q a \<Longrightarrow> keeps P (f a)) \<Longrightarrow> keeps P (and_then m f)"
  unfolding keeps_def yields_def and_then_def by (fastforce split: prod.splits sum.splits)

lemma keeps_attempt [intro]: "keeps P m \<Longrightarrow> keeps P (attempt m)"
  by (auto simp: keeps_def attempt_def split: prod.splits)

lemma keeps_with_context [intro]: "keeps P m \<Longrightarrow> keeps P (with_context s m)"
  by (simp add: keeps_def)

lemma keeps_zoom: "(\<And>s w. P w \<Longrightarrow> P (p s w)) \<Longrightarrow> keeps P (zoom g p m)"
  by (auto simp: keeps_def zoom_def split: prod.splits)

lemma keeps_for_each: "(\<And>x. x \<in> set xs \<Longrightarrow> keeps P (f x)) \<Longrightarrow> keeps P (for_each f xs)"
  by (induction xs) auto

section \<open>Dictionaries\<close>

text \<open>
  The contract every dictionary of the source meets, with the consequences the components use.
  \<open>entries\<close> is the iteration order of \<open>for (k, v) in &map\<close>.
\<close>

locale dict =
  fixes nil :: "'m"
    and look :: "'m \<Rightarrow> 'k \<Rightarrow> 'v option"
    and put :: "'k \<Rightarrow> 'v \<Rightarrow> 'm \<Rightarrow> 'm"
    and drop_key :: "'k \<Rightarrow> 'm \<Rightarrow> 'm"
    and entries :: "'m \<Rightarrow> ('k \<times> 'v) list"
    and ok :: "'m \<Rightarrow> bool"
  assumes ok_nil: "ok nil"
    and look_nil: "look nil k = None"
    and ok_put: "ok m \<Longrightarrow> ok (put k v m)"
    and look_put: "ok m \<Longrightarrow> look (put k v m) j = (if j = k then Some v else look m j)"
    and ok_drop: "ok m \<Longrightarrow> ok (drop_key k m)"
    and look_drop: "ok m \<Longrightarrow> look (drop_key k m) j = (if j = k then None else look m j)"
    and entries_look: "ok m \<Longrightarrow> (k, v) \<in> set (entries m) \<longleftrightarrow> look m k = Some v"
    and entries_distinct: "ok m \<Longrightarrow> distinct (map fst (entries m))"
begin

lemma look_put_same: "ok m \<Longrightarrow> look (put k v m) k = Some v"
  by (simp add: look_put)

lemma look_put_other: "ok m \<Longrightarrow> j \<noteq> k \<Longrightarrow> look (put k v m) j = look m j"
  by (simp add: look_put)

lemma look_drop_same: "ok m \<Longrightarrow> look (drop_key k m) k = None"
  by (simp add: look_drop)

lemma put_put_look: "ok m \<Longrightarrow> look (put k v (put k u m)) = look (put k v m)"
  by (auto simp: look_put ok_put)

lemma drop_put_look: "ok m \<Longrightarrow> look m k = None \<Longrightarrow> look (drop_key k (put k v m)) = look m"
  by (auto simp: look_put look_drop ok_put)

lemma key_in_entries:
  assumes "ok m"
  shows "k \<in> fst ` set (entries m) \<longleftrightarrow> look m k \<noteq> None"
proof
  assume "k \<in> fst ` set (entries m)"
  then show "look m k \<noteq> None" using assms entries_look [of m k] by auto
next
  assume "look m k \<noteq> None"
  then obtain v where "(k, v) \<in> set (entries m)" using assms entries_look [of m k] by auto
  then show "k \<in> fst ` set (entries m)" by (rule rev_image_eqI) simp
qed

text \<open>Filling a dictionary from a list with distinct keys (a loop of \<open>insert\<close> calls).\<close>

lemma fill:
  "ok m \<Longrightarrow> distinct (map fst xs) \<Longrightarrow>
     ok (fold (\<lambda>(k, v). put k v) xs m) \<and>
     look (fold (\<lambda>(k, v). put k v) xs m) j =
       (case map_of xs j of Some v \<Rightarrow> Some v | None \<Rightarrow> look m j)"
proof (induction xs arbitrary: m)
  case Nil
  then show ?case by simp
next
  case (Cons x xs)
  obtain k v where x: "x = (k, v)" by (cases x)
  from Cons.prems x have ok: "ok (put k v m)" and d: "distinct (map fst xs)"
    and k: "map_of xs k = None"
    by (auto simp: ok_put map_of_eq_None_iff)
  from ok d have "ok (fold (\<lambda>(k, v). put k v) xs (put k v m)) \<and>
      look (fold (\<lambda>(k, v). put k v) xs (put k v m)) j =
        (case map_of xs j of Some v \<Rightarrow> Some v | None \<Rightarrow> look (put k v m) j)"
    by (rule Cons.IH)
  with x k Cons.prems(1) show ?case
    by (cases "j = k") (simp_all add: look_put del: map_of_eq_None_iff split: option.splits)
qed

end

subsection \<open>\<open>BTreeMap\<close>: a list sorted by key\<close>

type_synonym ('k, 'v) btree_map = "('k \<times> 'v) list"

fun bt_insert :: "'k::linorder \<Rightarrow> 'v \<Rightarrow> ('k, 'v) btree_map \<Rightarrow> ('k, 'v) btree_map" where
  "bt_insert k v [] = [(k, v)]"
| "bt_insert k v ((j, u) # m) =
     (if k = j then (k, v) # m else if k < j then (k, v) # (j, u) # m else (j, u) # bt_insert k v m)"

definition bt_remove :: "'k \<Rightarrow> ('k, 'v) btree_map \<Rightarrow> ('k, 'v) btree_map" where
  "bt_remove k m = filter (\<lambda>e. fst e \<noteq> k) m"

definition bt_ok :: "('k::linorder, 'v) btree_map \<Rightarrow> bool" where
  "bt_ok m \<longleftrightarrow> sorted_wrt (<) (map fst m)"

lemma bt_insert_keys: "fst ` set (bt_insert k v m) = insert k (fst ` set m)"
  by (induction k v m rule: bt_insert.induct) auto

lemma bt_insert_ok [simp]: "bt_ok m \<Longrightarrow> bt_ok (bt_insert k v m)"
proof (induction k v m rule: bt_insert.induct)
  case (2 k v j u m)
  have "\<forall>x \<in> fst ` set m. j < x" using 2 by (auto simp: bt_ok_def)
  then show ?case using 2 bt_insert_keys [of k v m]
    by (auto simp: bt_ok_def simp del: set_map) (auto dest: less_trans)
qed (simp add: bt_ok_def)

lemma bt_insert_look [simp]: "bt_ok m \<Longrightarrow> map_of (bt_insert k v m) j = (if j = k then Some v else map_of m j)"
  by (induction k v m rule: bt_insert.induct) (auto simp: bt_ok_def)

lemma bt_remove_look [simp]: "map_of (bt_remove k m) j = (if j = k then None else map_of m j)"
  by (induction m) (auto simp: bt_remove_def)

lemma bt_remove_ok [simp]: "bt_ok m \<Longrightarrow> bt_ok (bt_remove k m)"
  unfolding bt_ok_def bt_remove_def by (induction m) auto

lemma bt_ok_distinct: "bt_ok m \<Longrightarrow> distinct (map fst m)"
  unfolding bt_ok_def by (simp add: strict_sorted_iff)

lemma bt_ok_Nil [simp]: "bt_ok []"
  by (simp add: bt_ok_def)

interpretation bt: dict "[]" map_of bt_insert bt_remove "\<lambda>m. m" bt_ok
  by unfold_locales (auto dest: bt_ok_distinct)

subsection \<open>\<open>HashMap\<close>: distinct keys, some iteration order\<close>

type_synonym ('k, 'v) hash_map = "('k \<times> 'v) list"

definition hm_insert :: "'k \<Rightarrow> 'v \<Rightarrow> ('k, 'v) hash_map \<Rightarrow> ('k, 'v) hash_map" where
  "hm_insert k v m = AList.update k v m"

definition hm_remove :: "'k \<Rightarrow> ('k, 'v) hash_map \<Rightarrow> ('k, 'v) hash_map" where
  "hm_remove k m = AList.delete k m"

definition hm_ok :: "('k, 'v) hash_map \<Rightarrow> bool" where
  "hm_ok m \<longleftrightarrow> distinct (map fst m)"

lemma hm_insert_look [simp]: "map_of (hm_insert k v m) j = (if j = k then Some v else map_of m j)"
  by (simp add: hm_insert_def update_conv')

lemma hm_remove_look [simp]: "map_of (hm_remove k m) j = (if j = k then None else map_of m j)"
  by (simp add: hm_remove_def delete_conv')

lemma hm_insert_ok [simp]: "hm_ok m \<Longrightarrow> hm_ok (hm_insert k v m)"
  by (simp add: hm_ok_def hm_insert_def distinct_update)

lemma hm_remove_ok [simp]: "hm_ok m \<Longrightarrow> hm_ok (hm_remove k m)"
  by (simp add: hm_ok_def hm_remove_def distinct_delete)

lemma hm_ok_Nil [simp]: "hm_ok []"
  by (simp add: hm_ok_def)

lemma hm_ok_distinct: "hm_ok m \<Longrightarrow> distinct (map fst m)"
  by (simp add: hm_ok_def)

interpretation hm: dict "[]" map_of hm_insert hm_remove "\<lambda>m. m" hm_ok
  by unfold_locales (auto dest: hm_ok_distinct)

lemmas map_facts = bt_insert_look bt_remove_look hm_insert_look hm_remove_look

declare map_facts [dict_simps]

end
