(* ===== verification/Strings.thy ===== *)
theory Strings
  imports Prelude
begin

text \<open>
  The operations of Rust's \<open>str\<close> and \<open>String\<close> that the source calls, on byte strings, with the
  facts the components share: prefixes, splitting and joining at a separator, first occurrence of
  a substring, replacement, trimming, and decimal numbers of type \<open>u64\<close>.
\<close>

type_synonym u64 = "64 word"
type_synonym i64 = "64 word"
type_synonym bytes = "8 word list"

section \<open>Prefixes\<close>

definition starts_with :: "string \<Rightarrow> string \<Rightarrow> bool" where
  "starts_with p s \<longleftrightarrow> take (length p) s = p"

definition strip_prefix :: "string \<Rightarrow> string \<Rightarrow> string option" where
  "strip_prefix p s = (if starts_with p s then Some (drop (length p) s) else None)"

fun trim_start_char :: "char \<Rightarrow> string \<Rightarrow> string" where
  "trim_start_char c [] = []"
| "trim_start_char c (x # xs) = (if x = c then trim_start_char c xs else x # xs)"

lemma starts_with_append [simp, str_simps]: "starts_with p (p @ s)"
  by (simp add: starts_with_def)

lemma starts_with_iff: "starts_with p s \<longleftrightarrow> (\<exists>r. s = p @ r)"
  unfolding starts_with_def by (metis append_eq_conv_conj append_take_drop_id)

lemma strip_prefix_append [simp, str_simps]: "strip_prefix p (p @ s) = Some s"
  by (simp add: strip_prefix_def)

lemma strip_prefix_Some: "strip_prefix p s = Some r \<longleftrightarrow> s = p @ r"
  by (auto simp: strip_prefix_def starts_with_iff)

lemma strip_prefix_None: "strip_prefix p s = None \<longleftrightarrow> \<not> starts_with p s"
  by (simp add: strip_prefix_def)

lemma trim_start_char_id: "c \<notin> set s \<Longrightarrow> trim_start_char c s = s"
  by (cases s) auto

lemma trim_start_char_idem [simp]: "trim_start_char c (trim_start_char c s) = trim_start_char c s"
  by (induction s) auto

lemma trim_start_char_hd: "trim_start_char c s = [] \<or> hd (trim_start_char c s) \<noteq> c"
  by (induction s) auto

section \<open>Splitting and joining\<close>

text \<open>\<open>s.split(c)\<close>: always at least one piece, empty pieces kept.\<close>

fun split_on :: "char \<Rightarrow> string \<Rightarrow> string list" where
  "split_on c [] = [[]]"
| "split_on c (x # xs) =
     (if x = c then [] # split_on c xs
      else case split_on c xs of [] \<Rightarrow> [[x]] | w # ws \<Rightarrow> (x # w) # ws)"

text \<open>\<open>s.split_once(c)\<close>: the parts around the first \<open>c\<close>.\<close>

fun split_once :: "char \<Rightarrow> string \<Rightarrow> (string \<times> string) option" where
  "split_once c [] = None"
| "split_once c (x # xs) =
     (if x = c then Some ([], xs)
      else map_option (\<lambda>(a, b). (x # a, b)) (split_once c xs))"

fun join_with :: "string \<Rightarrow> string list \<Rightarrow> string" where
  "join_with sep [] = []"
| "join_with sep [w] = w"
| "join_with sep (w # ws) = w @ sep @ join_with sep ws"

lemma split_on_nonempty [simp]: "split_on c s \<noteq> []"
  by (induction s) (auto split: list.splits)

lemma split_on_no_sep: "w \<in> set (split_on c s) \<Longrightarrow> c \<notin> set w"
  by (induction s arbitrary: w) (auto split: list.splits if_splits)

lemma join_split_on: "join_with [c] (split_on c s) = s"
proof (induction s)
  case (Cons x xs)
  show ?case
  proof (cases "split_on c xs")
    case (Cons w ws)
    with Cons.IH show ?thesis by (cases ws) auto
  qed simp
qed simp

lemma split_on_word: "c \<notin> set w \<Longrightarrow> split_on c w = [w]"
  by (induction w) auto

lemma split_on_append_sep: "c \<notin> set w \<Longrightarrow> split_on c (w @ c # s) = w # split_on c s"
  by (induction w) auto

lemma split_join:
  "ws \<noteq> [] \<Longrightarrow> (\<And>w. w \<in> set ws \<Longrightarrow> c \<notin> set w) \<Longrightarrow> split_on c (join_with [c] ws) = ws"
proof (induction "[c]" ws rule: join_with.induct)
  case (3 w v ws)
  have "c \<notin> set w" using "3.prems"(2) by simp
  moreover have "split_on c (join_with [c] (v # ws)) = v # ws"
    using "3.prems"(2) by (intro "3.hyps") auto
  ultimately show ?case by (simp add: split_on_append_sep)
qed (simp_all add: split_on_word)

lemma split_once_append: "c \<notin> set a \<Longrightarrow> split_once c (a @ c # b) = Some (a, b)"
  by (induction a) auto

lemma split_once_None: "split_once c s = None \<longleftrightarrow> c \<notin> set s"
  by (induction s) auto

lemma split_once_Some: "split_once c s = Some (a, b) \<Longrightarrow> s = a @ c # b \<and> c \<notin> set a"
  by (induction s arbitrary: a) (auto split: if_splits)

section \<open>Substrings\<close>

fun find_sub :: "string \<Rightarrow> string \<Rightarrow> nat option" where
  "find_sub p [] = (if p = [] then Some 0 else None)"
| "find_sub p (x # xs) =
     (if starts_with p (x # xs) then Some 0 else map_option Suc (find_sub p xs))"

definition contains_sub :: "string \<Rightarrow> string \<Rightarrow> bool" where
  "contains_sub p s \<longleftrightarrow> find_sub p s \<noteq> None"

text \<open>\<open>s.replace(p, r)\<close> for the non-empty patterns the source uses: left to right, no overlap.\<close>

function replace_all :: "string \<Rightarrow> string \<Rightarrow> string \<Rightarrow> string" where
  "replace_all p r [] = []"
| "replace_all p r (x # xs) =
     (if p \<noteq> [] \<and> starts_with p (x # xs) then r @ replace_all p r (drop (length p) (x # xs))
      else x # replace_all p r xs)"
  by pat_completeness auto
termination
  by (relation "measure (\<lambda>(p, r, s). length s)") (auto simp: neq_Nil_conv)

lemma find_sub_Some:
  "find_sub p s = Some i \<Longrightarrow>
     i \<le> length s \<and> starts_with p (drop i s) \<and> (\<forall>j < i. \<not> starts_with p (drop j s))"
proof (induction s arbitrary: i)
  case Nil
  then show ?case by (auto simp: starts_with_def split: if_splits)
next
  case (Cons x xs)
  show ?case
  proof (cases "starts_with p (x # xs)")
    case False
    with Cons.prems obtain k where k: "i = Suc k" "find_sub p xs = Some k" by auto
    with Cons.IH [OF k(2)] False show ?thesis by (auto simp: less_Suc_eq_0_disj)
  qed (use Cons.prems in auto)
qed

lemma find_sub_None: "find_sub p s = None \<longleftrightarrow> (\<forall>a b. s \<noteq> a @ p @ b)"
proof (induction s)
  case Nil
  then show ?case by auto
next
  case (Cons x xs)
  show ?case
  proof (cases "starts_with p (x # xs)")
    case True
    then show ?thesis by (auto simp: starts_with_iff) (metis append_Nil)
  next
    case False
    have "(\<exists>a b. x # xs = a @ p @ b) \<longleftrightarrow> (\<exists>a b. xs = a @ p @ b)"
    proof
      assume "\<exists>a b. x # xs = a @ p @ b"
      then obtain a b where ab: "x # xs = a @ p @ b" by blast
      with False have "a \<noteq> []" by (auto simp: starts_with_iff)
      with ab show "\<exists>a b. xs = a @ p @ b" by (auto simp: Cons_eq_append_conv)
    next
      assume "\<exists>a b. xs = a @ p @ b"
      then show "\<exists>a b. x # xs = a @ p @ b" by (metis append_Cons)
    qed
    with Cons.IH False show ?thesis by auto
  qed
qed

lemma find_sub_first:
  assumes "\<And>j. j < length a \<Longrightarrow> \<not> starts_with p (drop j (a @ p @ b))"
  shows "find_sub p (a @ p @ b) = Some (length a)"
  using assms
proof (induction a)
  case Nil
  have "starts_with p (p @ b)" by simp
  then show ?case by (cases "p @ b") (auto simp: starts_with_def)
next
  case (Cons x a)
  have "\<not> starts_with p (x # a @ p @ b)" using Cons.prems [of 0] by simp
  moreover have "find_sub p (a @ p @ b) = Some (length a)"
  proof (rule Cons.IH)
    fix j assume "j < length a"
    then show "\<not> starts_with p (drop j (a @ p @ b))" using Cons.prems [of "Suc j"] by simp
  qed
  ultimately show ?case by simp
qed

lemma replace_all_absent: "\<not> contains_sub p s \<Longrightarrow> replace_all p r s = s"
  by (induction p r s rule: replace_all.induct) (auto simp: contains_sub_def split: if_splits)

section \<open>Trimming\<close>

text \<open>\<open>char::is_whitespace\<close>, as the UTF-8 encodings of the white-space code points.\<close>

definition ws_encodings :: "string list" where
  "ws_encodings =
     [[CHR 0x09], [CHR 0x0A], [CHR 0x0B], [CHR 0x0C], [CHR 0x0D], [CHR 0x20],
      [CHR 0xC2, CHR 0x85], [CHR 0xC2, CHR 0xA0], [CHR 0xE1, CHR 0x9A, CHR 0x80]] @
     map (\<lambda>b. [CHR 0xE2, CHR 0x80, b])
       [CHR 0x80, CHR 0x81, CHR 0x82, CHR 0x83, CHR 0x84, CHR 0x85, CHR 0x86, CHR 0x87,
        CHR 0x88, CHR 0x89, CHR 0x8A, CHR 0xA8, CHR 0xA9, CHR 0xAF] @
     [[CHR 0xE2, CHR 0x81, CHR 0x9F], [CHR 0xE3, CHR 0x80, CHR 0x80]]"

fun drop_ws :: "nat \<Rightarrow> string list \<Rightarrow> string \<Rightarrow> string" where
  "drop_ws 0 ws s = s"
| "drop_ws (Suc n) ws s =
     (case find (\<lambda>w. starts_with w s) ws of
        None \<Rightarrow> s
      | Some w \<Rightarrow> drop_ws n ws (drop (length w) s))"

definition trim :: "string \<Rightarrow> string" where
  "trim s =
     (let t = drop_ws (length s) ws_encodings s
      in rev (drop_ws (length t) (map rev ws_encodings) (rev t)))"

lemma drop_ws_Nil: "[] \<notin> set ws \<Longrightarrow> drop_ws n ws [] = []"
proof (cases n)
  case (Suc m)
  assume ne: "[] \<notin> set ws"
  have "find (\<lambda>w. starts_with w []) ws = None"
    using ne by (auto simp: find_None_iff starts_with_def)
  with Suc show ?thesis by simp
qed simp

lemma trim_Nil [simp]: "trim [] = []"
  by (simp add: trim_def)

text \<open>A string whose first and last byte cannot be part of white space is left alone.\<close>

definition ws_bytes :: "char set" where
  "ws_bytes = \<Union> (set ` set ws_encodings)"

lemma drop_ws_id:
  assumes "\<And>w. w \<in> set ws \<Longrightarrow> w \<noteq> [] \<and> set w \<subseteq> B" and "s \<noteq> []" and "hd s \<notin> B"
  shows "drop_ws n ws s = s"
proof (cases n)
  case (Suc m)
  have "find (\<lambda>w. starts_with w s) ws = None"
    unfolding find_None_iff
  proof clarify
    fix w assume "w \<in> set ws" and "starts_with w s"
    then obtain r where "s = w @ r" "w \<noteq> []" "set w \<subseteq> B"
      using assms(1) by (auto simp: starts_with_iff)
    with assms(3) show False by (cases w) auto
  qed
  with Suc show ?thesis by simp
qed simp

lemma ws_encodings_ok: "w \<in> set ws_encodings \<Longrightarrow> w \<noteq> [] \<and> set w \<subseteq> ws_bytes"
  by (auto simp: ws_bytes_def) (auto simp: ws_encodings_def)

lemma trim_id: "s \<noteq> [] \<Longrightarrow> hd s \<notin> ws_bytes \<Longrightarrow> last s \<notin> ws_bytes \<Longrightarrow> trim s = s"
proof -
  assume s: "s \<noteq> []" "hd s \<notin> ws_bytes" "last s \<notin> ws_bytes"
  have 1: "drop_ws (length s) ws_encodings s = s"
    by (rule drop_ws_id [where B = ws_bytes]) (use s ws_encodings_ok in auto)
  have "drop_ws (length s) (map rev ws_encodings) (rev s) = rev s"
  proof (rule drop_ws_id [where B = ws_bytes])
    fix w assume "w \<in> set (map rev ws_encodings)"
    then obtain v where "w = rev v" "v \<in> set ws_encodings" by auto
    with ws_encodings_ok [of v] show "w \<noteq> [] \<and> set w \<subseteq> ws_bytes" by simp
  qed (use s in \<open>auto simp: hd_rev\<close>)
  with 1 show ?thesis by (simp add: trim_def)
qed

text \<open>\<open>name.chars().any(char::is_control)\<close>: C0, DEL, and C1 (two bytes, \<open>C2 80\<close> to \<open>C2 9F\<close>).\<close>

fun has_control :: "string \<Rightarrow> bool" where
  "has_control [] = False"
| "has_control (x # xs) =
     ((of_char x :: nat) < 32 \<or> (of_char x :: nat) = 127 \<or>
      ((of_char x :: nat) = 194 \<and> (case xs of [] \<Rightarrow> False | y # _ \<Rightarrow> 128 \<le> (of_char y :: nat) \<and> (of_char y :: nat) < 160)) \<or>
      has_control xs)"

section \<open>Decimal numbers\<close>

definition is_digit :: "char \<Rightarrow> bool" where
  "is_digit c \<longleftrightarrow> 48 \<le> (of_char c :: nat) \<and> (of_char c :: nat) \<le> 57"

definition digit_val :: "char \<Rightarrow> nat" where
  "digit_val c = of_char c - 48"

definition dec_val :: "string \<Rightarrow> nat" where
  "dec_val s = foldl (\<lambda>n c. 10 * n + digit_val c) 0 s"

text \<open>\<open>s.parse::<u64>()\<close> on a string of ASCII digits: an error when empty or out of range.\<close>

definition parse_u64 :: "string \<Rightarrow> u64 option" where
  "parse_u64 s = (if s = [] \<or> 2 ^ 64 \<le> dec_val s then None else Some (of_nat (dec_val s)))"

fun show_nat :: "nat \<Rightarrow> string" where
  "show_nat n =
     (if n < 10 then [char_of (48 + n)] else show_nat (n div 10) @ [char_of (48 + n mod 10)])"

declare show_nat.simps [simp del]

lemma is_digit_char: "n < 10 \<Longrightarrow> is_digit (char_of (48 + n)) \<and> digit_val (char_of (48 + n)) = n"
  by (simp add: is_digit_def digit_val_def)

lemma show_nat_digits: "\<forall>c \<in> set (show_nat n). is_digit c"
proof (induction n rule: show_nat.induct)
  case (1 n)
  then show ?case using is_digit_char [of n] is_digit_char [of "n mod 10"]
    by (subst show_nat.simps) auto
qed

lemma dec_val_show_nat: "dec_val (show_nat n) = n"
proof (induction n rule: show_nat.induct)
  case (1 n)
  show ?case
  proof (cases "n < 10")
    case True
    with is_digit_char [of n] show ?thesis by (subst show_nat.simps) (simp add: dec_val_def)
  next
    case False
    with "1.IH" is_digit_char [of "n mod 10"] show ?thesis
      by (subst show_nat.simps) (simp add: dec_val_def)
  qed
qed

lemma show_nat_nonempty [simp]: "show_nat n \<noteq> []"
  by (subst show_nat.simps) simp

lemma parse_u64_show_nat: "n < 2 ^ 64 \<Longrightarrow> parse_u64 (show_nat n) = Some (of_nat n)"
  by (simp add: parse_u64_def dec_val_show_nat)

lemma parse_u64_unat: "parse_u64 s = Some n \<Longrightarrow> unat n = dec_val s"
  by (auto simp: parse_u64_def unat_of_nat split: if_splits)

end
