(* ===== verification/Kind_Tree.thy ===== *)
theory Kind_Tree
  imports Strings "HOL-Library.Sublist"
begin

text \<open>
  The nested kinds registry of \<open>src/src/entity.rs\<close>: \<open>KindTree\<close>, \<open>KindTreeNode\<close>, \<open>IpldLink\<close> and the
  functions \<open>kind_tree_insert\<close>, \<open>kind_tree_get\<close>, \<open>kind_tree_remove\<close>, \<open>kind_tree_collect_ids\<close>
  behind \<open>insert_protocol\<close>, \<open>get_protocol\<close>, \<open>remove_protocol\<close>, \<open>protocol_ids\<close> and
  \<open>iter_protocols\<close>. A \<open>BTreeMap\<close> is a sorted association list; a mutating function returns the map.

  The abstract view of a tree is the finite map from segment paths to links that
  \<open>kind_tree_get\<close> computes; the lemmas say what each operation does to that map, on every path,
  and that the operations keep the tree well formed.
\<close>

section \<open>Data and operations\<close>

record ipld_link =
  link_cid :: string

definition ipld_link_new :: "string \<Rightarrow> ipld_link" where
  "ipld_link_new c = \<lparr>link_cid = c\<rparr>"

datatype kind_tree_node = Leaf ipld_link | Branch "(string \<times> kind_tree_node) list"

type_synonym kind_tree = "(string, kind_tree_node) btree_map"

fun kind_tree_insert :: "kind_tree \<Rightarrow> string list \<Rightarrow> ipld_link \<Rightarrow> kind_tree" where
  "kind_tree_insert m [] link = m"
| "kind_tree_insert m [key] link = bt_insert key (Leaf link) m"
| "kind_tree_insert m (key # rest) link =
     (case map_of m key of
        None \<Rightarrow> bt_insert key (Branch (kind_tree_insert [] rest link)) m
      | Some (Branch inner) \<Rightarrow> bt_insert key (Branch (kind_tree_insert inner rest link)) m
      | Some (Leaf _) \<Rightarrow> m)"

fun kind_tree_get :: "kind_tree \<Rightarrow> string list \<Rightarrow> ipld_link option" where
  "kind_tree_get m [] = None"
| "kind_tree_get m [key] =
     (case map_of m key of
        None \<Rightarrow> None
      | Some (Leaf link) \<Rightarrow> Some link
      | Some (Branch _) \<Rightarrow> None)"
| "kind_tree_get m (key # rest) =
     (case map_of m key of
        None \<Rightarrow> None
      | Some (Branch inner) \<Rightarrow> kind_tree_get inner rest
      | Some (Leaf _) \<Rightarrow> None)"

fun kind_tree_remove :: "kind_tree \<Rightarrow> string list \<Rightarrow> bool \<times> kind_tree" where
  "kind_tree_remove m [] = (False, m)"
| "kind_tree_remove m [key] = (map_of m key \<noteq> None, bt_remove key m)"
| "kind_tree_remove m (key # rest) =
     (case map_of m key of
        Some (Branch inner) \<Rightarrow>
          (case kind_tree_remove inner rest of
             (removed, inner') \<Rightarrow>
               (removed, if inner' = [] then bt_remove key m else bt_insert key (Branch inner') m))
      | _ \<Rightarrow> (False, m))"

fun kind_tree_collect_ids :: "kind_tree \<Rightarrow> string \<Rightarrow> string list \<Rightarrow> string list" where
  "kind_tree_collect_ids [] pre ids = ids"
| "kind_tree_collect_ids ((key, Leaf _) # m) pre ids =
     kind_tree_collect_ids m pre (ids @ [pre @ ''/'' @ key])"
| "kind_tree_collect_ids ((key, Branch inner) # m) pre ids =
     kind_tree_collect_ids m pre (kind_tree_collect_ids inner (pre @ ''/'' @ key) ids)"

definition protocol_segments :: "string \<Rightarrow> string list" where
  "protocol_segments protocol = split_on (CHR ''/'') (trim_start_char (CHR ''/'') protocol)"

definition insert_protocol :: "string \<Rightarrow> ipld_link \<Rightarrow> kind_tree \<Rightarrow> kind_tree" where
  "insert_protocol protocol link t = kind_tree_insert t (protocol_segments protocol) link"

definition get_protocol :: "kind_tree \<Rightarrow> string \<Rightarrow> ipld_link option" where
  "get_protocol t protocol = kind_tree_get t (protocol_segments protocol)"

definition remove_protocol :: "string \<Rightarrow> kind_tree \<Rightarrow> bool \<times> kind_tree" where
  "remove_protocol protocol t = kind_tree_remove t (protocol_segments protocol)"

definition protocol_ids :: "kind_tree \<Rightarrow> string list" where
  "protocol_ids t = kind_tree_collect_ids t [] []"

definition iter_protocols :: "kind_tree \<Rightarrow> (string \<times> ipld_link) list" where
  "iter_protocols t =
     List.map_filter (\<lambda>pid. map_option (\<lambda>link. (pid, link)) (get_protocol t pid)) (protocol_ids t)"

section \<open>Well-formedness\<close>

text \<open>Every level is a sorted map and no branch is empty.\<close>

fun kt_node_wf :: "kind_tree_node \<Rightarrow> bool" where
  "kt_node_wf (Leaf _) = True"
| "kt_node_wf (Branch m) = (m \<noteq> [] \<and> bt_ok m \<and> (\<forall>e \<in> set m. kt_node_wf (snd e)))"

definition kt_wf :: "kind_tree \<Rightarrow> bool" where
  "kt_wf t \<longleftrightarrow> bt_ok t \<and> (\<forall>e \<in> set t. kt_node_wf (snd e))"

text \<open>A proper prefix of the path is a leaf: the insertion cannot reach its place.\<close>

fun kt_blocked :: "kind_tree \<Rightarrow> string list \<Rightarrow> bool" where
  "kt_blocked m [] = False"
| "kt_blocked m [key] = False"
| "kt_blocked m (key # rest) =
     (case map_of m key of
        None \<Rightarrow> False
      | Some (Branch inner) \<Rightarrow> kt_blocked inner rest
      | Some (Leaf _) \<Rightarrow> True)"

lemma kt_wf_ok: "kt_wf m \<Longrightarrow> bt_ok m"
  by (simp add: kt_wf_def)

lemma kt_wf_Nil [simp]: "kt_wf []"
  by (simp add: kt_wf_def)

lemma kt_wf_inner: "kt_wf m \<Longrightarrow> map_of m key = Some (Branch inner) \<Longrightarrow> kt_wf inner \<and> inner \<noteq> []"
  by (drule map_of_SomeD) (fastforce simp: kt_wf_def)

lemma bt_insert_elem: "e \<in> set (bt_insert k v m) \<Longrightarrow> e = (k, v) \<or> e \<in> set m"
  by (induction k v m rule: bt_insert.induct) (auto split: if_splits)

lemma kt_wf_insert: "kt_wf m \<Longrightarrow> kt_node_wf n \<Longrightarrow> kt_wf (bt_insert key n m)"
  by (auto simp: kt_wf_def dest!: bt_insert_elem)

lemma kt_wf_remove_key: "kt_wf m \<Longrightarrow> kt_wf (bt_remove key m)"
  by (simp add: kt_wf_def) (simp add: bt_remove_def)

lemma kt_wf_Branch: "kt_node_wf (Branch m) \<longleftrightarrow> m \<noteq> [] \<and> kt_wf m"
  by (simp add: kt_wf_def)

declare kt_node_wf.simps(2) [simp del]

lemma bt_insert_nonempty [simp]: "bt_insert k v m \<noteq> []"
  by (cases m) (auto split: if_splits)

lemma kind_tree_insert_nonempty: "segs \<noteq> [] \<Longrightarrow> m \<noteq> [] \<or> kind_tree_insert m segs link \<noteq> []"
  by (cases "(m, segs, link)" rule: kind_tree_insert.cases) auto

lemma kind_tree_insert_keeps_nonempty: "m \<noteq> [] \<Longrightarrow> kind_tree_insert m segs link \<noteq> []"
  by (cases "(m, segs, link)" rule: kind_tree_insert.cases)
    (auto split: option.splits kind_tree_node.splits)

lemma kind_tree_insert_wf: "kt_wf m \<Longrightarrow> kt_wf (kind_tree_insert m segs link)"
proof (induction m segs link rule: kind_tree_insert.induct)
  case (3 m key k rest link)
  show ?case
  proof (cases "map_of m key")
    case None
    with 3 kind_tree_insert_nonempty [of "k # rest" "[]" link] show ?thesis
      by (simp add: kt_wf_insert kt_wf_Branch)
  next
    case (Some n)
    with 3 kt_wf_inner show ?thesis
      by (cases n) (auto simp: kt_wf_Branch kind_tree_insert_keeps_nonempty intro!: kt_wf_insert)
  qed
qed (auto intro: kt_wf_insert)

lemma kind_tree_remove_wf: "kt_wf m \<Longrightarrow> kt_wf (snd (kind_tree_remove m segs))"
proof (induction m segs rule: kind_tree_remove.induct)
  case (3 m key k rest)
  show ?case
  proof (cases "map_of m key")
    case (Some n)
    show ?thesis
    proof (cases n)
      case (Branch inner)
      with 3 Some kt_wf_inner have "kt_wf (snd (kind_tree_remove inner (k # rest)))" by blast
      with 3 Some Branch show ?thesis
        by (auto simp: kt_wf_Branch kt_wf_remove_key split: prod.splits intro!: kt_wf_insert)
    qed (use 3 Some in simp)
  qed (use 3 in simp)
qed (auto intro: kt_wf_remove_key)

section \<open>What each operation does to the path map\<close>

lemma kind_tree_get_Nil [simp]: "kind_tree_get [] segs = None"
  by (cases "([] :: kind_tree, segs)" rule: kind_tree_get.cases) auto

lemma kt_blocked_insert: "kt_blocked m segs \<Longrightarrow> kt_wf m \<Longrightarrow> kind_tree_get (kind_tree_insert m segs link) q = kind_tree_get m q"
proof (induction m segs arbitrary: q rule: kt_blocked.induct)
  case (3 m key k rest)
  show ?case
  proof (cases "map_of m key")
    case (Some n)
    show ?thesis
    proof (cases n)
      case (Branch inner)
      with 3 Some have IH: "\<And>q. kind_tree_get (kind_tree_insert inner (k # rest) link) q = kind_tree_get inner q"
        using kt_wf_inner by simp
      show ?thesis using 3 Some Branch
        by (cases "(m, q)" rule: kind_tree_get.cases) (simp_all add: kt_wf_ok IH split: option.splits)
    qed (use 3 Some in simp)
  qed (use 3 in simp)
qed auto

lemma kind_tree_get_insert:
  "kt_wf m \<Longrightarrow> p \<noteq> [] \<Longrightarrow> \<not> kt_blocked m p \<Longrightarrow>
     kind_tree_get (kind_tree_insert m p link) q =
       (if q = p then Some link else if strict_prefix p q then None else kind_tree_get m q)"
proof (induction m p link arbitrary: q rule: kind_tree_insert.induct)
  case (2 m key link)
  then show ?case
    by (cases "(m, q)" rule: kind_tree_get.cases) (auto simp: kt_wf_ok strict_prefix_def split: option.splits)
next
  case (3 m key k rest link)
  let ?inner = "case map_of m key of Some (Branch i) \<Rightarrow> i | _ \<Rightarrow> []"
  have eq: "kind_tree_insert m (key # k # rest) link =
      bt_insert key (Branch (kind_tree_insert ?inner (k # rest) link)) m"
    using 3 by (auto split: option.splits kind_tree_node.splits)
  have IH: "kind_tree_get (kind_tree_insert ?inner (k # rest) link) r =
      (if r = k # rest then Some link else if strict_prefix (k # rest) r then None
       else kind_tree_get ?inner r)" for r
  proof (cases "map_of m key")
    case None
    have "\<not> kt_blocked [] (k # rest)" by (cases rest) auto
    with 3 None show ?thesis by simp
  next
    case (Some n)
    with 3 kt_wf_inner show ?thesis by (cases n) auto
  qed
  show ?case
  proof (cases "\<exists>a b bs. q = a # b # bs")
    case True
    then obtain a b bs where q: "q = a # b # bs" by blast
    have get: "kind_tree_get m (key # b # bs) = kind_tree_get ?inner (b # bs)"
      by (auto split: option.splits kind_tree_node.splits)
    show ?thesis
    proof (cases "a = key")
      case True
      then show ?thesis using q "3.prems"(1) IH [of "b # bs"] get unfolding eq
        by (simp add: kt_wf_ok del: kind_tree_insert.simps)
    next
      case False
      then show ?thesis using q "3.prems"(1) unfolding eq
        by (simp add: kt_wf_ok del: kind_tree_insert.simps)
    qed
  next
    case False
    then consider "q = []" | a where "q = [a]" by (metis list.exhaust)
    then show ?thesis using "3.prems"(1) "3.prems"(3) unfolding eq
      by cases (auto simp: kt_wf_ok strict_prefix_def simp del: kind_tree_insert.simps
          split: option.splits kind_tree_node.splits)
  qed
qed simp

lemma kind_tree_get_remove:
  "kt_wf m \<Longrightarrow> p \<noteq> [] \<Longrightarrow>
     kind_tree_get (snd (kind_tree_remove m p)) q = (if prefix p q then None else kind_tree_get m q)"
proof (induction m p arbitrary: q rule: kind_tree_remove.induct)
  case (2 m key)
  then show ?case
    by (cases "(m, q)" rule: kind_tree_get.cases) (auto split: option.splits)
next
  case (3 m key k rest)
  show ?case
  proof (cases "\<exists>inner. map_of m key = Some (Branch inner)")
    case True
    then obtain inner where inner: "map_of m key = Some (Branch inner)" by blast
    obtain removed inner' where rem: "kind_tree_remove inner (k # rest) = (removed, inner')"
      by fastforce
    have wf: "kt_wf inner" using 3 inner kt_wf_inner by blast
    have IH: "kind_tree_get inner' r = (if prefix (k # rest) r then None else kind_tree_get inner r)" for r
      using "3.IH" [OF inner refl wf] rem by simp
    have gone: "kind_tree_get inner r = None" if "inner' = []" "\<not> prefix (k # rest) r" for r
      using IH [of r] that by simp
    have step: "snd (kind_tree_remove m (key # k # rest)) =
        (if inner' = [] then bt_remove key m else bt_insert key (Branch inner') m)"
      using inner rem by simp
    consider "q = []" | a where "q = [a]" | a b bs where "q = a # b # bs"
      by (metis list.exhaust)
    then show ?thesis
    proof cases
      case 3
      then show ?thesis using "3.prems"(1) inner gone [of "b # bs"] IH [of "b # bs"]
        unfolding step by (simp add: kt_wf_ok)
    qed (use "3.prems" inner in \<open>simp_all add: step kt_wf_ok del: kind_tree_remove.simps\<close>)
  next
    case False
    then have "snd (kind_tree_remove m (key # k # rest)) = m"
      by (auto split: option.splits kind_tree_node.splits)
    moreover have "prefix (key # k # rest) q \<Longrightarrow> kind_tree_get m q = None"
      using False by (auto simp: prefix_def split: option.splits kind_tree_node.splits)
    ultimately show ?thesis by auto
  qed
qed simp

section \<open>The paths of a tree\<close>

fun kt_paths :: "kind_tree \<Rightarrow> string list list" where
  "kt_paths [] = []"
| "kt_paths ((key, Leaf _) # m) = [key] # kt_paths m"
| "kt_paths ((key, Branch inner) # m) = map ((#) key) (kt_paths inner) @ kt_paths m"

definition path_str :: "string list \<Rightarrow> string" where
  "path_str p = concat (map (\<lambda>w. ''/'' @ w) p)"

lemma kind_tree_get_Cons:
  "kind_tree_get m (k # r) =
     (case map_of m k of
        None \<Rightarrow> None
      | Some (Leaf l) \<Rightarrow> if r = [] then Some l else None
      | Some (Branch i) \<Rightarrow> kind_tree_get i r)"
  by (cases r) (auto split: option.splits kind_tree_node.splits)

lemma kind_tree_collect_ids_paths:
  "kind_tree_collect_ids m pre ids = ids @ map (\<lambda>p. pre @ path_str p) (kt_paths m)"
  by (induction m pre ids rule: kind_tree_collect_ids.induct) (simp_all add: path_str_def comp_def)

lemma kt_wf_tail: "kt_wf (e # m) \<Longrightarrow> kt_wf m"
  by (simp add: kt_wf_def bt_ok_def)

lemma kt_wf_head_fresh: "kt_wf ((k, n) # m) \<Longrightarrow> map_of m k = None"
  by (drule kt_wf_ok, drule bt_ok_distinct) (simp add: map_of_eq_None_iff)

lemma kt_paths_get: "kt_wf m \<Longrightarrow> p \<in> set (kt_paths m) \<longleftrightarrow> kind_tree_get m p \<noteq> None"
proof (induction m arbitrary: p rule: kt_paths.induct)
  case (2 key l m)
  show ?case using "2.IH" [OF kt_wf_tail [OF "2.prems"]] kt_wf_head_fresh [OF "2.prems"]
    by (cases p) (auto simp: kind_tree_get_Cons split: option.splits)
next
  case (3 key inner m)
  have "kt_wf inner" using kt_wf_inner [OF "3.prems", of key inner] by simp
  with "3.IH"(1) "3.IH"(2) [OF kt_wf_tail [OF "3.prems"]] kt_wf_head_fresh [OF "3.prems"] show ?case
    by (cases p) (auto simp: kind_tree_get_Cons split: option.splits)
qed simp

lemma kt_paths_distinct: "kt_wf m \<Longrightarrow> distinct (kt_paths m)"
proof (induction m rule: kt_paths.induct)
  case (2 key l m)
  then show ?case using kt_wf_head_fresh kt_wf_tail
    by (auto simp: kt_paths_get kind_tree_get_Cons)
next
  case (3 key inner m)
  have inner: "kt_wf inner" using kt_wf_inner [OF "3.prems", of key inner] by simp
  have "key # q \<notin> set (kt_paths m)" for q
    using kt_wf_head_fresh [OF "3.prems"] kt_wf_tail [OF "3.prems"]
    by (simp add: kt_paths_get kind_tree_get_Cons)
  with 3 inner kt_wf_tail [OF "3.prems"] show ?case by (auto simp: distinct_map)
qed simp

lemma kt_paths_nonempty: "kt_wf m \<Longrightarrow> m \<noteq> [] \<Longrightarrow> kt_paths m \<noteq> []"
proof (induction m rule: kt_paths.induct)
  case (3 key inner m)
  then show ?case using kt_wf_inner [OF "3.prems"(1), of key inner] by simp
qed auto

lemma ex_prefix_Cons: "(\<exists>q. prefix (k # p) q \<and> P q) \<longleftrightarrow> (\<exists>r. prefix p r \<and> P (k # r))"
  unfolding prefix_def by auto

lemma kind_tree_remove_flag:
  "kt_wf m \<Longrightarrow> p \<noteq> [] \<Longrightarrow>
     fst (kind_tree_remove m p) \<longleftrightarrow> (\<exists>q. prefix p q \<and> kind_tree_get m q \<noteq> None)"
proof (induction m p rule: kind_tree_remove.induct)
  case (2 m key)
  have "\<exists>q. prefix [key] q \<and> kind_tree_get m q \<noteq> None" if "map_of m key = Some n" for n
  proof (cases n)
    case (Leaf l)
    with that show ?thesis by (intro exI [of _ "[key]"]) simp
  next
    case (Branch inner)
    with that "2.prems" kt_wf_inner kt_paths_nonempty obtain r where "r \<in> set (kt_paths inner)"
      by (metis list.set_intros(1) neq_Nil_conv)
    with that Branch "2.prems" kt_wf_inner show ?thesis
      by (intro exI [of _ "key # r"]) (auto simp: kind_tree_get_Cons kt_paths_get)
  qed
  then show ?case by (auto simp: prefix_def kind_tree_get_Cons split: option.splits)
next
  case (3 m key k rest)
  show ?case
  proof (cases "\<exists>inner. map_of m key = Some (Branch inner)")
    case True
    then obtain inner where inner: "map_of m key = Some (Branch inner)" by blast
    with "3.prems" kt_wf_inner have "kt_wf inner" by blast
    with 3 inner have "fst (kind_tree_remove inner (k # rest)) \<longleftrightarrow>
        (\<exists>q. prefix (k # rest) q \<and> kind_tree_get inner q \<noteq> None)" by simp
    moreover have "kind_tree_get m (key # r) = kind_tree_get inner r" for r
      using inner by (simp add: kind_tree_get_Cons)
    then have "(\<exists>q. prefix (key # k # rest) q \<and> kind_tree_get m q \<noteq> None) \<longleftrightarrow>
        (\<exists>q. prefix (k # rest) q \<and> kind_tree_get inner q \<noteq> None)"
      by (simp only: ex_prefix_Cons [of key])
    moreover have "fst (kind_tree_remove m (key # k # rest)) = fst (kind_tree_remove inner (k # rest))"
      using inner by (simp split: prod.splits)
    ultimately show ?thesis by (simp only:)
  next
    case False
    then show ?thesis
      by (simp only: ex_prefix_Cons [of key])
        (auto simp: kind_tree_get_Cons split: option.splits kind_tree_node.splits)
  qed
qed simp

section \<open>Protocol identifiers and paths\<close>

text \<open>
  The paths \<open>protocol_segments\<close> produces: segments hold no slash, and the first one is empty only
  when it is the only one.
\<close>

definition path_ok :: "string list \<Rightarrow> bool" where
  "path_ok p \<longleftrightarrow> p \<noteq> [] \<and> (\<forall>w \<in> set p. CHR ''/'' \<notin> set w) \<and> (hd p \<noteq> [] \<or> tl p = [])"

definition kt_inv :: "kind_tree \<Rightarrow> bool" where
  "kt_inv t \<longleftrightarrow> kt_wf t \<and> (\<forall>p \<in> set (kt_paths t). path_ok p)"

lemma protocol_segments_ok: "path_ok (protocol_segments s)"
proof -
  let ?t = "trim_start_char (CHR ''/'') s"
  have "hd (split_on (CHR ''/'') ?t) \<noteq> [] \<or> tl (split_on (CHR ''/'') ?t) = []"
    using trim_start_char_hd [of "CHR ''/''" s] by (cases ?t) (auto split: list.splits)
  then show ?thesis by (auto simp: path_ok_def protocol_segments_def dest: split_on_no_sep)
qed

lemma protocol_segments_nonempty [simp]: "protocol_segments s \<noteq> []"
  by (simp add: protocol_segments_def)

lemma path_str_join: "p \<noteq> [] \<Longrightarrow> path_str p = CHR ''/'' # join_with ''/'' p"
  by (induction "''/''" p rule: join_with.induct) (simp_all add: path_str_def)

lemma trim_start_join:
  assumes "path_ok p"
  shows "trim_start_char (CHR ''/'') (join_with ''/'' p) = join_with ''/'' p"
proof -
  obtain w ws where p: "p = w # ws" and w: "CHR ''/'' \<notin> set w" "w \<noteq> [] \<or> ws = []"
    using assms by (cases p) (auto simp: path_ok_def)
  show ?thesis using w by (cases w; cases ws) (auto simp: p)
qed

lemma protocol_segments_path_str:
  assumes "path_ok p"
  shows "protocol_segments (path_str p) = p"
proof -
  have p: "p \<noteq> []" and w: "\<And>w. w \<in> set p \<Longrightarrow> CHR ''/'' \<notin> set w"
    using assms by (auto simp: path_ok_def)
  have "trim_start_char (CHR ''/'') (path_str p) = join_with ''/'' p"
    using p trim_start_join [OF assms] by (simp add: path_str_join)
  then show ?thesis using split_join [OF p w] by (simp add: protocol_segments_def)
qed

lemma path_str_inject: "path_ok p \<Longrightarrow> path_ok q \<Longrightarrow> path_str p = path_str q \<Longrightarrow> p = q"
  by (metis protocol_segments_path_str)

lemma protocol_ids_paths: "protocol_ids t = map path_str (kt_paths t)"
  by (simp add: protocol_ids_def kind_tree_collect_ids_paths)

lemma kt_inv_Nil: "kt_inv []"
  by (simp add: kt_inv_def)

lemma kt_inv_insert: "kt_inv t \<Longrightarrow> kt_inv (insert_protocol p l t)"
  unfolding kt_inv_def
proof (intro conjI ballI)
  let ?s = "protocol_segments p"
  assume inv: "kt_wf t \<and> (\<forall>q \<in> set (kt_paths t). path_ok q)"
  show wf: "kt_wf (insert_protocol p l t)"
    using inv by (simp add: insert_protocol_def kind_tree_insert_wf)
  fix q assume "q \<in> set (kt_paths (insert_protocol p l t))"
  then have "kind_tree_get (kind_tree_insert t ?s l) q \<noteq> None"
    using wf by (simp add: kt_paths_get insert_protocol_def)
  then have "q = ?s \<or> q \<in> set (kt_paths t)"
    using inv by (cases "kt_blocked t ?s")
      (auto simp: kt_paths_get kt_blocked_insert kind_tree_get_insert split: if_splits)
  then show "path_ok q" using inv protocol_segments_ok by auto
qed

lemma kt_inv_remove: "kt_inv t \<Longrightarrow> kt_inv (snd (remove_protocol p t))"
  unfolding kt_inv_def remove_protocol_def
  by (auto simp: kt_paths_get kind_tree_get_remove kind_tree_remove_wf split: if_splits)

lemma get_protocol_ids: "kt_inv t \<Longrightarrow> pid \<in> set (protocol_ids t) \<Longrightarrow> get_protocol t pid \<noteq> None"
  by (auto simp: kt_inv_def protocol_ids_paths get_protocol_def protocol_segments_path_str kt_paths_get)

lemma protocol_ids_distinct: "kt_inv t \<Longrightarrow> distinct (protocol_ids t)"
  unfolding kt_inv_def protocol_ids_paths distinct_map
  by (auto simp: kt_paths_distinct inj_on_def dest: path_str_inject)

lemma protocol_ids_complete:
  "kt_inv t \<Longrightarrow> get_protocol t p \<noteq> None \<Longrightarrow> path_str (protocol_segments p) \<in> set (protocol_ids t)"
  by (auto simp: kt_inv_def protocol_ids_paths get_protocol_def kt_paths_get)

lemma iter_protocols_ids: "kt_inv t \<Longrightarrow> map fst (iter_protocols t) = protocol_ids t"
proof -
  assume inv: "kt_inv t"
  have "map fst (List.map_filter (\<lambda>pid. map_option (\<lambda>l. (pid, l)) (get_protocol t pid)) ids) = ids"
    if "set ids \<subseteq> set (protocol_ids t)" for ids
    using that
  proof (induction ids)
    case (Cons pid ids)
    then obtain l where "get_protocol t pid = Some l" using get_protocol_ids [OF inv, of pid] by auto
    with Cons show ?case by (simp add: map_filter_simps)
  qed (simp add: map_filter_simps)
  then show ?thesis by (simp add: iter_protocols_def)
qed

lemma iter_protocols_elem: "(pid, l) \<in> set (iter_protocols t) \<Longrightarrow> get_protocol t pid = Some l"
  by (auto simp: iter_protocols_def List.map_filter_def)

text \<open>Histories: the trees the runtime can hold, built by registrations and removals.\<close>

datatype kt_op = Put_kind string ipld_link | Drop_kind string

fun kt_apply :: "kind_tree \<Rightarrow> kt_op \<Rightarrow> kind_tree" where
  "kt_apply t (Put_kind p l) = insert_protocol p l t"
| "kt_apply t (Drop_kind p) = snd (remove_protocol p t)"

definition kt_history :: "kt_op list \<Rightarrow> kind_tree" where
  "kt_history ops = foldl kt_apply [] ops"

lemma kt_apply_inv: "kt_inv t \<Longrightarrow> kt_inv (kt_apply t a)"
  by (cases a) (simp_all add: kt_inv_insert kt_inv_remove)

lemma kt_history_inv: "kt_inv (kt_history ops)"
proof -
  have "kt_inv t \<Longrightarrow> kt_inv (foldl kt_apply t ops)" for t
    by (induction ops arbitrary: t) (simp_all add: kt_apply_inv)
  then show ?thesis by (simp add: kt_history_def kt_inv_Nil)
qed

lemma kt_inv_wf: "kt_inv t \<Longrightarrow> kt_wf t"
  by (simp add: kt_inv_def)

section \<open>Properties\<close>

text \<open>C12: \<open>insert_protocol\<close>, on every lookup path of every well-formed tree: the inserted
  identifier now has the new link, identifiers below it are gone (a branch is overwritten by the
  leaf), every other one is as before; and when a proper prefix of the identifier is already
  registered the insertion changes nothing at all.\<close>

theorem insert_protocol_lookup:
  assumes "kt_wf t"
  shows "get_protocol (insert_protocol p link t) q =
    (if kt_blocked t (protocol_segments p) then get_protocol t q
     else if protocol_segments q = protocol_segments p then Some link
     else if strict_prefix (protocol_segments p) (protocol_segments q) then None
     else get_protocol t q)"
  using assms
  by (simp add: get_protocol_def insert_protocol_def kt_blocked_insert kind_tree_get_insert)

definition kt_example :: kind_tree where
  "kt_example = kt_history [Put_kind ''/ma/a/1'' (ipld_link_new ''bA''), Put_kind ''/ma/b/1'' (ipld_link_new ''bB'')]"

theorem insert_protocol_lookup_witness:
  "kt_wf kt_example \<and>
   get_protocol (insert_protocol ''/ma'' (ipld_link_new ''bC'') kt_example) ''/ma/b/1'' = None"
proof -
  have wf: "kt_wf kt_example" unfolding kt_example_def by (rule kt_inv_wf [OF kt_history_inv])
  have "\<not> kt_blocked kt_example (protocol_segments ''/ma'')"
    and "protocol_segments ''/ma/b/1'' \<noteq> protocol_segments ''/ma''"
    and "strict_prefix (protocol_segments ''/ma'') (protocol_segments ''/ma/b/1'')"
    by (simp_all add: protocol_segments_def)
  with wf insert_protocol_lookup [OF wf, of "''/ma''" "ipld_link_new ''bC''" "''/ma/b/1''"]
  show ?thesis by simp
qed

text \<open>C13: \<open>remove_protocol\<close> answers \<open>true\<close> exactly when some registered identifier is at or below
  the given one, and afterwards all of those are gone and all others are untouched.\<close>

theorem remove_protocol_lookup:
  assumes "kt_wf t"
  shows "(fst (remove_protocol p t) \<longleftrightarrow>
      (\<exists>s. prefix (protocol_segments p) s \<and> kind_tree_get t s \<noteq> None)) \<and>
    get_protocol (snd (remove_protocol p t)) q =
      (if prefix (protocol_segments p) (protocol_segments q) then None else get_protocol t q)"
  using assms
  by (simp add: remove_protocol_def get_protocol_def kind_tree_remove_flag kind_tree_get_remove)

theorem remove_protocol_lookup_witness:
  "get_protocol (snd (remove_protocol ''ma/a'' kt_example)) ''/ma/a/1'' = None"
proof -
  have wf: "kt_wf kt_example" unfolding kt_example_def by (rule kt_inv_wf [OF kt_history_inv])
  have "prefix (protocol_segments ''ma/a'') (protocol_segments ''/ma/a/1'')"
    by (simp add: protocol_segments_def)
  with remove_protocol_lookup [OF wf, of "''ma/a''" "''/ma/a/1''"] show ?thesis by simp
qed

text \<open>C14: after any history of registrations and removals the tree is well formed (sorted levels,
  no empty branch), and \<open>protocol_ids\<close> is a faithful index of it: no identifier twice, every listed
  identifier resolves, every resolvable protocol is listed under its normal form, and
  \<open>iter_protocols\<close> drops none of them.\<close>

theorem kind_tree_index:
  "kt_wf (kt_history ops) \<and> distinct (protocol_ids (kt_history ops)) \<and>
   map fst (iter_protocols (kt_history ops)) = protocol_ids (kt_history ops) \<and>
   (get_protocol (kt_history ops) p \<noteq> None \<longleftrightarrow>
      path_str (protocol_segments p) \<in> set (protocol_ids (kt_history ops)))"
proof -
  let ?t = "kt_history ops"
  have inv: "kt_inv ?t" by (rule kt_history_inv)
  have "get_protocol ?t p \<noteq> None" if "path_str (protocol_segments p) \<in> set (protocol_ids ?t)"
    using get_protocol_ids [OF inv that] protocol_segments_ok [of p]
    by (simp add: get_protocol_def protocol_segments_path_str)
  then show ?thesis
    using inv kt_inv_wf protocol_ids_distinct iter_protocols_ids protocol_ids_complete by blast
qed

end
