(* ===== verification/Values.thy ===== *)
theory Values
  imports Strings
begin

text \<open>
  The self-describing values the source moves between CBOR messages, YAML configuration and JSON
  nodes (\<open>ciborium::Value\<close>, \<open>serde_yaml::Value\<close>, \<open>serde_json::Value\<close>), the accessors the source
  calls on them, and \<open>cbor_to_yaml\<close> of \<open>src/src/crud/config.rs\<close>.

  Integers are mathematical integers with the ranges of the Rust types stated where a conversion
  checks them; a float is its 64-bit pattern. YAML mappings are keyed by strings: every mapping the
  runtime builds or decodes from JSON is. A \<open>serde_yaml::Mapping\<close> keeps insertion order, as
  \<open>hm_insert\<close> does.
\<close>

datatype cbor =
    CInteger int
  | CBytes bytes
  | CFloat u64
  | CText string
  | CBool bool
  | CNull
  | CTag nat cbor
  | CArray "cbor list"
  | CMap "(cbor \<times> cbor) list"

datatype yaml =
    YNull
  | YBool bool
  | YInt int
  | YFloat u64
  | YString string
  | YSequence "yaml list"
  | YMapping "(string \<times> yaml) list"

datatype json =
    JNull
  | JBool bool
  | JInt int
  | JFloat u64
  | JString string
  | JArray "json list"
  | JObject "(string \<times> json) list"

section \<open>Integer ranges\<close>

definition u64_try_from :: "int \<Rightarrow> u64 option" where
  "u64_try_from i = (if 0 \<le> i \<and> i < 2 ^ 64 then Some (word_of_int i) else None)"

definition i64_try_from :: "int \<Rightarrow> i64 option" where
  "i64_try_from i = (if - (2 ^ 63) \<le> i \<and> i < 2 ^ 63 then Some (word_of_int i) else None)"

lemma u64_try_from_uint: "u64_try_from i = Some n \<Longrightarrow> uint n = i"
  by (auto simp: u64_try_from_def uint_word_of_int split: if_splits)

lemma i64_try_from_sint: "i64_try_from i = Some n \<Longrightarrow> sint n = i"
  by (auto simp: i64_try_from_def signed_of_int signed_take_bit_int_eq_self split: if_splits)

section \<open>Accessors\<close>

fun yaml_as_str :: "yaml \<Rightarrow> string option" where
  "yaml_as_str (YString s) = Some s"
| "yaml_as_str _ = None"

fun yaml_as_bool :: "yaml \<Rightarrow> bool option" where
  "yaml_as_bool (YBool b) = Some b"
| "yaml_as_bool _ = None"

fun yaml_as_u64 :: "yaml \<Rightarrow> u64 option" where
  "yaml_as_u64 (YInt i) = u64_try_from i"
| "yaml_as_u64 _ = None"

fun yaml_as_sequence :: "yaml \<Rightarrow> yaml list option" where
  "yaml_as_sequence (YSequence xs) = Some xs"
| "yaml_as_sequence _ = None"

fun yaml_is_null :: "yaml \<Rightarrow> bool" where
  "yaml_is_null YNull = True"
| "yaml_is_null _ = False"

fun json_as_bool :: "json \<Rightarrow> bool option" where
  "json_as_bool (JBool b) = Some b"
| "json_as_bool _ = None"

section \<open>CBOR to YAML\<close>

definition hex_digit :: "nat \<Rightarrow> char" where
  "hex_digit n = (if n < 10 then char_of (48 + n) else char_of (87 + n))"

definition hex_byte :: "8 word \<Rightarrow> string" where
  "hex_byte b = [hex_digit (unat b div 16), hex_digit (unat b mod 16)]"

fun cbor_to_yaml :: "cbor \<Rightarrow> yaml" where
  "cbor_to_yaml (CBool b) = YBool b"
| "cbor_to_yaml (CInteger i) =
     (case u64_try_from i of
        Some n \<Rightarrow> YInt (uint n)
      | None \<Rightarrow> (case i64_try_from i of None \<Rightarrow> YNull | Some n \<Rightarrow> YInt (sint n)))"
| "cbor_to_yaml (CFloat f) = YFloat f"
| "cbor_to_yaml (CText s) = YString s"
| "cbor_to_yaml (CBytes b) = YString (foldl (\<lambda>acc byte. acc @ hex_byte byte) [] b)"
| "cbor_to_yaml (CArray arr) = YSequence (map cbor_to_yaml arr)"
| "cbor_to_yaml (CMap pairs) =
     YMapping (foldl (\<lambda>m e. case fst e of CText key \<Rightarrow> hm_insert key (snd e) m | _ \<Rightarrow> m) []
       (map (\<lambda>e. (fst e, cbor_to_yaml (snd e))) pairs))"
| "cbor_to_yaml (CTag _ inner) = cbor_to_yaml inner"
| "cbor_to_yaml CNull = YNull"

lemma cbor_to_yaml_integer:
  "cbor_to_yaml (CInteger i) = (if - (2 ^ 63) \<le> i \<and> i < 2 ^ 64 then YInt i else YNull)"
  by (auto dest: u64_try_from_uint i64_try_from_sint split: option.splits)
    (auto simp: u64_try_from_def i64_try_from_def split: if_splits)

text \<open>Every string key of the map is stored once, with the value of its last occurrence.\<close>

lemma fold_text_keys:
  "hm_ok m \<Longrightarrow>
   map_of (foldl (\<lambda>m e. case fst e of CText key \<Rightarrow> hm_insert key (snd e) m | _ \<Rightarrow> m) m es) k =
     (case map_of (rev es) (CText k) of Some v \<Rightarrow> Some v | None \<Rightarrow> map_of m k) \<and>
   hm_ok (foldl (\<lambda>m e. case fst e of CText key \<Rightarrow> hm_insert key (snd e) m | _ \<Rightarrow> m) m es)"
proof (induction es arbitrary: m)
  case (Cons e es)
  let ?m = "case fst e of CText key \<Rightarrow> hm_insert key (snd e) m | _ \<Rightarrow> m"
  have "hm_ok ?m" using Cons.prems by (auto split: cbor.split)
  note IH = Cons.IH [OF this]
  have "map_of ?m k = (case map_of [e] (CText k) of Some v \<Rightarrow> Some v | None \<Rightarrow> map_of m k)"
    by (cases e) (auto split: cbor.split)
  with IH show ?case by (auto simp: map_add_def split: option.splits)
qed simp

lemma cbor_to_yaml_map:
  "\<exists>m. cbor_to_yaml (CMap pairs) = YMapping m \<and> hm_ok m \<and>
     map_of m k = map_option cbor_to_yaml (map_of (rev pairs) (CText k))"
proof -
  let ?es = "map (\<lambda>e. (fst e, cbor_to_yaml (snd e))) pairs"
  have "map_of (rev ?es) = map_option cbor_to_yaml \<circ> map_of (rev pairs)"
    by (simp add: rev_map map_of_map [symmetric] case_prod_unfold)
  then show ?thesis using fold_text_keys [of "[]" ?es k] by (auto split: option.splits)
qed

end
