(* ===== verification/Schema.thy ===== *)
theory Schema
  imports Kind_Tree Values "HOL-Library.Monad_Syntax"
begin

text \<open>
  The message and IPLD schema types of \<open>src/src/entity.rs\<close>, with the JSON form that serde derives
  for each IPLD node (field names, defaults, skipped fields, the untagged \<open>KindTreeNode\<close>), which is
  the form \<open>kubo::dag_put\<close> sends and \<open>kubo::dag_get\<close> reads back. Node documents are JSON objects;
  serde's positional array form of a struct is not modelled. Decoders are total functions to
  \<open>option\<close>; \<open>None\<close> is a deserialisation error.
\<close>

section \<open>Messages\<close>

record local_message =
  lm_id :: string
  lm_from :: string
  lm_to :: string
  lm_created_at :: u64
  lm_expires :: u64
  lm_reply_to :: "string option"
  lm_content_type :: string
  lm_content :: bytes

datatype plugin_kind = Stateless | Stateful

record cast_input =
  ci_msg :: local_message

record reply_request =
  rr_msg :: local_message
  rr_content_type :: string
  rr_content :: bytes

record send_envelope =
  se_to :: string
  se_content_type :: string
  se_content :: bytes
  se_reply_to :: "string option"

record create_entity_request =
  cr_fragment :: string
  cr_kind_protocol :: string
  cr_behaviour_cid :: string
  cr_parent :: string

section \<open>IPLD nodes\<close>

datatype lifecycle = New | Running | LError | Stopped

fun lifecycle_str :: "lifecycle \<Rightarrow> string" where
  "lifecycle_str New = ''new''"
| "lifecycle_str Running = ''running''"
| "lifecycle_str LError = ''error''"
| "lifecycle_str Stopped = ''stopped''"

definition lifecycle_default :: lifecycle where
  "lifecycle_default = Running"

datatype evaluator = EExtism | ENative | EBash | ELua

fun evaluator_str :: "evaluator \<Rightarrow> string" where
  "evaluator_str EExtism = ''extism''"
| "evaluator_str ENative = ''native''"
| "evaluator_str EBash = ''bash''"
| "evaluator_str ELua = ''lua''"

definition evaluator_default :: evaluator where
  "evaluator_default = EExtism"

record entity_ctx =
  ec_self_did :: string
  ec_fragment :: string
  ec_kind :: string
  ec_parent :: "string option"
  ec_lifecycle :: lifecycle

record kind_node =
  kn_protocol :: string
  kn_api :: "string list"
  kn_host_functions :: "string list"
  kn_evaluator :: evaluator
  kn_attributes :: "(string, json) btree_map"
  kn_allow :: "string list"

definition kn_wasi :: "kind_node \<Rightarrow> bool" where
  "kn_wasi k = (case Option.bind (map_of (kn_attributes k) ''wasi'') json_as_bool of
     Some b \<Rightarrow> b | None \<Rightarrow> False)"

definition kn_plugin_kind :: "kind_node \<Rightarrow> plugin_kind" where
  "kn_plugin_kind k =
     (if (case Option.bind (map_of (kn_attributes k) ''stateful'') json_as_bool of
            Some b \<Rightarrow> b | None \<Rightarrow> False)
      then Stateful else Stateless)"

definition RESERVED_ENTITY_NAMES :: "string list" where
  "RESERVED_ENTITY_NAMES = [''root'', ''acl'', ''scheduler'', ''logger'', ''runtime'']"

record entity_node =
  en_kind :: string
  en_behaviour :: "ipld_link option"
  en_acl :: string
  en_state :: "ipld_link option"
  en_parent :: "string option"
  en_label :: "string option"
  en_lifecycle :: lifecycle

record runtime_manifest =
  mf_acl :: "ipld_link option"
  mf_acls :: "(string, ipld_link) hash_map"
  mf_protocol :: string
  mf_kinds :: kind_tree
  mf_entities :: "(string, ipld_link) hash_map"
  mf_i18n :: "(string, ipld_link) hash_map"
  mf_config :: "(string, yaml) btree_map"

definition manifest_default :: runtime_manifest where
  "manifest_default =
     \<lparr>mf_acl = None, mf_acls = [], mf_protocol = [], mf_kinds = [], mf_entities = [],
      mf_i18n = [], mf_config = []\<rparr>"

section \<open>Field decoders\<close>

text \<open>A required field, a \<open>#[serde(default)]\<close> field and an \<open>Option\<close> field.\<close>

definition req_field :: "(string \<times> json) list \<Rightarrow> string \<Rightarrow> (json \<Rightarrow> 'a option) \<Rightarrow> 'a option" where
  "req_field fs key dec = Option.bind (map_of fs key) dec"

definition default_field :: "(string \<times> json) list \<Rightarrow> string \<Rightarrow> 'a \<Rightarrow> (json \<Rightarrow> 'a option) \<Rightarrow> 'a option" where
  "default_field fs key d dec = (case map_of fs key of None \<Rightarrow> Some d | Some j \<Rightarrow> dec j)"

definition option_field :: "(string \<times> json) list \<Rightarrow> string \<Rightarrow> (json \<Rightarrow> 'a option) \<Rightarrow> 'a option option" where
  "option_field fs key dec =
     (case map_of fs key of
        None \<Rightarrow> Some None
      | Some j \<Rightarrow> if j = JNull then Some None else map_option Some (dec j))"

definition skip_none :: "string \<Rightarrow> ('a \<Rightarrow> json) \<Rightarrow> 'a option \<Rightarrow> (string \<times> json) list" where
  "skip_none key enc x = (case x of None \<Rightarrow> [] | Some a \<Rightarrow> [(key, enc a)])"

fun dec_string :: "json \<Rightarrow> string option" where
  "dec_string (JString s) = Some s"
| "dec_string _ = None"

fun all_some :: "'a option list \<Rightarrow> 'a list option" where
  "all_some [] = Some []"
| "all_some (x # xs) = (case (x, all_some xs) of (Some a, Some as) \<Rightarrow> Some (a # as) | _ \<Rightarrow> None)"

fun dec_list :: "(json \<Rightarrow> 'a option) \<Rightarrow> json \<Rightarrow> 'a list option" where
  "dec_list dec (JArray xs) = all_some (map dec xs)"
| "dec_list dec _ = None"

definition pair_option :: "'k \<times> 'v option \<Rightarrow> ('k \<times> 'v) option" where
  "pair_option e = map_option (Pair (fst e)) (snd e)"

fun dec_hash_map :: "(json \<Rightarrow> 'a option) \<Rightarrow> json \<Rightarrow> (string, 'a) hash_map option" where
  "dec_hash_map dec (JObject fs) =
     map_option (\<lambda>es. fold (\<lambda>(k, v). hm_insert k v) es [])
       (all_some (map (\<lambda>e. pair_option (fst e, dec (snd e))) fs))"
| "dec_hash_map dec _ = None"

fun dec_btree_map :: "(json \<Rightarrow> 'a option) \<Rightarrow> json \<Rightarrow> (string, 'a) btree_map option" where
  "dec_btree_map dec (JObject fs) =
     map_option (\<lambda>es. fold (\<lambda>(k, v). bt_insert k v) es [])
       (all_some (map (\<lambda>e. pair_option (fst e, dec (snd e))) fs))"
| "dec_btree_map dec _ = None"

definition enc_map :: "('a \<Rightarrow> json) \<Rightarrow> (string \<times> 'a) list \<Rightarrow> json" where
  "enc_map enc m = JObject (map (\<lambda>e. (fst e, enc (snd e))) m)"

definition enc_strings :: "string list \<Rightarrow> json" where
  "enc_strings xs = JArray (map JString xs)"

section \<open>IPLD links and the kinds tree\<close>

definition json_of_link :: "ipld_link \<Rightarrow> json" where
  "json_of_link l = JObject [(''/'', JString (link_cid l))]"

fun link_of_json :: "json \<Rightarrow> ipld_link option" where
  "link_of_json (JObject fs) = map_option ipld_link_new (req_field fs ''/'' dec_string)"
| "link_of_json _ = None"

fun json_of_kt_node :: "kind_tree_node \<Rightarrow> json" where
  "json_of_kt_node (Leaf l) = json_of_link l"
| "json_of_kt_node (Branch m) = JObject (map (\<lambda>e. (fst e, json_of_kt_node (snd e))) m)"

text \<open>\<open>#[serde(untagged)]\<close>: the leaf is tried first, then the branch.\<close>

fun kt_node_of_json :: "json \<Rightarrow> kind_tree_node option" where
  "kt_node_of_json (JObject fs) =
     (case link_of_json (JObject fs) of
        Some l \<Rightarrow> Some (Leaf l)
      | None \<Rightarrow>
          map_option (\<lambda>es. Branch (fold (\<lambda>(k, v). bt_insert k v) es []))
            (all_some (map (\<lambda>e. pair_option (fst e, kt_node_of_json (snd e))) fs)))"
| "kt_node_of_json _ = None"

definition json_of_kind_tree :: "kind_tree \<Rightarrow> json" where
  "json_of_kind_tree t = enc_map json_of_kt_node t"

definition kind_tree_of_json :: "json \<Rightarrow> kind_tree option" where
  "kind_tree_of_json j = dec_btree_map kt_node_of_json j"

section \<open>Configuration values\<close>

text \<open>A non-finite float has no JSON number and is written as \<open>null\<close>.\<close>

definition f64_finite :: "u64 \<Rightarrow> bool" where
  "f64_finite f \<longleftrightarrow> unat f div 2 ^ 52 mod 2048 \<noteq> 2047"

fun json_of_yaml :: "yaml \<Rightarrow> json" where
  "json_of_yaml YNull = JNull"
| "json_of_yaml (YBool b) = JBool b"
| "json_of_yaml (YInt i) = JInt i"
| "json_of_yaml (YFloat f) = (if f64_finite f then JFloat f else JNull)"
| "json_of_yaml (YString s) = JString s"
| "json_of_yaml (YSequence xs) = JArray (map json_of_yaml xs)"
| "json_of_yaml (YMapping m) = JObject (map (\<lambda>e. (fst e, json_of_yaml (snd e))) m)"

fun yaml_of_json :: "json \<Rightarrow> yaml" where
  "yaml_of_json JNull = YNull"
| "yaml_of_json (JBool b) = YBool b"
| "yaml_of_json (JInt i) = YInt i"
| "yaml_of_json (JFloat f) = YFloat f"
| "yaml_of_json (JString s) = YString s"
| "yaml_of_json (JArray xs) = YSequence (map yaml_of_json xs)"
| "yaml_of_json (JObject m) =
     YMapping (fold (\<lambda>(k, v). hm_insert k v) (map (\<lambda>e. (fst e, yaml_of_json (snd e))) m) [])"

section \<open>Entity, kind and manifest nodes\<close>

fun lifecycle_of_json :: "json \<Rightarrow> lifecycle option" where
  "lifecycle_of_json (JString s) = find (\<lambda>l. lifecycle_str l = s) [New, Running, LError, Stopped]"
| "lifecycle_of_json _ = None"

fun evaluator_of_json :: "json \<Rightarrow> evaluator option" where
  "evaluator_of_json (JString s) = find (\<lambda>e. evaluator_str e = s) [EExtism, ENative, EBash, ELua]"
| "evaluator_of_json _ = None"

definition json_of_entity_node :: "entity_node \<Rightarrow> json" where
  "json_of_entity_node n = JObject
     ([(''kind'', JString (en_kind n))] @
      skip_none ''behaviour'' json_of_link (en_behaviour n) @
      [(''acl'', JString (en_acl n))] @
      skip_none ''state'' json_of_link (en_state n) @
      skip_none ''parent'' JString (en_parent n) @
      skip_none ''label'' JString (en_label n) @
      [(''lifecycle'', JString (lifecycle_str (en_lifecycle n)))])"

fun entity_node_of_json :: "json \<Rightarrow> entity_node option" where
  "entity_node_of_json (JObject fs) = do {
     kind \<leftarrow> req_field fs ''kind'' dec_string;
     behaviour \<leftarrow> option_field fs ''behaviour'' link_of_json;
     acl \<leftarrow> default_field fs ''acl'' [] dec_string;
     state \<leftarrow> option_field fs ''state'' link_of_json;
     parent \<leftarrow> option_field fs ''parent'' dec_string;
     label \<leftarrow> option_field fs ''label'' dec_string;
     lifecycle \<leftarrow> default_field fs ''lifecycle'' lifecycle_default lifecycle_of_json;
     Some \<lparr>en_kind = kind, en_behaviour = behaviour, en_acl = acl, en_state = state,
           en_parent = parent, en_label = label, en_lifecycle = lifecycle\<rparr>
   }"
| "entity_node_of_json _ = None"

definition json_of_kind_node :: "kind_node \<Rightarrow> json" where
  "json_of_kind_node k = JObject
     [(''protocol'', JString (kn_protocol k)),
      (''api'', enc_strings (kn_api k)),
      (''host_functions'', enc_strings (kn_host_functions k)),
      (''evaluator'', JString (evaluator_str (kn_evaluator k))),
      (''attributes'', JObject (kn_attributes k)),
      (''allow'', enc_strings (kn_allow k))]"

fun kind_node_of_json :: "json \<Rightarrow> kind_node option" where
  "kind_node_of_json (JObject fs) = do {
     protocol \<leftarrow> req_field fs ''protocol'' dec_string;
     api \<leftarrow> req_field fs ''api'' (dec_list dec_string);
     host_functions \<leftarrow> req_field fs ''host_functions'' (dec_list dec_string);
     evaluator \<leftarrow> default_field fs ''evaluator'' evaluator_default evaluator_of_json;
     attributes \<leftarrow> default_field fs ''attributes'' [] (dec_btree_map Some);
     allow \<leftarrow> default_field fs ''allow'' [] (dec_list dec_string);
     Some \<lparr>kn_protocol = protocol, kn_api = api, kn_host_functions = host_functions,
           kn_evaluator = evaluator, kn_attributes = attributes, kn_allow = allow\<rparr>
   }"
| "kind_node_of_json _ = None"

definition json_of_manifest :: "runtime_manifest \<Rightarrow> json" where
  "json_of_manifest m = JObject
     (skip_none ''acl'' json_of_link (mf_acl m) @
      (if mf_acls m = [] then [] else [(''acls'', enc_map json_of_link (mf_acls m))]) @
      [(''protocol'', JString (mf_protocol m)),
       (''kinds'', json_of_kind_tree (mf_kinds m)),
       (''entities'', enc_map json_of_link (mf_entities m)),
       (''i18n'', enc_map json_of_link (mf_i18n m)),
       (''config'', enc_map json_of_yaml (mf_config m))])"

fun manifest_of_json :: "json \<Rightarrow> runtime_manifest option" where
  "manifest_of_json (JObject fs) = do {
     acl \<leftarrow> option_field fs ''acl'' link_of_json;
     acls \<leftarrow> default_field fs ''acls'' [] (dec_hash_map link_of_json);
     protocol \<leftarrow> default_field fs ''protocol'' [] dec_string;
     kinds \<leftarrow> default_field fs ''kinds'' [] kind_tree_of_json;
     entities \<leftarrow> req_field fs ''entities'' (dec_hash_map link_of_json);
     i18n \<leftarrow> default_field fs ''i18n'' [] (dec_hash_map link_of_json);
     config \<leftarrow> default_field fs ''config'' [] (dec_btree_map (\<lambda>j. Some (yaml_of_json j)));
     Some \<lparr>mf_acl = acl, mf_acls = acls, mf_protocol = protocol, mf_kinds = kinds,
           mf_entities = entities, mf_i18n = i18n, mf_config = config\<rparr>
   }"
| "manifest_of_json _ = None"

section \<open>Round trips\<close>

text \<open>Values that survive a trip through JSON: finite floats and mappings without duplicate keys.\<close>

fun yaml_ok :: "yaml \<Rightarrow> bool" where
  "yaml_ok (YFloat f) = f64_finite f"
| "yaml_ok (YSequence xs) = (\<forall>x \<in> set xs. yaml_ok x)"
| "yaml_ok (YMapping m) = (distinct (map fst m) \<and> (\<forall>e \<in> set m. yaml_ok (snd e)))"
| "yaml_ok _ = True"

definition manifest_ok :: "runtime_manifest \<Rightarrow> bool" where
  "manifest_ok m \<longleftrightarrow>
     hm_ok (mf_acls m) \<and> kt_wf (mf_kinds m) \<and> hm_ok (mf_entities m) \<and> hm_ok (mf_i18n m) \<and>
     bt_ok (mf_config m) \<and> (\<forall>e \<in> set (mf_config m). yaml_ok (snd e))"

lemma all_some_map_Some [simp]: "all_some (map (\<lambda>x. Some (f x)) xs) = Some (map f xs)"
  by (induction xs) auto

lemma all_some_map_id: "(\<And>x. x \<in> set xs \<Longrightarrow> f x = Some (g x)) \<Longrightarrow> all_some (map f xs) = Some (map g xs)"
  by (induction xs) auto

lemma fold_hm_insert_rebuild:
  "distinct (map fst (m @ es)) \<Longrightarrow> fold (\<lambda>(k, v). hm_insert k v) es m = m @ es"
proof (induction es arbitrary: m)
  case (Cons e es)
  obtain k v where e: "e = (k, v)" by (cases e)
  have "k \<notin> fst ` set m" using Cons.prems e by auto
  then have "hm_insert k v m = m @ [(k, v)]"
    unfolding hm_insert_def by (induction m) auto
  with Cons e show ?case by simp
qed simp

lemma bt_insert_last: "(\<forall>x \<in> fst ` set m. x < k) \<Longrightarrow> bt_insert k v m = m @ [(k, v)]"
  by (induction m) auto

lemma fold_bt_insert_rebuild:
  "bt_ok (m @ es) \<Longrightarrow> fold (\<lambda>(k, v). bt_insert k v) es m = m @ es"
proof (induction es arbitrary: m)
  case (Cons e es)
  obtain k v where e: "e = (k, v)" by (cases e)
  have "\<forall>x \<in> fst ` set m. x < k" using Cons.prems e by (auto simp: bt_ok_def sorted_wrt_append)
  with Cons e show ?case by (simp add: bt_insert_last)
qed simp

lemma dec_hash_map_enc:
  "hm_ok m \<Longrightarrow> (\<And>e. e \<in> set m \<Longrightarrow> dec (enc (snd e)) = Some (snd e)) \<Longrightarrow>
     dec_hash_map dec (enc_map enc m) = Some m"
  using all_some_map_id [of m "\<lambda>e. pair_option (fst e, dec (enc (snd e)))" "\<lambda>e. e"]
    fold_hm_insert_rebuild [of "[]" m]
  by (simp add: enc_map_def pair_option_def hm_ok_def comp_def)

lemma dec_btree_map_enc:
  "bt_ok m \<Longrightarrow> (\<And>e. e \<in> set m \<Longrightarrow> dec (enc (snd e)) = Some (snd e)) \<Longrightarrow>
     dec_btree_map dec (enc_map enc m) = Some m"
  using all_some_map_id [of m "\<lambda>e. pair_option (fst e, dec (enc (snd e)))" "\<lambda>e. e"]
    fold_bt_insert_rebuild [of "[]" m]
  by (simp add: enc_map_def pair_option_def comp_def)

lemma link_roundtrip [simp]: "link_of_json (json_of_link l) = Some l"
  by (cases l) (simp add: json_of_link_def req_field_def ipld_link_new_def)

lemma dec_string_kt_node [simp]: "dec_string (json_of_kt_node n) = None"
  by (cases n) (simp_all add: json_of_link_def)

lemma map_of_map_snd: "map_of (map (\<lambda>e. (fst e, f (snd e))) m) k = map_option f (map_of m k)"
  by (induction m) auto

lemma kt_node_roundtrip: "kt_node_wf n \<Longrightarrow> kt_node_of_json (json_of_kt_node n) = Some n"
proof (induction n)
  case (Leaf l)
  have "req_field [(''/'', JString (link_cid l))] ''/'' dec_string = Some (link_cid l)"
    by (simp add: req_field_def)
  then show ?case by (cases l) (simp add: json_of_link_def ipld_link_new_def)
next
  case (Branch m)
  let ?fs = "map (\<lambda>e. (fst e, json_of_kt_node (snd e))) m"
  have "req_field ?fs ''/'' dec_string = None"
    by (cases "map_of m ''/''") (simp_all add: req_field_def map_of_map_snd)
  moreover have "all_some (map (\<lambda>e. pair_option (fst e, kt_node_of_json (snd e))) ?fs) = Some m"
  proof -
    have "all_some (map (\<lambda>e. pair_option (fst e, kt_node_of_json (json_of_kt_node (snd e)))) m) =
        Some (map (\<lambda>e. e) m)"
    proof (rule all_some_map_id)
      fix e assume e: "e \<in> set m"
      then have "kt_node_wf (snd e)" using Branch.prems by (simp add: kt_wf_Branch kt_wf_def)
      then have "kt_node_of_json (json_of_kt_node (snd e)) = Some (snd e)"
        using Branch.IH [OF e, of "snd e"] by (cases e) simp
      then show "pair_option (fst e, kt_node_of_json (json_of_kt_node (snd e))) = Some e"
        by (simp add: pair_option_def)
    qed
    then show ?thesis by (simp add: comp_def)
  qed
  ultimately show ?case
    using Branch.prems fold_bt_insert_rebuild [of "[]" m]
    by (simp add: kt_wf_Branch kt_wf_def)
qed

lemma kind_tree_roundtrip: "kt_wf t \<Longrightarrow> kind_tree_of_json (json_of_kind_tree t) = Some t"
  unfolding kind_tree_of_json_def json_of_kind_tree_def
  by (rule dec_btree_map_enc) (auto simp: kt_wf_def kt_node_roundtrip)

lemma yaml_roundtrip: "yaml_ok y \<Longrightarrow> yaml_of_json (json_of_yaml y) = y"
proof (induction y)
  case (YSequence xs)
  then show ?case by (auto intro: map_idI)
next
  case (YMapping m)
  have "map (\<lambda>e. (fst e, yaml_of_json (json_of_yaml (snd e)))) m = m"
    using YMapping by (intro map_idI) (auto simp: prod_eq_iff)
  with YMapping.prems fold_hm_insert_rebuild [of "[]" m] show ?case by (simp add: comp_def)
qed auto

lemma lifecycle_roundtrip: "lifecycle_of_json (JString (lifecycle_str l)) = Some l"
  by (cases l) simp_all

lemma evaluator_roundtrip: "evaluator_of_json (JString (evaluator_str e)) = Some e"
  by (cases e) simp_all

lemma enc_strings_roundtrip: "dec_list dec_string (enc_strings xs) = Some xs"
  by (simp add: enc_strings_def comp_def all_some_map_id [where g = "\<lambda>x. x", simplified])

lemmas field_defs = req_field_def default_field_def option_field_def skip_none_def

text \<open>Lookups in the objects the encoders write, field by field.\<close>

lemma json_of_link_not_null [simp]: "json_of_link l \<noteq> JNull"
  by (simp add: json_of_link_def)

lemma entity_node_fields:
  assumes "json_of_entity_node n = JObject fs"
  shows "map_of fs ''kind'' = Some (JString (en_kind n))"
    and "map_of fs ''behaviour'' = map_option json_of_link (en_behaviour n)"
    and "map_of fs ''acl'' = Some (JString (en_acl n))"
    and "map_of fs ''state'' = map_option json_of_link (en_state n)"
    and "map_of fs ''parent'' = map_option JString (en_parent n)"
    and "map_of fs ''label'' = map_option JString (en_label n)"
    and "map_of fs ''lifecycle'' = Some (JString (lifecycle_str (en_lifecycle n)))"
  using assms
  by (auto simp: json_of_entity_node_def skip_none_def split: option.splits)

lemma entity_node_rt [simp]: "entity_node_of_json (json_of_entity_node n) = Some n"
proof -
  obtain fs where fs: "json_of_entity_node n = JObject fs"
    by (simp add: json_of_entity_node_def)
  show ?thesis unfolding fs
    by (cases n; cases "en_behaviour n"; cases "en_state n"; cases "en_parent n"; cases "en_label n")
      (simp_all add: req_field_def default_field_def option_field_def entity_node_fields [OF fs]
        lifecycle_roundtrip del: lifecycle_of_json.simps)
qed

lemma kind_node_roundtrip: "bt_ok (kn_attributes k) \<Longrightarrow> kind_node_of_json (json_of_kind_node k) = Some k"
proof -
  assume ok: "bt_ok (kn_attributes k)"
  have "dec_btree_map Some (JObject (kn_attributes k)) = Some (kn_attributes k)"
    using dec_btree_map_enc [OF ok, of Some "\<lambda>x. x"] by (simp add: enc_map_def)
  then show ?thesis
    by (simp add: json_of_kind_node_def field_defs enc_strings_roundtrip evaluator_roundtrip
        del: evaluator_of_json.simps dec_btree_map.simps)
qed

lemma manifest_fields:
  assumes "json_of_manifest m = JObject fs"
  shows "map_of fs ''acl'' = map_option json_of_link (mf_acl m)"
    and "map_of fs ''acls'' = (if mf_acls m = [] then None else Some (enc_map json_of_link (mf_acls m)))"
    and "map_of fs ''protocol'' = Some (JString (mf_protocol m))"
    and "map_of fs ''kinds'' = Some (json_of_kind_tree (mf_kinds m))"
    and "map_of fs ''entities'' = Some (enc_map json_of_link (mf_entities m))"
    and "map_of fs ''i18n'' = Some (enc_map json_of_link (mf_i18n m))"
    and "map_of fs ''config'' = Some (enc_map json_of_yaml (mf_config m))"
  using assms
  by (auto simp: json_of_manifest_def skip_none_def split: option.splits if_splits)

lemma manifest_rt:
  assumes "manifest_ok m"
  shows "manifest_of_json (json_of_manifest m) = Some m"
proof -
  obtain fs where fs: "json_of_manifest m = JObject fs"
    by (simp add: json_of_manifest_def)
  have maps: "dec_hash_map link_of_json (enc_map json_of_link (mf_acls m)) = Some (mf_acls m)"
    "dec_hash_map link_of_json (enc_map json_of_link (mf_entities m)) = Some (mf_entities m)"
    "dec_hash_map link_of_json (enc_map json_of_link (mf_i18n m)) = Some (mf_i18n m)"
    using assms by (auto intro!: dec_hash_map_enc simp: manifest_ok_def)
  have config: "dec_btree_map (\<lambda>j. Some (yaml_of_json j)) (enc_map json_of_yaml (mf_config m)) =
      Some (mf_config m)"
    using assms by (auto intro!: dec_btree_map_enc simp: manifest_ok_def yaml_roundtrip)
  have kinds: "kind_tree_of_json (json_of_kind_tree (mf_kinds m)) = Some (mf_kinds m)"
    using assms by (simp add: manifest_ok_def kind_tree_roundtrip)
  show ?thesis unfolding fs
    by (cases m; cases "mf_acl m")
      (use maps config kinds in \<open>simp_all add: req_field_def default_field_def option_field_def
        manifest_fields [OF fs]\<close>)
qed

definition manifest_example :: runtime_manifest where
  "manifest_example = manifest_default
     \<lparr>mf_kinds := kt_example, mf_entities := [(''fortune'', ipld_link_new ''bE'')],
      mf_config := [(''i18n'', YString ''nb''), (''owners'', YSequence [YString ''did:ma:a''])]\<rparr>"

lemma manifest_example_ok: "manifest_ok manifest_example"
proof -
  have "kt_wf kt_example" unfolding kt_example_def by (rule kt_inv_wf [OF kt_history_inv])
  moreover have "''i18n'' < (''owners'' :: string)" by code_simp
  ultimately show ?thesis
    by (simp add: manifest_ok_def manifest_example_def manifest_default_def hm_ok_def bt_ok_def)
qed

text \<open>C18: the IPLD nodes the runtime publishes read back as the same nodes: an \<open>EntityNode\<close> whatever
  optional fields are absent (an absent \<open>behaviour\<close> or \<open>state\<close> comes back absent), a \<open>KindNode\<close>, and
  a \<open>RuntimeManifest\<close> with its whole kinds tree (an untagged enum, so a leaf must never be mistaken
  for a branch or the other way round), its name tables and its configuration values.\<close>

theorem manifest_roundtrip:
  assumes "manifest_ok m" and "bt_ok (kn_attributes k)"
  shows "manifest_of_json (json_of_manifest m) = Some m \<and>
    kind_node_of_json (json_of_kind_node k) = Some k \<and>
    entity_node_of_json (json_of_entity_node n) = Some n"
  using assms by (simp add: manifest_rt kind_node_roundtrip)

definition kind_example :: kind_node where
  "kind_example = \<lparr>kn_protocol = ''/ma/set/0.0.1'', kn_api = [''init'', ''handle_call''],
     kn_host_functions = [''ma_reply'', ''ma_set_state''], kn_evaluator = EExtism,
     kn_attributes = [(''stateful'', JBool True)], kn_allow = []\<rparr>"

theorem manifest_roundtrip_witness:
  "manifest_of_json (json_of_manifest manifest_example) = Some manifest_example \<and>
   kind_node_of_json (json_of_kind_node kind_example) = Some kind_example"
  using manifest_roundtrip [OF manifest_example_ok, of kind_example]
  by (simp add: kind_example_def bt_ok_def)

end
