(* ===== verification/Env.thy ===== *)
theory Env
  imports Schema
begin

text \<open>
  Everything the source calls that is not in the repository, as the fields of one record \<open>env\<close>:
  the \<open>ma_core\<close> crate (principals, capabilities, DIDs, signed messages, endpoint, resolver), CBOR
  (\<open>ciborium\<close>), HTTP (\<open>reqwest\<close>, speaking to Kubo), WebAssembly (\<open>extism\<close>), the clock and the random
  generator. Effects go through a state \<open>'x\<close> of the outside world (block store, network, clock),
  so each call may answer differently; \<open>'p\<close> is the memory of a plugin instance. No law is assumed
  here: a theorem that relies on documented behaviour names it as a hypothesis.
\<close>

section \<open>Access lists\<close>

text \<open>
  \<open>ma_core::CapabilityEntry\<close> and \<open>ma_core::AclMap\<close> as the source builds and matches them: an entry
  is \<open>Deny\<close> or \<open>Allow(set of capability names)\<close>; a map is iterated in the order of the list.
\<close>

datatype capability_entry = Deny | Allow "string list"

type_synonym acl_map = "(string, capability_entry) hash_map"

definition GROUP_PREFIX :: string where "GROUP_PREFIX = ''+''"
definition CAP_RPC :: string where "CAP_RPC = ''rpc''"
definition CAP_IPFS :: string where "CAP_IPFS = ''ipfs''"
definition CAP_CRUD :: string where "CAP_CRUD = ''crud''"

section \<open>Messages and identities\<close>

record message =
  msg_id :: string
  msg_from :: string
  msg_to :: string
  msg_message_type :: string
  msg_content_type :: string
  msg_created_at :: u64
  msg_exp :: u64
  msg_reply_to :: "string option"
  msg_payload :: bytes

record did =
  did_ipns :: string
  did_base_id :: string

text \<open>The part of a resolved DID document that is read: the \<open>ma\<close> extension.\<close>

datatype ipld = IMap "(string \<times> ipld) list" | IString string | IOther

section \<open>HTTP\<close>

datatype payload = PJson json | PBytes bytes

record multipart =
  mp_file_name :: string
  mp_mime :: string
  mp_data :: payload

record http_request =
  rq_url :: string
  rq_query :: "(string \<times> string) list"
  rq_body :: "multipart option"

text \<open>A response body: JSON text (held as its value) or any other text.\<close>

datatype body = Body_json json | Body_text string

record http_response =
  rs_status :: nat
  rs_body :: body

section \<open>WebAssembly runs\<close>

text \<open>
  A call of a plugin export runs until it returns, traps, or calls a host function. A host call
  carries the bytes the plugin passes; the run continues with the bytes the host answers.
\<close>

datatype host_fn = Ma_send | Ma_reply | Ma_set_state | Ma_create_entity | Ma_delete_entity

datatype 'p wasm_run =
    Wasm_ret bytes 'p
  | Wasm_trap 'p
  | Wasm_host host_fn bytes 'p "bytes \<Rightarrow> 'p wasm_run"

section \<open>Daemon configuration and IPFS requests\<close>

text \<open>\<open>ma_core::Config\<close>, the fields the source reads and writes; \<open>extra\<close> is the flattened rest.\<close>

record config =
  cf_kubo_rpc_url :: string
  cf_kubo_key_alias :: string
  cf_log_level :: string
  cf_log_level_stdout :: string
  cf_did_resolver_positive_ttl_secs :: u64
  cf_did_resolver_negative_ttl_secs :: u64
  cf_log_file :: "string option"
  cf_config_path :: "string option"
  cf_secret_bundle_passphrase :: "string option"
  cf_extra :: "(string, yaml) hash_map"

text \<open>\<open>ma_core::ValidatedIpfsRequest\<close>, the fields the source reads.\<close>

datatype validated_ipfs_request =
    DidDocumentPublish bytes bytes
  | Store string bytes

section \<open>The record of foreign functions\<close>

record ('x, 'p) env =
  normalize_principal :: "string \<Rightarrow> string"
  check_cap :: "acl_map \<Rightarrow> string \<Rightarrow> string \<Rightarrow> bool"
  acl_to_json :: "acl_map \<Rightarrow> json"
  acl_of_json :: "json \<Rightarrow> acl_map option"
  did_try_from :: "string \<Rightarrow> did option"
  cid_try_from :: "string \<Rightarrow> bool"
  message_new :: "string \<Rightarrow> string \<Rightarrow> string \<Rightarrow> string \<Rightarrow> bytes \<Rightarrow> ('x, message) act"
  outbox_open :: "string \<Rightarrow> string \<Rightarrow> ('x, nat) act"
  outbox_send :: "nat \<Rightarrow> message \<Rightarrow> ('x, unit) act"
  resolve_did :: "string \<Rightarrow> ('x, ipld option) act"
  ipfs_add :: "string \<Rightarrow> bytes \<Rightarrow> ('x, string) act"
  cat_bytes :: "string \<Rightarrow> string \<Rightarrow> ('x, bytes) act"
  http_post :: "http_request \<Rightarrow> ('x, http_response) act"
  body_text :: "json \<Rightarrow> string"
  cbor_encode :: "cbor \<Rightarrow> bytes option"
  cbor_decode :: "bytes \<Rightarrow> cbor option"
  wasm_new :: "bytes \<Rightarrow> string list \<Rightarrow> bool \<Rightarrow> ('x, 'p) act"
  wasm_call :: "string \<Rightarrow> bytes \<Rightarrow> 'p \<Rightarrow> 'p wasm_run"
  now_nanos :: "'x \<Rightarrow> nat \<times> 'x"
  gen_range :: "nat \<Rightarrow> nat \<Rightarrow> 'x \<Rightarrow> nat \<times> 'x"
  blake3_hex :: "bytes \<Rightarrow> string"
  f64_to_u64_nanos :: "u64 \<Rightarrow> u64"
  debug_strings :: "string list \<Rightarrow> string"
  config_save :: "config \<Rightarrow> ('x, unit) act"
  config_from_yaml_str :: "string \<Rightarrow> config option"
  path_exists :: "string \<Rightarrow> 'x \<Rightarrow> bool"
  read_to_string :: "string \<Rightarrow> ('x, string) act"
  bundled_langs :: "(string \<times> string) list"
  lang_yaml :: "yaml option"
  ftl_resource :: "string \<Rightarrow> string \<Rightarrow> (string \<Rightarrow> string option option) option"
  from_utf8 :: "bytes \<Rightarrow> string option"
  replay_check :: "message \<Rightarrow> ('x, unit) act"
  validate_ipfs_request :: "message \<Rightarrow> validated_ipfs_request option"
  publish_document :: "bytes \<Rightarrow> bytes \<Rightarrow> ('x, string option) act"
  json_of_cbor :: "cbor \<Rightarrow> json option"
  key_protobuf :: "bytes \<Rightarrow> bytes option"
  ipns_from_secret :: "bytes \<Rightarrow> string option"
  document_id :: "bytes \<Rightarrow> string option"
  cron_ok :: "string \<Rightarrow> bool"
  sched_new :: "('x, unit) act"
  sched_start :: "('x, unit) act"
  sched_add :: "nat \<Rightarrow> ('x, nat) act"
  const_message_type_rpc :: string
  const_message_type_rpc_reply :: string
  const_message_type_crud :: string
  const_message_type_crud_reply :: string
  const_content_type_term :: string
  const_alias_prefix :: string

definition CRUD_PROTOCOL_ID :: string where "CRUD_PROTOCOL_ID = ''/ma/crud/0.0.1''"
definition RPC_PROTOCOL_ID :: string where "RPC_PROTOCOL_ID = ''/ma/rpc/0.0.1''"

text \<open>Encoding a value into a fresh buffer, an error when the encoder refuses.\<close>

definition encode_or :: "('x, 'p) env \<Rightarrow> string \<Rightarrow> cbor \<Rightarrow> ('w, bytes) act" where
  "encode_or E what v = ok_or (Error what) (cbor_encode E v)"

text \<open>The documented round trip of \<open>ciborium\<close> on values.\<close>

definition cbor_faithful :: "('x, 'p) env \<Rightarrow> bool" where
  "cbor_faithful E \<longleftrightarrow> (\<forall>v. \<exists>b. cbor_encode E v = Some b \<and> cbor_decode E b = Some v)"

lemma cbor_faithfulE:
  assumes "cbor_faithful E"
  obtains b where "cbor_encode E v = Some b" "cbor_decode E b = Some v"
  using assms by (auto simp: cbor_faithful_def)

end
