(* ===== verification/Kubo.thy ===== *)
theory Kubo
  imports Env
begin

text \<open>
  The Kubo HTTP wrappers of \<open>src/src/kubo.rs\<close>: one request per operation (URL, query, multipart
  body) and the decoding of its answer, over the foreign \<open>http_post\<close>. \<open>kubo_ok\<close> names what the
  callers rely on: a reachable block store that returns the document stored under an identifier.
\<close>

section \<open>Requests\<close>

definition trim_end_char :: "char \<Rightarrow> string \<Rightarrow> string" where
  "trim_end_char c s = rev (trim_start_char c (rev s))"

definition api_url :: "string \<Rightarrow> string \<Rightarrow> string" where
  "api_url kubo_url path = trim_end_char (CHR ''/'') kubo_url @ ''/api/v0/'' @ path"

text \<open>\<open>.send().await?.error_for_status()?.text().await?\<close>\<close>

definition post_checked :: "('x, 'p) env \<Rightarrow> http_request \<Rightarrow> ('x, body) act" where
  "post_checked E rq =
     and_then (http_post E rq) (\<lambda>rs.
       if 400 \<le> rs_status rs \<and> rs_status rs < 600 then fail (Error ''HTTP status'')
       else ret (rs_body rs))"

fun parse_body :: "string \<Rightarrow> (json \<Rightarrow> 'a option) \<Rightarrow> body \<Rightarrow> ('w, 'a) act" where
  "parse_body what dec (Body_json j) = ok_or (Error what) (dec j)"
| "parse_body what dec (Body_text _) = fail (Error what)"

definition dag_put_cid_of_json :: "json \<Rightarrow> string option" where
  "dag_put_cid_of_json j = map_option link_cid (link_of_json j)"

record dag_put_response =
  dp_cid_upper :: "string option"
  dp_cid :: "string option"

fun dag_put_response_of_json :: "json \<Rightarrow> dag_put_response option" where
  "dag_put_response_of_json (JObject fs) = do {
     upper \<leftarrow> option_field fs ''Cid'' dag_put_cid_of_json;
     lower \<leftarrow> option_field fs ''cid'' dag_put_cid_of_json;
     Some \<lparr>dp_cid_upper = upper, dp_cid = lower\<rparr>
   }"
| "dag_put_response_of_json _ = None"

fun dag_resolve_response_of_json :: "json \<Rightarrow> string option" where
  "dag_resolve_response_of_json (JObject fs) = req_field fs ''Cid'' dag_put_cid_of_json"
| "dag_resolve_response_of_json _ = None"

definition option_or :: "'a option \<Rightarrow> 'a option \<Rightarrow> 'a option" where
  "option_or a b = (case a of Some _ \<Rightarrow> a | None \<Rightarrow> b)"

definition dag_put :: "('x, 'p) env \<Rightarrow> string \<Rightarrow> json \<Rightarrow> ('x, string) act" where
  "dag_put E kubo_url value =
     and_then
       (post_checked E
          \<lparr>rq_url = api_url kubo_url ''dag/put'',
           rq_query = [(''store-codec'', ''dag-cbor''), (''input-codec'', ''dag-json''), (''pin'', ''false'')],
           rq_body = Some \<lparr>mp_file_name = ''node.json'', mp_mime = ''application/json'',
                           mp_data = PJson value\<rparr>\<rparr>)
       (\<lambda>body. and_then (parse_body ''failed parsing dag/put response'' dag_put_response_of_json body)
       (\<lambda>parsed. ok_or (Error ''missing CID in dag/put response'')
          (option_or (dp_cid_upper parsed) (dp_cid parsed))))"

definition pin_add :: "('x, 'p) env \<Rightarrow> string \<Rightarrow> string \<Rightarrow> ('x, unit) act" where
  "pin_add E kubo_url cid =
     and_then
       (post_checked E
          \<lparr>rq_url = api_url kubo_url ''pin/add'',
           rq_query = [(''arg'', cid), (''recursive'', ''true'')], rq_body = None\<rparr>)
       (\<lambda>_. ret ())"

definition body_str :: "('x, 'p) env \<Rightarrow> body \<Rightarrow> string" where
  "body_str E b = (case b of Body_json j \<Rightarrow> body_text E j | Body_text s \<Rightarrow> s)"

text \<open>The arrow of the error message, in UTF-8.\<close>

definition ARROW :: string where
  "ARROW = [CHR '' '', CHR 0xE2, CHR 0x86, CHR 0x92, CHR '' '']"

definition pin_update :: "('x, 'p) env \<Rightarrow> string \<Rightarrow> string \<Rightarrow> string \<Rightarrow> ('x, unit) act" where
  "pin_update E kubo_url old_cid new_cid =
     and_then
       (http_post E
          \<lparr>rq_url = api_url kubo_url ''pin/update'',
           rq_query = [(''arg'', old_cid), (''arg'', new_cid), (''unpin'', ''true'')], rq_body = None\<rparr>)
       (\<lambda>resp.
          if 200 \<le> rs_status resp \<and> rs_status resp < 300 then ret ()
          else let body = body_str E (rs_body resp) in
            if contains_sub ''not recursively pinned'' body \<or> contains_sub ''not pinned'' body
            then pin_add E kubo_url new_cid
            else fail (Error (''pin/update '' @ old_cid @ ARROW @ new_cid @ '' failed: '' @ body)))"

definition dag_get_json :: "('x, 'p) env \<Rightarrow> string \<Rightarrow> string \<Rightarrow> ('x, body) act" where
  "dag_get_json E kubo_url cid =
     post_checked E
       \<lparr>rq_url = api_url kubo_url ''dag/get'',
        rq_query = [(''arg'', cid), (''output-codec'', ''dag-json'')], rq_body = None\<rparr>"

definition dag_get :: "('x, 'p) env \<Rightarrow> (json \<Rightarrow> 'a option) \<Rightarrow> string \<Rightarrow> string \<Rightarrow> ('x, 'a) act" where
  "dag_get E dec kubo_url cid =
     and_then (dag_get_json E kubo_url cid)
       (parse_body (''failed to deserialise dag/get response for '' @ cid) dec)"

definition dag_resolve :: "('x, 'p) env \<Rightarrow> string \<Rightarrow> string \<Rightarrow> ('x, string) act" where
  "dag_resolve E kubo_url path =
     (if \<not> starts_with ''/'' path then ret path
      else
        and_then
          (post_checked E
             \<lparr>rq_url = api_url kubo_url ''dag/resolve'', rq_query = [(''arg'', path)], rq_body = None\<rparr>)
          (parse_body (''failed parsing dag/resolve response for '' @ path) dag_resolve_response_of_json))"

section \<open>The contract with the block store\<close>

text \<open>
  \<open>blocks x\<close> is the documents the store holds in state \<open>x\<close>. While Kubo is reachable: \<open>dag/put\<close>
  answers an identifier under which exactly that document is stored (an identifier already in use
  holds the same document: identifiers are content hashes), \<open>dag/get\<close> returns the document under
  an identifier and an error when there is none, and neither reading nor pinning changes documents.
\<close>

definition kubo_ok :: "('x, 'p) env \<Rightarrow> ('x \<Rightarrow> string \<Rightarrow> json option) \<Rightarrow> bool" where
  "kubo_ok E blocks \<longleftrightarrow>
     (\<forall>url j x. \<exists>c x'. dag_put E url j x = (Inr c, x') \<and> blocks x' = (blocks x)(c \<mapsto> j) \<and>
        (blocks x c = None \<or> blocks x c = Some j)) \<and>
     (\<forall>url c x. \<exists>r x'. dag_get_json E url c x = (r, x') \<and> blocks x' = blocks x \<and>
        (case blocks x c of Some j \<Rightarrow> r = Inr (Body_json j) | None \<Rightarrow> \<exists>e. r = Inl e)) \<and>
     (\<forall>url a b x. blocks (snd (pin_update E url a b x)) = blocks x)"

lemma kubo_ok_put:
  assumes "kubo_ok E blocks"
  obtains c x' where "dag_put E url j x = (Inr c, x')" "blocks x' = (blocks x)(c \<mapsto> j)"
    "blocks x c = None \<or> blocks x c = Some j"
  using assms unfolding kubo_ok_def by metis

lemma kubo_ok_get:
  assumes "kubo_ok E blocks" and "blocks x c = Some j" and "dec j = Some a"
  obtains x' where "dag_get E dec url c x = (Inr a, x')" "blocks x' = blocks x"
proof -
  from assms(1) obtain r x' where r: "dag_get_json E url c x = (r, x')" "blocks x' = blocks x"
    and c: "case blocks x c of Some j \<Rightarrow> r = Inr (Body_json j) | None \<Rightarrow> \<exists>e. r = Inl e"
    unfolding kubo_ok_def by metis
  have "dag_get E dec url c x = (Inr a, x')"
    using r c assms(2,3) by (simp add: dag_get_def and_then_Inr)
  with r(2) that show ?thesis by blast
qed

lemma kubo_ok_get_missing:
  assumes "kubo_ok E blocks" and "blocks x c = None"
  obtains e x' where "dag_get E dec url c x = (Inl e, x')" "blocks x' = blocks x"
proof -
  from assms(1) obtain r x' where r: "dag_get_json E url c x = (r, x')" "blocks x' = blocks x"
    and c: "case blocks x c of Some j \<Rightarrow> r = Inr (Body_json j) | None \<Rightarrow> \<exists>e. r = Inl e"
    unfolding kubo_ok_def by metis
  from c assms(2) obtain e where "r = Inl e" by auto
  then have "dag_get E dec url c x = (Inl e, x')"
    using r by (simp add: dag_get_def and_then_Inl)
  with r(2) that show ?thesis by blast
qed

lemma kubo_ok_get_blocks:
  assumes "kubo_ok E blocks" and "dag_get E dec url c x = (r, x')"
  shows "blocks x' = blocks x"
proof -
  from assms(1) obtain q y where q: "dag_get_json E url c x = (q, y)" "blocks y = blocks x"
    unfolding kubo_ok_def by metis
  have "snd (parse_body w dec b y) = y" for w b
    by (cases b) (auto simp: ok_or_def split: option.splits)
  then have "snd (dag_get E dec url c x) = y"
    using q(1) by (cases q) (simp_all add: dag_get_def and_then_def)
  with assms(2) q(2) show ?thesis by simp
qed

lemma kubo_ok_pin:
  "kubo_ok E blocks \<Longrightarrow> blocks (snd (pin_update E url a b x)) = blocks x"
  unfolding kubo_ok_def by blast

text \<open>\<open>pin_update\<close> on every branch of Kubo's answer: success is success, the two "not pinned"
  messages fall back to pinning the new root, any other refusal is an error naming the old root,
  and a transport failure is passed on.\<close>

lemma pin_update_branches:
  assumes "http_post E
      \<lparr>rq_url = api_url url ''pin/update'',
       rq_query = [(''arg'', old), (''arg'', new), (''unpin'', ''true'')], rq_body = None\<rparr> x = (r, x')"
  shows "pin_update E url old new x =
    (case r of
       Inl e \<Rightarrow> (Inl e, x')
     | Inr rs \<Rightarrow>
         if rs_status rs div 100 = 2 then (Inr (), x')
         else if contains_sub ''not recursively pinned'' (body_str E (rs_body rs)) \<or>
                 contains_sub ''not pinned'' (body_str E (rs_body rs))
              then pin_add E url new x'
              else (Inl (Error (''pin/update '' @ old @ ARROW @ new @ '' failed: '' @ body_str E (rs_body rs))), x'))"
proof -
  have "200 \<le> n \<and> n < 300 \<longleftrightarrow> n div 100 = 2" for n :: nat by auto
  with assms show ?thesis
    by (cases r) (simp_all add: pin_update_def and_then_def Let_def)
qed

text \<open>A bare identifier given to \<open>dag_resolve\<close> is returned as it is, without any request.\<close>

lemma dag_resolve_bare: "\<not> starts_with ''/'' path \<Longrightarrow> dag_resolve E url path = ret path"
  by (simp add: dag_resolve_def)

text \<open>Between two states of the store nothing stored is lost.\<close>

definition grows :: "('x \<Rightarrow> string \<Rightarrow> json option) \<Rightarrow> 'x \<Rightarrow> 'x \<Rightarrow> bool" where
  "grows blocks x x' \<longleftrightarrow> (\<forall>c j. blocks x c = Some j \<longrightarrow> blocks x' c = Some j)"

lemma grows_refl [simp]: "grows blocks x x"
  by (simp add: grows_def)

lemma grows_trans: "grows blocks x y \<Longrightarrow> grows blocks y z \<Longrightarrow> grows blocks x z"
  by (simp add: grows_def)

lemma growsD: "grows blocks x y \<Longrightarrow> blocks x c = Some j \<Longrightarrow> blocks y c = Some j"
  by (simp add: grows_def)

end
