(* ===== verification/Reference_Env.thy ===== *)
theory Reference_Env
  imports Kubo "HOL-Library.Countable"
begin

text \<open>
  One concrete instance of the foreign functions, used only by witnesses: an in-memory block store
  behind the HTTP interface, principals and capabilities as the README documents them, a message
  log, and a CBOR codec that meets the documented round trip. Nothing of the program is modelled
  here and no property is proved about these definitions beyond the hypotheses they discharge.
\<close>

record ref_world =
  rw_blocks :: "(string \<times> json) list"
  rw_blobs :: "(string \<times> bytes) list"
  rw_sent :: "message list"
  rw_pins :: "string list"
  rw_clock :: nat

definition ref_world0 :: ref_world where
  "ref_world0 = \<lparr>rw_blocks = [], rw_blobs = [], rw_sent = [], rw_pins = [], rw_clock = 1000\<rparr>"

definition fresh_cid :: "(string \<times> 'a) list \<Rightarrow> string" where
  "fresh_cid m = ''bafyreference'' @ replicate (sum_list (map (\<lambda>e. length (fst e)) m)) (CHR ''x'')"

definition store_under :: "'a \<Rightarrow> (string \<times> 'a) list \<Rightarrow> string \<times> (string \<times> 'a) list" where
  "store_under j m =
     (case find (\<lambda>e. snd e = j \<and> map_of m (fst e) = Some j) m of
        Some e \<Rightarrow> (fst e, m)
      | None \<Rightarrow> (fresh_cid m, (fresh_cid m, j) # m))"

lemma fresh_cid_new: "map_of m (fresh_cid m) = None"
proof -
  have "length k \<le> sum_list (map (\<lambda>e. length (fst e)) m)" if "(k, v) \<in> set m" for k v
    using member_le_sum_list [of "length k" "map (\<lambda>e. length (fst e)) m"] that by force
  then have "(fresh_cid m, v) \<notin> set m" for v by (force simp: fresh_cid_def)
  then show ?thesis by (auto simp: map_of_eq_None_iff)
qed

lemma store_under_cases:
  assumes "store_under j m = (c, m')"
  shows "(c = fresh_cid m \<and> m' = (c, j) # m) \<or> (m' = m \<and> map_of m c = Some j)"
proof (cases "find (\<lambda>e. snd e = j \<and> map_of m (fst e) = Some j) m")
  case None
  then show ?thesis using assms by (auto simp: store_under_def)
next
  case (Some e)
  then have "map_of m (fst e) = Some j"
    by (simp only: find_Some_iff) blast
  with Some show ?thesis using assms by (simp add: store_under_def)
qed

lemma store_under_spec:
  assumes "store_under j m = (c, m')"
  shows "map_of m' = (map_of m)(c \<mapsto> j)" and "map_of m c = None \<or> map_of m c = Some j"
proof -
  from store_under_cases [OF assms] show "map_of m' = (map_of m)(c \<mapsto> j)"
    by (elim disjE conjE) (simp_all add: fun_upd_idem)
  from store_under_cases [OF assms] show "map_of m c = None \<or> map_of m c = Some j"
    by (elim disjE conjE) (simp_all only: fresh_cid_new simp_thms)
qed

definition cid_json :: "string \<Rightarrow> json" where
  "cid_json c = JObject [(''Cid'', JObject [(''/'', JString c)])]"

definition ref_http :: "http_request \<Rightarrow> (ref_world, http_response) act" where
  "ref_http rq x =
     (case rq_body rq of
        Some mp \<Rightarrow>
          (case mp_data mp of
             PJson j \<Rightarrow>
               (case store_under j (rw_blocks x) of (c, bs) \<Rightarrow>
                  (Inr \<lparr>rs_status = 200, rs_body = Body_json (cid_json c)\<rparr>, x\<lparr>rw_blocks := bs\<rparr>))
           | PBytes _ \<Rightarrow> (Inr \<lparr>rs_status = 200, rs_body = Body_text []\<rparr>, x))
      | None \<Rightarrow>
          (case map_of (rq_query rq) ''output-codec'' of
             Some _ \<Rightarrow>
               (case map_of (rw_blocks x) (the (map_of (rq_query rq) ''arg'')) of
                  Some j \<Rightarrow> (Inr \<lparr>rs_status = 200, rs_body = Body_json j\<rparr>, x)
                | None \<Rightarrow> (Inr \<lparr>rs_status = 500, rs_body = Body_text ''not found''\<rparr>, x))
           | None \<Rightarrow> (Inr \<lparr>rs_status = 200, rs_body = Body_text []\<rparr>,
               if map_of (rq_query rq) ''recursive'' = None then x
               else x\<lparr>rw_pins := the (map_of (rq_query rq) ''arg'') # rw_pins x\<rparr>)))"

definition ref_normalize :: "string \<Rightarrow> string" where
  "ref_normalize s = takeWhile (\<lambda>c. c \<noteq> CHR ''#'') s"

fun cap_in :: "capability_entry option \<Rightarrow> string \<Rightarrow> bool" where
  "cap_in (Some (Allow cs)) cap = (cap \<in> set cs \<or> ''*'' \<in> set cs)"
| "cap_in _ cap = False"

definition ref_check_cap :: "acl_map \<Rightarrow> string \<Rightarrow> string \<Rightarrow> bool" where
  "ref_check_cap acl caller cap =
     (case map_of acl (ref_normalize caller) of
        Some e \<Rightarrow> cap_in (Some e) cap
      | None \<Rightarrow> cap_in (map_of acl ''*'') cap)"

fun entry_json :: "capability_entry \<Rightarrow> json" where
  "entry_json Deny = JNull"
| "entry_json (Allow cs) = enc_strings cs"

definition entry_of_json :: "json \<Rightarrow> capability_entry option" where
  "entry_of_json j = (if j = JNull then Some Deny else map_option Allow (dec_list dec_string j))"

instance cbor :: countable
  by countable_datatype

definition ref_encode :: "cbor \<Rightarrow> bytes option" where
  "ref_encode v = Some (replicate (Suc (to_nat v)) 0)"

definition ref_decode :: "bytes \<Rightarrow> cbor option" where
  "ref_decode b =
     (if b = replicate (Suc (to_nat (from_nat (length b - 1) :: cbor))) 0 then Some (from_nat (length b - 1)) else None)"

definition ref_env :: "(bytes \<Rightarrow> string list \<Rightarrow> bool \<Rightarrow> (ref_world, 'p) act) \<Rightarrow>
    (string \<Rightarrow> bytes \<Rightarrow> 'p \<Rightarrow> 'p wasm_run) \<Rightarrow> (ref_world, 'p) env" where
  "ref_env wnew wcall =
     \<lparr>normalize_principal = ref_normalize,
      check_cap = ref_check_cap,
      acl_to_json = enc_map entry_json,
      acl_of_json = dec_hash_map entry_of_json,
      did_try_from = (\<lambda>s. if starts_with ''did:ma:'' s
        then Some \<lparr>did_ipns = drop 7 (ref_normalize s), did_base_id = ref_normalize s\<rparr> else None),
      cid_try_from = starts_with ''b'',
      message_new = (\<lambda>from to ty ct content. ret
        \<lparr>msg_id = ''m'', msg_from = from, msg_to = to, msg_message_type = ty, msg_content_type = ct,
         msg_created_at = 0, msg_exp = 0, msg_reply_to = None, msg_payload = content\<rparr>),
      outbox_open = (\<lambda>_ _. ret 0),
      outbox_send = (\<lambda>_ m. modify (\<lambda>x. x\<lparr>rw_sent := rw_sent x @ [m]\<rparr>)),
      resolve_did = (\<lambda>_. ret None),
      ipfs_add = (\<lambda>_ b x. case store_under b (rw_blobs x) of (c, bs) \<Rightarrow> (Inr c, x\<lparr>rw_blobs := bs\<rparr>)),
      cat_bytes = (\<lambda>_ c x. (case map_of (rw_blobs x) c of Some b \<Rightarrow> Inr b | None \<Rightarrow> Inl (Error ''no blob''), x)),
      http_post = ref_http,
      body_text = (\<lambda>_. []),
      cbor_encode = ref_encode,
      cbor_decode = ref_decode,
      wasm_new = wnew,
      wasm_call = wcall,
      now_nanos = (\<lambda>x. (rw_clock x, x)),
      gen_range = (\<lambda>lo hi x. (lo, x)),
      blake3_hex = (\<lambda>_. replicate 64 (CHR ''0'')),
      f64_to_u64_nanos = (\<lambda>f. f),
      debug_strings = join_with '', '',
      config_save = (\<lambda>_. ret ()),
      config_from_yaml_str = (\<lambda>_. None),
      path_exists = (\<lambda>_ _. False),
      read_to_string = (\<lambda>_. ret []),
      bundled_langs = [],
      lang_yaml = None,
      ftl_resource = (\<lambda>_ _. None),
      from_utf8 = (\<lambda>b. Some (map (\<lambda>w. char_of (unat w)) b)),
      replay_check = (\<lambda>_. ret ()),
      validate_ipfs_request = (\<lambda>m. Some (Store (msg_content_type m) (msg_payload m))),
      publish_document = (\<lambda>_ _. ret (Some ''bafydocument'')),
      json_of_cbor = (\<lambda>_. Some JNull),
      key_protobuf = (\<lambda>b. Some b),
      ipns_from_secret = (\<lambda>_. Some ''k51reference''),
      document_id = (\<lambda>_. Some ''did:ma:k51reference''),
      cron_ok = (\<lambda>_. True),
      sched_new = ret (),
      sched_start = ret (),
      sched_add = (\<lambda>_. ret 0),
      const_message_type_rpc = ''application/x-ma-rpc'',
      const_message_type_rpc_reply = ''application/x-ma-rpc-reply'',
      const_message_type_crud = ''application/x-ma-crud'',
      const_message_type_crud_reply = ''application/x-ma-crud-reply'',
      const_content_type_term = ''application/x-ma-term'',
      const_alias_prefix = ''ma-''\<rparr>"

lemma ref_decode_encode: "ref_decode (replicate (Suc (to_nat v)) 0) = Some v"
  by (simp add: ref_decode_def del: replicate_Suc)

lemma ref_decode_nil: "ref_decode [] = None"
  by (simp add: ref_decode_def)

lemma ref_cbor_faithful: "cbor_faithful (ref_env wn wc)"
  by (simp add: cbor_faithful_def ref_env_def ref_encode_def ref_decode_encode del: replicate_Suc)

lemma ref_cbor_faithful_empty: "cbor_encode (ref_env wn wc) v = Some b \<Longrightarrow> cbor_decode (ref_env wn wc) b = Some v"
  by (auto simp: ref_env_def ref_encode_def ref_decode_encode simp del: replicate_Suc)

definition ref_blocks :: "ref_world \<Rightarrow> string \<Rightarrow> json option" where
  "ref_blocks x = map_of (rw_blocks x)"

lemma ref_dag_put:
  "dag_put (ref_env wn wc) url j x =
     (case store_under j (rw_blocks x) of (c, bs) \<Rightarrow> (Inr c, x\<lparr>rw_blocks := bs\<rparr>))"
  by (simp add: dag_put_def post_checked_def ref_env_def ref_http_def and_then_def cid_json_def
      option_field_def dag_put_cid_of_json_def req_field_def ipld_link_new_def option_or_def
      split: prod.splits)

lemma ref_dag_get_json:
  "dag_get_json (ref_env wn wc) url c x =
     ((case map_of (rw_blocks x) c of Some j \<Rightarrow> Inr (Body_json j) | None \<Rightarrow> Inl (Error ''HTTP status'')), x)"
  by (simp add: dag_get_json_def post_checked_def ref_env_def ref_http_def and_then_def
      split: option.splits)

lemma ref_pin_update: "pin_update (ref_env wn wc) url a b x = (Inr (), x)"
  by (simp add: pin_update_def ref_env_def ref_http_def and_then_def)

lemma ref_kubo_ok: "kubo_ok (ref_env wn wc) ref_blocks"
  unfolding kubo_ok_def ref_dag_put ref_dag_get_json ref_pin_update ref_blocks_def
  by (auto dest: store_under_spec split: prod.splits option.splits)

lemma ref_env_simps [simp]:
  "normalize_principal (ref_env wn wc) = ref_normalize"
  "check_cap (ref_env wn wc) = ref_check_cap"
  "acl_of_json (ref_env wn wc) = dec_hash_map entry_of_json"
  "acl_to_json (ref_env wn wc) = enc_map entry_json"
  "wasm_call (ref_env wn wc) = wc"
  "wasm_new (ref_env wn wc) = wn"
  by (simp_all add: ref_env_def)

definition no_wasm_new :: "bytes \<Rightarrow> string list \<Rightarrow> bool \<Rightarrow> (ref_world, unit) act" where
  "no_wasm_new b fs wasi = fail (Error ''no wasm'')"

definition no_wasm_call :: "string \<Rightarrow> bytes \<Rightarrow> unit \<Rightarrow> unit wasm_run" where
  "no_wasm_call f b p = Wasm_trap p"

abbreviation base_env :: "(ref_world, unit) env" where
  "base_env \<equiv> ref_env no_wasm_new no_wasm_call"

end
