(* ===== verification/Acl.thy ===== *)
theory Acl
  imports Kubo "HOL-Library.Multiset"
begin

text \<open>
  Access control, \<open>src/src/acl.rs\<close>: owner bypass, loading an access list with the \<open>+owners\<close> entry
  injected, and \<open>check_full\<close>, the uniform check with group expansion. The synchronous \<open>check_cap\<close>
  and \<open>normalize_principal\<close> are the \<open>ma_core\<close> functions of \<open>env\<close>; \<open>resolve_group\<close> is an action of
  the caller's state, as the source's asynchronous closure is.
\<close>

section \<open>Operations\<close>

definition OWNERS_PRINCIPAL :: string where
  "OWNERS_PRINCIPAL = ''+owners''"

definition inject_owners :: "acl_map \<Rightarrow> acl_map" where
  "inject_owners acl = hm_insert OWNERS_PRINCIPAL (Allow [''*'']) acl"

definition is_owner :: "('x, 'p) env \<Rightarrow> string list \<Rightarrow> string \<Rightarrow> bool" where
  "is_owner E owners caller =
     (let normalized = normalize_principal E caller
      in list_ex (\<lambda>own. normalize_principal E own = normalized) owners)"

definition load_acl_from_cid :: "('x, 'p) env \<Rightarrow> string \<Rightarrow> string \<Rightarrow> ('x, acl_map) act" where
  "load_acl_from_cid E kubo_rpc_url cid =
     and_then (with_context (''fetching ACL document '' @ cid) (dag_get E (acl_of_json E) kubo_rpc_url cid))
       (\<lambda>acl. ret (inject_owners acl))"

definition denied_entry :: "acl_map \<Rightarrow> string \<Rightarrow> bool" where
  "denied_entry acl key = (map_of acl key = Some Deny)"

text \<open>\<open>resolve_group(key).await.unwrap_or_default()\<close>, then the membership test.\<close>

definition in_group :: "('x, 'p) env \<Rightarrow> (string \<Rightarrow> ('w, string list) act) \<Rightarrow> string \<Rightarrow> string \<Rightarrow> ('w, bool) act" where
  "in_group E resolve_group key normalized =
     and_then (attempt (resolve_group key)) (\<lambda>r.
       let members = (case r of Inl _ \<Rightarrow> [] | Inr ms \<Rightarrow> ms)
       in ret (list_ex (\<lambda>m. normalize_principal E m = normalized) members))"

fun deny_groups :: "('x, 'p) env \<Rightarrow> (string \<Rightarrow> ('w, string list) act) \<Rightarrow> string \<Rightarrow> string \<Rightarrow> acl_map \<Rightarrow> ('w, unit) act" where
  "deny_groups E rg caller normalized [] = ret ()"
| "deny_groups E rg caller normalized ((key, entry) # acl) =
     (if \<not> starts_with GROUP_PREFIX key \<or> entry \<noteq> Deny then deny_groups E rg caller normalized acl
      else and_then (in_group E rg key normalized) (\<lambda>member.
        if member then fail (Error (''access denied for '' @ caller @ '' (group '' @ key @ '')''))
        else deny_groups E rg caller normalized acl))"

fun allow_groups :: "('x, 'p) env \<Rightarrow> (string \<Rightarrow> ('w, string list) act) \<Rightarrow> string \<Rightarrow> string list \<Rightarrow> acl_map \<Rightarrow> ('w, bool) act" where
  "allow_groups E rg normalized caps [] = ret False"
| "allow_groups E rg normalized caps ((key, entry) # acl) =
     (if \<not> starts_with GROUP_PREFIX key then allow_groups E rg normalized caps acl
      else case entry of
        Deny \<Rightarrow> allow_groups E rg normalized caps acl
      | Allow cap_set \<Rightarrow>
          and_then (in_group E rg key normalized) (\<lambda>member.
            if member \<and> list_ex (\<lambda>c. c \<in> set cap_set \<or> ''*'' \<in> set cap_set) caps then ret True
            else allow_groups E rg normalized caps acl))"

definition check_full :: "('x, 'p) env \<Rightarrow> acl_map \<Rightarrow> string \<Rightarrow> string list \<Rightarrow> (string \<Rightarrow> ('w, string list) act) \<Rightarrow> ('w, unit) act" where
  "check_full E acl caller caps resolve_group =
     (let normalized = normalize_principal E caller in
      if denied_entry acl normalized then fail (Error (''access denied for '' @ caller))
      else if denied_entry acl ''*'' then fail (Error (''access denied for '' @ caller @ '' (wildcard deny)''))
      else if list_ex (\<lambda>cap. check_cap E acl caller cap) caps then ret ()
      else
        and_then (deny_groups E resolve_group caller normalized acl) (\<lambda>_.
        and_then (allow_groups E resolve_group normalized caps acl) (\<lambda>allowed.
          if allowed then ret ()
          else fail (Error (''access denied for '' @ caller @ '': none of '' @ debug_strings E caps @
                            '' permitted'')))))"

text \<open>\<open>|_| async { Ok(vec![]) }\<close>: no group resolution, as at the transport gates.\<close>

definition no_groups :: "string \<Rightarrow> ('w, string list) act" where
  "no_groups g = ret []"

section \<open>What the check decides\<close>

text \<open>
  The specification, over sets and maps: no direct and no wildcard denial, and either one of the
  capabilities is granted by the synchronous check, or no denied group has the caller as a member
  and some group that has it allows one of the capabilities. \<open>mem\<close> is the membership of a group.
\<close>

definition group_hit :: "('x, 'p) env \<Rightarrow> (string \<Rightarrow> string list) \<Rightarrow> string \<Rightarrow> string \<Rightarrow> bool" where
  "group_hit E mem caller key \<longleftrightarrow>
     starts_with GROUP_PREFIX key \<and> (\<exists>m \<in> set (mem key). normalize_principal E m = normalize_principal E caller)"

definition grants :: "string list \<Rightarrow> string list \<Rightarrow> bool" where
  "grants caps cs \<longleftrightarrow> (\<exists>c \<in> set caps. c \<in> set cs \<or> ''*'' \<in> set cs)"

definition group_denies :: "('x, 'p) env \<Rightarrow> acl_map \<Rightarrow> (string \<Rightarrow> string list) \<Rightarrow> string \<Rightarrow> bool" where
  "group_denies E acl mem caller \<longleftrightarrow> (\<exists>key. (key, Deny) \<in> set acl \<and> group_hit E mem caller key)"

definition group_allows :: "('x, 'p) env \<Rightarrow> acl_map \<Rightarrow> (string \<Rightarrow> string list) \<Rightarrow> string \<Rightarrow> string list \<Rightarrow> bool" where
  "group_allows E acl mem caller caps \<longleftrightarrow>
     (\<exists>key cs. (key, Allow cs) \<in> set acl \<and> group_hit E mem caller key \<and> grants caps cs)"

definition acl_permits :: "('x, 'p) env \<Rightarrow> acl_map \<Rightarrow> (string \<Rightarrow> string list) \<Rightarrow> string \<Rightarrow> string list \<Rightarrow> bool" where
  "acl_permits E acl mem caller caps \<longleftrightarrow>
     map_of acl (normalize_principal E caller) \<noteq> Some Deny \<and> map_of acl ''*'' \<noteq> Some Deny \<and>
     ((\<exists>cap \<in> set caps. check_cap E acl caller cap) \<or>
      \<not> group_denies E acl mem caller \<and> group_allows E acl mem caller caps)"

text \<open>What a resolver answers in a state it does not change; a failing resolver answers nobody.\<close>

definition answers :: "(string \<Rightarrow> ('w, string list) act) \<Rightarrow> 'w \<Rightarrow> string \<Rightarrow> string list" where
  "answers rg w g = (case fst (rg g w) of Inl _ \<Rightarrow> [] | Inr ms \<Rightarrow> ms)"

definition quiet :: "(string \<Rightarrow> ('w, string list) act) \<Rightarrow> 'w \<Rightarrow> bool" where
  "quiet rg w \<longleftrightarrow> (\<forall>g. snd (rg g w) = w)"

lemma quiet_no_groups [simp]: "quiet no_groups w"
  by (simp add: quiet_def no_groups_def)

lemma answers_no_groups [simp]: "answers no_groups w g = []"
  by (simp add: answers_def no_groups_def)

lemma in_group_eval:
  assumes "quiet rg w"
  shows "in_group E rg key n w = (Inr (\<exists>m \<in> set (answers rg w key). normalize_principal E m = n), w)"
proof -
  obtain r where "rg key w = (r, w)" using assms by (metis quiet_def surjective_pairing)
  then show ?thesis by (simp add: in_group_def and_then_def attempt_def answers_def list_ex_iff Let_def)
qed

lemma deny_groups_eval:
  assumes "quiet rg w"
  shows "\<exists>e. deny_groups E rg caller (normalize_principal E caller) acl w =
    ((if group_denies E acl (answers rg w) caller then Inl e else Inr ()), w)"
proof (induction acl)
  case Nil
  then show ?case by (simp add: group_denies_def)
next
  case (Cons p acl)
  obtain key entry where p: "p = (key, entry)" by (cases p)
  show ?case
  proof (cases "entry = Deny \<and> group_hit E (answers rg w) caller key")
    case True
    then have "group_denies E (p # acl) (answers rg w) caller" by (auto simp: p group_denies_def)
    with True show ?thesis
      by (simp add: p group_hit_def and_then_def in_group_eval [OF assms])
  next
    case False
    then have "group_denies E (p # acl) (answers rg w) caller = group_denies E acl (answers rg w) caller"
      by (auto simp: p group_denies_def)
    with False Cons.IH show ?thesis
      by (auto simp: p group_hit_def and_then_def in_group_eval [OF assms])
  qed
qed

lemma allow_groups_eval:
  assumes "quiet rg w"
  shows "allow_groups E rg (normalize_principal E caller) caps acl w =
    (Inr (group_allows E acl (answers rg w) caller caps), w)"
proof (induction acl)
  case Nil
  then show ?case by (simp add: group_allows_def)
next
  case (Cons p acl)
  obtain key entry where p: "p = (key, entry)" by (cases p)
  show ?case
  proof (cases "\<exists>cs. entry = Allow cs \<and> group_hit E (answers rg w) caller key \<and> grants caps cs")
    case True
    then have "group_allows E (p # acl) (answers rg w) caller caps" by (auto simp: p group_allows_def)
    with True show ?thesis
      by (auto simp: p group_hit_def grants_def list_ex_iff and_then_def in_group_eval [OF assms])
  next
    case False
    then have "group_allows E (p # acl) (answers rg w) caller caps = group_allows E acl (answers rg w) caller caps"
      by (auto simp: p group_allows_def)
    with False Cons.IH show ?thesis
      by (auto simp: p group_hit_def grants_def list_ex_iff and_then_def in_group_eval [OF assms]
          split: capability_entry.splits)
  qed
qed

lemma check_full_eval:
  assumes "quiet rg w"
  shows "\<exists>e. check_full E acl caller caps rg w =
    ((if acl_permits E acl (answers rg w) caller caps then Inr () else Inl e), w)"
proof -
  obtain e where d: "deny_groups E rg caller (normalize_principal E caller) acl w =
      ((if group_denies E acl (answers rg w) caller then Inl e else Inr ()), w)"
    using deny_groups_eval [OF assms] by blast
  show ?thesis
    by (simp add: check_full_def acl_permits_def denied_entry_def Let_def list_ex_iff and_then_def d
        allow_groups_eval [OF assms])
qed

lemma check_full_permits:
  "quiet rg w \<Longrightarrow> acl_permits E acl (answers rg w) caller caps \<Longrightarrow> check_full E acl caller caps rg w = (Inr (), w)"
  using check_full_eval [of rg w E acl caller caps] by auto

lemma check_full_refuses:
  "quiet rg w \<Longrightarrow> \<not> acl_permits E acl (answers rg w) caller caps \<Longrightarrow>
     \<exists>e. check_full E acl caller caps rg w = (Inl e, w)"
  using check_full_eval [of rg w E acl caller caps] by auto

lemma check_full_decides:
  assumes "quiet rg w"
  shows "(fst (check_full E acl caller caps rg w) = Inr ()) = acl_permits E acl (answers rg w) caller caps"
  using check_full_eval [OF assms, of E acl caller caps] by (auto split: if_splits)

section \<open>Groups whose look-up acts on the state\<close>

text \<open>
  The daemon's own resolver, \<open>query_actor_group\<close>, reads the clock, dispatches to the group's plugin
  and may queue an envelope, so the answers come from different states. \<open>asked rg G w w'\<close>: from
  \<open>w\<close> to \<open>w'\<close> nothing happened but calls of the resolver \<open>rg\<close> for groups in \<open>G\<close>.
\<close>

inductive asked :: "(string \<Rightarrow> ('w, string list) act) \<Rightarrow> string set \<Rightarrow> 'w \<Rightarrow> 'w \<Rightarrow> bool" for rg G where
  asked_none: "asked rg G w w"
| asked_group: "g \<in> G \<Longrightarrow> asked rg G (snd (rg g w)) w' \<Longrightarrow> asked rg G w w'"

lemma asked_trans: "asked rg G u v \<Longrightarrow> asked rg G v w \<Longrightarrow> asked rg G u w"
  by (induction rule: asked.induct) (auto intro: asked.intros)

text \<open>\<open>mem\<close> is an answer sheet of the run from \<open>w\<close> to \<open>w'\<close>: for every group, what the resolver says
  in some state between the two.\<close>

definition answer_sheet :: "(string \<Rightarrow> ('w, string list) act) \<Rightarrow> string set \<Rightarrow> 'w \<Rightarrow> 'w \<Rightarrow> (string \<Rightarrow> string list) \<Rightarrow> bool" where
  "answer_sheet rg G w w' mem \<longleftrightarrow> (\<forall>g. \<exists>u. asked rg G w u \<and> asked rg G u w' \<and> mem g = answers rg u g)"

lemma sheet_asked: "answer_sheet rg G w w' mem \<Longrightarrow> asked rg G w w'"
  unfolding answer_sheet_def by (blast intro: asked_trans)

lemma sheet_now: "asked rg G w w' \<Longrightarrow> answer_sheet rg G w w' (answers rg w)"
  unfolding answer_sheet_def by (blast intro: asked_none)

lemma sheet_step:
  assumes "g \<in> G" and "answer_sheet rg G (snd (rg g w)) w' mem"
  shows "answer_sheet rg G w w' (mem(g := answers rg w g))"
  unfolding answer_sheet_def
proof
  fix h
  have w: "asked rg G w w'" using asked_group [OF assms(1) sheet_asked [OF assms(2)]] .
  show "\<exists>u. asked rg G w u \<and> asked rg G u w' \<and> (mem(g := answers rg w g)) h = answers rg u h"
  proof (cases "h = g")
    case True
    with w show ?thesis by (auto intro: asked_none)
  next
    case False
    obtain u where "asked rg G (snd (rg g w)) u" "asked rg G u w'" "mem h = answers rg u h"
      using assms(2) unfolding answer_sheet_def by blast
    with False show ?thesis by (auto intro: asked_group [OF assms(1)])
  qed
qed

lemma sheet_split:
  assumes "answer_sheet rg G w v mem1" and "answer_sheet rg G v w' mem2"
  shows "answer_sheet rg G w w' (\<lambda>g. if Q g then mem1 g else mem2 g)"
  unfolding answer_sheet_def
proof
  fix g
  have "\<exists>u. asked rg G w u \<and> asked rg G u w' \<and> mem1 g = answers rg u g"
    using assms(1) sheet_asked [OF assms(2)] unfolding answer_sheet_def by (blast intro: asked_trans)
  moreover have "\<exists>u. asked rg G w u \<and> asked rg G u w' \<and> mem2 g = answers rg u g"
    using assms(2) sheet_asked [OF assms(1)] unfolding answer_sheet_def by (blast intro: asked_trans)
  ultimately show "\<exists>u. asked rg G w u \<and> asked rg G u w' \<and> (if Q g then mem1 g else mem2 g) = answers rg u g"
    by simp
qed

lemma group_denies_cong:
  "(\<And>key. (key, Deny) \<in> set acl \<Longrightarrow> mem key = mem' key) \<Longrightarrow> group_denies E acl mem caller = group_denies E acl mem' caller"
  by (simp add: group_denies_def group_hit_def cong: conj_cong)

lemma group_allows_cong:
  "(\<And>key cs. (key, Allow cs) \<in> set acl \<Longrightarrow> mem key = mem' key) \<Longrightarrow>
     group_allows E acl mem caller caps = group_allows E acl mem' caller caps"
  by (simp add: group_allows_def group_hit_def cong: conj_cong)

definition group_keys :: "acl_map \<Rightarrow> string set" where
  "group_keys acl = {key \<in> fst ` set acl. starts_with GROUP_PREFIX key}"

lemma in_group_run:
  "in_group E rg key n w = (Inr (\<exists>m \<in> set (answers rg w key). normalize_principal E m = n), snd (rg key w))"
  by (cases "rg key w")
    (simp add: in_group_def and_then_def attempt_def answers_def list_ex_iff Let_def)

lemma deny_groups_run:
  assumes "distinct (map fst acl)" and "group_keys acl \<subseteq> G"
    and "deny_groups E rg caller (normalize_principal E caller) acl w = (r, w')"
  shows "\<exists>mem. answer_sheet rg G w w' mem \<and> (if group_denies E acl mem caller then \<exists>e. r = Inl e else r = Inr ())"
  using assms
proof (induction acl arbitrary: w)
  case Nil
  then show ?case by (auto simp: group_denies_def intro: sheet_now asked_none)
next
  case (Cons p acl)
  obtain key entry where p: "p = (key, entry)" by (cases p)
  have fresh: "key \<notin> fst ` set acl" and tail: "distinct (map fst acl)" "group_keys acl \<subseteq> G"
    using Cons.prems(1,2) by (auto simp: p group_keys_def)
  show ?case
  proof (cases "starts_with GROUP_PREFIX key \<and> entry = Deny")
    case False
    then obtain mem where "answer_sheet rg G w w' mem"
        "if group_denies E acl mem caller then \<exists>e. r = Inl e else r = Inr ()"
      using Cons.IH [OF tail, of w] Cons.prems(3) by (auto simp: p)
    moreover have "group_denies E (p # acl) mem caller = group_denies E acl mem caller" for mem
      using False by (auto simp: p group_denies_def group_hit_def)
    ultimately show ?thesis by auto
  next
    case True
    then have G: "key \<in> G" using Cons.prems(2) by (auto simp: p group_keys_def)
    show ?thesis
    proof (cases "\<exists>m \<in> set (answers rg w key). normalize_principal E m = normalize_principal E caller")
      case member: True
      then have "group_denies E (p # acl) (answers rg w) caller" "\<exists>e. r = Inl e" "w' = snd (rg key w)"
        using True Cons.prems(3) by (auto simp: p group_denies_def group_hit_def and_then_def in_group_run)
      moreover have "answer_sheet rg G w (snd (rg key w)) (answers rg w)"
        by (rule sheet_now [OF asked_group [OF G asked_none]])
      ultimately show ?thesis by (intro exI [of _ "answers rg w"]) simp
    next
      case out: False
      then have "deny_groups E rg caller (normalize_principal E caller) acl (snd (rg key w)) = (r, w')"
        using True Cons.prems(3) by (simp add: p and_then_def in_group_run)
      then obtain mem where mem: "answer_sheet rg G (snd (rg key w)) w' mem"
          "if group_denies E acl mem caller then \<exists>e. r = Inl e else r = Inr ()"
        using Cons.IH [OF tail] by blast
      have "group_denies E (p # acl) (mem(key := answers rg w key)) caller
          = group_denies E acl (mem(key := answers rg w key)) caller"
        using out by (auto simp: p group_denies_def group_hit_def)
      also have "\<dots> = group_denies E acl mem caller"
        by (rule group_denies_cong) (use fresh in force)
      finally show ?thesis using mem sheet_step [OF G mem(1)] by auto
    qed
  qed
qed

lemma allow_groups_run:
  assumes "distinct (map fst acl)" and "group_keys acl \<subseteq> G"
    and "allow_groups E rg (normalize_principal E caller) caps acl w = (r, w')"
  shows "\<exists>mem. answer_sheet rg G w w' mem \<and> r = Inr (group_allows E acl mem caller caps)"
  using assms
proof (induction acl arbitrary: w)
  case Nil
  then show ?case by (auto simp: group_allows_def intro: sheet_now asked_none)
next
  case (Cons p acl)
  obtain key entry where p: "p = (key, entry)" by (cases p)
  have fresh: "key \<notin> fst ` set acl" and tail: "distinct (map fst acl)" "group_keys acl \<subseteq> G"
    using Cons.prems(1,2) by (auto simp: p group_keys_def)
  show ?case
  proof (cases "starts_with GROUP_PREFIX key \<and> entry \<noteq> Deny")
    case False
    then have "allow_groups E rg (normalize_principal E caller) caps acl w = (r, w')"
      using Cons.prems(3) by (cases entry; cases "starts_with GROUP_PREFIX key") (simp_all add: p)
    then obtain mem where "answer_sheet rg G w w' mem" "r = Inr (group_allows E acl mem caller caps)"
      using Cons.IH [OF tail] by blast
    moreover have "group_allows E (p # acl) mem caller caps = group_allows E acl mem caller caps" for mem
      using False by (auto simp: p group_allows_def group_hit_def)
    ultimately show ?thesis by auto
  next
    case True
    then obtain cs where cs: "entry = Allow cs" by (cases entry) auto
    have G: "key \<in> G" using True Cons.prems(2) by (auto simp: p group_keys_def)
    show ?thesis
    proof (cases "(\<exists>m \<in> set (answers rg w key). normalize_principal E m = normalize_principal E caller) \<and> grants caps cs")
      case hit: True
      then have "group_allows E (p # acl) (answers rg w) caller caps"
        using True by (auto simp: p cs group_allows_def group_hit_def)
      moreover have "r = Inr True" "w' = snd (rg key w)"
        using True hit Cons.prems(3) by (auto simp: p cs grants_def list_ex_iff and_then_def in_group_run)
      moreover have "answer_sheet rg G w (snd (rg key w)) (answers rg w)"
        by (rule sheet_now [OF asked_group [OF G asked_none]])
      ultimately show ?thesis by (intro exI [of _ "answers rg w"]) simp
    next
      case miss: False
      then have "allow_groups E rg (normalize_principal E caller) caps acl (snd (rg key w)) = (r, w')"
        using True Cons.prems(3) by (auto simp: p cs grants_def list_ex_iff and_then_def in_group_run split: if_splits)
      then obtain mem where mem: "answer_sheet rg G (snd (rg key w)) w' mem" "r = Inr (group_allows E acl mem caller caps)"
        using Cons.IH [OF tail] by blast
      have "group_allows E (p # acl) (mem(key := answers rg w key)) caller caps
          = group_allows E acl (mem(key := answers rg w key)) caller caps"
        using miss by (auto simp: p cs group_allows_def group_hit_def)
      also have "\<dots> = group_allows E acl mem caller caps"
        by (rule group_allows_cong) (use fresh in force)
      finally show ?thesis using mem sheet_step [OF G mem(1)] by auto
    qed
  qed
qed

text \<open>The two phases ask disjoint sets of groups, so one answer sheet serves both.\<close>

lemma groups_run:
  assumes ok: "hm_ok acl" and G: "group_keys acl \<subseteq> G"
    and deny: "deny_groups E rg caller (normalize_principal E caller) acl w = (Inr (), v)"
    and allow: "allow_groups E rg (normalize_principal E caller) caps acl v = (r, w')"
  shows "\<exists>mem. answer_sheet rg G w w' mem \<and> \<not> group_denies E acl mem caller \<and> r = Inr (group_allows E acl mem caller caps)"
proof -
  have d: "distinct (map fst acl)" using ok by (simp add: hm_ok_def)
  obtain mem1 where 1: "answer_sheet rg G w v mem1" "\<not> group_denies E acl mem1 caller"
    using deny_groups_run [OF d G deny] by (auto split: if_splits)
  obtain mem2 where 2: "answer_sheet rg G v w' mem2" "r = Inr (group_allows E acl mem2 caller caps)"
    using allow_groups_run [OF d G allow] by blast
  let ?mem = "\<lambda>g. if map_of acl g = Some Deny then mem1 g else mem2 g"
  have "group_denies E acl ?mem caller = group_denies E acl mem1 caller"
    by (rule group_denies_cong) (use d in auto)
  moreover have "group_allows E acl ?mem caller caps = group_allows E acl mem2 caller caps"
    by (rule group_allows_cong) (use d in auto)
  moreover have "answer_sheet rg G w w' ?mem" by (rule sheet_split [OF 1(1) 2(1)])
  ultimately show ?thesis using 1 2 by (intro exI [of _ ?mem]) simp
qed

lemma check_full_run:
  assumes ok: "hm_ok acl" and run: "check_full E acl caller caps rg w = (r, w')"
  shows "\<exists>mem. answer_sheet rg (group_keys acl) w w' mem \<and> (r = Inr () \<longleftrightarrow> acl_permits E acl mem caller caps)"
proof (cases "denied_entry acl (normalize_principal E caller) \<or> denied_entry acl ''*'' \<or>
    (\<exists>cap \<in> set caps. check_cap E acl caller cap)")
  case True
  then have "w' = w" "r = Inr () \<longleftrightarrow> acl_permits E acl (answers rg w) caller caps"
    using run by (auto simp: check_full_def acl_permits_def denied_entry_def list_ex_iff Let_def split: if_splits)
  moreover have "answer_sheet rg (group_keys acl) w w (answers rg w)" by (intro sheet_now asked_none)
  ultimately show ?thesis by (intro exI [of _ "answers rg w"]) simp
next
  case False
  let ?n = "normalize_principal E caller"
  have permits: "acl_permits E acl mem caller caps \<longleftrightarrow> \<not> group_denies E acl mem caller \<and> group_allows E acl mem caller caps"
    for mem using False by (auto simp: acl_permits_def denied_entry_def)
  have groups: "and_then (deny_groups E rg caller ?n acl) (\<lambda>_. and_then (allow_groups E rg ?n caps acl) (\<lambda>allowed.
      if allowed then ret () else fail (Error (''access denied for '' @ caller @ '': none of '' @ debug_strings E caps @
        '' permitted'')))) w = (r, w')"
    using run False by (auto simp: check_full_def denied_entry_def list_ex_iff Let_def)
  obtain r1 v where d: "deny_groups E rg caller ?n acl w = (r1, v)" by fastforce
  show ?thesis
  proof (cases r1)
    case (Inl e)
    then have "r = Inl e" "w' = v" using groups by (simp_all add: and_then_def d)
    then show ?thesis
      using deny_groups_run [OF _ order_refl d] ok Inl by (auto simp: permits hm_ok_def split: if_splits)
  next
    case (Inr u)
    obtain r2 v2 where a: "allow_groups E rg ?n caps acl v = (r2, v2)" by fastforce
    have "deny_groups E rg caller ?n acl w = (Inr (), v)" using d Inr by simp
    from groups_run [OF ok order_refl this a] obtain mem
      where "answer_sheet rg (group_keys acl) w v2 mem" "\<not> group_denies E acl mem caller"
        "r2 = Inr (group_allows E acl mem caller caps)" by blast
    then show ?thesis using groups Inr
      by (auto simp: and_then_def d a permits intro!: exI [of _ mem] split: if_splits)
  qed
qed

text \<open>C8: \<open>check_full\<close> implements its specification on every access list (a hash map: no key twice)
  and for every group resolver, one that fails or acts on the state included: it succeeds exactly when \<open>acl_permits\<close> holds of an answer sheet of the
  run, an error otherwise, and the only thing that happens to the state is that the resolver is
  called for group entries of the list. The order is the code's: a denied own or wildcard entry
  refuses, then a direct or wildcard grant of a capability admits, and in both cases no group is
  asked and the state is unchanged; only then do the denied groups refuse and the allowed groups
  admit, so a denied group does not stop a caller with a direct or wildcard grant.\<close>

theorem check_full_refines_spec:
  assumes "hm_ok acl" and "check_full E acl caller caps rg w = (r, w')"
  shows "(\<exists>mem. answer_sheet rg (group_keys acl) w w' mem \<and> (r = Inr () \<longleftrightarrow> acl_permits E acl mem caller caps)) \<and>
    (map_of acl (normalize_principal E caller) = Some Deny \<or> map_of acl ''*'' = Some Deny \<longrightarrow>
       (\<exists>e. r = Inl e) \<and> w' = w) \<and>
    (map_of acl (normalize_principal E caller) \<noteq> Some Deny \<and> map_of acl ''*'' \<noteq> Some Deny \<and>
     (\<exists>cap \<in> set caps. check_cap E acl caller cap) \<longrightarrow> r = Inr () \<and> w' = w)"
proof (intro conjI)
  show "\<exists>mem. answer_sheet rg (group_keys acl) w w' mem \<and> (r = Inr () \<longleftrightarrow> acl_permits E acl mem caller caps)"
    using check_full_run [OF assms] .
qed (use assms(2) in \<open>auto simp: check_full_def denied_entry_def list_ex_iff Let_def split: if_splits\<close>)

lemma acl_permits_order:
  assumes "hm_ok acl" and "mset acl = mset acl'"
    and "\<And>caller cap. check_cap E acl caller cap = check_cap E acl' caller cap"
  shows "acl_permits E acl mem caller caps = acl_permits E acl' mem caller caps"
proof -
  have "set acl = set acl'" using assms(2) by (rule mset_eq_setD)
  moreover have "map_of acl = map_of acl'"
  proof
    fix k
    have "distinct (map fst acl')" using assms(1,2)
      by (metis hm_ok_def mset_eq_imp_distinct_iff mset_map)
    then show "map_of acl k = map_of acl' k"
      using assms(1) \<open>set acl = set acl'\<close> by (metis hm_ok_def map_of_inject_set)
  qed
  ultimately show ?thesis
    using assms(3) by (simp add: acl_permits_def group_denies_def group_allows_def)
qed

text \<open>The decision does not depend on the order in which the hash map of the access list is
  iterated: two enumerations of the same entries decide alike.\<close>

lemma check_full_order_independent:
  assumes "hm_ok acl" and "mset acl = mset acl'" and "quiet rg w"
    and "\<And>caller cap. check_cap E acl caller cap = check_cap E acl' caller cap"
  shows "(fst (check_full E acl caller caps rg w) = Inr ()) = (fst (check_full E acl' caller caps rg w) = Inr ())"
  by (simp only: check_full_decides [OF assms(3)] acl_permits_order [OF assms(1,2,4)])

text \<open>A capability granted to the caller is decided before any group is looked at: for every
  resolver, failing or stateful, the check succeeds without calling it, so a denied group that has
  the caller as a member does not stop a caller with a direct or wildcard grant.\<close>

lemma check_full_grant_before_groups:
  assumes "map_of acl (normalize_principal E caller) \<noteq> Some Deny" and "map_of acl ''*'' \<noteq> Some Deny"
    and "cap \<in> set caps" and "check_cap E acl caller cap"
  shows "check_full E acl caller caps rg = ret ()"
  using assms by (auto simp: check_full_def denied_entry_def Let_def list_ex_iff)

text \<open>At the transport gates, where no group is resolved, the check admits exactly a caller
  that is denied neither by its own entry nor by the wildcard and has the capability.\<close>

lemma transport_gate_decision:
  "fst (check_full E acl caller [cap] no_groups w) = Inr () \<longleftrightarrow>
     map_of acl (normalize_principal E caller) \<noteq> Some Deny \<and> map_of acl ''*'' \<noteq> Some Deny \<and>
     check_cap E acl caller cap"
  by (simp add: check_full_decides acl_permits_def group_allows_def group_hit_def)

text \<open>A loaded list always has the owners entry, whatever the stored document says of it.\<close>

lemma load_acl_owners:
  "load_acl_from_cid E url cid x = (Inr acl, x') \<Longrightarrow> map_of acl OWNERS_PRINCIPAL = Some (Allow [''*''])"
  by (auto simp: load_acl_from_cid_def and_then_ok inject_owners_def ret_def)

lemma load_acl_stored:
  assumes "kubo_ok E blocks" and "blocks x cid = Some j" and "acl_of_json E j = Some acl"
  obtains x' where "load_acl_from_cid E url cid x = (Inr (inject_owners acl), x')" "blocks x' = blocks x"
proof -
  obtain x' where "dag_get E (acl_of_json E) url cid x = (Inr acl, x')" "blocks x' = blocks x"
    using kubo_ok_get [where dec = "acl_of_json E", OF assms] .
  then show ?thesis
    using that by (simp add: load_acl_from_cid_def and_then_Inr with_context_Inr)
qed

end
