(* ===== verification/Wire.thy ===== *)
theory Wire
  imports Env
begin

text \<open>
  The CBOR form of the values that cross the boundary between the runtime and its plugins, and of
  message payloads: what serde derives for the message types of \<open>src/src/entity.rs\<close>, the \<open>init\<close>
  payload and the host-function inputs of \<open>src/src/plugin.rs\<close>, and the helpers that build and
  take apart terms. Encoders give a value of type \<open>cbor\<close>; turning it into bytes is \<open>cbor_encode\<close>
  of \<open>env\<close>. Structs are CBOR maps with text keys (serde's positional array form is not modelled).
\<close>

section \<open>Field access\<close>

text \<open>Typed decoding looks through tags, as \<open>ciborium\<close> does.\<close>

fun untag :: "cbor \<Rightarrow> cbor" where
  "untag (CTag _ v) = untag v"
| "untag v = v"

fun c_text :: "cbor \<Rightarrow> string option" where
  "c_text (CText s) = Some s"
| "c_text (CTag _ v) = c_text v"
| "c_text _ = None"

fun c_u64 :: "cbor \<Rightarrow> u64 option" where
  "c_u64 (CInteger i) = u64_try_from i"
| "c_u64 (CTag _ v) = c_u64 v"
| "c_u64 _ = None"

fun c_u8 :: "cbor \<Rightarrow> 8 word option" where
  "c_u8 (CInteger i) = (if 0 \<le> i \<and> i < 256 then Some (word_of_int i) else None)"
| "c_u8 (CTag _ v) = c_u8 v"
| "c_u8 _ = None"

fun c_bytes :: "cbor \<Rightarrow> bytes option" where
  "c_bytes (CBytes b) = Some b"
| "c_bytes (CArray xs) = all_some (map c_u8 xs)"
| "c_bytes (CTag _ v) = c_bytes v"
| "c_bytes _ = None"

fun c_struct :: "cbor \<Rightarrow> (cbor \<times> cbor) list option" where
  "c_struct (CMap fs) = Some fs"
| "c_struct (CTag _ v) = c_struct v"
| "c_struct _ = None"

definition c_field :: "(cbor \<times> cbor) list \<Rightarrow> string \<Rightarrow> (cbor \<Rightarrow> 'a option) \<Rightarrow> 'a option" where
  "c_field fs key dec = Option.bind (map_of fs (CText key)) dec"

definition c_default :: "(cbor \<times> cbor) list \<Rightarrow> string \<Rightarrow> 'a \<Rightarrow> (cbor \<Rightarrow> 'a option) \<Rightarrow> 'a option" where
  "c_default fs key d dec = (case map_of fs (CText key) of None \<Rightarrow> Some d | Some v \<Rightarrow> dec v)"

definition c_option :: "(cbor \<times> cbor) list \<Rightarrow> string \<Rightarrow> (cbor \<Rightarrow> 'a option) \<Rightarrow> 'a option option" where
  "c_option fs key dec =
     (case map_of fs (CText key) of
        None \<Rightarrow> Some None
      | Some v \<Rightarrow> if v = CNull then Some None else map_option Some (dec v))"

definition opt_cbor :: "('a \<Rightarrow> cbor) \<Rightarrow> 'a option \<Rightarrow> cbor" where
  "opt_cbor enc x = (case x of None \<Rightarrow> CNull | Some a \<Rightarrow> enc a)"

definition c_u64_value :: "u64 \<Rightarrow> cbor" where
  "c_u64_value n = CInteger (uint n)"

section \<open>Messages\<close>

definition cbor_of_local_message :: "local_message \<Rightarrow> cbor" where
  "cbor_of_local_message m = CMap
     [(CText ''id'', CText (lm_id m)),
      (CText ''from'', CText (lm_from m)),
      (CText ''to'', CText (lm_to m)),
      (CText ''created_at'', c_u64_value (lm_created_at m)),
      (CText ''expires'', c_u64_value (lm_expires m)),
      (CText ''reply_to'', opt_cbor CText (lm_reply_to m)),
      (CText ''content_type'', CText (lm_content_type m)),
      (CText ''content'', CBytes (lm_content m))]"

definition local_message_of_cbor :: "cbor \<Rightarrow> local_message option" where
  "local_message_of_cbor v = do {
     fs \<leftarrow> c_struct v;
     i \<leftarrow> c_field fs ''id'' c_text;
     from \<leftarrow> c_field fs ''from'' c_text;
     to \<leftarrow> c_field fs ''to'' c_text;
     created \<leftarrow> c_field fs ''created_at'' c_u64;
     expires \<leftarrow> c_field fs ''expires'' c_u64;
     reply \<leftarrow> c_option fs ''reply_to'' c_text;
     ct \<leftarrow> c_field fs ''content_type'' c_text;
     content \<leftarrow> c_field fs ''content'' c_bytes;
     Some \<lparr>lm_id = i, lm_from = from, lm_to = to, lm_created_at = created, lm_expires = expires,
           lm_reply_to = reply, lm_content_type = ct, lm_content = content\<rparr>
   }"

definition cbor_of_cast_input :: "cast_input \<Rightarrow> cbor" where
  "cbor_of_cast_input i = CMap [(CText ''msg'', cbor_of_local_message (ci_msg i))]"

definition cast_input_of_cbor :: "cbor \<Rightarrow> cast_input option" where
  "cast_input_of_cbor v = do {
     fs \<leftarrow> c_struct v;
     m \<leftarrow> c_field fs ''msg'' local_message_of_cbor;
     Some \<lparr>ci_msg = m\<rparr>
   }"

definition cbor_of_reply_request :: "reply_request \<Rightarrow> cbor" where
  "cbor_of_reply_request r = CMap
     [(CText ''msg'', cbor_of_local_message (rr_msg r)),
      (CText ''content_type'', CText (rr_content_type r)),
      (CText ''content'', CBytes (rr_content r))]"

definition reply_request_of_cbor :: "cbor \<Rightarrow> reply_request option" where
  "reply_request_of_cbor v = do {
     fs \<leftarrow> c_struct v;
     m \<leftarrow> c_field fs ''msg'' local_message_of_cbor;
     ct \<leftarrow> c_field fs ''content_type'' c_text;
     content \<leftarrow> c_field fs ''content'' c_bytes;
     Some \<lparr>rr_msg = m, rr_content_type = ct, rr_content = content\<rparr>
   }"

definition cbor_of_send_envelope :: "send_envelope \<Rightarrow> cbor" where
  "cbor_of_send_envelope e = CMap
     [(CText ''to'', CText (se_to e)),
      (CText ''content_type'', CText (se_content_type e)),
      (CText ''content'', CBytes (se_content e)),
      (CText ''reply_to'', opt_cbor CText (se_reply_to e))]"

definition send_envelope_of_cbor :: "cbor \<Rightarrow> send_envelope option" where
  "send_envelope_of_cbor v = do {
     fs \<leftarrow> c_struct v;
     to \<leftarrow> c_field fs ''to'' c_text;
     ct \<leftarrow> c_field fs ''content_type'' c_text;
     content \<leftarrow> c_field fs ''content'' c_bytes;
     reply \<leftarrow> c_option fs ''reply_to'' c_text;
     Some \<lparr>se_to = to, se_content_type = ct, se_content = content, se_reply_to = reply\<rparr>
   }"

section \<open>The \<open>init\<close> payload and entity creation\<close>

definition cbor_of_entity_ctx :: "entity_ctx \<Rightarrow> cbor" where
  "cbor_of_entity_ctx c = CMap
     ([(CText ''self'', CText (ec_self_did c)),
       (CText ''fragment'', CText (ec_fragment c)),
       (CText ''kind'', CText (ec_kind c))] @
      (case ec_parent c of None \<Rightarrow> [] | Some p \<Rightarrow> [(CText ''parent'', CText p)]) @
      [(CText ''lifecycle'', CText (lifecycle_str (ec_lifecycle c)))])"

record init_payload =
  ip_ctx :: entity_ctx
  ip_state :: bytes

definition cbor_of_init_payload :: "init_payload \<Rightarrow> cbor" where
  "cbor_of_init_payload p = CMap
     ([(CText ''ctx'', cbor_of_entity_ctx (ip_ctx p))] @
      (if ip_state p = [] then [] else [(CText ''state'', CBytes (ip_state p))]))"

record create_entity_input =
  ci_kind :: string
  ci_behaviour :: string

definition create_entity_input_of_cbor :: "cbor \<Rightarrow> create_entity_input option" where
  "create_entity_input_of_cbor v = do {
     fs \<leftarrow> c_struct v;
     kind \<leftarrow> c_field fs ''kind'' c_text;
     behaviour \<leftarrow> c_field fs ''behaviour'' c_text;
     Some \<lparr>ci_kind = kind, ci_behaviour = behaviour\<rparr>
   }"

section \<open>Bytes\<close>

definition from_cbor_bytes :: "('x, 'p) env \<Rightarrow> (cbor \<Rightarrow> 'a option) \<Rightarrow> bytes \<Rightarrow> ('w, 'a) act" where
  "from_cbor_bytes E dec b = ok_or (Error ''CBOR decode error'') (Option.bind (cbor_decode E b) dec)"

section \<open>Round trips\<close>

lemma c_u64_c_u64_value [simp]: "c_u64 (c_u64_value n) = Some n"
  using uint_lt2p [of n] by (simp add: c_u64_value_def u64_try_from_def)

lemmas wire_field_defs = c_field_def c_option_def c_default_def opt_cbor_def

lemma local_message_roundtrip [simp]: "local_message_of_cbor (cbor_of_local_message m) = Some m"
  by (simp add: local_message_of_cbor_def cbor_of_local_message_def wire_field_defs split: option.split)

lemma cast_input_roundtrip [simp]: "cast_input_of_cbor (cbor_of_cast_input i) = Some i"
  by (simp add: cast_input_of_cbor_def cbor_of_cast_input_def wire_field_defs)

lemma reply_request_roundtrip [simp]: "reply_request_of_cbor (cbor_of_reply_request r) = Some r"
  by (simp add: reply_request_of_cbor_def cbor_of_reply_request_def wire_field_defs)

lemma send_envelope_roundtrip [simp]: "send_envelope_of_cbor (cbor_of_send_envelope e) = Some e"
  by (simp add: send_envelope_of_cbor_def cbor_of_send_envelope_def wire_field_defs split: option.split)

text \<open>What a plugin reads of a dispatch is the message the runtime encoded, and what the
  runtime reads of a reply request or an outbound envelope is the one the plugin encoded: the CBOR
  forms of all four message types decode to the value they were made from.\<close>

lemma wire_roundtrip:
  "local_message_of_cbor (cbor_of_local_message m) = Some m \<and>
   cast_input_of_cbor (cbor_of_cast_input i) = Some i \<and>
   reply_request_of_cbor (cbor_of_reply_request r) = Some r \<and>
   send_envelope_of_cbor (cbor_of_send_envelope e) = Some e"
  by simp

end
