(* ===== verification/Plugin.thy ===== *)
theory Plugin
  imports Wire "HOL-Library.Sublist"
begin

text \<open>
  Entity plugins, \<open>src/src/plugin.rs\<close>: the host functions a plugin may call, the state and queue
  contexts behind them, loading, dispatch, and saving. A WebAssembly instance is the memory \<open>'p\<close>
  with the runs \<open>wasm_call\<close> gives for its exports; \<open>run_wasm\<close> carries a run out against the host
  functions the instance was linked with. Operations act on a plugin together with \<open>'x io\<close>: the
  outside world, the envelope channel to the main loop, and the tasks a native entity spawned.
\<close>

section \<open>State\<close>

datatype schedule_request =
    Cron string bytes
  | Interval u64 bytes
  | At i64 bytes
  | Random u64 bytes

record spawned =
  sp_fragment :: string
  sp_request :: schedule_request

record 'x io =
  io_out :: 'x
  io_queue :: "(string \<times> send_envelope) list"
  io_spawned :: "spawned list"

record state_ctx =
  sc_pending :: "bytes option"
  sc_persisted :: "bytes option"
  sc_dirty :: bool

definition state_ctx_new :: "bytes \<Rightarrow> state_ctx" where
  "state_ctx_new persisted = \<lparr>sc_pending = None, sc_persisted = Some persisted, sc_dirty = False\<rparr>"

record dispatch_result =
  dr_output :: bytes
  dr_pending_state :: "bytes option"
  dr_create_requests :: "create_entity_request list"
  dr_delete_requests :: "string list"

type_synonym native_dispatch = "cast_input \<Rightarrow> dispatch_result res \<times> spawned list"

text \<open>The Extism backend: instance memory, linked host functions, and the three shared contexts.\<close>

record 'p extism =
  xt_mem :: 'p
  xt_fns :: "host_fn list"
  xt_state :: state_ctx
  xt_create :: "create_entity_request list"
  xt_delete :: "string list"

datatype 'p entity_backend = Extism "'p extism" | Native native_dispatch

record 'p entity_plugin =
  ep_fragment :: string
  ep_kind :: plugin_kind
  ep_acl :: string
  ep_parent :: "string option"
  ep_backend :: "'p entity_backend"

type_synonym ('x, 'p) inst = "'p extism \<times> 'x io"

abbreviation outside :: "('x, 'a) act \<Rightarrow> ('x io, 'a) act" where
  "outside \<equiv> zoom io_out (\<lambda>x w. w\<lparr>io_out := x\<rparr>)"

abbreviation world :: "('x io, 'a) act \<Rightarrow> ('s \<times> 'x io, 'a) act" where
  "world \<equiv> zoom snd (\<lambda>io w. (fst w, io))"

section \<open>Host functions\<close>

definition ALPHABET :: string where
  "ALPHABET = ''0123456789abcdefghijklmnopqrstuvwxyzABCDEFGHIJKLMNOPQRSTUVWXYZ''"

fun gen_chars :: "('x, 'p) env \<Rightarrow> nat \<Rightarrow> ('x, string) act" where
  "gen_chars E 0 x = (Inr [], x)"
| "gen_chars E (Suc n) x =
     (case gen_range E 0 (length ALPHABET) x of (i, x') \<Rightarrow>
        and_then (gen_chars E n) (\<lambda>cs. ret (ALPHABET ! i # cs)) x')"

definition generate_fragment :: "('x, 'p) env \<Rightarrow> ('x, string) act" where
  "generate_fragment E = gen_chars E 8"

definition send_tx :: "string \<Rightarrow> send_envelope \<Rightarrow> ('x, 'p) inst \<Rightarrow> ('x, 'p) inst" where
  "send_tx fragment env w = (fst w, (snd w)\<lparr>io_queue := io_queue (snd w) @ [(fragment, env)]\<rparr>)"

definition ma_send_fn :: "('x, 'p) env \<Rightarrow> string \<Rightarrow> bytes \<Rightarrow> (('x, 'p) inst, bytes) act" where
  "ma_send_fn E fragment input =
     and_then (from_cbor_bytes E send_envelope_of_cbor input) (\<lambda>envelope.
     and_then (modify (send_tx fragment envelope)) (\<lambda>_. ret []))"

definition ma_reply_fn :: "('x, 'p) env \<Rightarrow> string \<Rightarrow> bytes \<Rightarrow> (('x, 'p) inst, bytes) act" where
  "ma_reply_fn E fragment input =
     and_then (from_cbor_bytes E reply_request_of_cbor input) (\<lambda>req.
     and_then (modify (send_tx fragment
        \<lparr>se_to = lm_from (rr_msg req), se_content_type = rr_content_type req,
         se_content = rr_content req, se_reply_to = Some (lm_id (rr_msg req))\<rparr>)) (\<lambda>_. ret []))"

definition set_state :: "bytes \<Rightarrow> state_ctx \<Rightarrow> state_ctx" where
  "set_state input ctx =
     (if sc_persisted ctx \<noteq> Some input then ctx\<lparr>sc_pending := Some input, sc_dirty := True\<rparr> else ctx)"

definition ma_set_state_fn :: "bytes \<Rightarrow> (('x, 'p) inst, bytes) act" where
  "ma_set_state_fn input =
     and_then (modify (\<lambda>w. ((fst w)\<lparr>xt_state := set_state input (xt_state (fst w))\<rparr>, snd w))) (\<lambda>_. ret [])"

definition ma_create_entity_fn :: "('x, 'p) env \<Rightarrow> string \<Rightarrow> bytes \<Rightarrow> (('x, 'p) inst, bytes) act" where
  "ma_create_entity_fn E caller_fragment input =
     and_then (from_cbor_bytes E create_entity_input_of_cbor input) (\<lambda>req.
     and_then (world (outside (generate_fragment E))) (\<lambda>fragment.
     and_then (modify (\<lambda>w. ((fst w)\<lparr>xt_create := xt_create (fst w) @
        [\<lparr>cr_fragment = fragment, cr_kind_protocol = ci_kind req, cr_behaviour_cid = ci_behaviour req,
          cr_parent = caller_fragment\<rparr>]\<rparr>, snd w))) (\<lambda>_.
     encode_or E ''ma_create_entity: CBOR encode'' (CText fragment))))"

definition ma_delete_entity_fn :: "('x, 'p) env \<Rightarrow> bytes \<Rightarrow> (('x, 'p) inst, bytes) act" where
  "ma_delete_entity_fn E input =
     and_then (from_cbor_bytes E c_text input) (\<lambda>target.
     and_then (modify (\<lambda>w. ((fst w)\<lparr>xt_delete := xt_delete (fst w) @ [target]\<rparr>, snd w))) (\<lambda>_.
     encode_or E ''ma_delete_entity: CBOR encode'' (CText '':queued'')))"

text \<open>A host function that was not linked cannot be reached; the call is an error.\<close>

definition host_call :: "('x, 'p) env \<Rightarrow> string \<Rightarrow> host_fn \<Rightarrow> bytes \<Rightarrow> (('x, 'p) inst, bytes) act" where
  "host_call E fragment f input = (\<lambda>w.
     (if f \<notin> set (xt_fns (fst w)) then fail (Error ''host function not linked'')
      else case f of
        Ma_send \<Rightarrow> ma_send_fn E fragment input
      | Ma_reply \<Rightarrow> ma_reply_fn E fragment input
      | Ma_set_state \<Rightarrow> ma_set_state_fn input
      | Ma_create_entity \<Rightarrow> ma_create_entity_fn E fragment input
      | Ma_delete_entity \<Rightarrow> ma_delete_entity_fn E input) w)"

section \<open>Running an export\<close>

definition set_mem :: "'p \<Rightarrow> ('x, 'p) inst \<Rightarrow> ('x, 'p) inst" where
  "set_mem p w = ((fst w)\<lparr>xt_mem := p\<rparr>, snd w)"

primrec run_wasm :: "('x, 'p) env \<Rightarrow> string \<Rightarrow> 'p wasm_run \<Rightarrow> (('x, 'p) inst, bytes) act" where
  "run_wasm E fragment (Wasm_ret out p) = (\<lambda>w. (Inr out, set_mem p w))"
| "run_wasm E fragment (Wasm_trap p) = (\<lambda>w. (Inl (Error ''wasm trap''), set_mem p w))"
| "run_wasm E fragment (Wasm_host f b p k) =
     (\<lambda>w. case host_call E fragment f b (set_mem p w) of
        (Inl e, w') \<Rightarrow> (Inl e, w')
      | (Inr out, w') \<Rightarrow> run_wasm E fragment (k out) w')"

definition quoted :: "string \<Rightarrow> string" where
  "quoted s = CHR 0x27 # s @ [CHR 0x27]"

definition plugin_call :: "('x, 'p) env \<Rightarrow> string \<Rightarrow> string \<Rightarrow> bytes \<Rightarrow> (('x, 'p) inst, bytes) act" where
  "plugin_call E fragment export input = (\<lambda>w.
     case run_wasm E fragment (wasm_call E export input (xt_mem (fst w))) w of
       (Inl e, w') \<Rightarrow> (Inl (Error (export @ ''() failed for '' @ quoted fragment @ '': '' @ display e)), w')
     | (Inr out, w') \<Rightarrow> (Inr out, w'))"

section \<open>Native plugins and loading\<close>

definition new_native :: "string \<Rightarrow> entity_node \<Rightarrow> native_dispatch \<Rightarrow> 'p entity_plugin \<times> lifecycle" where
  "new_native fragment node handler =
     (\<lparr>ep_fragment = fragment, ep_kind = Stateless, ep_acl = en_acl node, ep_parent = en_parent node,
       ep_backend = Native handler\<rparr>, Running)"

fun is_native :: "'p entity_backend \<Rightarrow> bool" where
  "is_native (Native _) = True"
| "is_native (Extism _) = False"

definition all_fns :: "(string \<times> host_fn) list" where
  "all_fns = [(''ma_send'', Ma_send), (''ma_reply'', Ma_reply), (''ma_set_state'', Ma_set_state),
     (''ma_create_entity'', Ma_create_entity), (''ma_delete_entity'', Ma_delete_entity)]"

definition linked_fns :: "kind_node \<Rightarrow> (string \<times> host_fn) list" where
  "linked_fns kind_node = filter (\<lambda>e. fst e \<in> set (kn_host_functions kind_node)) all_fns"

text \<open>The lifecycle an \<open>init\<close> answer stands for; an answer that does not decode counts as running.\<close>

definition lifecycle_of_init :: "cbor option \<Rightarrow> lifecycle" where
  "lifecycle_of_init v =
     (case v of
        Some (CText s) \<Rightarrow> Running
      | Some (CArray (CText s # _)) \<Rightarrow> if s = '':error'' then LError else Running
      | _ \<Rightarrow> Running)"

definition init_call :: "('x, 'p) env \<Rightarrow> string \<Rightarrow> entity_ctx \<Rightarrow> bytes \<Rightarrow> (('x, 'p) inst, lifecycle) act" where
  "init_call E fragment ctx init_state =
     and_then (encode_or E ''encoding init payload'' (cbor_of_init_payload \<lparr>ip_ctx = ctx, ip_state = init_state\<rparr>))
       (\<lambda>init_bytes.
     and_then (plugin_call E fragment ''init'' init_bytes) (\<lambda>init_result.
       ret (lifecycle_of_init (cbor_decode E init_result))))"

definition load_state :: "('x, 'p) env \<Rightarrow> string \<Rightarrow> plugin_kind \<Rightarrow> entity_node \<Rightarrow> ('x io, bytes) act" where
  "load_state E kubo_url kind node =
     (if kind = Stateful then
        (case en_state node of
           Some link \<Rightarrow> and_then (attempt (outside (cat_bytes E kubo_url (link_cid link))))
             (\<lambda>r. ret (case r of Inl _ \<Rightarrow> [] | Inr b \<Rightarrow> b))
         | None \<Rightarrow> ret [])
      else ret [])"

text \<open>The \<open>Debug\<close> form of an evaluator.\<close>

fun evaluator_debug :: "evaluator \<Rightarrow> string" where
  "evaluator_debug EExtism = ''Extism''"
| "evaluator_debug ENative = ''Native''"
| "evaluator_debug EBash = ''Bash''"
| "evaluator_debug ELua = ''Lua''"

definition ctx_for_init :: "string \<Rightarrow> string \<Rightarrow> entity_node \<Rightarrow> entity_ctx" where
  "ctx_for_init our_did fragment node =
     \<lparr>ec_self_did = our_did @ ''#'' @ fragment, ec_fragment = fragment, ec_kind = en_kind node,
      ec_parent = en_parent node, ec_lifecycle = en_lifecycle node\<rparr>"

text \<open>The second half of \<open>load\<close>: a fresh instance, \<open>init\<close> when the kind declares it, the plugin.\<close>

definition start_instance :: "('x, 'p) env \<Rightarrow> string \<Rightarrow> entity_node \<Rightarrow> kind_node \<Rightarrow> string \<Rightarrow> bytes \<Rightarrow> 'p \<Rightarrow>
    ('x io, 'p entity_plugin \<times> lifecycle) act" where
  "start_instance E fragment node kind_node our_did init_state mem = (\<lambda>io.
     let xt = \<lparr>xt_mem = mem, xt_fns = map snd (linked_fns kind_node), xt_state = state_ctx_new init_state,
               xt_create = [], xt_delete = []\<rparr>
     in case (if ''init'' \<in> set (kn_api kind_node)
              then init_call E fragment (ctx_for_init our_did fragment node) init_state
              else ret Running) (xt, io) of
          (Inl e, (_, io')) \<Rightarrow> (Inl e, io')
        | (Inr lifecycle, (xt', io')) \<Rightarrow>
            (Inr (\<lparr>ep_fragment = fragment, ep_kind = kn_plugin_kind kind_node, ep_acl = en_acl node,
                   ep_parent = en_parent node, ep_backend = Extism xt'\<rparr>, lifecycle), io'))"

definition load :: "('x, 'p) env \<Rightarrow> string \<Rightarrow> entity_node \<Rightarrow> kind_node \<Rightarrow> string \<Rightarrow> string \<Rightarrow>
    ('x io, 'p entity_plugin \<times> lifecycle) act" where
  "load E fragment node kind_node our_did kubo_url =
     (let kind = kn_plugin_kind kind_node; wasi = kn_wasi kind_node in
      if kn_evaluator kind_node = ENative then
        fail (Error (''entity '' @ quoted fragment @
          '' has evaluator '' @ quoted ''native'' @ '': use EntityPlugin::new_native() instead of load()''))
      else if kn_evaluator kind_node \<noteq> EExtism then
        fail (Error (''unsupported evaluator '' @ evaluator_debug (kn_evaluator kind_node) @ '' for '' @ quoted fragment))
      else case en_behaviour node of
        None \<Rightarrow> fail (Error (''entity '' @ quoted fragment @ '' has evaluator '' @ quoted ''extism'' @ '' but no behaviour CID''))
      | Some behaviour \<Rightarrow>
          and_then (with_context (''fetching wasm for '' @ quoted fragment @ '' from '' @ link_cid behaviour)
              (outside (cat_bytes E kubo_url (link_cid behaviour)))) (\<lambda>wasm_bytes.
          and_then (load_state E kubo_url kind node) (\<lambda>init_state.
          and_then (map_err (\<lambda>e. Error (''failed to create extism plugin for '' @ quoted fragment @ '': '' @ display e))
              (outside (wasm_new E wasm_bytes (map fst (linked_fns kind_node)) wasi))) (\<lambda>mem.
          start_instance E fragment node kind_node our_did init_state mem))))"

section \<open>Dispatch\<close>

type_synonym ('x, 'p) plug = "'p entity_plugin \<times> 'x io"

text \<open>\<open>pending.take()\<close> and the two \<open>drain(..)\<close> calls after a successful export.\<close>

definition collect :: "bytes \<Rightarrow> 'p extism \<Rightarrow> dispatch_result \<times> 'p extism" where
  "collect output xt =
     (\<lparr>dr_output = output, dr_pending_state = sc_pending (xt_state xt),
       dr_create_requests = xt_create xt, dr_delete_requests = xt_delete xt\<rparr>,
      xt\<lparr>xt_state := (xt_state xt)\<lparr>sc_pending := None\<rparr>, xt_create := [], xt_delete := []\<rparr>)"

definition dispatch_to :: "('x, 'p) env \<Rightarrow> string \<Rightarrow> cast_input \<Rightarrow> (('x, 'p) plug, dispatch_result) act" where
  "dispatch_to E export input = (\<lambda>(ep, io).
     case ep_backend ep of
       Native f \<Rightarrow> (case f input of (r, spawns) \<Rightarrow> (r, (ep, io\<lparr>io_spawned := io_spawned io @ spawns\<rparr>)))
     | Extism xt \<Rightarrow>
         (case and_then (encode_or E ''failed to CBOR-encode CastInput'' (cbor_of_cast_input input))
             (plugin_call E (ep_fragment ep) export) (xt, io) of
            (Inl e, (xt', io')) \<Rightarrow> (Inl e, (ep\<lparr>ep_backend := Extism xt'\<rparr>, io'))
          | (Inr output, (xt', io')) \<Rightarrow>
              (case collect output xt' of (result, xt'') \<Rightarrow>
                 (Inr result, (ep\<lparr>ep_backend := Extism xt''\<rparr>, io')))))"

definition handle_cast :: "('x, 'p) env \<Rightarrow> cast_input \<Rightarrow> (('x, 'p) plug, dispatch_result) act" where
  "handle_cast E input = dispatch_to E ''handle_cast'' input"

definition handle_call :: "('x, 'p) env \<Rightarrow> cast_input \<Rightarrow> (('x, 'p) plug, dispatch_result) act" where
  "handle_call E input = dispatch_to E ''handle_call'' input"

definition mark_saved :: "bytes \<Rightarrow> 'p entity_plugin \<Rightarrow> 'p entity_plugin" where
  "mark_saved saved_bytes ep =
     (case ep_backend ep of
        Native _ \<Rightarrow> ep
      | Extism xt \<Rightarrow> ep\<lparr>ep_backend := Extism
          (xt\<lparr>xt_state := (xt_state xt)\<lparr>sc_persisted := Some saved_bytes, sc_dirty := False\<rparr>\<rparr>)\<rparr>)"

definition trigger_save :: "('x, 'p) env \<Rightarrow> string \<Rightarrow> (('x, 'p) plug, string option) act" where
  "trigger_save E kubo_url = (\<lambda>(ep, io).
     case ep_backend ep of
       Native _ \<Rightarrow> (Inr None, (ep, io))
     | Extism xt \<Rightarrow>
         (case plugin_call E (ep_fragment ep) ''save_state'' [] (xt, io) of
            (Inl e, (xt', io')) \<Rightarrow> (Inl e, (ep\<lparr>ep_backend := Extism xt'\<rparr>, io'))
          | (Inr _, (xt', io')) \<Rightarrow>
              (let ep' = ep\<lparr>ep_backend := Extism (xt'\<lparr>xt_state := (xt_state xt')\<lparr>sc_pending := None\<rparr>\<rparr>)\<rparr> in
               case sc_pending (xt_state xt') of
                 None \<Rightarrow> (Inr None, (ep', io'))
               | Some bytes \<Rightarrow>
                   (case outside (ipfs_add E kubo_url bytes) io' of
                      (Inl e, io'') \<Rightarrow>
                        (Inl (Error (''ipfs_add for '' @ quoted (ep_fragment ep) @ '' state: '' @ display e)), (ep', io''))
                    | (Inr cid, io'') \<Rightarrow> (Inr (Some cid), (mark_saved bytes ep', io''))))))"

section \<open>Invariants of a run\<close>

text \<open>
  A predicate of the instance that writing the memory and every host function keep: the contract
  under which a property of the contexts holds whatever program the plugin runs.
\<close>

locale host_invariant =
  fixes E :: "('x, 'p) env"
    and fragment :: string
    and P :: "('x, 'p) inst \<Rightarrow> bool"
  assumes keep_mem: "P w \<Longrightarrow> P (set_mem p w)"
    and keep_host: "P w \<Longrightarrow> P (snd (host_call E fragment f b w))"
begin

lemma run_wasm_keeps: "P w \<Longrightarrow> P (snd (run_wasm E fragment r w))"
proof (induction r arbitrary: w)
  case (Wasm_host f b p k)
  from Wasm_host.prems have "P (snd (host_call E fragment f b (set_mem p w)))"
    by (intro keep_host keep_mem)
  moreover obtain q v where "host_call E fragment f b (set_mem p w) = (q, v)" by (rule prod.exhaust)
  ultimately show ?case using Wasm_host.IH by (auto split: sum.splits)
qed (simp_all add: keep_mem)

lemma plugin_call_keeps: "P w \<Longrightarrow> P (snd (plugin_call E fragment export input w))"
  using run_wasm_keeps [of w "wasm_call E export input (xt_mem (fst w))"]
  by (auto simp: plugin_call_def split: prod.splits sum.splits)

end

lemma from_cbor_bytes_world [simp]: "snd (from_cbor_bytes E dec b w) = w"
  by (simp add: from_cbor_bytes_def ok_or_def split: option.splits)

lemma encode_or_world [simp]: "snd (encode_or E what v w) = w"
  by (simp add: encode_or_def ok_or_def split: option.splits)

lemma keeps_from_cbor_bytes [simp, intro]: "keeps P (from_cbor_bytes E dec b)"
  and keeps_encode_or [simp, intro]: "keeps P (encode_or E what v)"
  by (simp_all add: keeps_def)

lemma keeps_if [intro]: "(b \<Longrightarrow> keeps P m) \<Longrightarrow> (\<not> b \<Longrightarrow> keeps P n) \<Longrightarrow> keeps P (\<lambda>w. (if b then m else n) w)"
  by (cases b) simp_all

lemma host_callI:
  assumes "P w" and "f \<in> set (xt_fns (fst w))"
    and "f = Ma_send \<Longrightarrow> P (snd (ma_send_fn E fragment b w))"
    and "f = Ma_reply \<Longrightarrow> P (snd (ma_reply_fn E fragment b w))"
    and "f = Ma_set_state \<Longrightarrow> P (snd (ma_set_state_fn b w))"
    and "f = Ma_create_entity \<Longrightarrow> P (snd (ma_create_entity_fn E fragment b w))"
    and "f = Ma_delete_entity \<Longrightarrow> P (snd (ma_delete_entity_fn E b w))"
  shows "P (snd (host_call E fragment f b w))"
  using assms by (cases f) (simp_all add: host_call_def)

lemma host_call_unlinked: "f \<notin> set (xt_fns (fst w)) \<Longrightarrow> snd (host_call E fragment f b w) = w"
  by (simp add: host_call_def)

text \<open>The effect of each host function on the instance: a decoded input is applied, a bad one is not.\<close>

lemma ma_send_fn_world:
  "snd (ma_send_fn E fragment b w) = w \<or> (\<exists>env. snd (ma_send_fn E fragment b w) = send_tx fragment env w)"
  by (auto simp: ma_send_fn_def and_then_def from_cbor_bytes_def ok_or_def split: option.splits)

lemma ma_reply_fn_world:
  "snd (ma_reply_fn E fragment b w) = w \<or> (\<exists>env. snd (ma_reply_fn E fragment b w) = send_tx fragment env w)"
  by (auto simp: ma_reply_fn_def and_then_def from_cbor_bytes_def ok_or_def split: option.splits)

lemma ma_set_state_fn_world:
  "snd (ma_set_state_fn b w) = ((fst w)\<lparr>xt_state := set_state b (xt_state (fst w))\<rparr>, snd w)"
  by (simp add: ma_set_state_fn_def)

lemma ma_delete_entity_fn_world:
  "snd (ma_delete_entity_fn E b w) = w \<or>
   (\<exists>t. snd (ma_delete_entity_fn E b w) = ((fst w)\<lparr>xt_delete := xt_delete (fst w) @ [t]\<rparr>, snd w))"
  by (auto simp: ma_delete_entity_fn_def and_then_def from_cbor_bytes_def encode_or_def ok_or_def
      split: option.splits)

lemma ma_create_entity_fn_world:
  "\<exists>x rs. snd (ma_create_entity_fn E fragment b w) =
     ((fst w)\<lparr>xt_create := xt_create (fst w) @ rs\<rparr>, (snd w)\<lparr>io_out := x\<rparr>) \<and>
     (\<forall>r \<in> set rs. cr_parent r = fragment)"
proof (cases "Option.bind (cbor_decode E b) create_entity_input_of_cbor")
  case None
  then have "snd (ma_create_entity_fn E fragment b w) =
      ((fst w)\<lparr>xt_create := xt_create (fst w) @ []\<rparr>, (snd w)\<lparr>io_out := io_out (snd w)\<rparr>)"
    by (simp add: ma_create_entity_fn_def from_cbor_bytes_def)
  then show ?thesis by (metis empty_iff empty_set)
next
  case (Some req)
  obtain g x where g: "generate_fragment E (io_out (snd w)) = (g, x)" by (rule prod.exhaust)
  show ?thesis
  proof (cases g)
    case (Inl e)
    then have "snd (ma_create_entity_fn E fragment b w) =
        ((fst w)\<lparr>xt_create := xt_create (fst w) @ []\<rparr>, (snd w)\<lparr>io_out := x\<rparr>)"
      by (simp add: ma_create_entity_fn_def from_cbor_bytes_def Some and_then_def zoom_def g)
    then show ?thesis by (metis empty_iff empty_set)
  next
    case (Inr name)
    then have "snd (ma_create_entity_fn E fragment b w) =
        ((fst w)\<lparr>xt_create := xt_create (fst w) @
          [\<lparr>cr_fragment = name, cr_kind_protocol = ci_kind req, cr_behaviour_cid = ci_behaviour req,
            cr_parent = fragment\<rparr>]\<rparr>, (snd w)\<lparr>io_out := x\<rparr>)"
      by (simp add: ma_create_entity_fn_def from_cbor_bytes_def Some and_then_def zoom_def g)
    then show ?thesis by fastforce
  qed
qed

subsection \<open>Every envelope carries its sender\<close>

definition sender_tagged :: "string \<Rightarrow> (string \<times> send_envelope) list \<Rightarrow> ('x, 'p) inst \<Rightarrow> bool" where
  "sender_tagged fragment q w \<longleftrightarrow> (\<exists>envs. io_queue (snd w) = q @ map (Pair fragment) envs)"

lemma sender_tagged_send: "sender_tagged fragment q w \<Longrightarrow> sender_tagged fragment q (send_tx fragment env w)"
proof -
  assume "sender_tagged fragment q w"
  then obtain envs where "io_queue (snd w) = q @ map (Pair fragment) envs"
    by (auto simp: sender_tagged_def)
  then have "io_queue (snd (send_tx fragment env w)) = q @ map (Pair fragment) (envs @ [env])"
    by (simp add: send_tx_def)
  then show ?thesis unfolding sender_tagged_def by blast
qed

interpretation tagged: host_invariant E fragment "sender_tagged fragment q"
  for E :: "('x, 'p) env" and fragment q
proof unfold_locales
  show "sender_tagged fragment q (set_mem p w)" if "sender_tagged fragment q w" for p and w :: "('x, 'p) inst"
    using that by (simp add: sender_tagged_def set_mem_def)
next
  fix f b and w :: "('x, 'p) inst"
  assume w: "sender_tagged fragment q w"
  show "sender_tagged fragment q (snd (host_call E fragment f b w))"
  proof (cases "f \<in> set (xt_fns (fst w))")
    case True
    obtain x rs where "snd (ma_create_entity_fn E fragment b w) =
        ((fst w)\<lparr>xt_create := xt_create (fst w) @ rs\<rparr>, (snd w)\<lparr>io_out := x\<rparr>)"
      using ma_create_entity_fn_world [of E fragment b w] by (elim exE conjE)
    then have c: "sender_tagged fragment q (snd (ma_create_entity_fn E fragment b w))"
      using w by (simp add: sender_tagged_def)
    have d: "sender_tagged fragment q (snd (ma_delete_entity_fn E b w))"
      using ma_delete_entity_fn_world [of E b w] w by (elim disjE exE) (simp_all add: sender_tagged_def)
    have s: "sender_tagged fragment q (snd (ma_send_fn E fragment b w))"
      using ma_send_fn_world [of E fragment b w] w by (elim disjE exE) (simp_all add: sender_tagged_send)
    have r: "sender_tagged fragment q (snd (ma_reply_fn E fragment b w))"
      using ma_reply_fn_world [of E fragment b w] w by (elim disjE exE) (simp_all add: sender_tagged_send)
    have t: "sender_tagged fragment q (snd (ma_set_state_fn b w))"
      using w by (simp add: ma_set_state_fn_world sender_tagged_def)
    show ?thesis by (rule host_callI) (use w True c d s r t in simp_all)
  qed (simp add: w host_call_unlinked)
qed

text \<open>C16: a plugin cannot speak for another entity: whatever its code does, the envelopes a
  dispatch puts on the channel are all tagged with the fragment the plugin was registered under.\<close>

theorem dispatch_sender_authentic:
  "\<exists>envs. io_queue (snd (snd (dispatch_to E export input (ep, io)))) =
     io_queue io @ map (Pair (ep_fragment ep)) envs"
proof (cases "ep_backend ep")
  case (Native f)
  then have "io_queue (snd (snd (dispatch_to E export input (ep, io)))) = io_queue io @ map (Pair (ep_fragment ep)) []"
    by (simp add: dispatch_to_def split: prod.splits)
  then show ?thesis by blast
next
  case (Extism xt)
  let ?m = "and_then (encode_or E ''failed to CBOR-encode CastInput'' (cbor_of_cast_input input))
    (plugin_call E (ep_fragment ep) export)"
  have "keeps (sender_tagged (ep_fragment ep) (io_queue io)) ?m"
    by (intro keeps_and_then keeps_encode_or keepsI tagged.plugin_call_keeps)
  moreover have "sender_tagged (ep_fragment ep) (io_queue io) (xt, io)"
    unfolding sender_tagged_def by (intro exI [of _ "[]"]) simp
  ultimately have "sender_tagged (ep_fragment ep) (io_queue io) (snd (?m (xt, io)))"
    by (rule keepsD)
  then show ?thesis
    by (auto simp: dispatch_to_def Extism sender_tagged_def split: prod.splits sum.splits)
qed

subsection \<open>Least privilege\<close>

text \<open>What a run may have changed of the instance it started from, given the linked functions.\<close>

definition confined :: "('x, 'p) inst \<Rightarrow> ('x, 'p) inst \<Rightarrow> bool" where
  "confined w0 w \<longleftrightarrow>
     xt_fns (fst w) = xt_fns (fst w0) \<and>
     (Ma_create_entity \<notin> set (xt_fns (fst w0)) \<longrightarrow> xt_create (fst w) = xt_create (fst w0)) \<and>
     (Ma_delete_entity \<notin> set (xt_fns (fst w0)) \<longrightarrow> xt_delete (fst w) = xt_delete (fst w0)) \<and>
     (Ma_set_state \<notin> set (xt_fns (fst w0)) \<longrightarrow> xt_state (fst w) = xt_state (fst w0)) \<and>
     (Ma_send \<notin> set (xt_fns (fst w0)) \<and> Ma_reply \<notin> set (xt_fns (fst w0)) \<longrightarrow>
        io_queue (snd w) = io_queue (snd w0))"

lemma confined_refl [simp]: "confined w w"
  by (simp add: confined_def)

lemma confined_fns: "confined w0 w \<Longrightarrow> xt_fns (fst w) = xt_fns (fst w0)"
  by (simp add: confined_def)

lemma confined_send:
  "confined w0 w \<Longrightarrow> Ma_send \<in> set (xt_fns (fst w)) \<or> Ma_reply \<in> set (xt_fns (fst w)) \<Longrightarrow>
     confined w0 (send_tx fragment env w)"
  by (auto simp: confined_def send_tx_def)

interpretation confined: host_invariant E fragment "confined w0"
  for E :: "('x, 'p) env" and fragment w0
proof unfold_locales
  show "confined w0 (set_mem p w)" if "confined w0 w" for p and w :: "('x, 'p) inst"
    using that by (simp add: confined_def set_mem_def)
next
  fix f b and w :: "('x, 'p) inst"
  assume w: "confined w0 w"
  show "confined w0 (snd (host_call E fragment f b w))"
  proof (cases "f \<in> set (xt_fns (fst w))")
    case True
    obtain x rs where "snd (ma_create_entity_fn E fragment b w) =
        ((fst w)\<lparr>xt_create := xt_create (fst w) @ rs\<rparr>, (snd w)\<lparr>io_out := x\<rparr>)"
      using ma_create_entity_fn_world [of E fragment b w] by (elim exE conjE)
    then have c: "f = Ma_create_entity \<Longrightarrow> confined w0 (snd (ma_create_entity_fn E fragment b w))"
      using w True by (simp add: confined_def)
    have d: "f = Ma_delete_entity \<Longrightarrow> confined w0 (snd (ma_delete_entity_fn E b w))"
      using ma_delete_entity_fn_world [of E b w] w True by (elim disjE exE) (simp_all add: confined_def)
    have s: "f = Ma_send \<Longrightarrow> confined w0 (snd (ma_send_fn E fragment b w))"
      using ma_send_fn_world [of E fragment b w] w True by (elim disjE exE) (simp_all add: confined_send)
    have r: "f = Ma_reply \<Longrightarrow> confined w0 (snd (ma_reply_fn E fragment b w))"
      using ma_reply_fn_world [of E fragment b w] w True by (elim disjE exE) (simp_all add: confined_send)
    have t: "f = Ma_set_state \<Longrightarrow> confined w0 (snd (ma_set_state_fn b w))"
      using w True by (simp add: ma_set_state_fn_world confined_def)
    show ?thesis by (rule host_callI) (use w True c d s r t in simp_all)
  qed (simp add: w host_call_unlinked)
qed

text \<open>The life of a registered plugin: dispatches, saves, and whatever else happens to the world.\<close>

inductive plug_step :: "('x, 'p) env \<Rightarrow> ('x, 'p) plug \<Rightarrow> ('x, 'p) plug \<Rightarrow> bool" for E where
  dispatch: "dispatch_to E export input s = (r, s') \<Longrightarrow> plug_step E s s'"
| saved: "plug_step E (ep, io) (mark_saved b ep, io)"
| save: "trigger_save E url s = (r, s') \<Longrightarrow> plug_step E s s'"
| elsewhere: "plug_step E (ep, io) (ep, io')"

inductive_cases plug_stepE: "plug_step E s s'"

definition granted :: "host_fn list \<Rightarrow> 'p entity_plugin \<Rightarrow> bool" where
  "granted fs ep \<longleftrightarrow> (\<exists>xt. ep_backend ep = Extism xt \<and> xt_fns xt = fs \<and>
     (Ma_create_entity \<notin> set fs \<longrightarrow> xt_create xt = []) \<and>
     (Ma_delete_entity \<notin> set fs \<longrightarrow> xt_delete xt = []) \<and>
     (Ma_set_state \<notin> set fs \<longrightarrow> sc_pending (xt_state xt) = None))"

lemma grantedE:
  assumes "granted fs ep"
  obtains xt where "ep_backend ep = Extism xt" "xt_fns xt = fs"
    "Ma_create_entity \<notin> set fs \<Longrightarrow> xt_create xt = []"
    "Ma_delete_entity \<notin> set fs \<Longrightarrow> xt_delete xt = []"
    "Ma_set_state \<notin> set fs \<Longrightarrow> sc_pending (xt_state xt) = None"
  using assms by (auto simp: granted_def)

lemma granted_confined:
  assumes "granted fs ep" and "ep_backend ep = Extism xt" and "confined (xt, io) (xt', io')"
  shows "granted fs (ep\<lparr>ep_backend := Extism xt'\<rparr>)"
  using assms by (auto simp: granted_def confined_def)

lemma granted_dispatch:
  assumes "granted fs ep" and "dispatch_to E export input (ep, io) = (r, (ep', io'))"
  shows "granted fs ep'"
    and "r = Inr res \<Longrightarrow>
      (Ma_create_entity \<notin> set fs \<longrightarrow> dr_create_requests res = []) \<and>
      (Ma_delete_entity \<notin> set fs \<longrightarrow> dr_delete_requests res = []) \<and>
      (Ma_set_state \<notin> set fs \<longrightarrow> dr_pending_state res = None)"
    and "Ma_send \<notin> set fs \<Longrightarrow> Ma_reply \<notin> set fs \<Longrightarrow> io_queue io' = io_queue io"
proof -
  from assms(1) obtain xt where xt: "ep_backend ep = Extism xt" "xt_fns xt = fs" by (rule grantedE)
  let ?m = "and_then (encode_or E ''failed to CBOR-encode CastInput'' (cbor_of_cast_input input))
    (plugin_call E (ep_fragment ep) export)"
  obtain q xt1 io1 where m: "?m (xt, io) = (q, (xt1, io1))" by (metis surj_pair)
  have "keeps (confined (xt, io)) ?m"
    by (intro keeps_and_then keeps_encode_or keepsI confined.plugin_call_keeps)
  then have c: "confined (xt, io) (xt1, io1)"
    using keepsD [of "confined (xt, io)" ?m "(xt, io)"] m by simp
  have g: "granted fs (ep\<lparr>ep_backend := Extism xt1\<rparr>)"
    by (rule granted_confined [OF assms(1) xt(1) c])
  have d: "(r, (ep', io')) =
    (case q of Inl e \<Rightarrow> (Inl e, (ep\<lparr>ep_backend := Extism xt1\<rparr>, io1))
     | Inr out \<Rightarrow> (case collect out xt1 of (result, xt2) \<Rightarrow> (Inr result, (ep\<lparr>ep_backend := Extism xt2\<rparr>, io1))))"
    using assms(2) by (simp add: dispatch_to_def xt(1) m split: sum.splits)
  have io: "io' = io1" using d by (cases q) (simp_all add: collect_def)
  show "granted fs ep'"
    using d g by (cases q) (auto simp: collect_def granted_def)
  show "(Ma_create_entity \<notin> set fs \<longrightarrow> dr_create_requests res = []) \<and>
      (Ma_delete_entity \<notin> set fs \<longrightarrow> dr_delete_requests res = []) \<and>
      (Ma_set_state \<notin> set fs \<longrightarrow> dr_pending_state res = None)" if "r = Inr res"
    using d g that by (cases q) (auto simp: collect_def granted_def)
  show "io_queue io' = io_queue io" if "Ma_send \<notin> set fs" "Ma_reply \<notin> set fs"
    using c that io xt(2) by (simp add: confined_def)
qed

lemma granted_save:
  assumes "granted fs ep" and "trigger_save E url (ep, io) = (r, (ep', io'))"
  shows "granted fs ep'"
proof -
  from assms(1) obtain xt where xt: "ep_backend ep = Extism xt" "xt_fns xt = fs" by (rule grantedE)
  obtain q xt1 io1 where m: "plugin_call E (ep_fragment ep) ''save_state'' [] (xt, io) = (q, (xt1, io1))"
    by (metis surj_pair)
  have c: "confined (xt, io) (xt1, io1)"
    using confined.plugin_call_keeps [of "(xt, io)" "(xt, io)" E "ep_fragment ep" "''save_state''" "[]"] m by simp
  have g: "granted fs (ep\<lparr>ep_backend := Extism xt1\<rparr>)"
    by (rule granted_confined [OF assms(1) xt(1) c])
  show ?thesis
    using assms(2) g
    by (auto simp: trigger_save_def xt(1) m granted_def mark_saved_def Let_def
        split: sum.splits option.splits prod.splits)
qed

lemma granted_mark_saved: "granted fs ep \<Longrightarrow> granted fs (mark_saved b ep)"
  by (auto simp: granted_def mark_saved_def)

lemma granted_step: "plug_step E s s' \<Longrightarrow> granted fs (fst s) \<Longrightarrow> granted fs (fst s')"
  by (erule plug_stepE) (metis fst_conv surj_pair granted_dispatch(1) granted_save granted_mark_saved)+

lemma granted_steps: "(plug_step E)\<^sup>*\<^sup>* s s' \<Longrightarrow> granted fs (fst s) \<Longrightarrow> granted fs (fst s')"
  by (induction rule: rtranclp_induct) (auto intro: granted_step)

subsection \<open>Loading\<close>

lemma init_call_confined:
  assumes "init_call E fragment ctx st w = (r, w')"
  shows "confined w w'"
proof -
  have "keeps (confined w) (init_call E fragment ctx st)"
    unfolding init_call_def
    by (intro keeps_and_then keeps_encode_or keepsI [of _ "plugin_call E fragment ''init'' b" for b]
        confined.plugin_call_keeps keeps_ret)
  from keepsD [OF this, of w] show ?thesis by (simp add: assms)
qed

lemma start_instance_ok:
  fixes E :: "('x, 'p) env"
  assumes "start_instance E fragment node kind_node our_did st mem io = (Inr (ep, lc), io')"
  shows "\<exists>xt. ep = \<lparr>ep_fragment = fragment, ep_kind = kn_plugin_kind kind_node, ep_acl = en_acl node,
           ep_parent = en_parent node, ep_backend = Extism xt\<rparr> \<and> granted (map snd (linked_fns kind_node)) ep"
proof -
  define xt0 where "xt0 = \<lparr>xt_mem = mem, xt_fns = map snd (linked_fns kind_node),
    xt_state = state_ctx_new st, xt_create = [], xt_delete = []\<rparr>"
  obtain q xt' io2 where
    m: "(if ''init'' \<in> set (kn_api kind_node)
         then init_call E fragment (ctx_for_init our_did fragment node) st else ret Running)
          (xt0, io) = (q, (xt', io2))" by (metis surj_pair)
  have "confined (xt0, io) (xt', io2)"
    using m init_call_confined by (auto split: if_splits)
  then have g: "granted (map snd (linked_fns kind_node)) (e\<lparr>ep_backend := Extism xt'\<rparr>)" for e
    by (auto simp: granted_def confined_def xt0_def state_ctx_new_def)
  have ep: "ep = \<lparr>ep_fragment = fragment, ep_kind = kn_plugin_kind kind_node, ep_acl = en_acl node,
           ep_parent = en_parent node, ep_backend = Extism xt'\<rparr>"
    using assms m by (simp add: start_instance_def Let_def flip: xt0_def split: sum.splits)
  with g [of ep] show ?thesis by (intro exI [of _ xt']) simp
qed

lemma load_okE:
  fixes E :: "('x, 'p) env"
  assumes "load E fragment node kind_node our_did kubo_url io = (Inr (ep, lc), io')"
  obtains behaviour xt where "kn_evaluator kind_node = EExtism" "en_behaviour node = Some behaviour"
    "ep = \<lparr>ep_fragment = fragment, ep_kind = kn_plugin_kind kind_node, ep_acl = en_acl node,
           ep_parent = en_parent node, ep_backend = Extism xt\<rparr>"
    "granted (map snd (linked_fns kind_node)) ep"
proof -
  have ev: "kn_evaluator kind_node = EExtism"
    using assms by (auto simp: load_def Let_def split: if_splits)
  obtain behaviour where b: "en_behaviour node = Some behaviour"
    using assms ev by (auto simp: load_def Let_def split: option.splits)
  obtain st mem io1 where "start_instance E fragment node kind_node our_did st mem io1 = (Inr (ep, lc), io')"
    using assms by (auto simp: load_def ev b Let_def and_then_ok)
  with ev b that show thesis by (auto dest!: start_instance_ok)
qed

lemma load_yields:
  fixes E :: "('x, 'p) env"
  shows "yields (load E fragment node kind_node our_did url) (\<lambda>l. ep_fragment (fst l) = fragment)"
  by (rule yieldsI) (auto elim: load_okE)

lemma linked_fns_iff:
  "Ma_create_entity \<in> set (map snd (linked_fns k)) \<longleftrightarrow> ''ma_create_entity'' \<in> set (kn_host_functions k)"
  "Ma_delete_entity \<in> set (map snd (linked_fns k)) \<longleftrightarrow> ''ma_delete_entity'' \<in> set (kn_host_functions k)"
  "Ma_set_state \<in> set (map snd (linked_fns k)) \<longleftrightarrow> ''ma_set_state'' \<in> set (kn_host_functions k)"
  "Ma_send \<in> set (map snd (linked_fns k)) \<longleftrightarrow> ''ma_send'' \<in> set (kn_host_functions k)"
  "Ma_reply \<in> set (map snd (linked_fns k)) \<longleftrightarrow> ''ma_reply'' \<in> set (kn_host_functions k)"
  by (auto simp: linked_fns_def all_fns_def)

text \<open>C5: least privilege. Whatever a plugin's code does and whatever happened since it was loaded,
  a dispatch of it yields creation, deletion and state requests only if its kind lists the host
  function for them, and puts an envelope on the channel only if the kind lists one that sends.\<close>

theorem least_privilege:
  assumes "load E fragment node kind_node our_did kubo_url io0 = (Inr (ep0, lc), io1)"
    and "(plug_step E)\<^sup>*\<^sup>* (ep0, io1) (ep, io)"
    and "dispatch_to E export input (ep, io) = (Inr res, (ep', io'))"
  shows "(''ma_create_entity'' \<notin> set (kn_host_functions kind_node) \<longrightarrow> dr_create_requests res = []) \<and>
    (''ma_delete_entity'' \<notin> set (kn_host_functions kind_node) \<longrightarrow> dr_delete_requests res = []) \<and>
    (''ma_set_state'' \<notin> set (kn_host_functions kind_node) \<longrightarrow> dr_pending_state res = None) \<and>
    (''ma_send'' \<notin> set (kn_host_functions kind_node) \<and> ''ma_reply'' \<notin> set (kn_host_functions kind_node) \<longrightarrow>
       io_queue io' = io_queue io)"
proof -
  let ?fs = "map snd (linked_fns kind_node)"
  have "granted ?fs ep0" using assms(1) by (rule load_okE)
  with assms(2) have g: "granted ?fs ep" using granted_steps by (metis fst_conv)
  note facts = granted_dispatch(2,3) [OF g assms(3)]
  show ?thesis using facts [unfolded linked_fns_iff] by blast
qed

text \<open>Only an Extism kind with a behaviour link is loaded; any other evaluator, and an entity without
  behaviour, is refused before anything is fetched, instantiated or changed.\<close>

lemma load_refuses:
  "kn_evaluator kind_node \<noteq> EExtism \<or> en_behaviour node = None \<Longrightarrow>
     \<exists>e. load E fragment node kind_node our_did kubo_url = fail e"
  by (cases "kn_evaluator kind_node"; cases "en_behaviour node") (auto simp: load_def Let_def)

section \<open>State requests\<close>

text \<open>The calls of \<open>ma_set_state\<close> of one dispatch, in order.\<close>

lemma set_state_persisted [simp]: "sc_persisted (set_state b ctx) = sc_persisted ctx"
  by (simp add: set_state_def)

text \<open>After a run of \<open>ma_set_state\<close> calls the state to be persisted is the last one that differs
  from the persisted snapshot, not the last one requested: a plugin that changes its state and then
  restores the persisted one leaves the changed state queued.\<close>

lemma set_state_pending:
  "sc_pending (fold set_state bs ctx) =
     (case filter (\<lambda>b. sc_persisted ctx \<noteq> Some b) bs of
        [] \<Rightarrow> sc_pending ctx
      | d # ds \<Rightarrow> Some (last (d # ds)))"
proof (induction bs arbitrary: ctx)
  case (Cons b bs)
  show ?case
    using Cons.IH [of "set_state b ctx"] by (auto simp: set_state_def split: list.splits)
qed simp

section \<open>Requests survive a failure\<close>

definition queues_grow :: "('x, 'p) inst \<Rightarrow> ('x, 'p) inst \<Rightarrow> bool" where
  "queues_grow w0 w \<longleftrightarrow>
     prefix (xt_create (fst w0)) (xt_create (fst w)) \<and> prefix (xt_delete (fst w0)) (xt_delete (fst w))"

interpretation growing: host_invariant E fragment "queues_grow w0"
  for E :: "('x, 'p) env" and fragment w0
proof unfold_locales
  show "queues_grow w0 (set_mem p w)" if "queues_grow w0 w" for p and w :: "('x, 'p) inst"
    using that by (simp add: queues_grow_def set_mem_def)
next
  fix f b and w :: "('x, 'p) inst"
  assume w: "queues_grow w0 w"
  show "queues_grow w0 (snd (host_call E fragment f b w))"
  proof (cases "f \<in> set (xt_fns (fst w))")
    case True
    obtain x rs where "snd (ma_create_entity_fn E fragment b w) =
        ((fst w)\<lparr>xt_create := xt_create (fst w) @ rs\<rparr>, (snd w)\<lparr>io_out := x\<rparr>)"
      using ma_create_entity_fn_world [of E fragment b w] by (elim exE conjE)
    then have c: "queues_grow w0 (snd (ma_create_entity_fn E fragment b w))"
      using w by (simp add: queues_grow_def prefix_prefix)
    have d: "queues_grow w0 (snd (ma_delete_entity_fn E b w))"
      using ma_delete_entity_fn_world [of E b w] w
      by (elim disjE exE) (simp_all add: queues_grow_def prefix_prefix)
    have s: "queues_grow w0 (snd (ma_send_fn E fragment b w))"
      using ma_send_fn_world [of E fragment b w] w
      by (elim disjE exE) (simp_all add: queues_grow_def send_tx_def)
    have r: "queues_grow w0 (snd (ma_reply_fn E fragment b w))"
      using ma_reply_fn_world [of E fragment b w] w
      by (elim disjE exE) (simp_all add: queues_grow_def send_tx_def)
    have t: "queues_grow w0 (snd (ma_set_state_fn b w))"
      using w by (simp add: ma_set_state_fn_world queues_grow_def)
    show ?thesis by (rule host_callI) (use w True c d s r t in simp_all)
  qed (simp add: w host_call_unlinked)
qed

text \<open>A successful dispatch hands its requests over once, in order, with whatever an earlier
  dispatch left in front: afterwards nothing is queued. A failed dispatch hands over nothing and
  keeps its requests queued, so the creations and deletions a trapping plugin asked for are
  carried out by its next successful dispatch.\<close>

lemma dispatch_queues:
  assumes "ep_backend ep = Extism xt" and "dispatch_to E export input (ep, io) = (r, (ep', io'))"
  shows "\<exists>xt'. ep_backend ep' = Extism xt' \<and>
    (case r of
       Inl e \<Rightarrow> prefix (xt_create xt) (xt_create xt') \<and> prefix (xt_delete xt) (xt_delete xt')
     | Inr res \<Rightarrow>
         prefix (xt_create xt) (dr_create_requests res) \<and> prefix (xt_delete xt) (dr_delete_requests res) \<and>
         sc_pending (xt_state xt') = None \<and> xt_create xt' = [] \<and> xt_delete xt' = [])"
proof -
  let ?m = "and_then (encode_or E ''failed to CBOR-encode CastInput'' (cbor_of_cast_input input))
    (plugin_call E (ep_fragment ep) export)"
  obtain q xt1 io1 where m: "?m (xt, io) = (q, (xt1, io1))" by (metis surj_pair)
  have "keeps (queues_grow (xt, io)) ?m"
    by (intro keeps_and_then keeps_encode_or keepsI growing.plugin_call_keeps)
  then have "queues_grow (xt, io) (xt1, io1)"
    using keepsD [of "queues_grow (xt, io)" ?m "(xt, io)"] m by (simp add: queues_grow_def)
  then show ?thesis
    using assms(2) by (cases q) (auto simp: dispatch_to_def assms(1) m collect_def queues_grow_def)
qed

end
