(* ===== verification/I18n.thy ===== *)
theory I18n
  imports Kubo
begin

text \<open>
  Localisation, \<open>src/src/i18n.rs\<close>: the table of messages per language, lookups with their fallbacks,
  switching the language, and loading at start-up. The two process-wide \<open>OnceLock\<close> cells are the
  fields of a record, \<open>None\<close> until \<open>init\<close>. The bundled Fluent files and the compiled-in language map
  are generated by the build and are parameters of \<open>env\<close>, as is the Fluent parser: \<open>ftl_resource\<close>
  gives no resource for a text that does not parse, and for a message either nothing, no value, or
  its formatted value.
\<close>

record i18n =
  i_messages :: "(string, (string, string) hash_map) hash_map option"
  i_runtime_lang :: "string option"

definition i18n_unset :: i18n where
  "i18n_unset = \<lparr>i_messages = None, i_runtime_lang = None\<rparr>"

definition MESSAGE_IDS :: "string list" where
  "MESSAGE_IDS = [
     ''own-did-published'', ''own-did-publish-failed'', ''own-did-publish-timeout'', ''started'',
     ''shutdown-requested'', ''closing-endpoint'', ''shutdown-complete'',
     ''status-listening'', ''rpc-message-received'', ''rpc-message-rejected'', ''ipfs-message-rejected'',
     ''ctrlc-handler-failed'', ''node-connected'', ''received-encrypted-ma-msg'',
     ''unknown-rpc-atom'', ''rpc-reply-sent'', ''ping-received'',
     ''did-publish-request-received'', ''document-published'', ''did-publish-cid-reply-sent'',
     ''did-publish-resolve-failed'', ''ipfs-store-request-received'', ''ipfs-stored'',
     ''ipfs-store-cid-reply-sent'', ''ipfs-store-resolve-failed'',
     ''bootstrap-complete'', ''entity-loaded'', ''entity-load-failed'', ''entity-not-found'',
     ''entity-dispatched'', ''entity-replied'', ''root-create-entity'', ''root-list-entities'',
     ''root-delete-entity'', ''root-entity-updated'', ''entity-created'', ''entity-deleted'',
     ''entity-states-saving'', ''entity-state-saving'', ''entity-state-saved'', ''entity-state-empty'',
     ''entity-states-saved'',
     ''ftl-loaded'',
     ''no-config-found'', ''initialising-new-identity'', ''generated-headless-config'',
     ''runtime-claimed'', ''runtime-claim-persisted'', ''runtime-already-claimed'',
     ''acl-owners-access'',
     ''crud-message-received'', ''crud-acl-updated'',
     ''refuse-delete-root'', ''no-root-acl'', ''namespace-not-found'', ''no-ns-gate-acl'',
     ''namespace-created'', ''namespace-already-exists'', ''namespace-name-reserved'',
     ''namespace-create-denied'', ''namespace-create-usage'', ''rpc-not-text-atom'', ''rpc-unknown-verb'',
     ''blob-value-ipfs-path'', ''acl-value-ipfs-path'', ''kind-value-ipfs-path'',
     ''config-key-protected'', ''config-key-no-delete'', ''config-key-not-manifest'', ''wrong-crud-protocol'']"

section \<open>Lookups\<close>

definition runtime_lang :: "i18n \<Rightarrow> string" where
  "runtime_lang st = (case i_runtime_lang st of Some l \<Rightarrow> l | None \<Rightarrow> ''en'')"

definition has_lang :: "i18n \<Rightarrow> string \<Rightarrow> bool" where
  "has_lang st lang = (case i_messages st of None \<Rightarrow> False | Some all \<Rightarrow> map_of all lang \<noteq> None)"

definition t_lang :: "i18n \<Rightarrow> string \<Rightarrow> string \<Rightarrow> string" where
  "t_lang st lang key =
     (case i_messages st of
        None \<Rightarrow> key
      | Some all \<Rightarrow>
          (case Option.bind (option_or (map_of all lang) (map_of all ''en'')) (\<lambda>m. map_of m key) of
             Some s \<Rightarrow> s
           | None \<Rightarrow> key))"

definition i18n_t :: "i18n \<Rightarrow> string \<Rightarrow> string" where
  "i18n_t st key = t_lang st (runtime_lang st) key"

definition tf_lang :: "i18n \<Rightarrow> string \<Rightarrow> string \<Rightarrow> (string \<times> string) list \<Rightarrow> string" where
  "tf_lang st lang key args =
     foldl (\<lambda>s (name, value). replace_all (''%'' @ name @ ''%'') value s) (t_lang st lang key) args"

section \<open>Parsing and loading\<close>

definition key_name_fallback :: "(string, string) hash_map" where
  "key_name_fallback = fold (\<lambda>i. hm_insert i i) MESSAGE_IDS []"

definition parse_ftl :: "('x, 'p) env \<Rightarrow> string \<Rightarrow> string \<Rightarrow> (string, string) hash_map" where
  "parse_ftl E ftl lang =
     (case ftl_resource E ftl lang of
        None \<Rightarrow> key_name_fallback
      | Some get_message \<Rightarrow>
          fold (\<lambda>i map. case get_message i of
              Some (Some value) \<Rightarrow> hm_insert i value map
            | Some None \<Rightarrow> hm_insert i i map
            | None \<Rightarrow> hm_insert i i map) MESSAGE_IDS [])"

definition yaml_get :: "string \<Rightarrow> yaml \<Rightarrow> yaml option" where
  "yaml_get key v = (case v of YMapping m \<Rightarrow> map_of m key | _ \<Rightarrow> None)"

definition default_lang_cid :: "('x, 'p) env \<Rightarrow> string option" where
  "default_lang_cid E = Option.bind (Option.bind (lang_yaml E) (yaml_get ''i18n_cid'')) yaml_as_str"

definition bundled_lang_map :: "('x, 'p) env \<Rightarrow> (string, ipld_link) hash_map" where
  "bundled_lang_map E =
     (case Option.bind (lang_yaml E) (yaml_get ''langs'') of
        Some (YMapping langs) \<Rightarrow>
          fold (\<lambda>(k, v) m. case yaml_as_str v of Some cid \<Rightarrow> hm_insert k (ipld_link_new cid) m | None \<Rightarrow> m) langs []
      | _ \<Rightarrow> [])"

definition bundled_messages :: "('x, 'p) env \<Rightarrow> (string, (string, string) hash_map) hash_map" where
  "bundled_messages E = fold (\<lambda>(code, ftl). hm_insert code (parse_ftl E ftl code)) (bundled_langs E) []"

text \<open>Fetching a Fluent file: any failure, and text that is not UTF-8, gives nothing.\<close>

definition fetch_ftl :: "('x, 'p) env \<Rightarrow> string \<Rightarrow> string \<Rightarrow> ('x, string option) act" where
  "fetch_ftl E kubo_url cid =
     and_then (attempt (cat_bytes E kubo_url cid))
       (\<lambda>r. ret (case r of Inl _ \<Rightarrow> None | Inr bytes \<Rightarrow> from_utf8 E bytes))"

definition switch_messages :: "string \<Rightarrow> (string, string) hash_map \<Rightarrow> i18n \<Rightarrow> i18n" where
  "switch_messages lang messages st =
     st\<lparr>i_messages := map_option (hm_insert lang messages) (i_messages st),
        i_runtime_lang := map_option (\<lambda>_. lang) (i_runtime_lang st)\<rparr>"

definition switch_lang :: "('x, 'p) env \<Rightarrow> string \<Rightarrow> string \<Rightarrow> i18n \<Rightarrow> ('x, i18n) act" where
  "switch_lang E lang kubo_url st =
     (case find (\<lambda>e. fst e = lang) (bundled_langs E) of
        Some (_, ftl) \<Rightarrow> ret (switch_messages lang (parse_ftl E ftl lang) st)
      | None \<Rightarrow>
          (case map_of (bundled_lang_map E) lang of
             None \<Rightarrow> ret st
           | Some link \<Rightarrow>
               and_then (fetch_ftl E kubo_url (link_cid link)) (\<lambda>f. ret (case f of
                  None \<Rightarrow> st
                | Some ftl \<Rightarrow> switch_messages lang (parse_ftl E ftl lang) st))))"

definition fetch_lang_map :: "('x, 'p) env \<Rightarrow> string \<Rightarrow> string option \<Rightarrow> string option \<Rightarrow> ('x, (string, ipld_link) hash_map) act" where
  "fetch_lang_map E kubo_url lang_cid root_cid =
     and_then (case lang_cid of None \<Rightarrow> ret (Inl (Error []))
               | Some cid \<Rightarrow> attempt (dag_get E (dec_hash_map link_of_json) kubo_url cid)) (\<lambda>first.
     case first of
       Inr m \<Rightarrow> ret m
     | Inl _ \<Rightarrow>
         and_then (case root_cid of None \<Rightarrow> ret (Inl (Error []))
                   | Some cid \<Rightarrow> attempt (dag_get E manifest_of_json kubo_url cid)) (\<lambda>second.
         ret (case second of Inr manifest \<Rightarrow> mf_i18n manifest | Inl _ \<Rightarrow> [])))"

fun load_langs :: "('x, 'p) env \<Rightarrow> string \<Rightarrow> (string \<times> ipld_link) list \<Rightarrow>
    (string, (string, string) hash_map) hash_map \<Rightarrow> ('x, (string, (string, string) hash_map) hash_map) act" where
  "load_langs E kubo_url [] all = ret all"
| "load_langs E kubo_url ((code, link) # links) all =
     and_then (fetch_ftl E kubo_url (link_cid link)) (\<lambda>f.
       load_langs E kubo_url links
         (case f of None \<Rightarrow> all | Some ftl \<Rightarrow> hm_insert code (parse_ftl E ftl code) all))"

definition load_all_messages :: "('x, 'p) env \<Rightarrow> string \<Rightarrow> string option \<Rightarrow> string option \<Rightarrow>
    ('x, (string, (string, string) hash_map) hash_map) act" where
  "load_all_messages E kubo_url lang_cid root_cid =
     and_then (fetch_lang_map E kubo_url lang_cid root_cid) (\<lambda>lang_map.
       load_langs E kubo_url lang_map (bundled_messages E))"

definition i18n_init :: "('x, 'p) env \<Rightarrow> string \<Rightarrow> string \<Rightarrow> string option \<Rightarrow> string option \<Rightarrow> ('x, i18n) act" where
  "i18n_init E lang kubo_url lang_cid root_cid =
     and_then (load_all_messages E kubo_url lang_cid root_cid) (\<lambda>messages.
       ret \<lparr>i_messages = Some messages, i_runtime_lang = Some lang\<rparr>)"

definition resolve_active_lang :: "('x, 'p) env \<Rightarrow> string \<Rightarrow> string \<Rightarrow> ('x, string option) act" where
  "resolve_active_lang E kubo_url root_cid =
     and_then (attempt (dag_get E manifest_of_json kubo_url root_cid)) (\<lambda>r. ret (case r of
        Inl _ \<Rightarrow> None
      | Inr manifest \<Rightarrow> Option.bind (map_of (mf_config manifest) ''i18n'') yaml_as_str))"

section \<open>What a lookup gives\<close>

lemma fold_ids:
  "map_of (fold (\<lambda>i. hm_insert i (f i)) ids m) k = (if k \<in> set ids then Some (f k) else map_of m k)"
  by (induction ids arbitrary: m) auto

lemma parse_ftl_look:
  "map_of (parse_ftl E ftl lang) k =
     (if k \<in> set MESSAGE_IDS
      then Some (case Option.bind (ftl_resource E ftl lang) (\<lambda>g. Option.bind (g k) (\<lambda>v. v)) of Some s \<Rightarrow> s | None \<Rightarrow> k)
      else None)"
proof (cases "ftl_resource E ftl lang")
  case None
  then show ?thesis by (simp add: parse_ftl_def key_name_fallback_def fold_ids)
next
  case (Some g)
  have "(\<lambda>i map. case g i of Some (Some value) \<Rightarrow> hm_insert i value map | Some None \<Rightarrow> hm_insert i i map
            | None \<Rightarrow> hm_insert i i map) =
        (\<lambda>i. hm_insert i (case Option.bind (g i) (\<lambda>v. v) of Some s \<Rightarrow> s | None \<Rightarrow> i))"
    by (auto simp: fun_eq_iff split: option.splits)
  then show ?thesis by (simp add: parse_ftl_def Some fold_ids)
qed

text \<open>The localisation states the process goes through.\<close>

inductive i18n_reach :: "('x, 'p) env \<Rightarrow> i18n \<Rightarrow> bool" for E where
  unset: "i18n_reach E i18n_unset"
| init: "i18n_init E lang url lang_cid root_cid x = (Inr st, x') \<Longrightarrow> i18n_reach E st"
| switch: "i18n_reach E st \<Longrightarrow> switch_lang E lang url st x = (Inr st', x') \<Longrightarrow> i18n_reach E st'"

definition listed :: "(string, string) hash_map \<Rightarrow> bool" where
  "listed m \<longleftrightarrow> (\<forall>key. key \<notin> set MESSAGE_IDS \<longrightarrow> map_of m key = None)"

definition listed_all :: "(string, (string, string) hash_map) hash_map \<Rightarrow> bool" where
  "listed_all all \<longleftrightarrow> (\<forall>lang m. map_of all lang = Some m \<longrightarrow> listed m)"

lemma listed_parse_ftl [simp]: "listed (parse_ftl E ftl lang)"
  by (simp add: listed_def parse_ftl_look)

lemma listed_all_insert: "listed_all all \<Longrightarrow> listed m \<Longrightarrow> listed_all (hm_insert lang m all)"
  by (simp add: listed_all_def)

lemma listed_all_fold:
  "listed_all m \<Longrightarrow> listed_all (fold (\<lambda>(code, ftl). hm_insert code (parse_ftl E ftl code)) langs m)"
proof (induction langs arbitrary: m)
  case (Cons l langs)
  then show ?case by (cases l) (simp add: listed_all_insert)
qed simp

lemma listed_all_bundled: "listed_all (bundled_messages E)"
  unfolding bundled_messages_def by (rule listed_all_fold) (simp add: listed_all_def)

lemma listed_all_load:
  "listed_all all \<Longrightarrow> load_langs E url links all x = (Inr all', x') \<Longrightarrow> listed_all all'"
proof (induction links arbitrary: all x)
  case (Cons l links)
  obtain code link where l: "l = (code, link)" by (cases l)
  from Cons.prems(2) obtain f y where
    "load_langs E url links (case f of None \<Rightarrow> all | Some ftl \<Rightarrow> hm_insert code (parse_ftl E ftl code) all) y = (Inr all', x')"
    by (auto simp: l and_then_ok)
  then show ?case
    by (rule Cons.IH [rotated]) (simp add: Cons.prems(1) listed_all_insert split: option.split)
qed simp

lemma i18n_reach_listed: "i18n_reach E st \<Longrightarrow> i_messages st = Some all \<Longrightarrow> listed_all all"
proof (induction arbitrary: all rule: i18n_reach.induct)
  case unset
  then show ?case by (simp add: i18n_unset_def)
next
  case (init lang url lang_cid root_cid x st x')
  then show ?case
    by (auto simp: i18n_init_def load_all_messages_def and_then_ok intro: listed_all_load [OF listed_all_bundled])
next
  case (switch st lang url x st' x')
  have "st' = st \<or> (\<exists>ftl. st' = switch_messages lang (parse_ftl E ftl lang) st)"
    using switch.hyps(2)
    by (auto simp: switch_lang_def fetch_ftl_def and_then_def ret_def split: option.splits prod.splits sum.splits)
  then show ?case using switch.IH switch.prems
    by (auto simp: switch_messages_def listed_all_insert)
qed

text \<open>C39: a message id that is missing from \<open>MESSAGE_IDS\<close> is never translated, whatever the Fluent
  files say and whatever languages were loaded or switched to: the client receives the bare id. Four
  ids that the CRUD replies use, and \<open>not-supported\<close>, are missing.\<close>

theorem unlisted_ids_untranslated:
  assumes "i18n_reach E st" and "key \<notin> set MESSAGE_IDS"
  shows "t_lang st lang key = key \<and>
    set [''cidv1-required'', ''kind-not-found'', ''entity-name-invalid'', ''reserved-entity-name'', ''not-supported''] \<inter>
      set MESSAGE_IDS = {}"
proof
  show "t_lang st lang key = key"
  proof (cases "i_messages st")
    case (Some all)
    have "map_of m key = None" if "option_or (map_of all lang) (map_of all ''en'') = Some m" for m
    proof -
      have "\<exists>l. map_of all l = Some m"
        using that by (auto simp: option_or_def split: option.splits)
      then have "listed m" using i18n_reach_listed [OF assms(1) Some] by (auto simp: listed_all_def)
      then show ?thesis using assms(2) by (simp add: listed_def)
    qed
    then show ?thesis
      by (cases "option_or (map_of all lang) (map_of all ''en'')") (simp_all add: t_lang_def Some)
  qed (simp add: t_lang_def)
qed (simp add: MESSAGE_IDS_def)

text \<open>Switching to a bundled language takes effect at once: the runtime language is the new one,
  it is loaded, its listed messages are those of its Fluent file, and no other language changes.\<close>

lemma switch_lang_bundled:
  assumes "i_messages st = Some all" and "i_runtime_lang st = Some old"
    and "find (\<lambda>e. fst e = lang) (bundled_langs E) = Some (lang, ftl)"
  shows "\<exists>st'. switch_lang E lang url st x = (Inr st', x) \<and> runtime_lang st' = lang \<and> has_lang st' lang \<and>
    (\<forall>key. i18n_t st' key =
       (if key \<in> set MESSAGE_IDS
        then (case Option.bind (ftl_resource E ftl lang) (\<lambda>g. Option.bind (g key) (\<lambda>v. v)) of Some s \<Rightarrow> s | None \<Rightarrow> key)
        else key)) \<and>
    (\<forall>other key. other \<noteq> lang \<and> has_lang st other \<longrightarrow> t_lang st' other key = t_lang st other key)"
proof -
  let ?st = "switch_messages lang (parse_ftl E ftl lang) st"
  have "switch_lang E lang url st x = (Inr ?st, x)"
    by (simp add: switch_lang_def assms(3))
  moreover have "i18n_t ?st key = (if key \<in> set MESSAGE_IDS
      then (case Option.bind (ftl_resource E ftl lang) (\<lambda>g. Option.bind (g key) (\<lambda>v. v)) of Some s \<Rightarrow> s | None \<Rightarrow> key)
      else key)" for key
    by (simp add: i18n_t_def t_lang_def runtime_lang_def switch_messages_def assms(1,2) option_or_def parse_ftl_look)
  moreover have "t_lang ?st other key = t_lang st other key" if "other \<noteq> lang" "has_lang st other" for other key
    using that by (auto simp: t_lang_def switch_messages_def has_lang_def assms(1) option_or_def)
  moreover have "runtime_lang ?st = lang" "has_lang ?st lang"
    by (simp_all add: runtime_lang_def has_lang_def switch_messages_def assms(1,2))
  ultimately show ?thesis by blast
qed

end
