(* ===== verification/Runtime_State.thy ===== *)
theory Runtime_State
  imports Acl Plugin I18n
begin

text \<open>
  The state the handlers of the main loop share (\<open>status::Stats\<close>, the entity and kind registries, the
  root access list and the cache of named ones, the daemon configuration, localisation), actions on
  one part of it, group resolution (\<open>query_actor_group\<close> of \<open>src/src/acl.rs\<close>), the language of a
  caller, and the way a reply is built and sent. The state is one record: each handler runs to its
  end before the next begins, as the main loop does.
\<close>

record stats =
  st_our_did :: string
  st_endpoint_id :: string
  st_ipfs_requests :: u64
  st_rpc_requests :: u64
  st_started_at :: u64
  st_ipfs_publisher_enabled :: bool
  st_entity_names :: "string list"
  st_root_cid :: "string option"
  st_kubo_rpc_url :: string
  st_owners :: "string list"
  st_config_path :: "string option"

record ('x, 'p) runtime =
  rt_io :: "'x io"
  rt_registry :: "(string, 'p entity_plugin) hash_map"
  rt_kinds :: "(string, kind_node) hash_map"
  rt_stats :: stats
  rt_root_acl :: acl_map
  rt_acl_cache :: "(string, acl_map) hash_map"
  rt_config :: config
  rt_i18n :: i18n

type_synonym ('x, 'p, 'a) rt_act = "(('x, 'p) runtime, 'a) act"

abbreviation on_io :: "('x io, 'a) act \<Rightarrow> ('x, 'p, 'a) rt_act" where
  "on_io \<equiv> zoom rt_io (\<lambda>io w. w\<lparr>rt_io := io\<rparr>)"

abbreviation on_out :: "('x, 'a) act \<Rightarrow> ('x, 'p, 'a) rt_act" where
  "on_out m \<equiv> on_io (outside m)"

section \<open>Plugins in the registry\<close>

text \<open>
  Running an action of a registered plugin. The source clones an \<open>Arc\<close> of the plugin out of the
  registry; clones share the instance, so the action starts from what the registry holds under the
  name when it runs, and what it does is seen by everyone who looks the plugin up later. A plugin that
  is no longer registered does not come back by being used.
\<close>

definition current :: "string \<Rightarrow> 'p entity_plugin \<Rightarrow> ('x, 'p) runtime \<Rightarrow> 'p entity_plugin" where
  "current name ep w = (case map_of (rt_registry w) name of Some ep' \<Rightarrow> ep' | None \<Rightarrow> ep)"

definition put_plugin :: "string \<Rightarrow> 'p entity_plugin \<Rightarrow> ('x, 'p) runtime \<Rightarrow> ('x, 'p) runtime" where
  "put_plugin name ep w =
     (if map_of (rt_registry w) name = None then w else w\<lparr>rt_registry := hm_insert name ep (rt_registry w)\<rparr>)"

definition with_plugin :: "string \<Rightarrow> 'p entity_plugin \<Rightarrow> (('x, 'p) plug, 'a) act \<Rightarrow> ('x, 'p, 'a) rt_act" where
  "with_plugin name ep m = (\<lambda>w.
     case m (current name ep w, rt_io w) of (r, (ep', io')) \<Rightarrow> (r, put_plugin name ep' (w\<lparr>rt_io := io'\<rparr>)))"

lemma current_found [simp]: "map_of (rt_registry w) name = Some ep' \<Longrightarrow> current name ep w = ep'"
  by (simp add: current_def)

lemma update_known_keys: "map_of m k \<noteq> None \<Longrightarrow> map fst (hm_insert k v m) = map fst m"
  unfolding hm_insert_def by (induction m) (auto split: if_splits)

lemma put_plugin_rest [simp]:
  "rt_stats (put_plugin name ep w) = rt_stats w" "rt_kinds (put_plugin name ep w) = rt_kinds w"
  "rt_io (put_plugin name ep w) = rt_io w" "rt_config (put_plugin name ep w) = rt_config w"
  "map fst (rt_registry (put_plugin name ep w)) = map fst (rt_registry w)"
  "map_of (rt_registry w) name \<noteq> None \<Longrightarrow> map_of (rt_registry (put_plugin name ep w)) name = Some ep"
  by (simp_all add: put_plugin_def update_known_keys)

text \<open>Persisting state bytes a dispatch queued: saved on success, kept pending nowhere on failure.\<close>

definition save_pending :: "('x, 'p) env \<Rightarrow> string \<Rightarrow> string \<Rightarrow> 'p entity_plugin \<Rightarrow> bytes option \<Rightarrow> ('x, 'p, unit) rt_act" where
  "save_pending E kubo_url name ep pending =
     (case pending of
        None \<Rightarrow> ret ()
      | Some state_bytes \<Rightarrow>
          and_then (attempt (on_out (ipfs_add E kubo_url state_bytes))) (\<lambda>r.
            case r of
              Inr cid \<Rightarrow> with_plugin name ep (modify (\<lambda>(p, io). (mark_saved state_bytes p, io)))
            | Inl _ \<Rightarrow> ret ()))"

section \<open>Group resolution\<close>

definition as_secs :: "nat \<Rightarrow> u64" where
  "as_secs nanos = word_of_nat (nanos div 10 ^ 9)"

definition saturating_mul :: "u64 \<Rightarrow> u64 \<Rightarrow> u64" where
  "saturating_mul a b = (if unat a * unat b < 2 ^ 64 then a * b else - 1)"

definition contains_message :: "('x, 'p) env \<Rightarrow> string \<Rightarrow> u64 \<Rightarrow> bytes \<Rightarrow> local_message" where
  "contains_message E fragment now content =
     \<lparr>lm_id = ''acl-contains-'' @ fragment, lm_from = [], lm_to = ''#'' @ fragment, lm_created_at = now,
      lm_expires = now + 5000000000, lm_reply_to = None, lm_content_type = const_content_type_term E,
      lm_content = content\<rparr>"

definition contained :: "cbor option \<Rightarrow> bool" where
  "contained v =
     (case v of
        Some (CArray v) \<Rightarrow>
          (case v of a # b # _ \<Rightarrow> a = CText '':ok'' \<and> b = CBool True | _ \<Rightarrow> False)
      | Some (CBool b) \<Rightarrow> b
      | _ \<Rightarrow> False)"

definition now_secs :: "('x, 'p) env \<Rightarrow> ('x io, u64) act" where
  "now_secs E = outside (\<lambda>x. case now_nanos E x of (n, x') \<Rightarrow> (Inr (as_secs n), x'))"

definition query_actor_group :: "('x, 'p) env \<Rightarrow> string \<Rightarrow> string \<Rightarrow> ('x, 'p, string list) rt_act" where
  "query_actor_group E group_ref caller =
     (case strip_prefix ''+#'' group_ref of
        None \<Rightarrow> fail (Error (''group ref must use +#<fragment> syntax: '' @ group_ref))
      | Some fragment \<Rightarrow>
          and_then (gets (\<lambda>w. map_of (rt_registry w) fragment)) (\<lambda>found.
          case found of
            None \<Rightarrow> fail (Error (''group actor +#'' @ fragment @ '' not found in registry''))
          | Some ep \<Rightarrow>
              and_then (with_context ''encoding :contains content''
                (encode_or E [] (CArray [CText '':contains'', CText caller]))) (\<lambda>content.
              and_then (on_io (now_secs E)) (\<lambda>now_secs.
              let now = saturating_mul now_secs 1000000000 in
              and_then (with_plugin fragment ep
                (handle_call E \<lparr>ci_msg = contains_message E fragment now content\<rparr>)) (\<lambda>result.
              ret (if contained (cbor_decode E (dr_output result)) then [caller] else []))))))"

section \<open>The caller's language\<close>

definition caller_lang :: "('x, 'p) env \<Rightarrow> string \<Rightarrow> ('x, 'p, string) rt_act" where
  "caller_lang E from =
     and_then (attempt (on_out (resolve_did E from))) (\<lambda>r.
     gets (\<lambda>w.
       case r of
         Inr (Some (IMap ma)) \<Rightarrow>
           (case map_of ma ''lang'' of
              Some (IString lang) \<Rightarrow> if has_lang (rt_i18n w) lang then lang else runtime_lang (rt_i18n w)
            | _ \<Rightarrow> runtime_lang (rt_i18n w))
       | _ \<Rightarrow> runtime_lang (rt_i18n w)))"

section \<open>Replies\<close>

text \<open>
  The tail every service shares: build a signed message, mark what it answers, open an outbox to the
  sender and send. An outbox that does not open is logged and is not an error; a failed send is.
\<close>

definition deliver :: "('x, 'p) env \<Rightarrow> string \<Rightarrow> string \<Rightarrow> message \<Rightarrow> string \<Rightarrow> ('x, unit) act" where
  "deliver E base_id protocol reply failed =
     and_then (attempt (outbox_open E base_id protocol)) (\<lambda>r.
       case r of
         Inr outbox \<Rightarrow> with_context failed (outbox_send E outbox reply)
       | Inl _ \<Rightarrow> ret ())"

definition reply_message :: "('x, 'p) env \<Rightarrow> string \<Rightarrow> string \<Rightarrow> string \<Rightarrow> string \<Rightarrow> bytes \<Rightarrow> string \<Rightarrow> string \<Rightarrow> ('x, message) act" where
  "reply_message E our_did to message_type content_type content reply_to failed =
     and_then (with_context failed (message_new E our_did to message_type content_type content)) (\<lambda>reply.
       ret (reply\<lparr>msg_reply_to := Some reply_to\<rparr>))"

definition sender_did :: "('x, 'p) env \<Rightarrow> string \<Rightarrow> ('w, did) act" where
  "sender_did E from = with_context (''invalid sender DID: '' @ from) (ok_or (Error ''invalid DID'') (did_try_from E from))"

text \<open>\<open>[":error", reason]\<close>, the body of every error reply.\<close>

definition error_term :: "string \<Rightarrow> cbor" where
  "error_term reason = CArray [CText '':error'', CText reason]"

section \<open>Facts\<close>

lemma contained_iff:
  "contained v \<longleftrightarrow> v = Some (CBool True) \<or> (\<exists>rest. v = Some (CArray (CText '':ok'' # CBool True # rest)))"
  by (auto simp: contained_def split: option.splits cbor.splits list.splits)

text \<open>Only a \<open>+#\<close> reference is resolved; in particular the injected \<open>+owners\<close> never is.\<close>

lemma query_unresolved:
  "strip_prefix ''+#'' g = None \<Longrightarrow> \<exists>e. query_actor_group E g caller = fail e"
  by (simp add: query_actor_group_def, rule exI, rule refl)

text \<open>The answer of a group query is the caller alone or nobody.\<close>

lemma query_members:
  "query_actor_group E g caller w = (Inr ms, w') \<Longrightarrow> ms = [caller] \<or> ms = []"
  by (auto simp: query_actor_group_def and_then_ok Let_def split: option.splits if_splits)

section \<open>Transport gates\<close>

text \<open>
  The contract of a service's transport gate: trusted senders and owners pass, everyone else is
  checked against the root list for the service's capability, without groups.
\<close>

locale gate =
  fixes E :: "('x, 'p) env"
    and owners_of :: "'w \<Rightarrow> string list"
    and enter :: "acl_map \<Rightarrow> string \<Rightarrow> ('w, unit) act"
    and cap :: string
    and trusted :: "string \<Rightarrow> bool"
  assumes decides: "enter acl from w =
    (if trusted from \<or> is_owner E (owners_of w) from then (Inr (), w)
     else check_full E acl from [cap] no_groups w)"
begin

lemma owner_passes: "is_owner E (owners_of w) from \<Longrightarrow> enter acl from w = (Inr (), w)"
  by (simp add: decides)

lemma passes_iff:
  "fst (enter acl from w) = Inr () \<longleftrightarrow>
     trusted from \<or> is_owner E (owners_of w) from \<or>
     map_of acl (normalize_principal E from) \<noteq> Some Deny \<and> map_of acl ''*'' \<noteq> Some Deny \<and> check_cap E acl from cap"
  by (auto simp: decides check_full_decides acl_permits_def group_allows_def group_hit_def)

lemma refuses:
  assumes "fst (enter acl from w) \<noteq> Inr ()"
  shows "\<exists>e. enter acl from w = (Inl e, w)"
  using assms check_full_eval [OF quiet_no_groups, of E acl "from" "[cap]" w] by (auto simp: decides)

lemma keeps_state: "snd (enter acl from w) = w"
  using check_full_eval [OF quiet_no_groups, of E acl "from" "[cap]" w] by (auto simp: decides)

end

end
