(* ===== verification/Rpc.thy ===== *)
theory Rpc
  imports Runtime_State
begin

text \<open>
  The \<open>/ma/rpc/0.0.1\<close> handler, \<open>src/src/rpc.rs\<close>: the transport gate, fragment routing, the entity
  gate, dispatch, and the requests a dispatch leaves (state, creations, deletions). An \<open>async\<close> body
  that waits for a lock its own task holds never resumes; such bodies are partial actions, with
  \<open>None\<close> for the task that never resumes.
\<close>

section \<open>Actions that may wait forever\<close>

type_synonym ('w, 'a) pact = "'w \<Rightarrow> ('a res \<times> 'w) option"

definition live :: "('w, 'a) act \<Rightarrow> ('w, 'a) pact" where
  "live m = (\<lambda>w. Some (m w))"

definition then_p :: "('w, 'a) pact \<Rightarrow> ('a \<Rightarrow> ('w, 'b) pact) \<Rightarrow> ('w, 'b) pact" where
  "then_p m f = (\<lambda>w. case m w of None \<Rightarrow> None | Some (Inl e, w') \<Rightarrow> Some (Inl e, w') | Some (Inr a, w') \<Rightarrow> f a w')"

definition attempt_p :: "('w, 'a) pact \<Rightarrow> ('w, 'a res) pact" where
  "attempt_p m = (\<lambda>w. map_option (\<lambda>(r, w'). (Inr r, w')) (m w))"

fun for_each_p :: "('a \<Rightarrow> ('w, unit) pact) \<Rightarrow> 'a list \<Rightarrow> ('w, unit) pact" where
  "for_each_p f [] = live (ret ())"
| "for_each_p f (x # xs) = then_p (f x) (\<lambda>_. for_each_p f xs)"

text \<open>\<open>stats.write().await\<close> with \<open>held\<close>: whether the task itself holds a read guard of \<open>stats\<close>.\<close>

definition write_stats :: "bool \<Rightarrow> (stats \<Rightarrow> stats) \<Rightarrow> (('x, 'p) runtime, unit) pact" where
  "write_stats held f = (\<lambda>w. if held then None else Some (Inr (), w\<lparr>rt_stats := f (rt_stats w)\<rparr>))"

section \<open>Replies\<close>

record rpc_ctx =
  rc_our_did :: string
  rc_kubo_rpc_url :: string

definition send_rpc_reply_typed :: "('x, 'p) env \<Rightarrow> rpc_ctx \<Rightarrow> message \<Rightarrow> string \<Rightarrow> bytes \<Rightarrow> ('x, 'p, unit) rt_act" where
  "send_rpc_reply_typed E ctx incoming content_type content =
     and_then (sender_did E (msg_from incoming)) (\<lambda>sender.
     and_then (on_out (reply_message E (rc_our_did ctx) (msg_from incoming) (const_message_type_rpc_reply E)
         content_type content (msg_id incoming) ''failed to build RPC reply'')) (\<lambda>reply.
     on_out (deliver E (did_base_id sender) RPC_PROTOCOL_ID reply ''RPC reply send failed'')))"

definition send_rpc_reply :: "('x, 'p) env \<Rightarrow> rpc_ctx \<Rightarrow> message \<Rightarrow> bytes \<Rightarrow> ('x, 'p, unit) rt_act" where
  "send_rpc_reply E ctx incoming content =
     send_rpc_reply_typed E ctx incoming (const_content_type_term E) content"

definition send_rpc_error_reply :: "('x, 'p) env \<Rightarrow> rpc_ctx \<Rightarrow> message \<Rightarrow> string \<Rightarrow> ('x, 'p, unit) rt_act" where
  "send_rpc_error_reply E ctx incoming reason =
     and_then (with_context ''failed to encode RPC error reply'' (encode_or E [] (error_term reason)))
       (\<lambda>payload. send_rpc_reply E ctx incoming payload)"

definition send_rpc_i18n_error :: "('x, 'p) env \<Rightarrow> rpc_ctx \<Rightarrow> message \<Rightarrow> string \<Rightarrow> ('x, 'p, unit) rt_act" where
  "send_rpc_i18n_error E ctx incoming key =
     and_then (caller_lang E (msg_from incoming)) (\<lambda>lang.
     and_then (gets (\<lambda>w. t_lang (rt_i18n w) lang key)) (\<lambda>text.
     send_rpc_error_reply E ctx incoming text))"

section \<open>Gates\<close>

definition rpc_gate :: "('x, 'p) env \<Rightarrow> rpc_ctx \<Rightarrow> acl_map \<Rightarrow> string \<Rightarrow> ('x, 'p, unit) rt_act" where
  "rpc_gate E ctx acl from = (\<lambda>w.
     (if starts_with (rc_our_did ctx @ ''#'') from then ret ()
      else if is_owner E (st_owners (rt_stats w)) from then ret ()
      else check_full E acl from [CAP_RPC] no_groups) w)"

definition extract_fragment :: "string \<Rightarrow> string \<Rightarrow> string option" where
  "extract_fragment to our_did = strip_prefix (our_did @ ''#'') to"

definition verb_of_term :: "cbor \<Rightarrow> string option" where
  "verb_of_term term =
     (case term of
        CText s \<Rightarrow> Some s
      | CArray (CText s # _) \<Rightarrow> Some s
      | _ \<Rightarrow> None)"

text \<open>The \<open>Debug\<close> form of an optional string.\<close>

definition debug_opt :: "('x, 'p) env \<Rightarrow> string option \<Rightarrow> string" where
  "debug_opt E v = (case v of None \<Rightarrow> ''None'' | Some s \<Rightarrow> ''Some('' @ butlast (tl (debug_strings E [s])) @ '')'')"

definition gate_caller :: "string \<Rightarrow> string \<Rightarrow> string" where
  "gate_caller our_did from =
     (case strip_prefix (our_did @ ''#'') from of Some frag \<Rightarrow> ''#'' @ frag | None \<Rightarrow> from)"

definition entity_gate :: "('x, 'p) env \<Rightarrow> rpc_ctx \<Rightarrow> 'p entity_plugin \<Rightarrow> string \<Rightarrow> string option \<Rightarrow> ('x, 'p, unit) rt_act" where
  "entity_gate E ctx entity from verb_str =
     (if ep_acl entity = [] then
        fail (Error (''entity '' @ quoted (ep_fragment entity) @ '' has no ACL configured: access denied (fail-closed)''))
      else
        and_then (gets (\<lambda>w. map_of (rt_acl_cache w) (''acls.'' @ ep_acl entity))) (\<lambda>maybe_acl.
        case maybe_acl of
          Some acl_map \<Rightarrow>
            (let verb_ref = (case verb_str of Some v \<Rightarrow> v | None \<Rightarrow> ''*'');
                 caller = gate_caller (rc_our_did ctx) from
             in with_context (''entity '' @ quoted (ep_fragment entity) @ '' ACL denied '' @ from @
                    '' calling '' @ debug_opt E verb_str)
                  (check_full E acl_map caller [verb_ref, ''*''] (\<lambda>g. query_actor_group E g caller)))
        | None \<Rightarrow>
            fail (Error (''entity '' @ quoted (ep_fragment entity) @ '' ACL '' @ quoted (ep_acl entity) @
              '' not found in cache: access denied''))))"

section \<open>Entity requests\<close>

definition insert_entity :: "string \<Rightarrow> string \<Rightarrow> runtime_manifest \<Rightarrow> runtime_manifest" where
  "insert_entity name cid m = m\<lparr>mf_entities := hm_insert name (ipld_link_new cid) (mf_entities m)\<rparr>"

definition persist_new_entity :: "('x, 'p) env \<Rightarrow> string \<Rightarrow> string \<Rightarrow> string \<Rightarrow> entity_node \<Rightarrow> bool \<Rightarrow>
    (('x, 'p) runtime, unit) pact" where
  "persist_new_entity E kubo_url old_root_cid fragment node held =
     then_p (live (on_out (dag_get E manifest_of_json kubo_url old_root_cid))) (\<lambda>manifest.
     then_p (live (on_out (dag_put E kubo_url (json_of_entity_node node)))) (\<lambda>entity_cid.
     then_p (live (on_out (dag_put E kubo_url (json_of_manifest (insert_entity fragment entity_cid manifest)))))
       (\<lambda>new_root_cid.
     then_p (live (attempt (on_out (pin_update E kubo_url old_root_cid new_root_cid)))) (\<lambda>_.
     write_stats held (\<lambda>s. s\<lparr>st_root_cid := Some new_root_cid\<rparr>)))))"

definition created_node :: "'p entity_plugin \<Rightarrow> create_entity_request \<Rightarrow> entity_node" where
  "created_node entity req =
     \<lparr>en_kind = cr_kind_protocol req, en_behaviour = Some (ipld_link_new (cr_behaviour_cid req)),
      en_acl = ep_acl entity, en_state = None, en_parent = Some (ep_fragment entity), en_label = None,
      en_lifecycle = New\<rparr>"

definition init_failed_envelope :: "('x, 'p) env \<Rightarrow> string \<Rightarrow> create_entity_request \<Rightarrow> string \<times> send_envelope" where
  "init_failed_envelope E our_did req =
     (cr_parent req,
      \<lparr>se_to = our_did @ ''#'' @ cr_parent req, se_content_type = const_content_type_term E,
       se_content = (case cbor_encode E (CArray [CText '':error'',
            CText (''init() failed for #'' @ cr_fragment req), CText (cr_fragment req)]) of
          Some b \<Rightarrow> b | None \<Rightarrow> []),
       se_reply_to = None\<rparr>)"

text \<open>
  One creation request. The scrutinee of \<open>if let Some(ref old_cid) = ctx.stats.read().await.root_cid\<close>
  keeps its read guard until the end of the block, so \<open>persist_new_entity\<close> runs with it held.
\<close>

definition create_one :: "('x, 'p) env \<Rightarrow> rpc_ctx \<Rightarrow> 'p entity_plugin \<Rightarrow> create_entity_request \<Rightarrow> (('x, 'p) runtime, unit) pact" where
  "create_one E ctx entity req = (\<lambda>w.
     case map_of (rt_kinds w) (cr_kind_protocol req) of
       None \<Rightarrow> Some (Inr (), w)
     | Some kind_node \<Rightarrow>
         (let node = created_node entity req in
          then_p (live (attempt (on_io (load E (cr_fragment req) node kind_node (rc_our_did ctx) (rc_kubo_rpc_url ctx)))))
            (\<lambda>loaded.
              case loaded of
                Inr (ep, Running) \<Rightarrow>
                  then_p (live (modify (\<lambda>w. w\<lparr>rt_registry := hm_insert (cr_fragment req) ep (rt_registry w)\<rparr>))) (\<lambda>_. \<lambda>w.
                    case st_root_cid (rt_stats w) of
                      Some old_cid \<Rightarrow>
                        then_p (attempt_p (persist_new_entity E (rc_kubo_rpc_url ctx) old_cid (cr_fragment req)
                            (node\<lparr>en_lifecycle := Running\<rparr>) True)) (\<lambda>_. live (ret ())) w
                    | None \<Rightarrow> Some (Inr (), w))
              | Inr (_, LError) \<Rightarrow>
                  live (modify (\<lambda>w. w\<lparr>rt_io := (rt_io w)\<lparr>io_queue := io_queue (rt_io w) @
                    [init_failed_envelope E (rc_our_did ctx) req]\<rparr>\<rparr>))
              | _ \<Rightarrow> live (ret ())) w))"

definition may_delete :: "(string, 'p entity_plugin) hash_map \<Rightarrow> string \<Rightarrow> string \<Rightarrow> bool" where
  "may_delete reg caller target_fragment =
     (case map_of reg target_fragment of
        None \<Rightarrow> False
      | Some target \<Rightarrow>
          (ep_parent target = Some caller \<or> target_fragment = caller) \<and>
          \<not> list_ex (\<lambda>e. ep_parent (snd e) = Some target_fragment) reg)"

definition delete_one :: "'p entity_plugin \<Rightarrow> string \<Rightarrow> ('x, 'p, unit) rt_act" where
  "delete_one entity target_fragment = modify (\<lambda>w.
     if may_delete (rt_registry w) (ep_fragment entity) target_fragment
     then w\<lparr>rt_registry := hm_remove target_fragment (rt_registry w)\<rparr> else w)"

section \<open>Dispatch\<close>

definition rpc_local_message :: "('x, 'p) env \<Rightarrow> message \<Rightarrow> bytes \<Rightarrow> local_message" where
  "rpc_local_message E message content =
     \<lparr>lm_id = msg_id message, lm_from = msg_from message, lm_to = msg_to message,
      lm_created_at = f64_to_u64_nanos E (msg_created_at message), lm_expires = msg_exp message,
      lm_reply_to = msg_reply_to message, lm_content_type = msg_content_type message, lm_content = content\<rparr>"

definition dispatch_entity :: "('x, 'p) env \<Rightarrow> 'p entity_plugin \<Rightarrow> cast_input \<Rightarrow> ('x, 'p, dispatch_result) rt_act" where
  "dispatch_entity E entity input =
     with_plugin (ep_fragment entity) entity
       (case ep_kind entity of Stateless \<Rightarrow> handle_cast E input | Stateful \<Rightarrow> handle_call E input)"

definition handle_entity_plugin_message :: "('x, 'p) env \<Rightarrow> rpc_ctx \<Rightarrow> message \<Rightarrow> cbor \<Rightarrow> 'p entity_plugin \<Rightarrow>
    (('x, 'p) runtime, unit) pact" where
  "handle_entity_plugin_message E ctx message term entity =
     then_p (live (entity_gate E ctx entity (msg_from message) (verb_of_term term))) (\<lambda>_.
     then_p (live (with_context ''re-encoding RPC content for plugin dispatch'' (encode_or E [] term))) (\<lambda>content.
     then_p (live (dispatch_entity E entity \<lparr>ci_msg = rpc_local_message E message content\<rparr>)) (\<lambda>result.
     then_p (live (save_pending E (rc_kubo_rpc_url ctx) (ep_fragment entity) entity (dr_pending_state result))) (\<lambda>_.
     then_p (for_each_p (create_one E ctx entity) (dr_create_requests result)) (\<lambda>_.
     live (for_each (delete_one entity) (dr_delete_requests result)))))))"

definition handle_rpc_message :: "('x, 'p) env \<Rightarrow> rpc_ctx \<Rightarrow> acl_map \<Rightarrow> message \<Rightarrow> (('x, 'p) runtime, unit) pact" where
  "handle_rpc_message E ctx acl message =
     then_p (live (rpc_gate E ctx acl (msg_from message))) (\<lambda>_.
     if msg_message_type message \<noteq> const_message_type_rpc E then
       live (fail (Error (''unsupported RPC message type '' @ quoted (msg_message_type message) @ '' on '' @ RPC_PROTOCOL_ID)))
     else
       then_p (live (with_context ''invalid CBOR in RPC message''
           (ok_or (Error []) (cbor_decode E (msg_payload message))))) (\<lambda>term.
       case extract_fragment (msg_to message) (rc_our_did ctx) of
         Some fragment \<Rightarrow>
           then_p (live (gets (\<lambda>w. map_of (rt_registry w) fragment))) (\<lambda>ep.
             case ep of
               Some entity \<Rightarrow>
                 then_p (attempt_p (handle_entity_plugin_message E ctx message term entity)) (\<lambda>r.
                   case r of
                     Inr _ \<Rightarrow> live (ret ())
                   | Inl err \<Rightarrow> live (send_rpc_error_reply E ctx message (display err)))
             | None \<Rightarrow> live (send_rpc_error_reply E ctx message (''unknown entity fragment: '' @ fragment)))
       | None \<Rightarrow>
           (case term of
              CText ping_text \<Rightarrow>
                if ping_text = '':ping'' then
                  then_p (live (with_context ''encode :pong'' (encode_or E [] (CText '':pong''))))
                    (\<lambda>pong. live (send_rpc_reply E ctx message pong))
                else live (send_rpc_i18n_error E ctx message ''rpc-unknown-verb'')
            | _ \<Rightarrow> live (send_rpc_i18n_error E ctx message ''rpc-not-text-atom''))))"

end
