(* ===== verification/Crud_Base.thy ===== *)
theory Crud_Base
  imports Runtime_State Rpc
begin

text \<open>
  The shared part of the CRUD service, \<open>src/src/crud/helpers.rs\<close>: paths and payloads, the manifest
  read-modify-write cycle, loading a plugin into the registry, and replies.
\<close>

section \<open>Paths and payloads\<close>

definition parse_path :: "string \<Rightarrow> (string \<times> string list) res" where
  "parse_path path =
     (case strip_prefix '':'' path of
        None \<Rightarrow> Inl (Error (''CRUD path must start with '' @ quoted '':'' @ [CHR 0x20, CHR 0xE2, CHR 0x80, CHR 0x94] @ '' got: '' @ path))
      | Some body \<Rightarrow>
          (case (case split_once (CHR ''.'') body of Some (ns, rest) \<Rightarrow> (ns, rest) | None \<Rightarrow> (body, [])) of
             (ns, rest_str) \<Rightarrow>
               if ns = [] then Inl (Error (''CRUD path has no namespace: '' @ path))
               else Inr (ns, filter (\<lambda>s. s \<noteq> []) (split_on (CHR ''.'') rest_str))))"

datatype crud_op = Crud_Get string | Crud_Set string cbor | Crud_Delete string

definition crud_op_of_cbor :: "cbor \<Rightarrow> crud_op res" where
  "crud_op_of_cbor val =
     (case val of
        CArray [first, second] \<Rightarrow>
          (case first of
             CText verb \<Rightarrow>
               if verb = '':get'' then
                 (case second of CText path \<Rightarrow> Inr (Crud_Get path) | _ \<Rightarrow> Inl (Error ''CRUD get: path must be a text string''))
               else if verb = '':delete'' then
                 (case second of CText path \<Rightarrow> Inr (Crud_Delete path) | _ \<Rightarrow> Inl (Error ''CRUD delete: path must be a text string''))
               else Inr (Crud_Set verb second)
           | _ \<Rightarrow> Inl (Error ''CRUD payload: first element must be a text path or verb''))
      | CArray items \<Rightarrow> Inl (Error (''CRUD payload must be a 2-element CBOR array, got '' @ show_nat (length items)))
      | _ \<Rightarrow> Inl (Error ''CRUD payload must be a 2-element CBOR array''))"

definition decode_crud_payload :: "('x, 'p) env \<Rightarrow> bytes \<Rightarrow> crud_op res" where
  "decode_crud_payload E content =
     (case cbor_decode E content of
        None \<Rightarrow> Inl (Context ''invalid CBOR in CRUD payload'' (Error []))
      | Some val \<Rightarrow> crud_op_of_cbor val)"

definition is_cidv1 :: "string \<Rightarrow> bool" where
  "is_cidv1 s = (starts_with ''b'' s \<and> length s > 10)"

section \<open>Manifest cycle\<close>

record crud_ctx =
  cc_our_did :: string
  cc_kubo_rpc_url :: string

definition current_root_cid :: "('x, 'p, string) rt_act" where
  "current_root_cid =
     and_then (gets (\<lambda>w. st_root_cid (rt_stats w))) (ok_or (Error ''no manifest root CID available''))"

definition load_manifest :: "('x, 'p) env \<Rightarrow> crud_ctx \<Rightarrow> ('x, 'p, runtime_manifest) rt_act" where
  "load_manifest E ctx =
     and_then current_root_cid (\<lambda>root_cid. on_out (dag_get E manifest_of_json (cc_kubo_rpc_url ctx) root_cid))"

definition update_stats_entities :: "('x, 'p, unit) rt_act" where
  "update_stats_entities =
     modify (\<lambda>w. w\<lparr>rt_stats := (rt_stats w)\<lparr>st_entity_names := map fst (rt_registry w)\<rparr>\<rparr>)"

fun yaml_strs :: "yaml list \<Rightarrow> string list" where
  "yaml_strs [] = []"
| "yaml_strs (v # vs) = (case yaml_as_str v of Some s \<Rightarrow> s # yaml_strs vs | None \<Rightarrow> yaml_strs vs)"

text \<open>The new root and, when the manifest has a list of owners, the new owners.\<close>

definition adopt_manifest :: "string \<Rightarrow> runtime_manifest \<Rightarrow> stats \<Rightarrow> stats" where
  "adopt_manifest new_cid manifest stats =
     (let s = stats\<lparr>st_root_cid := Some new_cid\<rparr> in
      case map_of (mf_config manifest) ''owners'' of
        Some (YSequence seq) \<Rightarrow> s\<lparr>st_owners := yaml_strs seq\<rparr>
      | _ \<Rightarrow> s)"

definition with_manifest_crud :: "('x, 'p) env \<Rightarrow> crud_ctx \<Rightarrow> (runtime_manifest \<Rightarrow> runtime_manifest) \<Rightarrow> ('x, 'p, string) rt_act" where
  "with_manifest_crud E ctx f =
     and_then current_root_cid (\<lambda>old_cid.
     and_then (on_out (dag_get E manifest_of_json (cc_kubo_rpc_url ctx) old_cid)) (\<lambda>manifest.
     let manifest' = f manifest in
     and_then (on_out (dag_put E (cc_kubo_rpc_url ctx) (json_of_manifest manifest'))) (\<lambda>new_cid.
     and_then (attempt (on_out (pin_update E (cc_kubo_rpc_url ctx) old_cid new_cid))) (\<lambda>_.
     and_then update_stats_entities (\<lambda>_.
     and_then (modify (\<lambda>w. w\<lparr>rt_stats := adopt_manifest new_cid manifest' (rt_stats w)\<rparr>)) (\<lambda>_.
     ret new_cid))))))"

definition acl_cache_update :: "('x, 'p) env \<Rightarrow> crud_ctx \<Rightarrow> string \<Rightarrow> string \<Rightarrow> ('x, 'p, unit) rt_act" where
  "acl_cache_update E ctx cache_key cid =
     and_then (attempt (on_out (load_acl_from_cid E (cc_kubo_rpc_url ctx) cid))) (\<lambda>r.
       case r of
         Inr acl_map \<Rightarrow> modify (\<lambda>w. w\<lparr>rt_acl_cache := hm_insert cache_key acl_map (rt_acl_cache w)\<rparr>)
       | Inl _ \<Rightarrow> ret ())"

text \<open>The kind of an entity: from the kind registry, else from the manifest; \<open>None\<close> when a step fails.\<close>

definition lookup_kind :: "('x, 'p) env \<Rightarrow> crud_ctx \<Rightarrow> string \<Rightarrow> ('x, 'p, kind_node option) rt_act" where
  "lookup_kind E ctx kind =
     and_then (gets (\<lambda>w. map_of (rt_kinds w) kind)) (\<lambda>found.
     case found of
       Some k \<Rightarrow> ret (Some k)
     | None \<Rightarrow>
         and_then (attempt (load_manifest E ctx)) (\<lambda>r.
         case r of
           Inl _ \<Rightarrow> ret None
         | Inr manifest \<Rightarrow>
             (case get_protocol (mf_kinds manifest) kind of
                None \<Rightarrow> ret None
              | Some kind_link \<Rightarrow>
                  and_then (attempt (on_out (dag_get E kind_node_of_json (cc_kubo_rpc_url ctx) (link_cid kind_link))))
                    (\<lambda>r. ret (case r of Inl _ \<Rightarrow> None | Inr k \<Rightarrow> Some k)))))"

definition register_entity_plugin :: "('x, 'p) env \<Rightarrow> crud_ctx \<Rightarrow> string \<Rightarrow> entity_node \<Rightarrow> ('x, 'p, unit) rt_act" where
  "register_entity_plugin E ctx name node =
     and_then (lookup_kind E ctx (en_kind node)) (\<lambda>kind.
     case kind of
       None \<Rightarrow> ret ()
     | Some kind_node \<Rightarrow>
         and_then (attempt (on_io (load E name node kind_node (cc_our_did ctx) (cc_kubo_rpc_url ctx)))) (\<lambda>r.
         case r of
           Inr (ep, _) \<Rightarrow> modify (\<lambda>w. w\<lparr>rt_registry := hm_insert name ep (rt_registry w)\<rparr>)
         | Inl _ \<Rightarrow> ret ()))"

section \<open>Replies\<close>

definition send_crud_reply_raw :: "('x, 'p) env \<Rightarrow> crud_ctx \<Rightarrow> message \<Rightarrow> string \<Rightarrow> string \<Rightarrow> bytes \<Rightarrow> ('x, 'p, unit) rt_act" where
  "send_crud_reply_raw E ctx incoming reply_type content_type content =
     and_then (sender_did E (msg_from incoming)) (\<lambda>sender.
     and_then (on_out (reply_message E (cc_our_did ctx) (msg_from incoming) reply_type content_type content
         (msg_id incoming) ''failed to build CRUD reply'')) (\<lambda>reply.
     on_out (deliver E (did_base_id sender) CRUD_PROTOCOL_ID reply ''CRUD reply send failed'')))"

definition send_crud_reply :: "('x, 'p) env \<Rightarrow> crud_ctx \<Rightarrow> message \<Rightarrow> string \<Rightarrow> bytes \<Rightarrow> ('x, 'p, unit) rt_act" where
  "send_crud_reply E ctx incoming reply_type content =
     send_crud_reply_raw E ctx incoming reply_type (const_content_type_term E) content"

definition send_crud_reply_cbor :: "('x, 'p) env \<Rightarrow> crud_ctx \<Rightarrow> message \<Rightarrow> string \<Rightarrow> cbor \<Rightarrow> ('x, 'p, unit) rt_act" where
  "send_crud_reply_cbor E ctx incoming reply_type value =
     and_then (with_context ''encoding CBOR reply'' (encode_or E [] value))
       (\<lambda>out. send_crud_reply E ctx incoming reply_type out)"

definition send_crud_ok :: "('x, 'p) env \<Rightarrow> crud_ctx \<Rightarrow> message \<Rightarrow> string \<Rightarrow> ('x, 'p, unit) rt_act" where
  "send_crud_ok E ctx incoming reply_type =
     and_then (with_context ''encoding :ok'' (encode_or E [] (CText '':ok'')))
       (\<lambda>out. send_crud_reply E ctx incoming reply_type out)"

definition send_crud_ok_cid :: "('x, 'p) env \<Rightarrow> crud_ctx \<Rightarrow> message \<Rightarrow> string \<Rightarrow> string \<Rightarrow> ('x, 'p, unit) rt_act" where
  "send_crud_ok_cid E ctx incoming reply_type cid =
     and_then (with_context ''encoding [:ok, cid]'' (encode_or E [] (CArray [CText '':ok'', CText cid])))
       (\<lambda>out. send_crud_reply E ctx incoming reply_type out)"

definition send_crud_error :: "('x, 'p) env \<Rightarrow> crud_ctx \<Rightarrow> message \<Rightarrow> string \<Rightarrow> string \<Rightarrow> ('x, 'p, unit) rt_act" where
  "send_crud_error E ctx incoming reply_type reason =
     and_then (with_context ''encoding error reply'' (encode_or E [] (error_term reason)))
       (\<lambda>out. send_crud_reply E ctx incoming reply_type out)"

definition send_crud_i18n_error :: "('x, 'p) env \<Rightarrow> crud_ctx \<Rightarrow> message \<Rightarrow> string \<Rightarrow> string \<Rightarrow> ('x, 'p, unit) rt_act" where
  "send_crud_i18n_error E ctx incoming reply_type key =
     and_then (caller_lang E (msg_from incoming)) (\<lambda>lang.
     and_then (gets (\<lambda>w. t_lang (rt_i18n w) lang key)) (\<lambda>text.
     send_crud_error E ctx incoming reply_type text))"

definition send_crud_i18n_errorf :: "('x, 'p) env \<Rightarrow> crud_ctx \<Rightarrow> message \<Rightarrow> string \<Rightarrow> string \<Rightarrow> (string \<times> string) list \<Rightarrow>
    ('x, 'p, unit) rt_act" where
  "send_crud_i18n_errorf E ctx incoming reply_type key args =
     and_then (caller_lang E (msg_from incoming)) (\<lambda>lang.
     and_then (gets (\<lambda>w. tf_lang (rt_i18n w) lang key args)) (\<lambda>text.
     send_crud_error E ctx incoming reply_type text))"

section \<open>Values as CBOR\<close>

text \<open>What serde writes to CBOR for JSON and YAML values, and so for the nodes built from them.\<close>

fun cbor_of_json :: "json \<Rightarrow> cbor" where
  "cbor_of_json JNull = CNull"
| "cbor_of_json (JBool b) = CBool b"
| "cbor_of_json (JInt i) = CInteger i"
| "cbor_of_json (JFloat f) = CFloat f"
| "cbor_of_json (JString s) = CText s"
| "cbor_of_json (JArray xs) = CArray (map cbor_of_json xs)"
| "cbor_of_json (JObject m) = CMap (map (\<lambda>e. (CText (fst e), cbor_of_json (snd e))) m)"

fun cbor_of_yaml :: "yaml \<Rightarrow> cbor" where
  "cbor_of_yaml YNull = CNull"
| "cbor_of_yaml (YBool b) = CBool b"
| "cbor_of_yaml (YInt i) = CInteger i"
| "cbor_of_yaml (YFloat f) = CFloat f"
| "cbor_of_yaml (YString s) = CText s"
| "cbor_of_yaml (YSequence xs) = CArray (map cbor_of_yaml xs)"
| "cbor_of_yaml (YMapping m) = CMap (map (\<lambda>e. (CText (fst e), cbor_of_yaml (snd e))) m)"

end
