(* ===== verification/Bootstrap.thy ===== *)
theory Bootstrap
  imports Crud_Base
begin

text \<open>
  Bootstrap, export, start-up loading and shutdown saving, \<open>src/src/bootstrap.rs\<close>: the descriptor
  published as linked IPLD nodes under one root, the descriptor read back from a root, the plugins a
  root names loaded into the registry, and the states of the plugins written back under a new root.
  Reading and writing the YAML text of a descriptor is the foreign \<open>serde_yaml\<close>, an argument here.
\<close>

section \<open>Descriptors\<close>

record bootstrap_kind =
  bk_api :: "string list"
  bk_host_functions :: "string list"
  bk_evaluator :: evaluator
  bk_attributes :: "(string, json) btree_map"
  bk_allow :: "string list"

datatype bootstrap_entity =
    Bs_Cid string
  | Bs_Inline string "ipld_link option" string "ipld_link option"

record bootstrap_runtime =
  bs_kinds :: "(string, bootstrap_kind) btree_map"
  bs_acl :: "acl_map option"
  bs_entities :: "(string, bootstrap_entity) hash_map"
  bs_acls :: "(string, acl_map) hash_map"

section \<open>Publishing\<close>

text \<open>A \<open>for\<close> loop over an accumulator; the first error ends it.\<close>

fun fold_act :: "('a \<Rightarrow> 's \<Rightarrow> ('w, 's) act) \<Rightarrow> 'a list \<Rightarrow> 's \<Rightarrow> ('w, 's) act" where
  "fold_act f [] s = ret s"
| "fold_act f (x # xs) s = and_then (f x s) (fold_act f xs)"

definition kind_node_of :: "string \<Rightarrow> bootstrap_kind \<Rightarrow> kind_node" where
  "kind_node_of protocol bk =
     \<lparr>kn_protocol = protocol, kn_api = bk_api bk, kn_host_functions = bk_host_functions bk,
      kn_evaluator = bk_evaluator bk, kn_attributes = bk_attributes bk, kn_allow = bk_allow bk\<rparr>"

definition publish_kind :: "('x, 'p) env \<Rightarrow> string \<Rightarrow> string \<times> bootstrap_kind \<Rightarrow> kind_tree \<Rightarrow> ('x, kind_tree) act" where
  "publish_kind E kubo_url e kinds =
     and_then (with_context (''dag_put kind '' @ fst e)
         (dag_put E kubo_url (json_of_kind_node (kind_node_of (fst e) (snd e)))))
       (\<lambda>cid. ret (insert_protocol (fst e) (ipld_link_new cid) kinds))"

definition inline_node :: "string \<Rightarrow> ipld_link option \<Rightarrow> string \<Rightarrow> ipld_link option \<Rightarrow> entity_node" where
  "inline_node kind behaviour acl state =
     \<lparr>en_kind = kind, en_behaviour = behaviour, en_acl = acl, en_state = state, en_parent = None,
      en_label = None, en_lifecycle = New\<rparr>"

definition publish_entity :: "('x, 'p) env \<Rightarrow> string \<Rightarrow> string \<times> bootstrap_entity \<Rightarrow>
    (string, ipld_link) hash_map \<Rightarrow> ('x, (string, ipld_link) hash_map) act" where
  "publish_entity E kubo_url e entities_map =
     (case snd e of
        Bs_Cid cid \<Rightarrow> ret (hm_insert (fst e) (ipld_link_new cid) entities_map)
      | Bs_Inline kind behaviour acl state \<Rightarrow>
          and_then (with_context (''dag_put entity '' @ fst e)
              (dag_put E kubo_url (json_of_entity_node (inline_node kind behaviour acl state))))
            (\<lambda>cid. ret (hm_insert (fst e) (ipld_link_new cid) entities_map)))"

definition publish_acl :: "('x, 'p) env \<Rightarrow> string \<Rightarrow> string \<times> acl_map \<Rightarrow>
    (string, ipld_link) hash_map \<Rightarrow> ('x, (string, ipld_link) hash_map) act" where
  "publish_acl E kubo_url e acls_map =
     and_then (with_context (''dag_put acl '' @ fst e) (dag_put E kubo_url (acl_to_json E (snd e))))
       (\<lambda>cid. ret (hm_insert (fst e) (ipld_link_new cid) acls_map))"

text \<open>The pin of the new root: moved from the old one (failures are logged), else taken (or the error).\<close>

definition swap_pin :: "('x, 'p) env \<Rightarrow> string \<Rightarrow> string option \<Rightarrow> string \<Rightarrow> ('x, unit) act" where
  "swap_pin E kubo_url old_root_cid root_cid =
     (case old_root_cid of
        Some old \<Rightarrow> and_then (attempt (pin_update E kubo_url old root_cid)) (\<lambda>_. ret ())
      | None \<Rightarrow> with_context ''pinning new root manifest'' (pin_add E kubo_url root_cid))"

definition with_active_lang :: "('x, 'p) env \<Rightarrow> string \<Rightarrow> (string, yaml) btree_map \<Rightarrow> (string, yaml) btree_map" where
  "with_active_lang E active_lang config =
     (if map_of (bundled_lang_map E) active_lang \<noteq> None
      then bt_insert ''i18n'' (YString active_lang) config else config)"

definition acl_or_default :: "acl_map option \<Rightarrow> acl_map" where
  "acl_or_default acl = (case acl of None \<Rightarrow> [] | Some a \<Rightarrow> a)"

definition build_manifest :: "('x, 'p) env \<Rightarrow> bootstrap_runtime \<Rightarrow> string \<Rightarrow> (string, yaml) btree_map \<Rightarrow>
    string \<Rightarrow> string option \<Rightarrow> ('x, string) act" where
  "build_manifest E cfg kubo_url runtime_config active_lang old_root_cid =
     and_then (fold_act (publish_kind E kubo_url) (bs_kinds cfg) []) (\<lambda>kinds.
     and_then (fold_act (publish_entity E kubo_url) (bs_entities cfg) []) (\<lambda>entities_map.
     and_then (fold_act (publish_acl E kubo_url) (bs_acls cfg) []) (\<lambda>acls_map.
     and_then (with_context ''dag_put root acl'' (dag_put E kubo_url (acl_to_json E (acl_or_default (bs_acl cfg)))))
       (\<lambda>acl_cid.
     let root = \<lparr>mf_acl = Some (ipld_link_new acl_cid), mf_acls = acls_map, mf_protocol = ''/ma/runtime/0.1.0'',
                 mf_kinds = kinds, mf_entities = entities_map, mf_i18n = bundled_lang_map E,
                 mf_config = with_active_lang E active_lang runtime_config\<rparr> in
     and_then (with_context ''dag_put root manifest'' (dag_put E kubo_url (json_of_manifest root))) (\<lambda>root_cid.
     and_then (swap_pin E kubo_url old_root_cid root_cid) (\<lambda>_. ret root_cid))))))"

definition run_bootstrap :: "(string \<Rightarrow> bootstrap_runtime option) \<Rightarrow> ('x, 'p) env \<Rightarrow> string \<Rightarrow> string \<Rightarrow>
    (string, yaml) btree_map \<Rightarrow> string \<Rightarrow> string option \<Rightarrow> ('x, string) act" where
  "run_bootstrap from_yaml E yaml_path kubo_url runtime_config active_lang old_root_cid =
     and_then (with_context (''reading bootstrap file: '' @ yaml_path) (read_to_string E yaml_path)) (\<lambda>raw.
     and_then (with_context ''parsing bootstrap YAML'' (ok_or (Error []) (from_yaml raw))) (\<lambda>yaml.
     build_manifest E yaml kubo_url runtime_config active_lang old_root_cid))"

section \<open>Exporting\<close>

definition export_kind :: "('x, 'p) env \<Rightarrow> string \<Rightarrow> string \<times> ipld_link \<Rightarrow> (string, bootstrap_kind) btree_map \<Rightarrow>
    ('x, (string, bootstrap_kind) btree_map) act" where
  "export_kind E kubo_url e kinds =
     and_then (with_context (''fetching kind '' @ fst e) (dag_get E kind_node_of_json kubo_url (link_cid (snd e))))
       (\<lambda>node. ret (bt_insert (fst e)
          \<lparr>bk_api = kn_api node, bk_host_functions = kn_host_functions node, bk_evaluator = kn_evaluator node,
           bk_attributes = kn_attributes node, bk_allow = kn_allow node\<rparr> kinds))"

definition export_entity :: "('x, 'p) env \<Rightarrow> string \<Rightarrow> string \<times> ipld_link \<Rightarrow> (string, bootstrap_entity) hash_map \<Rightarrow>
    ('x, (string, bootstrap_entity) hash_map) act" where
  "export_entity E kubo_url e entities =
     and_then (with_context (''fetching entity '' @ fst e) (dag_get E entity_node_of_json kubo_url (link_cid (snd e))))
       (\<lambda>node. ret (hm_insert (fst e)
          (Bs_Inline (en_kind node) (en_behaviour node) (en_acl node) (en_state node)) entities))"

definition export_acl :: "('x, 'p) env \<Rightarrow> string \<Rightarrow> string \<times> ipld_link \<Rightarrow> (string, acl_map) hash_map \<Rightarrow>
    ('x, (string, acl_map) hash_map) act" where
  "export_acl E kubo_url e acls =
     and_then (with_context (''fetching acl '' @ fst e) (dag_get E (acl_of_json E) kubo_url (link_cid (snd e))))
       (\<lambda>acl_map. ret (hm_insert (fst e) acl_map acls))"

definition export_runtime :: "('x, 'p) env \<Rightarrow> string \<Rightarrow> string \<Rightarrow> ('x, bootstrap_runtime) act" where
  "export_runtime E root_cid kubo_url =
     and_then (with_context ''fetching root manifest'' (dag_get E manifest_of_json kubo_url root_cid)) (\<lambda>manifest.
     and_then (fold_act (export_kind E kubo_url) (iter_protocols (mf_kinds manifest)) []) (\<lambda>kinds.
     and_then (fold_act (export_entity E kubo_url) (mf_entities manifest) []) (\<lambda>entities.
     and_then (fold_act (export_acl E kubo_url) (mf_acls manifest) []) (\<lambda>acls.
     and_then (case mf_acl manifest of
         Some link \<Rightarrow> and_then (with_context ''fetching root acl'' (dag_get E (acl_of_json E) kubo_url (link_cid link)))
           (\<lambda>a. ret (Some a))
       | None \<Rightarrow> ret None) (\<lambda>acl.
     ret \<lparr>bs_kinds = kinds, bs_acl = acl, bs_entities = entities, bs_acls = acls\<rparr>)))))"

definition export_bootstrap_yaml :: "(bootstrap_runtime \<Rightarrow> string option) \<Rightarrow> ('x, 'p) env \<Rightarrow> string \<Rightarrow> string \<Rightarrow> ('x, string) act" where
  "export_bootstrap_yaml to_yaml E root_cid kubo_url =
     and_then (export_runtime E root_cid kubo_url) (\<lambda>runtime.
     with_context ''serializing bootstrap YAML'' (ok_or (Error []) (to_yaml runtime)))"

section \<open>Loading and saving entities\<close>

definition load_entity :: "('x, 'p) env \<Rightarrow> string \<Rightarrow> string \<Rightarrow> runtime_manifest \<Rightarrow> string \<times> ipld_link \<Rightarrow> nat \<Rightarrow>
    ('x, 'p, nat) rt_act" where
  "load_entity E kubo_url our_did manifest e loaded =
     and_then (attempt (on_out (dag_get E entity_node_of_json kubo_url (link_cid (snd e))))) (\<lambda>r.
     case r of
       Inl _ \<Rightarrow> ret loaded
     | Inr node \<Rightarrow>
         (case get_protocol (mf_kinds manifest) (en_kind node) of
            None \<Rightarrow> ret loaded
          | Some kind_link \<Rightarrow>
              and_then (attempt (on_out (dag_get E kind_node_of_json kubo_url (link_cid kind_link)))) (\<lambda>r.
              case r of
                Inl _ \<Rightarrow> ret loaded
              | Inr kind_node \<Rightarrow>
                  and_then (attempt (on_io (load E (fst e) node kind_node our_did kubo_url))) (\<lambda>r.
                  case r of
                    Inr (ep, _) \<Rightarrow>
                      and_then (modify (\<lambda>w. w\<lparr>rt_registry := hm_insert (fst e) ep (rt_registry w)\<rparr>))
                        (\<lambda>_. ret (loaded + 1))
                  | Inl _ \<Rightarrow> ret loaded))))"

definition load_entities :: "('x, 'p) env \<Rightarrow> string \<Rightarrow> string \<Rightarrow> string \<Rightarrow> ('x, 'p, nat) rt_act" where
  "load_entities E root_cid kubo_url our_did =
     and_then (attempt (on_out (dag_get E manifest_of_json kubo_url root_cid))) (\<lambda>r.
     case r of
       Inl _ \<Rightarrow> ret 0
     | Inr manifest \<Rightarrow> fold_act (load_entity E kubo_url our_did manifest) (mf_entities manifest) 0)"

definition stopped :: "string \<Rightarrow> entity_node \<Rightarrow> entity_node" where
  "stopped state_cid node =
     (let node' = node\<lparr>en_state := Some (ipld_link_new state_cid)\<rparr> in
      if en_lifecycle node' = Running then node'\<lparr>en_lifecycle := Stopped\<rparr> else node')"

definition save_entity_state :: "('x, 'p) env \<Rightarrow> string \<Rightarrow> string \<times> 'p entity_plugin \<Rightarrow> runtime_manifest \<Rightarrow>
    ('x, 'p, runtime_manifest) rt_act" where
  "save_entity_state E kubo_url e manifest =
     (if ep_kind (snd e) = Stateless then ret manifest
      else and_then (attempt (with_plugin (fst e) (snd e) (trigger_save E kubo_url))) (\<lambda>saved.
        case saved of
          Inl _ \<Rightarrow> ret manifest
        | Inr None \<Rightarrow> ret manifest
        | Inr (Some state_cid) \<Rightarrow>
            (case map_of (mf_entities manifest) (fst e) of
               None \<Rightarrow> ret manifest
             | Some entity_link \<Rightarrow>
                 and_then (attempt (on_out (dag_get E entity_node_of_json kubo_url (link_cid entity_link)))) (\<lambda>r.
                 case r of
                   Inl _ \<Rightarrow> ret manifest
                 | Inr entity_node \<Rightarrow>
                     and_then (attempt (on_out (dag_put E kubo_url (json_of_entity_node (stopped state_cid entity_node)))))
                       (\<lambda>r. ret (case r of
                          Inr new_cid \<Rightarrow>
                            manifest\<lparr>mf_entities := hm_insert (fst e) (ipld_link_new new_cid) (mf_entities manifest)\<rparr>
                        | Inl _ \<Rightarrow> manifest))))))"

definition save_all_entity_states :: "('x, 'p) env \<Rightarrow> string \<Rightarrow> string \<Rightarrow> ('x, 'p, string) rt_act" where
  "save_all_entity_states E root_cid kubo_url =
     and_then (with_context ''fetching current runtime manifest''
         (on_out (dag_get E manifest_of_json kubo_url root_cid))) (\<lambda>manifest.
     and_then (gets rt_registry) (\<lambda>snapshot.
     and_then (fold_act (save_entity_state E kubo_url) snapshot manifest) (\<lambda>manifest.
     and_then (with_context ''dag_put updated manifest'' (on_out (dag_put E kubo_url (json_of_manifest manifest))))
       (\<lambda>new_root_cid.
     and_then (attempt (on_out (pin_update E kubo_url root_cid new_root_cid))) (\<lambda>_.
     ret new_root_cid)))))"

end
