(* ===== verification/Status.thy ===== *)
theory Status
  imports Bootstrap
begin

text \<open>
  The status server, \<open>src/src/status.rs\<close>: the index page, the JSON document, the bootstrap export, and
  \<open>POST /claim\<close>, with the owner grants and the minimal manifest that go with it. The HTTP server
  itself (binding, routing, CORS headers) is the foreign \<open>axum\<close>. A handler runs as its own task beside
  the main loop: \<open>claim_step\<close> cuts \<open>handle_claim\<close> where it gives up a lock, so that several claims can
  be interleaved, and \<open>guarded_step\<close> adds the guards of these locks, with the steps that wait for them.
\<close>

section \<open>Documents\<close>

record http_reply =
  hr_status :: nat
  hr_content_type :: string
  hr_body :: body

definition did_to_ipns_path :: "string \<Rightarrow> string option" where
  "did_to_ipns_path did = map_option (\<lambda>identity. ''/ipns/'' @ identity) (strip_prefix ''did:ma:'' did)"

definition saturating_sub_u64 :: "u64 \<Rightarrow> u64 \<Rightarrow> u64" where
  "saturating_sub_u64 a b = (if b \<le> a then a - b else 0)"

definition now_unix_secs :: "('x, 'p) env \<Rightarrow> ('x, 'p, u64) rt_act" where
  "now_unix_secs E = on_io (now_secs E)"

definition status_json :: "stats \<Rightarrow> u64 \<Rightarrow> json" where
  "status_json s now = JObject
     [(''did'', JString (st_our_did s)),
      (''ipns'', (case did_to_ipns_path (st_our_did s) of None \<Rightarrow> JNull | Some p \<Rightarrow> JString p)),
      (''endpoint_id'', JString (st_endpoint_id s)),
      (''uptime_secs'', JInt (uint (saturating_sub_u64 now (st_started_at s)))),
      (''ipfs_publisher'', JBool (st_ipfs_publisher_enabled s)),
      (''ipfs_requests'', JInt (uint (st_ipfs_requests s))),
      (''rpc_requests'', JInt (uint (st_rpc_requests s))),
      (''started_at'', JInt (uint (st_started_at s))),
      (''entity_names'', enc_strings (st_entity_names s)),
      (''runtime'', (case st_root_cid s of None \<Rightarrow> JNull | Some cid \<Rightarrow> JObject [(''/'', JString cid)]))]"

definition handle_status_json :: "('x, 'p) env \<Rightarrow> ('x, 'p, http_reply) rt_act" where
  "handle_status_json E =
     and_then (now_unix_secs E) (\<lambda>now.
     gets (\<lambda>w. \<lparr>hr_status = 200, hr_content_type = ''application/json'',
                hr_body = Body_json (status_json (rt_stats w) now)\<rparr>))"

text \<open>The index page. A newline ends every line of the template but the last.\<close>

definition ROW :: "string \<Rightarrow> string \<Rightarrow> string" where
  "ROW name val = ''<tr><td>'' @ name @ ''</td><td>'' @ val @ ''</td></tr>''"

definition KANJI :: string where
  "KANJI = [CHR 0xE9, CHR 0x96, CHR 0x93]"

definition entities_html :: "string list \<Rightarrow> string" where
  "entities_html names =
     (if names = [] then ''<em>none</em>''
      else join_with '', '' (map (\<lambda>n. ''<code>#'' @ n @ ''</code>'') names))"

definition owner_html :: "string list \<Rightarrow> string" where
  "owner_html owners = (if owners = [] then ''<em>unclaimed</em>'' else join_with ''<br>'' owners)"

definition index_html :: "stats \<Rightarrow> u64 \<Rightarrow> string" where
  \<open>index_html s now = join_with [CHR 0x0A]
     [''<!DOCTYPE html>'',
      ''<html lang="en">'',
      ''<head><meta charset="utf-8"><title>'' @ KANJI @ '' Runtime</title>'',
      ''<style>body{font-family:monospace;max-width:700px;margin:2em auto;background:#111;color:#eee}'',
      ''h1{color:#7cf}table{border-collapse:collapse;width:100%}'',
      ''td,th{padding:6px 12px;border:1px solid #333;text-align:left}'',
      ''th{background:#222}a{color:#7cf}</style></head>'',
      ''<body>'',
      ''<h1>'' @ KANJI @ '' Runtime</h1>'',
      ''<table>'',
      ''<tr><th>Field</th><th>Value</th></tr>'',
      ROW ''DID'' (st_our_did s),
      ROW ''IPNS'' (case did_to_ipns_path (st_our_did s) of None \<Rightarrow> ''-'' | Some p \<Rightarrow> p),
      ROW ''Endpoint ID (iroh)'' (st_endpoint_id s),
      ROW ''Uptime (seconds)'' (show_nat (unat (saturating_sub_u64 now (st_started_at s)))),
      ROW ''IPFS publisher'' (if st_ipfs_publisher_enabled s then ''enabled'' else ''disabled''),
      ROW ''IPFS publish requests'' (show_nat (unat (st_ipfs_requests s))),
      ROW ''RPC requests'' (show_nat (unat (st_rpc_requests s))),
      ROW ''Entities'' (entities_html (st_entity_names s)),
      ROW ''Runtime'' (case st_root_cid s of None \<Rightarrow> ''-'' | Some cid \<Rightarrow> cid),
      ROW ''Owner'' (owner_html (st_owners s)),
      ''</table>'',
      ''<p><a href="/status.json">status.json</a> &bull; <a href="/bootstrap.yaml">bootstrap.yaml</a></p>'',
      ''</body></html>'']\<close>

definition handle_index :: "('x, 'p) env \<Rightarrow> ('x, 'p, string) rt_act" where
  "handle_index E = and_then (now_unix_secs E) (\<lambda>now. gets (\<lambda>w. index_html (rt_stats w) now))"

definition handle_bootstrap_yaml :: "(bootstrap_runtime \<Rightarrow> string option) \<Rightarrow> ('x, 'p) env \<Rightarrow> ('x, 'p, http_reply) rt_act" where
  "handle_bootstrap_yaml to_yaml E =
     and_then (gets (\<lambda>w. (st_root_cid (rt_stats w), st_kubo_rpc_url (rt_stats w)))) (\<lambda>(root_cid, kubo_rpc_url).
     case root_cid of
       None \<Rightarrow> ret \<lparr>hr_status = 503, hr_content_type = ''text/plain'',
                   hr_body = Body_text ''Runtime not yet initialised (no root CID)''\<rparr>
     | Some cid \<Rightarrow>
         and_then (attempt (on_out (export_bootstrap_yaml to_yaml E cid kubo_rpc_url))) (\<lambda>r. ret (case r of
            Inr yaml \<Rightarrow> \<lparr>hr_status = 200, hr_content_type = ''text/yaml; charset=utf-8'', hr_body = Body_text yaml\<rparr>
          | Inl e \<Rightarrow> \<lparr>hr_status = 500, hr_content_type = ''text/plain'',
                      hr_body = Body_text (''export failed: '' @ display e)\<rparr>)))"

section \<open>Owners\<close>

definition owner_grants :: "string list \<Rightarrow> acl_map \<Rightarrow> acl_map" where
  "owner_grants owners acl = fold (\<lambda>owner. hm_insert owner (Allow [''*''])) owners acl"

definition grant_owners_in_acl :: "string list \<Rightarrow> ('x, 'p, unit) rt_act" where
  "grant_owners_in_acl owners = modify (\<lambda>w. w\<lparr>rt_root_acl := owner_grants owners (rt_root_acl w)\<rparr>)"

definition persist_owners_to_config :: "('x, 'p) env \<Rightarrow> string \<Rightarrow> string list \<Rightarrow> ('x, unit) act" where
  "persist_owners_to_config E path owners =
     and_then (\<lambda>x. (if path_exists E path x then read_to_string E path else ret []) x) (\<lambda>yaml_text.
     let yaml_to_parse = (if trim yaml_text = [] then ''{}'' else yaml_text) in
     and_then (ok_or (Error ''invalid config YAML'') (config_from_yaml_str E yaml_to_parse)) (\<lambda>config.
     config_save E (config\<lparr>cf_config_path := Some path,
       cf_extra := hm_insert ''owners'' (YSequence (map YString owners)) (cf_extra config)\<rparr>)))"

definition minimal_manifest :: "string \<Rightarrow> string list \<Rightarrow> runtime_manifest" where
  "minimal_manifest acl_cid owners = manifest_default
     \<lparr>mf_acl := Some (ipld_link_new acl_cid),
      mf_config := bt_insert ''owners'' (YSequence (map YString owners)) []\<rparr>"

definition bootstrap_minimal_manifest :: "('x, 'p) env \<Rightarrow> string \<Rightarrow> string list \<Rightarrow> ('x, string) act" where
  "bootstrap_minimal_manifest E kubo_rpc_url owners =
     and_then (with_context ''dag_put owner-only ACL''
         (dag_put E kubo_rpc_url (acl_to_json E (owner_grants owners [])))) (\<lambda>acl_cid.
     and_then (with_context ''dag_put minimal manifest''
         (dag_put E kubo_rpc_url (json_of_manifest (minimal_manifest acl_cid owners)))) (\<lambda>root_cid.
     and_then (with_context ''pinning minimal manifest'' (pin_add E kubo_rpc_url root_cid)) (\<lambda>_. ret root_cid)))"

section \<open>Claiming\<close>

definition already_claimed_reply :: http_reply where
  "already_claimed_reply = \<lparr>hr_status = 409, hr_content_type = ''application/json'',
     hr_body = Body_json (JObject [(''error'', JString ''already claimed'')])\<rparr>"

definition claimed_reply :: "string list \<Rightarrow> http_reply" where
  "claimed_reply new_owners = \<lparr>hr_status = 200, hr_content_type = ''application/json'',
     hr_body = Body_json (JObject [(''owners'', enc_strings new_owners), (''status'', JString ''claimed'')])\<rparr>"

definition persist_claim :: "('x, 'p) env \<Rightarrow> string option \<Rightarrow> string list \<Rightarrow> ('x, 'p, unit) rt_act" where
  "persist_claim E config_path new_owners =
     (case config_path of
        None \<Rightarrow> ret ()
      | Some path \<Rightarrow> and_then (attempt (on_out (persist_owners_to_config E path new_owners))) (\<lambda>_. ret ()))"

definition set_owners :: "string list \<Rightarrow> ('x, 'p, unit) rt_act" where
  "set_owners new_owners = modify (\<lambda>w. w\<lparr>rt_stats := (rt_stats w)\<lparr>st_owners := new_owners\<rparr>\<rparr>)"

definition handle_claim :: "('x, 'p) env \<Rightarrow> string \<Rightarrow> ('x, 'p, http_reply) rt_act" where
  "handle_claim E body_owner =
     and_then (gets (\<lambda>w. (st_owners (rt_stats w) \<noteq> [], st_config_path (rt_stats w)))) (\<lambda>(already_claimed, config_path).
     if already_claimed then ret already_claimed_reply
     else
       let new_owners = [body_owner] in
       and_then (set_owners new_owners) (\<lambda>_.
       and_then (grant_owners_in_acl new_owners) (\<lambda>_.
       and_then (persist_claim E config_path new_owners) (\<lambda>_.
       ret (claimed_reply new_owners)))))"

text \<open>
  The routes of the status server, and what a request that matched one runs. The configured origins
  that are no header value are left out; matching, the decoding of a claim and CORS are \<open>axum\<close>'s.
\<close>

datatype route = Index | Status_json | Bootstrap_yaml | Claim

definition status_routes :: "(string \<times> string \<times> route) list" where
  "status_routes = [(''GET'', ''/'', Index), (''GET'', ''/status.json'', Status_json),
     (''GET'', ''/bootstrap.yaml'', Bootstrap_yaml), (''POST'', ''/claim'', Claim)]"

definition cors_origins :: "(string \<Rightarrow> bool) \<Rightarrow> string list \<Rightarrow> string list" where
  "cors_origins header_value_ok allowed_origins = filter header_value_ok allowed_origins"

definition serve_route :: "(bootstrap_runtime \<Rightarrow> string option) \<Rightarrow> ('x, 'p) env \<Rightarrow> route \<Rightarrow> string \<Rightarrow> ('x, 'p, http_reply) rt_act" where
  "serve_route to_yaml E route body_owner =
     (case route of
        Index \<Rightarrow> and_then (handle_index E) (\<lambda>page. ret
          \<lparr>hr_status = 200, hr_content_type = ''text/html; charset=utf-8'', hr_body = Body_text page\<rparr>)
      | Status_json \<Rightarrow> handle_status_json E
      | Bootstrap_yaml \<Rightarrow> handle_bootstrap_yaml to_yaml E
      | Claim \<Rightarrow> handle_claim E body_owner)"

text \<open>
  The same handler as its steps between locks: it reads \<open>stats\<close> and lets go of it, takes it again to
  write the owners, then takes the access list, then writes the file and answers.
\<close>

datatype claim_phase =
    Arrived
  | Passed "string option"
  | Owning "string option"
  | Granted "string option"
  | Answered http_reply

fun claim_step :: "('x, 'p) env \<Rightarrow> string \<Rightarrow> claim_phase \<Rightarrow> ('x, 'p) runtime \<Rightarrow> claim_phase \<times> ('x, 'p) runtime" where
  "claim_step E own Arrived w =
     (if st_owners (rt_stats w) \<noteq> [] then Answered already_claimed_reply else Passed (st_config_path (rt_stats w)), w)"
| "claim_step E own (Passed path) w = (Owning path, snd (set_owners [own] w))"
| "claim_step E own (Owning path) w = (Granted path, snd (grant_owners_in_acl [own] w))"
| "claim_step E own (Granted path) w = (Answered (claimed_reply [own]), snd (persist_claim E path [own] w))"
| "claim_step E own (Answered r) w = (Answered r, w)"

text \<open>Any of the claims under way that is not answered yet takes its next step.\<close>

fun answered :: "claim_phase \<Rightarrow> bool" where
  "answered (Answered r) = True"
| "answered ph = False"

inductive claims_step :: "('x, 'p) env \<Rightarrow> (string \<times> claim_phase) list \<times> ('x, 'p) runtime \<Rightarrow>
    (string \<times> claim_phase) list \<times> ('x, 'p) runtime \<Rightarrow> bool" for E where
  advance: "i < length cs \<Longrightarrow> cs ! i = (own, ph) \<Longrightarrow> \<not> answered ph \<Longrightarrow> claim_step E own ph w = (ph', w') \<Longrightarrow>
    claims_step E (cs, w) (cs[i := (own, ph')], w')"

inductive_cases claims_stepE: "claims_step E s s'"

text \<open>
  The same steps with the guards themselves: \<open>stats\<close> is read in a block that ends before anything is
  written, written in a second block, and the access list is written inside \<open>grant_owners_in_acl\<close>.
  A step that asks for a guard which cannot be given yet waits (\<open>None\<close>).
\<close>

record guards =
  gd_stats_readers :: nat
  gd_stats_writer :: bool
  gd_acl_writer :: bool

definition no_guards :: guards where
  "no_guards = \<lparr>gd_stats_readers = 0, gd_stats_writer = False, gd_acl_writer = False\<rparr>"

datatype claim_at =
    Before_check
  | Checking
  | Refusing
  | Before_write "string option"
  | Writing "string option"
  | Before_grant "string option"
  | Granting "string option"
  | Before_persist "string option"
  | Replied http_reply

fun guarded_step :: "('x, 'p) env \<Rightarrow> string \<Rightarrow> claim_at \<Rightarrow> guards \<Rightarrow> ('x, 'p) runtime \<Rightarrow> (claim_at \<times> guards \<times> ('x, 'p) runtime) option" where
  "guarded_step E own Before_check g w =
     (if gd_stats_writer g then None else Some (Checking, g\<lparr>gd_stats_readers := gd_stats_readers g + 1\<rparr>, w))"
| "guarded_step E own Checking g w =
     Some (if st_owners (rt_stats w) \<noteq> [] then Refusing else Before_write (st_config_path (rt_stats w)),
       g\<lparr>gd_stats_readers := gd_stats_readers g - 1\<rparr>, w)"
| "guarded_step E own Refusing g w = Some (Replied already_claimed_reply, g, w)"
| "guarded_step E own (Before_write path) g w =
     (if gd_stats_writer g \<or> gd_stats_readers g \<noteq> 0 then None else Some (Writing path, g\<lparr>gd_stats_writer := True\<rparr>, w))"
| "guarded_step E own (Writing path) g w =
     Some (Before_grant path, g\<lparr>gd_stats_writer := False\<rparr>, snd (set_owners [own] w))"
| "guarded_step E own (Before_grant path) g w =
     (if gd_acl_writer g then None else Some (Granting path, g\<lparr>gd_acl_writer := True\<rparr>, w))"
| "guarded_step E own (Granting path) g w =
     Some (Before_persist path, g\<lparr>gd_acl_writer := False\<rparr>, snd (grant_owners_in_acl [own] w))"
| "guarded_step E own (Before_persist path) g w =
     Some (Replied (claimed_reply [own]), g, snd (persist_claim E path [own] w))"
| "guarded_step E own (Replied r) g w = None"

inductive guarded_claims :: "('x, 'p) env \<Rightarrow> (string \<times> claim_at) list \<times> guards \<times> ('x, 'p) runtime \<Rightarrow>
    (string \<times> claim_at) list \<times> guards \<times> ('x, 'p) runtime \<Rightarrow> bool" for E where
  proceed: "i < length cs \<Longrightarrow> cs ! i = (own, ph) \<Longrightarrow> guarded_step E own ph g w = Some (ph', g', w') \<Longrightarrow>
    guarded_claims E (cs, g, w) (cs[i := (own, ph')], g', w')"

inductive_cases guarded_claimsE: "guarded_claims E s s'"

end
