(* ===== verification/Schedule.thy ===== *)
theory Schedule
  imports Runtime_State
begin

text \<open>
  Scheduled dispatch, \<open>src/src/schedule.rs\<close>: durations, the delay of each kind of schedule, the job a
  request becomes, and what a firing job does. The job scheduler itself (\<open>tokio_cron_scheduler\<close>) is
  foreign: \<open>cron_ok\<close> says which specifications it takes, \<open>sched_add\<close> whether it accepts a job; the
  list of jobs it holds is part of the state here. Integer arithmetic is that of the release build,
  which wraps.
\<close>

section \<open>Durations\<close>

definition debug_str :: "('x, 'p) env \<Rightarrow> string \<Rightarrow> string" where
  "debug_str E s = butlast (tl (debug_strings E [s]))"

text \<open>The seconds of \<open>n\<close> units; \<open>None\<close> for an unknown unit.\<close>

definition unit_secs :: "char \<Rightarrow> u64 \<Rightarrow> u64 option" where
  "unit_secs ch n =
     (if ch = CHR ''s'' then Some n
      else if ch = CHR ''m'' then Some (n * 60)
      else if ch = CHR ''h'' then Some (n * 3600)
      else if ch = CHR ''d'' then Some (n * 86400)
      else None)"

text \<open>The loop over the characters. A character outside ASCII is no digit and no unit.\<close>

fun duration_loop :: "('x, 'p) env \<Rightarrow> string \<Rightarrow> string \<Rightarrow> u64 \<Rightarrow> string \<Rightarrow> (string \<times> u64) res" where
  "duration_loop E s num_buf acc [] = Inr (num_buf, acc)"
| "duration_loop E s num_buf acc (ch # rest) =
     (if is_digit ch then duration_loop E s (num_buf @ [ch]) acc rest
      else case parse_u64 num_buf of
        None \<Rightarrow> Inl (Context (''invalid number in duration '' @ debug_str E s) (Error []))
      | Some n \<Rightarrow>
          (case unit_secs ch n of
             None \<Rightarrow> Inl (Error (''unknown duration unit '' @ CHR 0x27 # [ch] @ CHR 0x27 # '' in '' @ debug_str E s))
           | Some secs \<Rightarrow> duration_loop E s [] (acc + secs) rest))"

definition parse_duration :: "('x, 'p) env \<Rightarrow> string \<Rightarrow> u64 res" where
  "parse_duration E s =
     (case duration_loop E s [] 0 s of
        Inl e \<Rightarrow> Inl e
      | Inr (num_buf, total_secs) \<Rightarrow>
          if num_buf \<noteq> [] then Inl (Error (''duration '' @ debug_str E s @ '' ends with a number but no unit''))
          else if total_secs = 0 then Inl (Error ''duration must be > 0'')
          else Inr total_secs)"

section \<open>Delays\<close>

definition as_millis :: "nat \<Rightarrow> i64" where
  "as_millis nanos = (if nanos div 10 ^ 6 < 2 ^ 63 then word_of_nat (nanos div 10 ^ 6) else 2 ^ 63 - 1)"

definition at_delay_ms :: "i64 \<Rightarrow> i64 \<Rightarrow> u64" where
  "at_delay_ms timestamp_ms now_ms = word_of_int (max (sint (timestamp_ms - now_ms)) 0)"

text \<open>\<open>gen_range(1..=max_secs.max(1))\<close>; the foreign generator takes the excluded upper bound.\<close>

definition rand_delay :: "('x, 'p) env \<Rightarrow> u64 \<Rightarrow> ('x, u64) act" where
  "rand_delay E max_secs = (\<lambda>x.
     case gen_range E 1 (Suc (unat (max max_secs 1))) x of (n, x') \<Rightarrow> (Inr (word_of_nat n), x'))"

section \<open>Jobs\<close>

record scheduler_ctx =
  sx_kubo_rpc_url :: string
  sx_our_did :: string

datatype timing = On_cron string | Every_secs u64 | Once_ms u64 | Once_secs u64

text \<open>A job; \<open>jb_again\<close> is the \<open>max_secs\<close> of a random job, which schedules itself anew when it fires.\<close>

record job =
  jb_timing :: timing
  jb_fragment :: string
  jb_schedule_id :: "string option"
  jb_content :: bytes
  jb_again :: "u64 option"

record ('x, 'p) scheduled =
  sd_rt :: "('x, 'p) runtime"
  sd_jobs :: "job list"

type_synonym ('x, 'p, 'a) sd_act = "(('x, 'p) scheduled, 'a) act"

abbreviation on_rt :: "('x, 'p, 'a) rt_act \<Rightarrow> ('x, 'p, 'a) sd_act" where
  "on_rt \<equiv> zoom sd_rt (\<lambda>w s. s\<lparr>sd_rt := w\<rparr>)"

definition add_job :: "('x, 'p) env \<Rightarrow> job \<Rightarrow> ('x, 'p, nat) sd_act" where
  "add_job E job =
     and_then (\<lambda>s. on_rt (on_out (sched_add E (length (sd_jobs s)))) s) (\<lambda>uuid.
     and_then (modify (\<lambda>s. s\<lparr>sd_jobs := sd_jobs s @ [job]\<rparr>)) (\<lambda>_. ret uuid))"

definition plain_job :: "timing \<Rightarrow> string \<Rightarrow> string option \<Rightarrow> bytes \<Rightarrow> job" where
  "plain_job timing fragment schedule_id content =
     \<lparr>jb_timing = timing, jb_fragment = fragment, jb_schedule_id = schedule_id, jb_content = content, jb_again = None\<rparr>"

definition make_random_job :: "('x, 'p) env \<Rightarrow> string \<Rightarrow> string option \<Rightarrow> bytes \<Rightarrow> u64 \<Rightarrow> ('x, job) act" where
  "make_random_job E fragment schedule_id content max_secs =
     and_then (rand_delay E max_secs) (\<lambda>delay.
     ret \<lparr>jb_timing = Once_secs delay, jb_fragment = fragment, jb_schedule_id = schedule_id, jb_content = content,
          jb_again = Some max_secs\<rparr>)"

definition register_schedule :: "('x, 'p) env \<Rightarrow> string \<Rightarrow> string option \<Rightarrow> schedule_request \<Rightarrow> ('x, 'p, nat) sd_act" where
  "register_schedule E fragment schedule_id req =
     (case req of
        Cron spec content \<Rightarrow>
          if cron_ok E spec then add_job E (plain_job (On_cron spec) fragment schedule_id content)
          else fail (Error ''invalid schedule'')
      | Interval secs content \<Rightarrow> add_job E (plain_job (Every_secs secs) fragment schedule_id content)
      | At timestamp_ms content \<Rightarrow>
          and_then (on_rt (on_out (\<lambda>x. case now_nanos E x of (n, x') \<Rightarrow> (Inr (as_millis n), x')))) (\<lambda>now_ms.
          add_job E (plain_job (Once_ms (at_delay_ms timestamp_ms now_ms)) fragment schedule_id content))
      | Random max_secs content \<Rightarrow>
          and_then (on_rt (on_out (make_random_job E fragment schedule_id content max_secs))) (add_job E))"

section \<open>Firing\<close>

definition as_nanos_u64 :: "nat \<Rightarrow> u64" where
  "as_nanos_u64 nanos = (if nanos < 2 ^ 64 then word_of_nat nanos else - 1)"

definition le_bytes :: "u64 \<Rightarrow> bytes" where
  "le_bytes n = map (\<lambda>i. ucast (drop_bit (8 * i) n)) [0..<8]"

definition str_bytes :: "string \<Rightarrow> bytes" where
  "str_bytes s = map of_char s"

definition scheduled_message :: "('x, 'p) env \<Rightarrow> scheduler_ctx \<Rightarrow> string \<Rightarrow> bytes \<Rightarrow> u64 \<Rightarrow> local_message" where
  "scheduled_message E ctx fragment content now =
     \<lparr>lm_id = take 16 (blake3_hex E (le_bytes now @ str_bytes fragment)),
      lm_from = sx_our_did ctx @ ''#scheduler'', lm_to = sx_our_did ctx @ ''#'' @ fragment,
      lm_created_at = now, lm_expires = 0, lm_reply_to = None,
      lm_content_type = const_content_type_term E, lm_content = content\<rparr>"

definition dispatch_scheduled :: "('x, 'p) env \<Rightarrow> scheduler_ctx \<Rightarrow> string \<Rightarrow> string option \<Rightarrow> bytes \<Rightarrow> ('x, 'p, unit) rt_act" where
  "dispatch_scheduled E ctx fragment schedule_id content =
     and_then (gets (\<lambda>w. map_of (rt_registry w) fragment)) (\<lambda>plugin.
     case plugin of
       None \<Rightarrow> ret ()
     | Some ep \<Rightarrow>
         and_then (on_out (\<lambda>x. case now_nanos E x of (n, x') \<Rightarrow> (Inr (as_nanos_u64 n), x'))) (\<lambda>now.
         let cast_input = \<lparr>ci_msg = scheduled_message E ctx fragment content now\<rparr> in
         and_then (attempt (with_plugin fragment ep
             (case ep_kind ep of Stateless \<Rightarrow> handle_cast E cast_input | Stateful \<Rightarrow> handle_call E cast_input))) (\<lambda>r.
         case r of
           Inl _ \<Rightarrow> ret ()
         | Inr result \<Rightarrow> save_pending E (sx_kubo_rpc_url ctx) fragment ep (dr_pending_state result))))"

text \<open>A job fires: it dispatches, and a random job then makes and adds its successor.\<close>

definition fire_job :: "('x, 'p) env \<Rightarrow> scheduler_ctx \<Rightarrow> job \<Rightarrow> ('x, 'p, unit) sd_act" where
  "fire_job E ctx j =
     and_then (on_rt (dispatch_scheduled E ctx (jb_fragment j) (jb_schedule_id j) (jb_content j))) (\<lambda>_.
     case jb_again j of
       None \<Rightarrow> ret ()
     | Some max_secs \<Rightarrow>
         and_then (attempt (on_rt (on_out (make_random_job E (jb_fragment j) (jb_schedule_id j) (jb_content j) max_secs)))) (\<lambda>r.
         case r of
           Inr nxt \<Rightarrow> and_then (attempt (add_job E nxt)) (\<lambda>_. ret ())
         | Inl _ \<Rightarrow> ret ()))"

end
