(* ===== verification/Scheduler_Actor.thy ===== *)
theory Scheduler_Actor
  imports Schedule
begin

text \<open>
  The native \<open>#scheduler\<close> entity, \<open>src/src/scheduler_actor.rs\<close>: parsing a registration request and the
  dispatch function the runtime puts in the registry. The spawned registration task is the request
  left in \<open>io_spawned\<close>. \<open>dbg\<close> is the \<open>Debug\<close> form of a CBOR value, which only appears in an error text.
\<close>

definition SCHEDULER_KIND :: string where "SCHEDULER_KIND = ''/ma/scheduler/0.0.1''"
definition SCHEDULER_FRAGMENT :: string where "SCHEDULER_FRAGMENT = ''scheduler''"
definition SCHEDULER_ACL :: string where "SCHEDULER_ACL = ''scheduler''"

definition scheduler_entity_node :: entity_node where
  "scheduler_entity_node =
     \<lparr>en_kind = SCHEDULER_KIND, en_behaviour = None, en_acl = SCHEDULER_ACL, en_state = None, en_parent = None,
      en_label = Some ''Scheduler'', en_lifecycle = Running\<rparr>"

section \<open>Parsing\<close>

text \<open>The 4th element with the extra arguments, as the content of the scheduled call.\<close>

definition verb_term :: "cbor list \<Rightarrow> cbor option" where
  "verb_term items =
     (let args = drop 4 items in
      case items ! 3 of
        CText v \<Rightarrow> if args = [] then Some (CText v) else Some (CArray (CText v # args))
      | CArray xs \<Rightarrow> Some (CArray xs)
      | _ \<Rightarrow> None)"

definition encode_verb_content :: "('x, 'p) env \<Rightarrow> cbor list \<Rightarrow> bytes res" where
  "encode_verb_content E items =
     (case verb_term items of
        None \<Rightarrow> Inl (Error ''scheduler: verb (4th element) must be text atom or array'')
      | Some v \<Rightarrow>
          (case cbor_encode E v of
             None \<Rightarrow> Inl (Error ''scheduler: CBOR encode verb'')
           | Some out \<Rightarrow> Inr out))"

definition bare_fragment :: "string \<Rightarrow> string" where
  "bare_fragment target = (case split_once (CHR ''#'') target of Some (_, f) \<Rightarrow> f | None \<Rightarrow> target)"

definition request_of :: "('x, 'p) env \<Rightarrow> string \<Rightarrow> cbor \<Rightarrow> bytes \<Rightarrow> schedule_request res" where
  "request_of E type_verb spec content =
     (if type_verb = '':cron'' then
        (case spec of CText s \<Rightarrow> Inr (Cron s content) | _ \<Rightarrow> Inl (Error ''scheduler :cron: spec must be text''))
      else if type_verb = '':interval'' then
        (case spec of
           CText dur \<Rightarrow>
             (case parse_duration E dur of
                Inl e \<Rightarrow> Inl (Error (''scheduler :interval: '' @ display e))
              | Inr secs \<Rightarrow> Inr (Interval secs content))
         | _ \<Rightarrow> Inl (Error ''scheduler :interval: duration must be text''))
      else if type_verb = '':at'' then
        (case spec of
           CInteger n \<Rightarrow>
             (case i64_try_from n of
                None \<Rightarrow> Inl (Error ''scheduler :at: timestamp out of i64 range'')
              | Some ts \<Rightarrow> Inr (At ts content))
         | _ \<Rightarrow> Inl (Error ''scheduler :at: timestamp must be integer''))
      else if type_verb = '':random'' then
        (case spec of
           CInteger n \<Rightarrow> Inr (Random (case u64_try_from n of Some m \<Rightarrow> m | None \<Rightarrow> 60) content)
         | _ \<Rightarrow> Inl (Error ''scheduler :random: max_secs must be integer''))
      else Inl (Error (''scheduler: unknown schedule type '' @ quoted type_verb)))"

definition parse_schedule_request :: "(cbor \<Rightarrow> string) \<Rightarrow> ('x, 'p) env \<Rightarrow> cbor \<Rightarrow> (string \<times> schedule_request) res" where
  "parse_schedule_request dbg E term =
     (case term of
        CArray items \<Rightarrow>
          if length items < 4 then
            Inl (Error (''scheduler: expected [type, spec, target, verb], got '' @ show_nat (length items) @ '' elements''))
          else (case items ! 0 of
            CText type_verb \<Rightarrow>
              (case items ! 2 of
                 CText target \<Rightarrow>
                   (case encode_verb_content E items of
                      Inl e \<Rightarrow> Inl e
                    | Inr content \<Rightarrow>
                        (case request_of E type_verb (items ! 1) content of
                           Inl e \<Rightarrow> Inl e
                         | Inr request \<Rightarrow> Inr (bare_fragment target, request)))
               | _ \<Rightarrow> Inl (Error ''scheduler: third element must be target fragment''))
          | _ \<Rightarrow> Inl (Error ''scheduler: first element must be text atom''))
      | other \<Rightarrow> Inl (Error (''scheduler: expected CBOR array, got '' @ dbg other)))"

section \<open>Dispatch\<close>

definition make_native_dispatch :: "(cbor \<Rightarrow> string) \<Rightarrow> ('x, 'p) env \<Rightarrow> native_dispatch" where
  "make_native_dispatch dbg E input =
     (case cbor_decode E (lm_content (ci_msg input)) of
        None \<Rightarrow> (Inl (Error ''scheduler: invalid CBOR in message''), [])
      | Some term \<Rightarrow>
          (case parse_schedule_request dbg E term of
             Inl e \<Rightarrow> (Inl e, [])
           | Inr (fragment, request) \<Rightarrow>
               (case cbor_encode E (CText '':ok'') of
                  None \<Rightarrow> Inl (Error ''scheduler: CBOR encode :ok'')
                | Some out \<Rightarrow> Inr \<lparr>dr_output = out, dr_pending_state = None, dr_create_requests = [], dr_delete_requests = []\<rparr>,
                [\<lparr>sp_fragment = fragment, sp_request = request\<rparr>])))"

text \<open>What the main program puts into the registry, and the spawned task when it runs.\<close>

definition scheduler_plugin :: "(cbor \<Rightarrow> string) \<Rightarrow> ('x, 'p) env \<Rightarrow> 'p entity_plugin" where
  "scheduler_plugin dbg E = fst (new_native SCHEDULER_FRAGMENT scheduler_entity_node (make_native_dispatch dbg E))"

definition run_spawned :: "('x, 'p) env \<Rightarrow> ('x, 'p, unit) sd_act" where
  "run_spawned E = (\<lambda>s.
     case io_spawned (rt_io (sd_rt s)) of
       [] \<Rightarrow> (Inr (), s)
     | sp # rest \<Rightarrow>
         and_then (modify (\<lambda>s. s\<lparr>sd_rt := (sd_rt s)\<lparr>rt_io := (rt_io (sd_rt s))\<lparr>io_spawned := rest\<rparr>\<rparr>\<rparr>)) (\<lambda>_.
         and_then (attempt (register_schedule E (sp_fragment sp) None (sp_request sp))) (\<lambda>_. ret ())) s)"

end
