(* ===== verification/Ipfs.thy ===== *)
theory Ipfs
  imports Runtime_State
begin

text \<open>
  The IPFS and IPNS side, \<open>src/src/ipfs.rs\<close>: the key, name and document requests to Kubo, publishing
  the runtime's own document and root, resolving the root at start-up, and the \<open>/ma/ipfs/0.0.1\<close>
  service. \<open>extract_imported_ipns_id\<close> is the library function of \<open>src/src/lib.rs\<close>. The foreign
  publisher's \<open>wait_until_ready\<close> is an argument.
\<close>

section \<open>Answers of Kubo\<close>

fun string_fields :: "string \<Rightarrow> string \<Rightarrow> json \<Rightarrow> (string \<times> string) option" where
  "string_fields upper lower (JObject fs) =
     (case (default_field fs upper [] dec_string, default_field fs lower [] dec_string) of
        (Some u, Some l) \<Rightarrow> Some (u, l)
      | _ \<Rightarrow> None)"
| "string_fields _ _ _ = None"

record key_list_entry =
  kl_name :: string
  kl_name_lower :: string
  kl_id :: string
  kl_id_lower :: string

definition key_list_entry_of_json :: "json \<Rightarrow> key_list_entry option" where
  "key_list_entry_of_json j =
     (case (string_fields ''Name'' ''name'' j, string_fields ''Id'' ''id'' j) of
        (Some (n, nl), Some (i, il)) \<Rightarrow> Some \<lparr>kl_name = n, kl_name_lower = nl, kl_id = i, kl_id_lower = il\<rparr>
      | _ \<Rightarrow> None)"

fun key_list_of_json :: "json \<Rightarrow> key_list_entry list option" where
  "key_list_of_json (JObject fs) = default_field fs ''Keys'' [] (dec_list key_list_entry_of_json)"
| "key_list_of_json _ = None"

section \<open>Requests\<close>

text \<open>\<open>s.trim_start_matches(pat)\<close> for a string pattern: every leading copy is dropped.\<close>

function trim_start_str :: "string \<Rightarrow> string \<Rightarrow> string" where
  "trim_start_str pat s =
     (if pat \<noteq> [] \<and> starts_with pat s then trim_start_str pat (drop (length pat) s) else s)"
  by pat_completeness auto
termination
  by (relation "measure (\<lambda>(pat, s). length s)") (auto simp: starts_with_iff)

declare trim_start_str.simps [simp del]

definition dag_put_cbor :: "('x, 'p) env \<Rightarrow> string \<Rightarrow> bytes \<Rightarrow> ('x, string) act" where
  "dag_put_cbor E kubo_url data =
     and_then
       (post_checked E
          \<lparr>rq_url = api_url kubo_url ''dag/put'',
           rq_query = [(''store-codec'', ''dag-cbor''), (''input-codec'', ''dag-cbor''), (''pin'', ''true'')],
           rq_body = Some \<lparr>mp_file_name = ''document.cbor'', mp_mime = ''application/octet-stream'', mp_data = PBytes data\<rparr>\<rparr>)
       (\<lambda>body. and_then (parse_body ''failed parsing dag/put response'' dag_put_response_of_json body)
       (\<lambda>parsed. ok_or (Error ''missing CID in dag/put response'') (option_or (dp_cid_upper parsed) (dp_cid parsed))))"

definition ipfs_arg :: "string \<Rightarrow> string" where
  "ipfs_arg cid = ''/ipfs/'' @ trim_start_str ''ipfs/'' (trim_start_char (CHR ''/'') cid)"

definition name_publish :: "('x, 'p) env \<Rightarrow> string \<Rightarrow> string \<Rightarrow> string \<Rightarrow> u64 \<Rightarrow> ('x, string) act" where
  "name_publish E kubo_url key_name cid publish_lifetime_hours =
     and_then
       (post_checked E
          \<lparr>rq_url = api_url kubo_url ''name/publish'',
           rq_query = [(''arg'', ipfs_arg cid), (''key'', key_name), (''allow-offline'', ''true''),
             (''lifetime'', show_nat (unat publish_lifetime_hours) @ ''h''), (''resolve'', ''false''), (''quieter'', ''true'')],
           rq_body = None\<rparr>)
       (\<lambda>body. and_then (parse_body ''failed parsing name/publish response'' (string_fields ''Value'' ''value'') body)
       (\<lambda>(upper, lower).
          let value = (if upper = [] then lower else upper) in
          if value = [] then fail (Error ''missing value in name/publish response'') else ret value))"

definition resolve_ipns_path :: "('x, 'p) env \<Rightarrow> string \<Rightarrow> string \<Rightarrow> ('x, string option) act" where
  "resolve_ipns_path E kubo_url key_id =
     and_then
       (post_checked E
          \<lparr>rq_url = api_url kubo_url ''name/resolve'',
           rq_query = [(''arg'', ''/ipns/'' @ key_id), (''recursive'', ''true'')], rq_body = None\<rparr>)
       (\<lambda>body. and_then (parse_body ''failed parsing name/resolve response'' (string_fields ''Path'' ''path'') body)
       (\<lambda>(upper, lower).
          let path = (if upper = [] then lower else upper) in
          if path = [] then ret None
          else let cid = (case strip_prefix ''/ipfs/'' (trim path) of None \<Rightarrow> trim path | Some c \<Rightarrow> c) in
            ret (if cid = [] then None else Some cid)))"

definition key_entry :: "key_list_entry \<Rightarrow> (string \<times> string) option" where
  "key_entry k =
     (let name = (if trim (kl_name k) = [] then trim (kl_name_lower k) else trim (kl_name k));
          key_id = (if trim (kl_id k) = [] then trim (kl_id_lower k) else trim (kl_id k))
      in if name = [] \<or> key_id = [] then None else Some (name, key_id))"

definition list_keys :: "('x, 'p) env \<Rightarrow> string \<Rightarrow> ('x, (string \<times> string) list) act" where
  "list_keys E kubo_url =
     and_then (post_checked E \<lparr>rq_url = api_url kubo_url ''key/list'', rq_query = [], rq_body = None\<rparr>) (\<lambda>body.
     and_then (parse_body ''failed parsing key/list response'' key_list_of_json body) (\<lambda>keys.
     ret (List.map_filter key_entry keys)))"

definition import_key :: "('x, 'p) env \<Rightarrow> string \<Rightarrow> string \<Rightarrow> bytes \<Rightarrow> ('x, string) act" where
  "import_key E kubo_url key_name key_bytes =
     and_then
       (post_checked E
          \<lparr>rq_url = api_url kubo_url ''key/import'',
           rq_query = [(''arg'', key_name), (''ipns-base'', ''base36''), (''allow-any-key-type'', ''true'')],
           rq_body = Some \<lparr>mp_file_name = ''ipns.key'', mp_mime = ''application/octet-stream'', mp_data = PBytes key_bytes\<rparr>\<rparr>)
       (\<lambda>body. and_then (parse_body ''failed parsing key/import response'' (string_fields ''Id'' ''id'') body)
       (\<lambda>(upper, lower).
          let key_id = (if trim upper = [] then lower else upper) in
          if trim key_id = [] then fail (Error ''missing id in key/import response'') else ret (trim key_id)))"

definition ensure_kubo_ipns_key :: "('x, 'p) env \<Rightarrow> string \<Rightarrow> string \<Rightarrow> string \<Rightarrow> bytes \<Rightarrow> ('x, unit) act" where
  "ensure_kubo_ipns_key E kubo_url key_name expected_ipns_id ipns_secret_key =
     and_then (list_keys E kubo_url) (\<lambda>keys.
     case find (\<lambda>k. fst k = key_name) keys of
       Some (_, key_id) \<Rightarrow>
         if trim key_id \<noteq> expected_ipns_id then
           fail (Error (''existing key '' @ quoted key_name @ '' has IPNS id '' @ quoted key_id @
             '' but expected '' @ quoted expected_ipns_id))
         else ret ()
     | None \<Rightarrow>
         if length ipns_secret_key \<noteq> 32 then fail (Error ''ipns_secret_key must be 32 bytes'')
         else
           and_then (ok_or (Error ''invalid ipns key'') (key_protobuf E ipns_secret_key)) (\<lambda>protobuf_key.
           and_then (import_key E kubo_url key_name protobuf_key) (\<lambda>imported_id.
           if trim imported_id \<noteq> expected_ipns_id then
             fail (Error (''imported key IPNS id '' @ quoted imported_id @ '' does not match expected '' @ quoted expected_ipns_id))
           else ret ())))"

definition key_alias :: "('x, 'p) env \<Rightarrow> string \<Rightarrow> string" where
  "key_alias E ipns_id = const_alias_prefix E @ take 16 (blake3_hex E (map of_char ipns_id))"

section \<open>Publishing and resolving\<close>

definition do_publish_own_document :: "('x, unit) act \<Rightarrow> ('x, 'p) env \<Rightarrow> string \<Rightarrow> bytes \<Rightarrow> bytes \<Rightarrow> u64 \<Rightarrow> ('x, unit) act" where
  "do_publish_own_document wait_ready E kubo_url doc_cbor ipns_secret_key publish_lifetime_hours =
     and_then wait_ready (\<lambda>_.
     and_then (ok_or (Error ''invalid own DID document dag-cbor'') (document_id E doc_cbor)) (\<lambda>doc_id.
     and_then (ok_or (Error (''invalid own DID '' @ quoted doc_id)) (did_try_from E doc_id)) (\<lambda>document_did.
     let key_name = key_alias E (did_ipns document_did) in
     and_then (ensure_kubo_ipns_key E kubo_url key_name (did_ipns document_did) ipns_secret_key) (\<lambda>_.
     and_then (dag_put_cbor E kubo_url doc_cbor) (\<lambda>cid.
     and_then (name_publish E kubo_url key_name cid publish_lifetime_hours) (\<lambda>_. ret ()))))))"

definition resolve_runtime_root_cid_by_ipns_id :: "('x, 'p) env \<Rightarrow> string \<Rightarrow> string \<Rightarrow> ('x, string option) act" where
  "resolve_runtime_root_cid_by_ipns_id E kubo_url ipns_id =
     and_then (list_keys E kubo_url) (\<lambda>keys.
     case find (\<lambda>k. snd k = ipns_id) keys of
       None \<Rightarrow> ret None
     | Some (_, key_id) \<Rightarrow> resolve_ipns_path E kubo_url key_id)"

definition publish_runtime_root_cid :: "('x, 'p) env \<Rightarrow> string \<Rightarrow> bytes \<Rightarrow> string \<Rightarrow> u64 \<Rightarrow> ('x, string) act" where
  "publish_runtime_root_cid E kubo_url runtime_ipns_key root_cid publish_lifetime_hours =
     and_then (with_context ''failed to derive runtime IPNS id'' (ok_or (Error []) (ipns_from_secret E runtime_ipns_key))) (\<lambda>runtime_ipns_id.
     and_then (ensure_kubo_ipns_key E kubo_url (key_alias E runtime_ipns_id) runtime_ipns_id runtime_ipns_key) (\<lambda>_.
     name_publish E kubo_url (key_alias E runtime_ipns_id) root_cid publish_lifetime_hours))"

section \<open>The service\<close>

text \<open>The reply every request ends with: \<open>[":ok", cid]\<close> to the sender's \<open>#rpc\<close>.\<close>

definition reply_cid :: "('x, 'p) env \<Rightarrow> string \<Rightarrow> message \<Rightarrow> string \<Rightarrow> string \<Rightarrow> ('x, unit) act" where
  "reply_cid E our_did message cid what =
     and_then (with_context (''failed to encode '' @ what @ '' reply'') (encode_or E [] (CArray [CText '':ok'', CText cid]))) (\<lambda>reply_bytes.
     and_then (sender_did E (msg_from message)) (\<lambda>sender.
     and_then (reply_message E our_did (''did:ma:'' @ did_ipns sender @ ''#rpc'') (const_message_type_rpc_reply E)
         ''application/cbor'' reply_bytes (msg_id message) (''failed to build '' @ what @ '' reply'')) (\<lambda>reply.
     deliver E (did_base_id sender) RPC_PROTOCOL_ID reply (what @ '' reply send failed''))))"

definition handle_ipfs_store :: "('x, 'p) env \<Rightarrow> string \<Rightarrow> string \<Rightarrow> message \<Rightarrow> string \<Rightarrow> bytes \<Rightarrow> ('x, unit) act" where
  "handle_ipfs_store E our_did kubo_rpc_url orig_message content_type content =
     and_then
       (if content_type = ''application/vnd.ipld.dag-cbor'' then
          and_then (with_context ''failed to decode incoming DAG-CBOR''
              (ok_or (Error []) (Option.bind (cbor_decode E content) (json_of_cbor E))))
            (\<lambda>val. with_context ''dag put failed'' (dag_put E kubo_rpc_url val))
        else with_context ''ipfs add failed'' (ipfs_add E kubo_rpc_url content))
       (\<lambda>cid. reply_cid E our_did orig_message cid ''ipfs-store'')"

definition handle_ipfs_message :: "('x, 'p) env \<Rightarrow> string \<Rightarrow> string \<Rightarrow> acl_map \<Rightarrow> message \<Rightarrow> ('x, unit) act" where
  "handle_ipfs_message E our_did kubo_rpc_url acl message =
     and_then (check_full E acl (msg_from message) [CAP_IPFS] no_groups) (\<lambda>_.
     and_then (with_context ''replay or invalid headers'' (replay_check E message)) (\<lambda>_.
     and_then (with_context ''invalid /ma/ipfs/0.0.1 request'' (ok_or (Error []) (validate_ipfs_request E message))) (\<lambda>validated.
     case validated of
       DidDocumentPublish document_bytes key \<Rightarrow>
         and_then (with_context ''kubo DID publish failed'' (publish_document E document_bytes key)) (\<lambda>published.
         and_then (ok_or (Error ''publisher returned no CID'') published) (\<lambda>cid.
         reply_cid E our_did message cid ''ipfs-publish''))
     | Store content_type content \<Rightarrow> handle_ipfs_store E our_did kubo_rpc_url message content_type content)))"

section \<open>The text of a mismatch\<close>

definition extract_imported_ipns_id_from_error_text :: "string \<Rightarrow> string option" where
  "extract_imported_ipns_id_from_error_text text =
     (let prefix = ''imported key IPNS id '' @ [CHR 0x27];
          infix_text = CHR 0x27 # '' does not match document DID IPNS '' @ [CHR 0x27] in
      case find_sub prefix text of
        None \<Rightarrow> None
      | Some i \<Rightarrow>
          (let rest = drop (i + length prefix) text in
           case find_sub infix_text rest of
             None \<Rightarrow> None
           | Some mid \<Rightarrow>
               (let imported = trim (take mid rest) in
                if imported = [] then None else Some imported)))"

section \<open>Facts\<close>

text \<open>The IPFS service decides by the root list alone. A sender that the list denies, or to whom
  it does not give the \<open>ipfs\<close> capability, is refused without any effect, an owner of the runtime
  included, whom the RPC and CRUD services always let in; everybody else goes on to the replay check.\<close>

lemma ipfs_gate_decision:
  "(map_of acl (normalize_principal E (msg_from message)) \<noteq> Some Deny \<and> map_of acl ''*'' \<noteq> Some Deny \<and>
      check_cap E acl (msg_from message) CAP_IPFS) \<and>
     fst (check_full E acl (msg_from message) [CAP_IPFS] no_groups x) = Inr () \<or>
   \<not> (map_of acl (normalize_principal E (msg_from message)) \<noteq> Some Deny \<and> map_of acl ''*'' \<noteq> Some Deny \<and>
      check_cap E acl (msg_from message) CAP_IPFS) \<and>
     (\<exists>e. handle_ipfs_message E our_did url acl message x = (Inl e, x))"
proof (cases "acl_permits E acl (answers no_groups x) (msg_from message) [CAP_IPFS]")
  case True
  have "check_full E acl (msg_from message) [CAP_IPFS] no_groups x = (Inr (), x)"
    by (rule check_full_permits [OF quiet_no_groups True])
  with True show ?thesis by (auto simp: acl_permits_def group_allows_def group_hit_def)
next
  case False
  obtain e where "check_full E acl (msg_from message) [CAP_IPFS] no_groups x = (Inl e, x)"
    using check_full_refuses [OF quiet_no_groups False] by (elim exE)
  with False show ?thesis
    by (simp add: handle_ipfs_message_def and_then_Inl acl_permits_def group_allows_def group_hit_def)
qed

text \<open>The key under which names are published is the right one. Whatever keys Kubo holds,
  \<open>ensure_kubo_ipns_key\<close> succeeds without importing if the alias exists with the expected identifier,
  fails without importing if it exists with another one, and otherwise imports the given 32-byte key
  and succeeds exactly if what Kubo then reports is the expected identifier.\<close>

lemma ensure_key_branches:
  assumes "list_keys E url x = (Inr keys, x1)"
  shows "ensure_kubo_ipns_key E url name expected secret x =
    (case find (\<lambda>k. fst k = name) keys of
       Some k \<Rightarrow>
         (if trim (snd k) = expected then Inr ()
          else Inl (Error (''existing key '' @ quoted name @ '' has IPNS id '' @ quoted (snd k) @ '' but expected '' @ quoted expected)), x1)
     | None \<Rightarrow>
         (case (if length secret = 32 then key_protobuf E secret else None) of
            None \<Rightarrow> (Inl (Error (if length secret = 32 then ''invalid ipns key'' else ''ipns_secret_key must be 32 bytes'')), x1)
          | Some pb \<Rightarrow>
              (case import_key E url name pb x1 of
                 (Inl e, x2) \<Rightarrow> (Inl e, x2)
               | (Inr got, x2) \<Rightarrow>
                   (if trim got = expected then Inr ()
                    else Inl (Error (''imported key IPNS id '' @ quoted got @ '' does not match expected '' @ quoted expected)), x2))))"
  using assms
  by (auto simp: ensure_kubo_ipns_key_def and_then_def split: option.split prod.split sum.split)

text \<open>A root is published under the same path however it is written.\<close>

lemma ipfs_arg_forms:
  assumes "\<not> starts_with ''ipfs/'' cid" and "trim_start_char (CHR ''/'') cid = cid"
  shows "ipfs_arg cid = ''/ipfs/'' @ cid" "ipfs_arg (''ipfs/'' @ cid) = ''/ipfs/'' @ cid" "ipfs_arg (''/ipfs/'' @ cid) = ''/ipfs/'' @ cid"
proof -
  have 0: "trim_start_str ''ipfs/'' cid = cid" using assms(1) by (simp add: trim_start_str.simps [of _ cid])
  then show "ipfs_arg cid = ''/ipfs/'' @ cid" using assms(2) by (simp add: ipfs_arg_def)
  have "trim_start_str ''ipfs/'' (''ipfs/'' @ cid) = cid"
    using 0 by (subst trim_start_str.simps) (simp add: starts_with_def)
  then show "ipfs_arg (''ipfs/'' @ cid) = ''/ipfs/'' @ cid" "ipfs_arg (''/ipfs/'' @ cid) = ''/ipfs/'' @ cid"
    by (simp_all add: ipfs_arg_def)
qed

text \<open>The identifier is read back from the text it was put into, wrapped in any context that does not
  begin the same phrase earlier.\<close>

lemma extract_imported_ipns_id:
  assumes "\<And>j. j < length c \<Longrightarrow> \<not> starts_with (''imported key IPNS id '' @ [CHR 0x27])
      (drop j (c @ (''imported key IPNS id '' @ [CHR 0x27]) @ k @ (CHR 0x27 # '' does not match document DID IPNS '' @ [CHR 0x27]) @ d))"
    and "k \<noteq> []" and "CHR 0x27 \<notin> set k" and "hd k \<notin> ws_bytes" and "last k \<notin> ws_bytes"
  shows "extract_imported_ipns_id_from_error_text
      (c @ (''imported key IPNS id '' @ [CHR 0x27]) @ k @ (CHR 0x27 # '' does not match document DID IPNS '' @ [CHR 0x27]) @ d) = Some k"
proof -
  let ?p = "''imported key IPNS id '' @ [CHR 0x27]"
  let ?q = "CHR 0x27 # '' does not match document DID IPNS '' @ [CHR 0x27]"
  have 1: "find_sub ?p (c @ ?p @ k @ ?q @ d) = Some (length c)" by (rule find_sub_first [OF assms(1)])
  have 2: "find_sub ?q (k @ ?q @ d) = Some (length k)"
  proof (rule find_sub_first)
    fix j assume j: "j < length k"
    then have "hd (drop j (k @ ?q @ d)) = k ! j" by (simp add: hd_drop_conv_nth nth_append)
    moreover have "k ! j \<noteq> CHR 0x27" using j assms(3) by (metis nth_mem)
    ultimately show "\<not> starts_with ?q (drop j (k @ ?q @ d))" by (auto simp: starts_with_iff)
  qed
  have 3: "drop (length c + length ?p) (c @ ?p @ k @ ?q @ d) = k @ ?q @ d" by simp
  show ?thesis
    unfolding extract_imported_ipns_id_from_error_text_def Let_def 1 option.case 3 2
    using assms(2,4,5) by (simp add: trim_id)
qed

end
