(* ===== verification/Crud.thy ===== *)
theory Crud
  imports Crud_Base
begin

text \<open>
  The \<open>/ma/crud/0.0.1\<close> service, \<open>src/src/crud/\<close>: the namespaces \<open>entities\<close>, \<open>kinds\<close>, \<open>config\<close>,
  \<open>acl\<close> and \<open>acls\<close>, and the entry point with its gate. A handler gets the path segments after the
  namespace, the tail (\<open>Some []\<close> for an edit, \<open>None\<close> for a read) and the arguments, and matches on
  the three as the source does.
\<close>

section \<open>Entities\<close>

definition check_entity_management_cap :: "('x, 'p) env \<Rightarrow> message \<Rightarrow> string list \<Rightarrow> ('x, 'p, unit) rt_act" where
  "check_entity_management_cap E message caps = (\<lambda>w.
     with_context (''entity management denied for '' @ msg_from message @ '': requires '' @ debug_strings E caps)
       (check_full E (rt_root_acl w) (msg_from message) caps no_groups) w)"

definition fetch_entity_node :: "('x, 'p) env \<Rightarrow> crud_ctx \<Rightarrow> string \<Rightarrow> ('x, 'p, entity_node) rt_act" where
  "fetch_entity_node E ctx name =
     and_then (load_manifest E ctx) (\<lambda>manifest.
     and_then (ok_or (Error (''entity not found: '' @ name)) (map_of (mf_entities manifest) name)) (\<lambda>link.
     with_context (''fetching entity '' @ name @ '' from '' @ link_cid link)
       (on_out (dag_get E entity_node_of_json (cc_kubo_rpc_url ctx) (link_cid link)))))"

definition update_entity_node :: "('x, 'p) env \<Rightarrow> crud_ctx \<Rightarrow> string \<Rightarrow> entity_node \<Rightarrow> ('x, 'p, string) rt_act" where
  "update_entity_node E ctx name entity =
     and_then (with_context (''publishing updated entity '' @ name)
       (on_out (dag_put E (cc_kubo_rpc_url ctx) (json_of_entity_node entity)))) (\<lambda>entity_cid.
     and_then (with_manifest_crud E ctx (insert_entity name entity_cid)) (\<lambda>_.
     ret entity_cid))"

definition remove_entity :: "string \<Rightarrow> runtime_manifest \<Rightarrow> runtime_manifest" where
  "remove_entity name m = m\<lparr>mf_entities := hm_remove name (mf_entities m)\<rparr>"

definition get_entity :: "('x, 'p) env \<Rightarrow> crud_ctx \<Rightarrow> message \<Rightarrow> string \<Rightarrow> string \<Rightarrow> ('x, 'p, unit) rt_act" where
  "get_entity E ctx message reply_type name =
     and_then (load_manifest E ctx) (\<lambda>manifest.
     and_then (ok_or (Error (''entity not found: '' @ name)) (map_of (mf_entities manifest) name)) (\<lambda>link.
     and_then (on_out (dag_get E entity_node_of_json (cc_kubo_rpc_url ctx) (link_cid link))) (\<lambda>entity.
     and_then (with_context ''serialising entity node as CBOR''
       (encode_or E [] (cbor_of_json (json_of_entity_node entity)))) (\<lambda>out.
     send_crud_reply E ctx message reply_type out))))"

definition delete_entity :: "('x, 'p) env \<Rightarrow> crud_ctx \<Rightarrow> message \<Rightarrow> string \<Rightarrow> string \<Rightarrow> ('x, 'p, unit) rt_act" where
  "delete_entity E ctx message reply_type name =
     and_then (check_entity_management_cap E message [''delete'', ''entities'']) (\<lambda>_.
     and_then (modify (\<lambda>w. w\<lparr>rt_registry := hm_remove name (rt_registry w)\<rparr>)) (\<lambda>_.
     and_then (with_manifest_crud E ctx (remove_entity name)) (\<lambda>_.
     send_crud_ok E ctx message reply_type)))"

definition upsert_entity :: "('x, 'p) env \<Rightarrow> crud_ctx \<Rightarrow> message \<Rightarrow> string \<Rightarrow> string \<Rightarrow> string \<Rightarrow> ('x, 'p, unit) rt_act" where
  "upsert_entity E ctx message reply_type name path =
     (if has_control name then send_crud_i18n_error E ctx message reply_type ''entity-name-invalid''
      else if name \<in> set RESERVED_ENTITY_NAMES then
        send_crud_i18n_errorf E ctx message reply_type ''reserved-entity-name'' [(''name'', name)]
      else
        and_then (with_context (''resolving path '' @ path) (on_out (dag_resolve E (cc_kubo_rpc_url ctx) path))) (\<lambda>cid.
        and_then (with_context (''fetching entity node from '' @ cid)
          (on_out (dag_get E entity_node_of_json (cc_kubo_rpc_url ctx) cid))) (\<lambda>entity_node.
        and_then (check_entity_management_cap E message [en_kind entity_node]) (\<lambda>_.
        and_then (with_manifest_crud E ctx (insert_entity name cid)) (\<lambda>_.
        and_then (register_entity_plugin E ctx name entity_node) (\<lambda>_.
        send_crud_ok_cid E ctx message reply_type cid))))))"

definition handle_single_entity :: "('x, 'p) env \<Rightarrow> crud_ctx \<Rightarrow> message \<Rightarrow> string \<Rightarrow> string option \<Rightarrow> cbor list \<Rightarrow> string \<Rightarrow>
    ('x, 'p, unit) rt_act" where
  "handle_single_entity E ctx message name tail args reply_type =
     (case (tail, args) of
        (None, []) \<Rightarrow> get_entity E ctx message reply_type name
      | (Some [], []) \<Rightarrow> delete_entity E ctx message reply_type name
      | (Some [], [CText path]) \<Rightarrow> upsert_entity E ctx message reply_type name path
      | _ \<Rightarrow> fail (Error (''unknown entities.'' @ name @ '' operation'')))"

definition handle_entity_acl_field :: "('x, 'p) env \<Rightarrow> crud_ctx \<Rightarrow> message \<Rightarrow> string \<Rightarrow> string list \<Rightarrow> string option \<Rightarrow>
    cbor list \<Rightarrow> string \<Rightarrow> ('x, 'p, unit) rt_act" where
  "handle_entity_acl_field E ctx message name sub_path tail args reply_type =
     (if sub_path \<noteq> [] then
        fail (Error (''entity field '' @ quoted ''acl'' @ '' sub-path '' @ quoted (join_with ''.'' sub_path) @ '' not yet implemented''))
      else case (tail, args) of
        (None, []) \<Rightarrow>
          and_then (fetch_entity_node E ctx name) (\<lambda>entity.
            send_crud_reply_cbor E ctx message reply_type (CText (en_acl entity)))
      | (Some [], [CText acl_name]) \<Rightarrow>
          and_then (load_manifest E ctx) (\<lambda>manifest.
            if map_of (mf_acls manifest) acl_name = None then
              fail (Error (''ACL name '' @ quoted acl_name @ '' not found in manifest; available: '' @
                debug_strings E (map fst (mf_acls manifest))))
            else
              and_then (fetch_entity_node E ctx name) (\<lambda>entity.
              and_then (update_entity_node E ctx name (entity\<lparr>en_acl := acl_name\<rparr>)) (\<lambda>entity_cid.
              send_crud_ok_cid E ctx message reply_type entity_cid)))
      | (Some [], []) \<Rightarrow>
          and_then (fetch_entity_node E ctx name) (\<lambda>entity.
          and_then (update_entity_node E ctx name (entity\<lparr>en_acl := []\<rparr>)) (\<lambda>entity_cid.
          send_crud_ok_cid E ctx message reply_type entity_cid))
      | _ \<Rightarrow> fail (Error (''unknown entities.'' @ name @ ''.acl operation'')))"

text \<open>A generic read of one field of the node, through its CBOR form.\<close>

definition get_entity_field :: "('x, 'p) env \<Rightarrow> crud_ctx \<Rightarrow> message \<Rightarrow> string \<Rightarrow> string \<Rightarrow> string \<Rightarrow> ('x, 'p, unit) rt_act" where
  "get_entity_field E ctx message reply_type name field =
     and_then (fetch_entity_node E ctx name) (\<lambda>entity.
     and_then (with_context ''serializing entity for field GET''
       (encode_or E [] (cbor_of_json (json_of_entity_node entity)))) (\<lambda>entity_cbor.
     and_then (with_context ''re-parsing entity CBOR map'' (ok_or (Error []) (cbor_decode E entity_cbor))) (\<lambda>cbor_map.
     case (case cbor_map of CMap entries \<Rightarrow> find (\<lambda>e. fst e = CText field) entries | _ \<Rightarrow> None) of
       Some (_, value) \<Rightarrow>
         and_then (with_context ''encoding field value as CBOR'' (encode_or E [] value)) (\<lambda>out.
           send_crud_reply E ctx message reply_type out)
     | None \<Rightarrow> fail (Error (''field '' @ quoted field @ '' not found in entity '' @ quoted name)))))"

definition handle_entity_field :: "('x, 'p) env \<Rightarrow> crud_ctx \<Rightarrow> message \<Rightarrow> string \<Rightarrow> string list \<Rightarrow> string option \<Rightarrow>
    cbor list \<Rightarrow> string \<Rightarrow> ('x, 'p, unit) rt_act" where
  "handle_entity_field E ctx message name field_path tail args reply_type =
     (case field_path of
        [] \<Rightarrow> fail (Error (''empty field path in entity.'' @ name))
      | field # sub_path \<Rightarrow>
          if tail = None \<and> args = [] \<and> sub_path = [] then get_entity_field E ctx message reply_type name field
          else if field = ''acl'' then handle_entity_acl_field E ctx message name sub_path tail args reply_type
          else fail (Error (''unknown entity field '' @ quoted field @ '' in entity.'' @ name)))"

definition handle_entities_ns :: "('x, 'p) env \<Rightarrow> crud_ctx \<Rightarrow> message \<Rightarrow> string list \<Rightarrow> string option \<Rightarrow> cbor list \<Rightarrow> string \<Rightarrow>
    ('x, 'p, unit) rt_act" where
  "handle_entities_ns E ctx message rest tail args reply_type =
     (case rest of
        [] \<Rightarrow>
          (case (tail, args) of
             (None, []) \<Rightarrow>
               and_then (gets (\<lambda>w. map fst (rt_registry w))) (\<lambda>names.
                 send_crud_reply_cbor E ctx message reply_type (CArray (map CText names)))
           | (Some [], _) \<Rightarrow> send_crud_i18n_error E ctx message reply_type ''refuse-delete-root''
           | _ \<Rightarrow> fail (Error ''unknown entities operation''))
      | [name] \<Rightarrow> handle_single_entity E ctx message name tail args reply_type
      | name # field_path \<Rightarrow> handle_entity_field E ctx message name field_path tail args reply_type)"

section \<open>Kinds\<close>

definition insert_kind :: "string \<Rightarrow> string \<Rightarrow> runtime_manifest \<Rightarrow> runtime_manifest" where
  "insert_kind protocol cid m = m\<lparr>mf_kinds := insert_protocol protocol (ipld_link_new cid) (mf_kinds m)\<rparr>"

definition remove_kind :: "string \<Rightarrow> runtime_manifest \<Rightarrow> runtime_manifest" where
  "remove_kind protocol m = m\<lparr>mf_kinds := snd (remove_protocol protocol (mf_kinds m))\<rparr>"

definition handle_kinds_ns :: "('x, 'p) env \<Rightarrow> crud_ctx \<Rightarrow> message \<Rightarrow> string list \<Rightarrow> string option \<Rightarrow> cbor list \<Rightarrow> string \<Rightarrow>
    ('x, 'p, unit) rt_act" where
  "handle_kinds_ns E ctx message rest tail args reply_type =
     (if rest \<noteq> [] then fail (Error ''kinds path segments not supported (protocol IDs use CBOR value args)'')
      else case (tail, args) of
        (None, []) \<Rightarrow>
          and_then (load_manifest E ctx) (\<lambda>manifest.
            send_crud_reply_cbor E ctx message reply_type (CArray (map CText (protocol_ids (mf_kinds manifest)))))
      | (Some [], [CArray items]) \<Rightarrow>
          (case items of
             [CText protocol, CText cid_str] \<Rightarrow>
               if \<not> is_cidv1 cid_str then send_crud_i18n_error E ctx message reply_type ''cidv1-required''
               else and_then (with_manifest_crud E ctx (insert_kind protocol cid_str)) (\<lambda>new_root.
                 send_crud_ok_cid E ctx message reply_type new_root)
           | [CText protocol] \<Rightarrow>
               and_then (with_manifest_crud E ctx (remove_kind protocol)) (\<lambda>_.
                 send_crud_ok E ctx message reply_type)
           | _ \<Rightarrow> fail (Error ''kinds upsert value must be [protocol_text, cid] or [protocol_text] for delete''))
      | (Some [], [CText protocol]) \<Rightarrow>
          and_then (load_manifest E ctx) (\<lambda>manifest.
            case get_protocol (mf_kinds manifest) protocol of
              Some link \<Rightarrow>
                and_then (on_out (dag_get E kind_node_of_json (cc_kubo_rpc_url ctx) (link_cid link))) (\<lambda>kind.
                  send_crud_reply_cbor E ctx message reply_type (cbor_of_json (json_of_kind_node kind)))
            | None \<Rightarrow> send_crud_i18n_error E ctx message reply_type ''kind-not-found'')
      | (Some [], []) \<Rightarrow> send_crud_i18n_error E ctx message reply_type ''refuse-delete-root''
      | _ \<Rightarrow> fail (Error ''unknown kinds operation''))"

section \<open>Access lists\<close>

definition insert_acl :: "string \<Rightarrow> string \<Rightarrow> runtime_manifest \<Rightarrow> runtime_manifest" where
  "insert_acl name cid m = m\<lparr>mf_acls := hm_insert name (ipld_link_new cid) (mf_acls m)\<rparr>"

definition remove_acl :: "string \<Rightarrow> runtime_manifest \<Rightarrow> runtime_manifest" where
  "remove_acl name m = m\<lparr>mf_acls := hm_remove name (mf_acls m)\<rparr>"

definition set_root_acl :: "string \<Rightarrow> runtime_manifest \<Rightarrow> runtime_manifest" where
  "set_root_acl cid m = m\<lparr>mf_acl := Some (ipld_link_new cid)\<rparr>"

definition handle_root_acls :: "('x, 'p) env \<Rightarrow> crud_ctx \<Rightarrow> message \<Rightarrow> string list \<Rightarrow> string option \<Rightarrow> cbor list \<Rightarrow> string \<Rightarrow>
    ('x, 'p, unit) rt_act" where
  "handle_root_acls E ctx message rest tail args reply_type =
     (case (rest, tail, args) of
        ([], None, []) \<Rightarrow>
          and_then (load_manifest E ctx) (\<lambda>manifest.
            send_crud_reply_cbor E ctx message reply_type
              (CArray [CText '':ok'', CArray (map (\<lambda>e. CText (fst e)) (mf_acls manifest))]))
      | ([acl_name], None, []) \<Rightarrow>
          and_then (load_manifest E ctx) (\<lambda>manifest.
          and_then (ok_or (Error (''ACL not found: acls.'' @ acl_name)) (map_of (mf_acls manifest) acl_name)) (\<lambda>link.
            send_crud_reply_cbor E ctx message reply_type (CText (link_cid link))))
      | ([acl_name], Some [], [CText cid]) \<Rightarrow>
          if \<not> is_cidv1 cid then send_crud_i18n_error E ctx message reply_type ''cidv1-required''
          else
            and_then (with_manifest_crud E ctx (insert_acl acl_name cid)) (\<lambda>new_root.
            and_then (acl_cache_update E ctx (''acls.'' @ acl_name) cid) (\<lambda>_.
            send_crud_ok_cid E ctx message reply_type new_root))
      | ([acl_name], Some [], []) \<Rightarrow>
          and_then (with_manifest_crud E ctx (remove_acl acl_name)) (\<lambda>new_root.
          and_then (modify (\<lambda>w. w\<lparr>rt_acl_cache := hm_remove (''acls.'' @ acl_name) (rt_acl_cache w)\<rparr>)) (\<lambda>_.
          send_crud_ok_cid E ctx message reply_type new_root))
      | _ \<Rightarrow> fail (Error ''unknown :acls operation''))"

definition handle_root_acl :: "('x, 'p) env \<Rightarrow> crud_ctx \<Rightarrow> message \<Rightarrow> string option \<Rightarrow> cbor list \<Rightarrow> string \<Rightarrow>
    ('x, 'p, unit) rt_act" where
  "handle_root_acl E ctx message tail args reply_type =
     (case (tail, args) of
        (None, []) \<Rightarrow>
          and_then (load_manifest E ctx) (\<lambda>manifest.
            send_crud_reply_cbor E ctx message reply_type
              (CText (case mf_acl manifest of Some link \<Rightarrow> link_cid link | None \<Rightarrow> [])))
      | (Some [], [CText cid_str]) \<Rightarrow>
          if \<not> is_cidv1 cid_str then send_crud_i18n_error E ctx message reply_type ''cidv1-required''
          else
            and_then (with_context (''loading root ACL from '' @ cid_str)
              (on_out (load_acl_from_cid E (cc_kubo_rpc_url ctx) cid_str))) (\<lambda>acl_map.
            and_then (with_manifest_crud E ctx (set_root_acl cid_str)) (\<lambda>new_root.
            and_then (modify (\<lambda>w. w\<lparr>rt_root_acl := acl_map\<rparr>)) (\<lambda>_.
            send_crud_ok_cid E ctx message reply_type new_root)))
      | (Some [], []) \<Rightarrow> send_crud_i18n_error E ctx message reply_type ''refuse-delete-root''
      | _ \<Rightarrow> fail (Error ''unknown :acl operation''))"

text \<open>The retired \<open>:create\<close> namespace.\<close>

definition handle_create_ns :: "('x, 'p) env \<Rightarrow> crud_ctx \<Rightarrow> message \<Rightarrow> string \<Rightarrow> ('x, 'p, unit) rt_act" where
  "handle_create_ns E ctx message reply_type = send_crud_i18n_error E ctx message reply_type ''not-supported''"

section \<open>Configuration\<close>

definition DAEMON_CONFIG_KEYS :: "string list" where
  "DAEMON_CONFIG_KEYS = [''kubo_rpc_url'', ''kubo_key_alias'', ''log_level'', ''log_level_stdout'',
     ''did_resolver_positive_ttl_secs'', ''did_resolver_negative_ttl_secs'', ''log_file'']"

definition MANIFEST_CONFIG_KEYS :: "string list" where
  "MANIFEST_CONFIG_KEYS = [''owners'', ''i18n'', ''did_document_publishing_interval_secs'',
     ''did_document_publishing_timeout_secs'', ''did_document_publishing_lifetime_hours'',
     ''ipns_publish_lifetime_hours'', ''ipns_publish_resolve'', ''ipns_publish_allow_offline'',
     ''status_cors_allowed_origins'']"

definition PROTECTED_CONFIG_KEYS :: "string list" where
  "PROTECTED_CONFIG_KEYS = [''slug'', ''secret_bundle'', ''secret_bundle_passphrase'', ''config_path'']"

definition is_protected_config_key :: "string \<Rightarrow> bool" where
  "is_protected_config_key key = (key \<in> set PROTECTED_CONFIG_KEYS \<or> starts_with ''secret'' key)"

definition daemon_config_key_value :: "config \<Rightarrow> string \<Rightarrow> yaml" where
  "daemon_config_key_value cfg key =
     (if key = ''kubo_rpc_url'' then YString (cf_kubo_rpc_url cfg)
      else if key = ''kubo_key_alias'' then YString (cf_kubo_key_alias cfg)
      else if key = ''log_level'' then YString (cf_log_level cfg)
      else if key = ''log_level_stdout'' then YString (cf_log_level_stdout cfg)
      else if key = ''did_resolver_positive_ttl_secs'' then YInt (uint (cf_did_resolver_positive_ttl_secs cfg))
      else if key = ''did_resolver_negative_ttl_secs'' then YInt (uint (cf_did_resolver_negative_ttl_secs cfg))
      else if key = ''log_file'' then (case cf_log_file cfg of Some p \<Rightarrow> YString p | None \<Rightarrow> YNull)
      else YNull)"

text \<open>A value of the wrong type leaves the field as it was, except the optional log file.\<close>

definition set_daemon_config_key :: "string \<Rightarrow> yaml \<Rightarrow> config \<Rightarrow> config" where
  "set_daemon_config_key key val cfg =
     (if key = ''kubo_rpc_url'' then (case yaml_as_str val of Some s \<Rightarrow> cfg\<lparr>cf_kubo_rpc_url := s\<rparr> | None \<Rightarrow> cfg)
      else if key = ''kubo_key_alias'' then (case yaml_as_str val of Some s \<Rightarrow> cfg\<lparr>cf_kubo_key_alias := s\<rparr> | None \<Rightarrow> cfg)
      else if key = ''log_level'' then (case yaml_as_str val of Some s \<Rightarrow> cfg\<lparr>cf_log_level := s\<rparr> | None \<Rightarrow> cfg)
      else if key = ''log_level_stdout'' then (case yaml_as_str val of Some s \<Rightarrow> cfg\<lparr>cf_log_level_stdout := s\<rparr> | None \<Rightarrow> cfg)
      else if key = ''did_resolver_positive_ttl_secs'' then
        (case yaml_as_u64 val of Some n \<Rightarrow> cfg\<lparr>cf_did_resolver_positive_ttl_secs := n\<rparr> | None \<Rightarrow> cfg)
      else if key = ''did_resolver_negative_ttl_secs'' then
        (case yaml_as_u64 val of Some n \<Rightarrow> cfg\<lparr>cf_did_resolver_negative_ttl_secs := n\<rparr> | None \<Rightarrow> cfg)
      else if key = ''log_file'' then cfg\<lparr>cf_log_file := yaml_as_str val\<rparr>
      else cfg)"

definition combined_config :: "config \<Rightarrow> (string, yaml) btree_map \<Rightarrow> (string, yaml) btree_map" where
  "combined_config cfg m =
     fold (\<lambda>key acc. let val = daemon_config_key_value cfg key in
       if yaml_is_null val then acc else bt_insert key val acc) DAEMON_CONFIG_KEYS m"

definition remove_config :: "string \<Rightarrow> runtime_manifest \<Rightarrow> runtime_manifest" where
  "remove_config key m = m\<lparr>mf_config := bt_remove key (mf_config m)\<rparr>"

definition insert_config :: "string \<Rightarrow> yaml \<Rightarrow> runtime_manifest \<Rightarrow> runtime_manifest" where
  "insert_config key val m = m\<lparr>mf_config := bt_insert key val (mf_config m)\<rparr>"

definition config_root :: "('x, 'p) env \<Rightarrow> crud_ctx \<Rightarrow> message \<Rightarrow> string option \<Rightarrow> cbor list \<Rightarrow> string \<Rightarrow> ('x, 'p, unit) rt_act" where
  "config_root E ctx message tail args reply_type =
     (case (tail, args) of
        (None, []) \<Rightarrow>
          and_then (load_manifest E ctx) (\<lambda>manifest.
          and_then (gets (\<lambda>w. combined_config (rt_config w) (mf_config manifest))) (\<lambda>combined.
          send_crud_reply_cbor E ctx message reply_type (cbor_of_yaml (YMapping combined))))
      | (Some [], _) \<Rightarrow> send_crud_i18n_error E ctx message reply_type ''refuse-delete-root''
      | _ \<Rightarrow> fail (Error ''unknown config operation''))"

definition set_daemon_key :: "('x, 'p) env \<Rightarrow> string \<Rightarrow> yaml \<Rightarrow> ('x, 'p, unit) rt_act" where
  "set_daemon_key E key yaml_val =
     and_then (modify (\<lambda>w. w\<lparr>rt_config := set_daemon_config_key key yaml_val (rt_config w)\<rparr>)) (\<lambda>_.
     and_then (attempt (\<lambda>w. on_out (config_save E (rt_config w)) w)) (\<lambda>_. ret ()))"

text \<open>The language hot swap of \<open>config.i18n\<close>.\<close>

definition swap_lang :: "('x, 'p) env \<Rightarrow> crud_ctx \<Rightarrow> string \<Rightarrow> yaml \<Rightarrow> ('x, 'p, unit) rt_act" where
  "swap_lang E ctx key yaml_val =
     (case (key = ''i18n'', yaml_val) of
        (True, YString lang) \<Rightarrow>
          (\<lambda>w. case on_out (switch_lang E lang (cc_kubo_rpc_url ctx) (rt_i18n w)) w of
             (Inl e, w') \<Rightarrow> (Inl e, w')
           | (Inr i18n, w') \<Rightarrow> (Inr (), w'\<lparr>rt_i18n := i18n\<rparr>))
      | _ \<Rightarrow> ret ())"

definition handle_config_ns :: "('x, 'p) env \<Rightarrow> crud_ctx \<Rightarrow> message \<Rightarrow> string list \<Rightarrow> string option \<Rightarrow> cbor list \<Rightarrow> string \<Rightarrow>
    ('x, 'p, unit) rt_act" where
  "handle_config_ns E ctx message rest tail args reply_type =
     (case rest of
        [] \<Rightarrow> config_root E ctx message tail args reply_type
      | [key] \<Rightarrow>
          if is_protected_config_key key then
            send_crud_i18n_errorf E ctx message reply_type ''config-key-protected'' [(''key'', key)]
          else
            (case (tail, args) of
               (None, []) \<Rightarrow>
                 and_then
                   (if key \<in> set DAEMON_CONFIG_KEYS then gets (\<lambda>w. daemon_config_key_value (rt_config w) key)
                    else and_then (load_manifest E ctx) (\<lambda>manifest.
                      ok_or (Error (''config key not found: '' @ key)) (map_of (mf_config manifest) key)))
                   (\<lambda>val. send_crud_reply_cbor E ctx message reply_type (cbor_of_yaml val))
             | (Some [], []) \<Rightarrow>
                 if key \<in> set DAEMON_CONFIG_KEYS then
                   send_crud_i18n_errorf E ctx message reply_type ''config-key-no-delete'' [(''key'', key)]
                 else
                   and_then (with_manifest_crud E ctx (remove_config key)) (\<lambda>_. send_crud_ok E ctx message reply_type)
             | (Some [], [value]) \<Rightarrow>
                 (let yaml_val = cbor_to_yaml value in
                  if key \<in> set DAEMON_CONFIG_KEYS then
                    and_then (set_daemon_key E key yaml_val) (\<lambda>_. send_crud_ok E ctx message reply_type)
                  else if key \<notin> set MANIFEST_CONFIG_KEYS then
                    send_crud_i18n_errorf E ctx message reply_type ''config-key-not-manifest'' [(''key'', key)]
                  else
                    and_then (with_manifest_crud E ctx (insert_config key yaml_val)) (\<lambda>new_root.
                    and_then (swap_lang E ctx key yaml_val) (\<lambda>_.
                    send_crud_ok_cid E ctx message reply_type new_root)))
             | _ \<Rightarrow> fail (Error (''unknown config.'' @ key @ '' operation'')))
      | _ \<Rightarrow> fail (Error ''unknown config operation''))"

section \<open>Entry point\<close>

definition crud_gate :: "('x, 'p) env \<Rightarrow> acl_map \<Rightarrow> string \<Rightarrow> ('x, 'p, unit) rt_act" where
  "crud_gate E acl from = (\<lambda>w.
     (if is_owner E (st_owners (rt_stats w)) from then ret ()
      else check_full E acl from [CAP_CRUD] no_groups) w)"

definition crud_route :: "crud_op \<Rightarrow> string \<times> string option \<times> cbor list" where
  "crud_route op =
     (case op of
        Crud_Get path \<Rightarrow> (path, None, [])
      | Crud_Set path value \<Rightarrow> (path, Some [], [value])
      | Crud_Delete path \<Rightarrow> (path, Some [], []))"

definition dispatch_management :: "('x, 'p) env \<Rightarrow> crud_ctx \<Rightarrow> message \<Rightarrow> ('x, 'p, unit) rt_act" where
  "dispatch_management E ctx message =
     (let reply_type = const_message_type_crud_reply E in
      if msg_message_type message \<noteq> const_message_type_crud E then
        send_crud_i18n_errorf E ctx message reply_type ''wrong-crud-protocol'' [(''type'', msg_message_type message)]
      else
        and_then (lift_res (decode_crud_payload E (msg_payload message))) (\<lambda>op.
        case crud_route op of (path, tail, args) \<Rightarrow>
        and_then (lift_res (parse_path path)) (\<lambda>(ns, rest).
          if ns = ''entities'' then handle_entities_ns E ctx message rest tail args reply_type
          else if ns = ''kinds'' then handle_kinds_ns E ctx message rest tail args reply_type
          else if ns = ''config'' then handle_config_ns E ctx message rest tail args reply_type
          else if ns = ''acl'' then handle_root_acl E ctx message tail args reply_type
          else if ns = ''acls'' then handle_root_acls E ctx message rest tail args reply_type
          else send_crud_i18n_error E ctx message reply_type ''unknown-rpc-atom'')))"

definition handle_crud_message :: "('x, 'p) env \<Rightarrow> crud_ctx \<Rightarrow> acl_map \<Rightarrow> message \<Rightarrow> ('x, 'p, unit) rt_act" where
  "handle_crud_message E ctx acl message =
     and_then (crud_gate E acl (msg_from message)) (\<lambda>_. dispatch_management E ctx message)"

end
