(* ===== verification/Daemon.thy ===== *)
theory Daemon
  imports Status Scheduler_Actor Ipfs Crud
begin

text \<open>
  The main program, \<open>src/src/main.rs\<close>: settings read from the configuration, start-up (root, language,
  entities, the native scheduler, access lists, owners), one tick of the event loop over what the
  inboxes hold, the periodic publisher, and shutdown. Command-line parsing, logging, secret bundles,
  the job scheduler and the network endpoint are foreign; \<open>First_Run\<close> has most calls to them, and what
  start-up needs of the bundle (signing key, path) is an argument that may be an error. The text of a
  message is wiped after it was handled; nothing reads it again.
\<close>

section \<open>Settings\<close>

definition get_u64_setting :: "config \<Rightarrow> string \<Rightarrow> u64 \<Rightarrow> u64" where
  "get_u64_setting config key dflt =
     (case Option.bind (map_of (cf_extra config) key) yaml_as_u64 of Some n \<Rightarrow> n | None \<Rightarrow> dflt)"

definition get_bool_setting :: "config \<Rightarrow> string \<Rightarrow> bool \<Rightarrow> bool" where
  "get_bool_setting config key dflt =
     (case Option.bind (map_of (cf_extra config) key) yaml_as_bool of Some b \<Rightarrow> b | None \<Rightarrow> dflt)"

definition CORS_DEFAULTS :: "string list" where
  "CORS_DEFAULTS = [''http://localhost:8000'', ''http://127.0.0.1:8000'', ''https://xn--nf5a.bahner.com'',
     ''https://'' @ KANJI @ ''.bahner.com'']"

definition comma_list :: "string \<Rightarrow> string list" where
  "comma_list s = filter (\<lambda>p. p \<noteq> []) (map trim (split_on (CHR '','') s))"

definition status_cors_allowed_origins :: "config \<Rightarrow> string list" where
  "status_cors_allowed_origins config =
     (case map_of (cf_extra config) ''status_cors_allowed_origins'' of
        Some (YSequence items) \<Rightarrow> if yaml_strs items \<noteq> [] then yaml_strs items else CORS_DEFAULTS
      | Some (YString s) \<Rightarrow> if comma_list s \<noteq> [] then comma_list s else CORS_DEFAULTS
      | _ \<Rightarrow> CORS_DEFAULTS)"

definition runtime_manifest_config :: "config \<Rightarrow> (string, yaml) btree_map" where
  "runtime_manifest_config config = fold (\<lambda>(k, v). bt_insert k v)
     [(''did_resolver_positive_ttl_secs'', YInt (uint (get_u64_setting config ''did_resolver_positive_ttl_secs'' 60))),
      (''did_resolver_negative_ttl_secs'', YInt (uint (get_u64_setting config ''did_resolver_negative_ttl_secs'' 10))),
      (''did_document_publishing_interval_secs'', YInt (uint (get_u64_setting config ''did_document_publishing_interval_secs'' 300))),
      (''did_document_publishing_timeout_secs'', YInt (uint (get_u64_setting config ''did_document_publishing_timeout_secs'' 120))),
      (''did_document_publishing_lifetime_hours'', YInt (uint (get_u64_setting config ''did_document_publishing_lifetime_hours'' 8760))),
      (''ipns_publish_lifetime_hours'', YInt (uint (get_u64_setting config ''ipns_publish_lifetime_hours'' 8760))),
      (''ipns_publish_resolve'', YBool (get_bool_setting config ''ipns_publish_resolve'' False)),
      (''ipns_publish_allow_offline'', YBool (get_bool_setting config ''ipns_publish_allow_offline'' True)),
      (''status_cors_allowed_origins'', YSequence (map YString (status_cors_allowed_origins config)))] []"

text \<open>The options of the command line that the daemon itself reads.\<close>

record cli =
  cl_gen_headless_config :: bool
  cl_owner :: "string list"
  cl_gen_root_cid :: "string option"
  cl_root_cid :: "string option"
  cl_i18n :: "string option"

text \<open>The language of the command line or the configuration; the manifest is asked later.\<close>

definition effective_lang_base :: "cli \<Rightarrow> config \<Rightarrow> string option" where
  "effective_lang_base cli config =
     (case cl_i18n cli of
        Some lang \<Rightarrow> Some lang
      | None \<Rightarrow> Option.bind (map_of (cf_extra config) ''i18n'') yaml_as_str)"

definition lang_cid_setting :: "('x, 'p) env \<Rightarrow> config \<Rightarrow> string option" where
  "lang_cid_setting E config = option_or (Option.bind (map_of (cf_extra config) ''i18n_cid'') yaml_as_str) (default_lang_cid E)"

definition resolve_owners :: "config \<Rightarrow> string list \<Rightarrow> string list" where
  "resolve_owners config cli_owner =
     (let from_config = (case map_of (cf_extra config) ''owners'' of
            Some (YSequence seq) \<Rightarrow> yaml_strs seq | Some (YString s) \<Rightarrow> [s] | _ \<Rightarrow> [])
      in fold (\<lambda>own owners. if own \<in> set owners then owners else owners @ [own]) cli_owner from_config)"

text \<open>
  \<open>--gen-root-cid\<close>: publish the bootstrap file and print the root. The publisher of \<open>ma_core\<close>, which
  checks the address and waits for Kubo, is foreign.
\<close>

definition gen_root_cid :: "(string \<Rightarrow> bootstrap_runtime option) \<Rightarrow> (string \<Rightarrow> unit res) \<Rightarrow> ('x, unit) act \<Rightarrow> ('x, 'p) env \<Rightarrow> cli \<Rightarrow> config \<Rightarrow>
    string option \<Rightarrow> string \<Rightarrow> ('x, string) act" where
  "gen_root_cid from_yaml new_publisher wait_ready E cli config lang_base yaml_path =
     and_then (with_context (''invalid kubo_rpc_url: '' @ cf_kubo_rpc_url config) (lift_res (new_publisher (cf_kubo_rpc_url config)))) (\<lambda>_.
     and_then (with_context ''kubo RPC is not reachable for bootstrap'' wait_ready) (\<lambda>_.
     with_context ''bootstrap failed''
       (run_bootstrap from_yaml E yaml_path (cf_kubo_rpc_url config) (runtime_manifest_config config)
          (case lang_base of Some lang \<Rightarrow> lang | None \<Rightarrow> ''nb'') (cl_root_cid cli))))"

section \<open>Start-up\<close>

text \<open>The root to start from: the one given, else the one the runtime's name points to, else a new one.\<close>

definition startup_root :: "('x, 'p) env \<Rightarrow> string \<Rightarrow> string option \<Rightarrow> string \<Rightarrow> ('x, string option) act" where
  "startup_root E kubo_rpc_url cli_root_cid runtime_ipns_id =
     (case cli_root_cid of
        Some cid \<Rightarrow> ret (Some cid)
      | None \<Rightarrow>
          and_then (with_context ''failed to resolve runtime root CID from IPNS''
              (resolve_runtime_root_cid_by_ipns_id E kubo_rpc_url runtime_ipns_id)) (\<lambda>found.
          case found of
            Some cid \<Rightarrow> ret (Some cid)
          | None \<Rightarrow> and_then (attempt (bootstrap_minimal_manifest E kubo_rpc_url []))
              (\<lambda>r. ret (case r of Inr cid \<Rightarrow> Some cid | Inl _ \<Rightarrow> None))))"

definition startup_lang :: "('x, 'p) env \<Rightarrow> string \<Rightarrow> string option \<Rightarrow> string option \<Rightarrow> ('x, string) act" where
  "startup_lang E kubo_rpc_url lang_base root_cid =
     (case lang_base of
        Some lang \<Rightarrow> ret lang
      | None \<Rightarrow>
          (case root_cid of
             Some rc \<Rightarrow> and_then (resolve_active_lang E kubo_rpc_url rc)
               (\<lambda>l. ret (case l of Some lang \<Rightarrow> lang | None \<Rightarrow> ''nb''))
           | None \<Rightarrow> ret ''nb''))"

text \<open>The job scheduler of \<open>tokio_cron_scheduler\<close> is made and started before its entity is registered.\<close>

definition start_scheduler :: "('x, 'p) env \<Rightarrow> ('x, unit) act" where
  "start_scheduler E =
     and_then (with_context ''creating job scheduler'' (sched_new E)) (\<lambda>_.
     with_context ''starting job scheduler'' (sched_start E))"

definition register_scheduler :: "(cbor \<Rightarrow> string) \<Rightarrow> ('x, 'p) env \<Rightarrow> ('x, 'p, unit) rt_act" where
  "register_scheduler dbg E =
     modify (\<lambda>w. w\<lparr>rt_registry := hm_insert SCHEDULER_FRAGMENT (scheduler_plugin dbg E) (rt_registry w)\<rparr>)"

definition load_named_acl :: "('x, 'p) env \<Rightarrow> string \<Rightarrow> string \<times> ipld_link \<Rightarrow> (string \<times> acl_map) list \<Rightarrow>
    ('x, 'p, (string \<times> acl_map) list) rt_act" where
  "load_named_acl E kubo_rpc_url e entries =
     and_then (attempt (on_out (load_acl_from_cid E kubo_rpc_url (link_cid (snd e))))) (\<lambda>r.
     ret (case r of Inr acl_map \<Rightarrow> entries @ [(''acls.'' @ fst e, acl_map)] | Inl _ \<Rightarrow> entries))"

definition load_acls :: "('x, 'p) env \<Rightarrow> string \<Rightarrow> string \<Rightarrow> ('x, 'p, unit) rt_act" where
  "load_acls E kubo_rpc_url root_cid =
     and_then (attempt (on_out (dag_get E manifest_of_json kubo_rpc_url root_cid))) (\<lambda>manifest.
     case manifest of
       Inl _ \<Rightarrow> ret ()
     | Inr m \<Rightarrow>
         and_then (case mf_acl m of
             None \<Rightarrow> ret ()
           | Some link \<Rightarrow>
               and_then (attempt (on_out (load_acl_from_cid E kubo_rpc_url (link_cid link)))) (\<lambda>r.
               case r of
                 Inr manifest_acl \<Rightarrow> modify (\<lambda>w. w\<lparr>rt_root_acl := manifest_acl\<rparr>)
               | Inl _ \<Rightarrow> ret ())) (\<lambda>_.
         and_then (fold_act (load_named_acl E kubo_rpc_url) (mf_acls m) []) (\<lambda>entries.
         modify (\<lambda>w. w\<lparr>rt_acl_cache := fold (\<lambda>(k, a). hm_insert k a) entries (rt_acl_cache w)\<rparr>))))"

definition if_root :: "string option \<Rightarrow> (string \<Rightarrow> ('x, 'p, unit) rt_act) \<Rightarrow> ('x, 'p, unit) rt_act" where
  "if_root root_cid f = (case root_cid of Some rc \<Rightarrow> f rc | None \<Rightarrow> ret ())"

definition startup_stats :: "config \<Rightarrow> string \<Rightarrow> string \<Rightarrow> string option \<Rightarrow> string list \<Rightarrow> string list \<Rightarrow> u64 \<Rightarrow> stats" where
  "startup_stats config our_did endpoint_id root_cid owners entity_names now =
     \<lparr>st_our_did = our_did, st_endpoint_id = endpoint_id, st_ipfs_requests = 0, st_rpc_requests = 0,
      st_started_at = now, st_ipfs_publisher_enabled = get_bool_setting config ''ipfs_publisher'' True,
      st_entity_names = entity_names, st_root_cid = root_cid, st_kubo_rpc_url = cf_kubo_rpc_url config,
      st_owners = owners, st_config_path = cf_config_path config\<rparr>"

text \<open>
  What the command line, the secret bundle and the endpoint give. Of the signing key and of the path
  of the bundle only whether they can be had is looked at.
\<close>

record startup_args =
  sa_our_did :: string
  sa_endpoint_id :: string
  sa_owner :: "string list"
  sa_root_cid :: "string option"
  sa_lang :: "string option"
  sa_lang_cid :: "string option"
  sa_runtime_ipns_id :: string
  sa_signing_key :: "unit res"
  sa_secret_bundle :: "string res"

definition startup_args_of :: "('x, 'p) env \<Rightarrow> cli \<Rightarrow> config \<Rightarrow> string option \<Rightarrow> string \<Rightarrow> string \<Rightarrow> string \<Rightarrow>
    unit res \<Rightarrow> string res \<Rightarrow> startup_args" where
  "startup_args_of E cli config lang_base our_did endpoint_id runtime_ipns_id signing_key secret_bundle =
     \<lparr>sa_our_did = our_did, sa_endpoint_id = endpoint_id, sa_owner = cl_owner cli, sa_root_cid = cl_root_cid cli,
      sa_lang = lang_base, sa_lang_cid = lang_cid_setting E config, sa_runtime_ipns_id = runtime_ipns_id,
      sa_signing_key = signing_key, sa_secret_bundle = secret_bundle\<rparr>"

text \<open>The periodic publisher takes the path of the bundle and its passphrase before it is spawned.\<close>

definition publisher_settings :: "startup_args \<Rightarrow> config \<Rightarrow> ('w, unit) act" where
  "publisher_settings args config =
     and_then (lift_res (sa_secret_bundle args)) (\<lambda>_.
     and_then (ok_or (Error ''secret_bundle_passphrase is required for periodic DID publish'') (cf_secret_bundle_passphrase config)) (\<lambda>_.
     ret ()))"

definition startup :: "(cbor \<Rightarrow> string) \<Rightarrow> ('x, 'p) env \<Rightarrow> startup_args \<Rightarrow> ('x, 'p, unit) rt_act" where
  "startup dbg E args =
     and_then (gets rt_config) (\<lambda>config.
     let kubo_rpc_url = cf_kubo_rpc_url config in
     and_then (on_out (startup_root E kubo_rpc_url (sa_root_cid args) (sa_runtime_ipns_id args))) (\<lambda>root_cid.
     and_then (on_out (startup_lang E kubo_rpc_url (sa_lang args) root_cid)) (\<lambda>lang.
     and_then (on_out (i18n_init E lang kubo_rpc_url (sa_lang_cid args) root_cid)) (\<lambda>i18n.
     and_then (modify (\<lambda>w. w\<lparr>rt_i18n := i18n\<rparr>)) (\<lambda>_.
     and_then (if_root root_cid (\<lambda>rc. and_then (load_entities E rc kubo_rpc_url (sa_our_did args)) (\<lambda>_. ret ()))) (\<lambda>_.
     and_then (on_out (start_scheduler E)) (\<lambda>_.
     and_then (register_scheduler dbg E) (\<lambda>_.
     and_then (if_root root_cid (load_acls E kubo_rpc_url)) (\<lambda>_.
     and_then (with_context ''failed to derive signing key'' (lift_res (sa_signing_key args))) (\<lambda>_.
     let owners = resolve_owners config (sa_owner args) in
     and_then (if owners \<noteq> [] then grant_owners_in_acl owners else ret ()) (\<lambda>_.
     and_then (now_unix_secs E) (\<lambda>now.
     and_then (modify (\<lambda>w. w\<lparr>rt_stats := startup_stats config (sa_our_did args) (sa_endpoint_id args) root_cid owners
       (map fst (rt_registry w)) now\<rparr>)) (\<lambda>_.
     publisher_settings args config)))))))))))))"

definition empty_runtime :: "'x \<Rightarrow> config \<Rightarrow> ('x, 'p) runtime" where
  "empty_runtime x config =
     \<lparr>rt_io = \<lparr>io_out = x, io_queue = [], io_spawned = []\<rparr>, rt_registry = [], rt_kinds = [],
      rt_stats = startup_stats config [] [] None [] [] 0, rt_root_acl = [], rt_acl_cache = [],
      rt_config = config, rt_i18n = i18n_unset\<rparr>"

section \<open>One tick of the event loop\<close>

definition serve_rpc :: "('x, 'p) env \<Rightarrow> string \<Rightarrow> string \<Rightarrow> message \<Rightarrow> (('x, 'p) runtime, unit) pact" where
  "serve_rpc E our_did kubo_url message =
     then_p (live (modify (\<lambda>w. w\<lparr>rt_stats := (rt_stats w)\<lparr>st_rpc_requests := st_rpc_requests (rt_stats w) + 1\<rparr>\<rparr>))) (\<lambda>_ w.
     then_p (attempt_p (handle_rpc_message E \<lparr>rc_our_did = our_did, rc_kubo_rpc_url = kubo_url\<rparr> (rt_root_acl w) message))
       (\<lambda>_. live (ret ())) w)"

definition serve_ipfs :: "('x, 'p) env \<Rightarrow> string \<Rightarrow> string \<Rightarrow> message \<Rightarrow> ('x, 'p, unit) rt_act" where
  "serve_ipfs E our_did kubo_url message =
     and_then (modify (\<lambda>w. w\<lparr>rt_stats := (rt_stats w)\<lparr>st_ipfs_requests := st_ipfs_requests (rt_stats w) + 1\<rparr>\<rparr>)) (\<lambda>_.
     and_then (gets rt_root_acl) (\<lambda>acl.
     and_then (attempt (on_out (handle_ipfs_message E our_did kubo_url acl message))) (\<lambda>_. ret ())))"

definition serve_crud :: "('x, 'p) env \<Rightarrow> string \<Rightarrow> string \<Rightarrow> message \<Rightarrow> ('x, 'p, unit) rt_act" where
  "serve_crud E our_did kubo_url message =
     and_then (gets rt_root_acl) (\<lambda>acl_snapshot.
     and_then (attempt (handle_crud_message E \<lparr>cc_our_did = our_did, cc_kubo_rpc_url = kubo_url\<rparr> acl_snapshot message))
       (\<lambda>_. ret ()))"

text \<open>One envelope of a plugin: any failure skips it. The recipient is the DID's base.\<close>

definition envelope_message :: "('x, 'p) env \<Rightarrow> string \<Rightarrow> string \<times> send_envelope \<Rightarrow> ('x, message) act" where
  "envelope_message E our_did e =
     and_then (message_new E (our_did @ ''#'' @ fst e) (se_to (snd e))
         (if se_reply_to (snd e) \<noteq> None then const_message_type_rpc_reply E else const_message_type_rpc E)
         (se_content_type (snd e)) (se_content (snd e)))
       (\<lambda>msg. ret (msg\<lparr>msg_reply_to := se_reply_to (snd e)\<rparr>))"

definition send_envelope_out :: "('x, 'p) env \<Rightarrow> string \<Rightarrow> string \<times> send_envelope \<Rightarrow> ('x, unit) act" where
  "send_envelope_out E our_did e =
     (case did_try_from E (se_to (snd e)) of
        None \<Rightarrow> ret ()
      | Some recipient \<Rightarrow>
          and_then (attempt (envelope_message E our_did e)) (\<lambda>r.
          case r of
            Inl _ \<Rightarrow> ret ()
          | Inr msg \<Rightarrow>
              and_then (attempt (outbox_open E (did_base_id recipient) RPC_PROTOCOL_ID)) (\<lambda>r.
              case r of
                Inl _ \<Rightarrow> ret ()
              | Inr outbox \<Rightarrow> and_then (attempt (outbox_send E outbox msg)) (\<lambda>_. ret ()))))"

definition drain_envelopes :: "('x, 'p) env \<Rightarrow> string \<Rightarrow> ('x, 'p, unit) rt_act" where
  "drain_envelopes E our_did =
     and_then (gets (\<lambda>w. io_queue (rt_io w))) (\<lambda>queue.
     and_then (modify (\<lambda>w. w\<lparr>rt_io := (rt_io w)\<lparr>io_queue := []\<rparr>\<rparr>)) (\<lambda>_.
     for_each (\<lambda>e. on_out (send_envelope_out E our_did e)) queue))"

text \<open>The messages the three inboxes hand out in this tick; a service that is off has none.\<close>

record inboxes =
  in_rpc :: "message list"
  in_ipfs :: "message list"
  in_crud :: "message list"

text \<open>The services for IPFS and CRUD have an inbox unless the configuration turns them off.\<close>

definition enabled_inboxes :: "config \<Rightarrow> inboxes \<Rightarrow> inboxes" where
  "enabled_inboxes config ib =
     \<lparr>in_rpc = in_rpc ib,
      in_ipfs = (if get_bool_setting config ''ipfs_publisher'' True then in_ipfs ib else []),
      in_crud = (if get_bool_setting config ''crud_service'' True then in_crud ib else [])\<rparr>"

definition tick :: "('x, 'p) env \<Rightarrow> string \<Rightarrow> inboxes \<Rightarrow> (('x, 'p) runtime, unit) pact" where
  "tick E our_did ib = (\<lambda>w.
     let kubo_url = cf_kubo_rpc_url (rt_config w) in
     then_p (for_each_p (serve_rpc E our_did kubo_url) (in_rpc ib)) (\<lambda>_.
     then_p (live (for_each (serve_ipfs E our_did kubo_url) (in_ipfs ib))) (\<lambda>_.
     then_p (live (for_each (serve_crud E our_did kubo_url) (in_crud ib))) (\<lambda>_.
     live (drain_envelopes E our_did)))) w)"

section \<open>The periodic publisher\<close>

text \<open>
  Foreign to it: the monotonic clock in seconds, the secret bundle with the document it builds for a
  root and its IPNS key, and the readiness wait. \<open>pe_expired\<close> says that the time limit of a publish
  has run out: then its answer is not waited for.
\<close>

record ('x, 'b) publisher_env =
  pe_instant :: "'x \<Rightarrow> nat"
  pe_load_bundle :: "('x, 'b) act"
  pe_build_document :: "'b \<Rightarrow> string \<Rightarrow> bytes res"
  pe_ipns_secret_key :: "'b \<Rightarrow> bytes"
  pe_runtime_ipns_key :: bytes
  pe_wait_ready :: "('x, unit) act"
  pe_expired :: "'x \<Rightarrow> bool"

record publisher =
  pb_last_cid :: "string option"
  pb_last_at :: nat

definition timed :: "('x \<Rightarrow> bool) \<Rightarrow> ('x, 'a) act \<Rightarrow> ('x, 'a) act" where
  "timed expired m = (\<lambda>x. case m x of (r, x') \<Rightarrow> (if expired x' then Inl (Error ''timed out'') else r, x'))"

definition publisher_start :: "nat \<Rightarrow> nat \<Rightarrow> publisher" where
  "publisher_start now warm_secs = \<lparr>pb_last_cid = None, pb_last_at = (if warm_secs \<le> now then now - warm_secs else now)\<rparr>"

fun is_ok :: "'a res \<Rightarrow> bool" where
  "is_ok (Inr _) = True"
| "is_ok (Inl _) = False"

definition publish_root :: "('x, 'b) publisher_env \<Rightarrow> ('x, 'p) env \<Rightarrow> string \<Rightarrow> u64 \<Rightarrow> string \<Rightarrow> publisher \<Rightarrow> ('x, publisher) act" where
  "publish_root PE E kubo_url lifetime_hours root p =
     and_then (attempt (pe_load_bundle PE)) (\<lambda>b.
     case b of
       Inl _ \<Rightarrow> ret p
     | Inr bundle \<Rightarrow>
         (case pe_build_document PE bundle root of
            Inl _ \<Rightarrow> ret p
          | Inr doc_cbor \<Rightarrow>
              and_then (attempt (timed (pe_expired PE) (do_publish_own_document (pe_wait_ready PE) E kubo_url doc_cbor
                  (pe_ipns_secret_key PE bundle) lifetime_hours))) (\<lambda>did_result.
              and_then (attempt (timed (pe_expired PE) (publish_runtime_root_cid E kubo_url (pe_runtime_ipns_key PE) root lifetime_hours)))
                (\<lambda>ipns_result.
              gets (\<lambda>x. if is_ok did_result \<and> is_ok ipns_result
                then \<lparr>pb_last_cid = Some root, pb_last_at = pe_instant PE x\<rparr> else p)))))"

definition publisher_tick :: "('x, 'b) publisher_env \<Rightarrow> ('x, 'p) env \<Rightarrow> string \<Rightarrow> u64 \<Rightarrow> nat \<Rightarrow> publisher \<Rightarrow> ('x, 'p, publisher) rt_act" where
  "publisher_tick PE E kubo_url lifetime_hours warm_secs p = (\<lambda>w.
     (case st_root_cid (rt_stats w) of
        None \<Rightarrow> ret p
      | Some root \<Rightarrow>
          if pb_last_cid p = Some root \<and> \<not> warm_secs \<le> pe_instant PE (io_out (rt_io w)) - pb_last_at p then ret p
          else if \<not> cid_try_from E root then ret p
          else on_out (publish_root PE E kubo_url lifetime_hours root p)) w)"

section \<open>The runtime's own document\<close>

text \<open>
  Foreign to it: the document built from the secret bundle, with the link \<open>ma.runtime\<close> to a root or
  without it, and its encoding.
\<close>

record 'd identity =
  id_build :: "string option \<Rightarrow> 'd res"
  id_did :: "'d \<Rightarrow> string"
  id_encode :: "'d \<Rightarrow> bytes res"
  id_ipns_secret_key :: bytes

definition check_root_cid :: "('x, 'p) env \<Rightarrow> cli \<Rightarrow> ('x, unit) act" where
  "check_root_cid E cli =
     (case cl_root_cid cli of
        None \<Rightarrow> ret ()
      | Some cid \<Rightarrow> with_context (''invalid --root-cid CID: '' @ cid) (if cid_try_from E cid then ret () else fail (Error [])))"

text \<open>It is built before start-up has looked for the root: only the command line can give it the link.\<close>

definition own_document :: "('x, 'p) env \<Rightarrow> 'd identity \<Rightarrow> cli \<Rightarrow> ('x, string \<times> bytes) act" where
  "own_document E I cli =
     and_then (with_context ''failed to build own DID document (base)'' (lift_res (id_build I None))) (\<lambda>_.
     and_then
       (case cl_root_cid cli of
          None \<Rightarrow> ret ()
        | Some rc \<Rightarrow> with_context (''invalid root_cid: '' @ rc) (if cid_try_from E rc then ret () else fail (Error []))) (\<lambda>_.
     and_then (with_context ''failed to build own DID document'' (lift_res (id_build I (cl_root_cid cli)))) (\<lambda>our_document.
     and_then (with_context ''failed to encode own DID document'' (lift_res (id_encode I our_document))) (\<lambda>doc_cbor.
     ret (id_did I our_document, doc_cbor)))))"

text \<open>The publication at start-up runs as a task of its own; its failure is only logged.\<close>

definition first_publication :: "('x \<Rightarrow> bool) \<Rightarrow> ('x, unit) act \<Rightarrow> ('x, 'p) env \<Rightarrow> 'd identity \<Rightarrow> string \<Rightarrow> bytes \<Rightarrow> u64 \<Rightarrow> ('x, bool) act" where
  "first_publication expired wait_ready E I kubo_url doc_cbor lifetime_hours =
     and_then (attempt (timed expired (do_publish_own_document wait_ready E kubo_url doc_cbor (id_ipns_secret_key I) lifetime_hours)))
       (\<lambda>result. ret (is_ok result))"

section \<open>Shutdown\<close>

definition shutdown :: "('x, 'b) publisher_env \<Rightarrow> ('x, 'p) env \<Rightarrow> u64 \<Rightarrow> ('x, 'p, unit) rt_act" where
  "shutdown PE E lifetime_hours =
     and_then (gets (\<lambda>w. (cf_kubo_rpc_url (rt_config w), st_root_cid (rt_stats w)))) (\<lambda>(kubo_url, active_root_cid).
     case active_root_cid of
       None \<Rightarrow> ret ()
     | Some rc \<Rightarrow>
         and_then (\<lambda>w. (if rt_registry w = [] then ret ()
             else and_then (attempt (save_all_entity_states E rc kubo_url)) (\<lambda>r.
               case r of
                 Inr new_cid \<Rightarrow> modify (\<lambda>w. w\<lparr>rt_stats := (rt_stats w)\<lparr>st_root_cid := Some new_cid\<rparr>\<rparr>)
               | Inl _ \<Rightarrow> ret ())) w) (\<lambda>_.
         and_then (gets (\<lambda>w. case st_root_cid (rt_stats w) of Some c \<Rightarrow> c | None \<Rightarrow> rc)) (\<lambda>latest_root_cid.
         and_then (attempt (on_out (timed (pe_expired PE)
             (publish_runtime_root_cid E kubo_url (pe_runtime_ipns_key PE) latest_root_cid lifetime_hours)))) (\<lambda>_. ret ()))))"

end
