(* ===== verification/Outside.thy ===== *)
theory Outside
  imports Daemon
begin

text \<open>
  What the daemon does to the world outside it. The locale \<open>surroundings\<close> takes a relation that every
  foreign call respects (such as: a stored document stays stored) and proves once, for each action of
  the components on the outside, that the action respects it.
\<close>

section \<open>More on what actions keep\<close>

lemma keeps_fun: "(\<And>w. keeps P (m w)) \<Longrightarrow> keeps P (\<lambda>w. m w w)"
  by (simp add: keeps_def)

lemma keeps_Pair [simp, intro]: "keeps P (Pair r)"
  by (simp add: keeps_def)

lemma keeps_fold_act: "(\<And>x s. keeps P (f x s)) \<Longrightarrow> keeps P (fold_act f xs s)"
  by (induction xs arbitrary: s) auto

lemma keeps_map_err: "keeps P m \<Longrightarrow> keeps P (map_err f m)"
  by (auto simp: keeps_def map_err_def split: prod.split sum.split)

section \<open>Relations every foreign call respects\<close>

locale surroundings =
  fixes E :: "('x, 'p) env" and R :: "'x \<Rightarrow> 'x \<Rightarrow> bool"
  assumes at_rest: "R x x"
    and onward: "R x y \<Longrightarrow> R y z \<Longrightarrow> R x z"
    and by_message_new: "R x (snd (message_new E from to ty ct content x))"
    and by_outbox_open: "R x (snd (outbox_open E base protocol x))"
    and by_outbox_send: "R x (snd (outbox_send E outbox msg x))"
    and by_resolve_did: "R x (snd (resolve_did E did x))"
    and by_ipfs_add: "R x (snd (ipfs_add E url b x))"
    and by_cat_bytes: "R x (snd (cat_bytes E url cid x))"
    and by_http_post: "R x (snd (http_post E rq x))"
    and by_wasm_new: "R x (snd (wasm_new E b fs wasi x))"
    and by_now_nanos: "R x (snd (now_nanos E x))"
    and by_gen_range: "R x (snd (gen_range E lo hi x))"
    and by_config_save: "R x (snd (config_save E config x))"
    and by_read_to_string: "R x (snd (read_to_string E path x))"
    and by_replay_check: "R x (snd (replay_check E msg x))"
    and by_publish_document: "R x (snd (publish_document E b c x))"
    and by_sched_new: "R x (snd (sched_new E x))"
    and by_sched_start: "R x (snd (sched_start E x))"
    and by_sched_add: "R x (snd (sched_add E n x))"
begin

lemma call: "(\<And>x. R x (snd (m x))) \<Longrightarrow> keeps (R x0) m"
  by (blast intro: keepsI onward)

lemmas foreign = by_message_new [THEN call] by_outbox_open [THEN call] by_outbox_send [THEN call] by_resolve_did [THEN call]
  by_ipfs_add [THEN call] by_cat_bytes [THEN call] by_http_post [THEN call] by_wasm_new [THEN call]
  by_config_save [THEN call] by_read_to_string [THEN call] by_replay_check [THEN call] by_publish_document [THEN call]
  by_sched_new [THEN call] by_sched_start [THEN call] by_sched_add [THEN call]

lemma clock: "keeps (R x0) (\<lambda>x. case now_nanos E x of (n, x') \<Rightarrow> (Inr (f n), x'))"
proof (rule call)
  fix x
  show "R x (snd (case now_nanos E x of (n, x') \<Rightarrow> (Inr (f n), x')))"
    using by_now_nanos [of x] by (cases "now_nanos E x") simp
qed

lemma chance: "keeps (R x0) (\<lambda>x. case gen_range E lo hi x of (n, x') \<Rightarrow> (Inr (f n), x'))"
proof (rule call)
  fix x
  show "R x (snd (case gen_range E lo hi x of (n, x') \<Rightarrow> (Inr (f n), x')))"
    using by_gen_range [of x lo hi] by (cases "gen_range E lo hi x") simp
qed

subsection \<open>Kubo\<close>

lemma post: "keeps (R x0) (post_checked E rq)"
  unfolding post_checked_def by (auto intro!: keeps_and_then foreign)

lemma parsed: "keeps P (parse_body what dec body)"
  by (cases body) simp_all

lemma kubo:
  "keeps (R x0) (dag_put E url j)" "keeps (R x0) (pin_add E url c)" "keeps (R x0) (pin_update E url c d)"
  "keeps (R x0) (dag_get E dec url c)" "keeps (R x0) (dag_resolve E url path)"
  unfolding dag_put_def pin_add_def pin_update_def dag_get_def dag_get_json_def dag_resolve_def Let_def
  by (auto intro!: keeps_and_then post parsed foreign)

lemma acl_load: "keeps (R x0) (load_acl_from_cid E url c)"
  unfolding load_acl_from_cid_def by (intro keeps_and_then keeps_with_context kubo keeps_ret)

subsection \<open>Replies\<close>

lemma replies: "keeps (R x0) (reply_message E our_did to ty ct b reply_to failed)" "keeps (R x0) (deliver E base protocol reply failed)"
  unfolding reply_message_def deliver_def
  by (auto intro!: keeps_and_then keeps_attempt keeps_with_context foreign split: sum.split)

lemma envelope: "keeps (R x0) (send_envelope_out E our_did e)"
  unfolding send_envelope_out_def envelope_message_def
  by (auto intro!: keeps_and_then keeps_attempt foreign split: option.split sum.split)

subsection \<open>The IPFS service\<close>

lemma cids: "keeps (R x0) (reply_cid E our_did msg cid what)"
  unfolding reply_cid_def sender_did_def
  by (intro keeps_and_then keeps_with_context keeps_encode_or keeps_ok_or replies)

lemma stored: "keeps (R x0) (handle_ipfs_store E our_did url msg ct b)"
  unfolding handle_ipfs_store_def by (auto intro!: keeps_and_then keeps_with_context kubo foreign cids)

lemma unresolved: "keeps (R x0) (check_full E acl caller caps no_groups)"
  using check_full_eval [OF quiet_no_groups] by (metis keepsI snd_conv)

lemma ipfs_message: "keeps (R x0) (handle_ipfs_message E our_did url acl msg)"
  unfolding handle_ipfs_message_def
  by (auto intro!: keeps_and_then keeps_with_context foreign cids stored unresolved split: validated_ipfs_request.split)

lemma listed: "keeps (R x0) (list_keys E url)"
  unfolding list_keys_def by (intro keeps_and_then post parsed keeps_ret)

lemma resolved: "keeps (R x0) (resolve_runtime_root_cid_by_ipns_id E url ipns)"
  unfolding resolve_runtime_root_cid_by_ipns_id_def resolve_ipns_path_def Let_def
  by (auto intro!: keeps_and_then listed post parsed split: option.split prod.split)

subsection \<open>Translations and configuration\<close>

lemma fetched: "keeps (R x0) (fetch_ftl E url c)"
  unfolding fetch_ftl_def by (intro keeps_and_then keeps_attempt foreign keeps_ret)

lemma switched: "keeps (R x0) (switch_lang E lang url st)"
  unfolding switch_lang_def by (auto intro!: keeps_and_then fetched split: option.split)

lemma loaded_langs: "keeps (R x0) (load_langs E url links all)"
  by (induction links arbitrary: all) (auto intro!: keeps_and_then fetched)

lemma translated: "keeps (R x0) (i18n_init E lang url c r)"
  unfolding i18n_init_def load_all_messages_def fetch_lang_map_def
  by (auto intro!: keeps_and_then keeps_attempt kubo loaded_langs split: option.split sum.split)

lemma active: "keeps (R x0) (resolve_active_lang E url r)"
  unfolding resolve_active_lang_def by (intro keeps_and_then keeps_attempt kubo keeps_ret)

lemma owners_file: "keeps (R x0) (persist_owners_to_config E path owners)"
proof -
  have "keeps (R x0) (\<lambda>x. (if path_exists E path x then read_to_string E path else ret []) x)"
    by (rule keeps_fun) (auto intro!: foreign)
  then show ?thesis
    unfolding persist_owners_to_config_def Let_def by (intro keeps_and_then keeps_ok_or foreign)
qed

subsection \<open>Start-up\<close>

lemma minimal: "keeps (R x0) (bootstrap_minimal_manifest E url owners)"
  unfolding bootstrap_minimal_manifest_def by (intro keeps_and_then keeps_with_context kubo keeps_ret)

lemma root_found: "keeps (R x0) (startup_root E url c ipns)"
  unfolding startup_root_def by (auto intro!: keeps_and_then keeps_attempt keeps_with_context resolved minimal split: option.split sum.split)

lemma scheduler_started: "keeps (R x0) (start_scheduler E)"
  unfolding start_scheduler_def by (intro keeps_and_then keeps_with_context foreign)

lemma lang_found: "keeps (R x0) (startup_lang E url l c)"
  unfolding startup_lang_def by (auto intro!: keeps_and_then active split: option.split)

subsection \<open>Schedules\<close>

lemma random_job: "keeps (R x0) (make_random_job E fragment i b n)"
  unfolding make_random_job_def rand_delay_def by (intro keeps_and_then chance keeps_ret)

lemmas calls = kubo acl_load replies envelope ipfs_message switched translated owners_file root_found scheduler_started lang_found random_job
  foreign clock

subsection \<open>Plugins\<close>

text \<open>The same of actions on the channel and the outside together.\<close>

definition reaches :: "'x \<Rightarrow> 'x io \<Rightarrow> bool" where
  "reaches x0 io \<longleftrightarrow> R x0 (io_out io)"

lemma reaches_outside: "(\<And>x0. keeps (R x0) m) \<Longrightarrow> keeps (reaches x0) (outside m)"
proof (rule keepsI)
  fix io :: "'x io"
  assume m: "\<And>x0. keeps (R x0) m" and io: "reaches x0 io"
  from m have "R (io_out io) (snd (m (io_out io)))" using at_rest by (rule keepsD)
  then show "reaches x0 (snd (outside m io))"
    using io onward by (auto simp: reaches_def zoom_def split: prod.split)
qed

lemma letters: "R x (snd (gen_chars E n x))"
proof (induction n arbitrary: x)
  case (Suc n)
  obtain i x' where g: "gen_range E 0 (length ALPHABET) x = (i, x')" by (rule prod.exhaust)
  then have "R x x'" using by_gen_range [of x 0 "length ALPHABET"] by simp
  moreover have "R x' (snd (and_then (gen_chars E n) (\<lambda>cs. ret (ALPHABET ! i # cs)) x'))"
    using Suc [of x'] by (auto simp: and_then_def split: prod.splits sum.splits)
  ultimately show ?case using g onward by simp
qed (simp add: at_rest)

lemma created: "R (io_out (snd w)) (io_out (snd (snd (ma_create_entity_fn E fragment b w))))"
  using letters [of "io_out (snd w)" 8]
  by (auto simp: ma_create_entity_fn_def and_then_def zoom_def generate_fragment_def from_cbor_bytes_def ok_or_def at_rest
      encode_or_def split: prod.splits sum.splits option.splits)

lemma host_reaches:
  assumes "reaches x0 (snd w)"
  shows "reaches x0 (snd (snd (host_call E fragment f b w)))"
proof (cases "f \<in> set (xt_fns (fst w))")
  case True
  have tx: "reaches x0 (snd (send_tx fragment env w))" for env
    using assms by (simp add: reaches_def send_tx_def)
  have s: "reaches x0 (snd (snd (ma_send_fn E fragment b w)))"
    using ma_send_fn_world [of E fragment b w] assms tx by (elim disjE exE) simp_all
  have r: "reaches x0 (snd (snd (ma_reply_fn E fragment b w)))"
    using ma_reply_fn_world [of E fragment b w] assms tx by (elim disjE exE) simp_all
  have d: "reaches x0 (snd (snd (ma_delete_entity_fn E b w)))"
    using ma_delete_entity_fn_world [of E b w] assms by (elim disjE exE) simp_all
  have c: "reaches x0 (snd (snd (ma_create_entity_fn E fragment b w)))"
    using created [of w fragment b] assms onward unfolding reaches_def by blast
  show ?thesis by (rule host_callI) (use True assms s r d c in \<open>simp_all add: ma_set_state_fn_world\<close>)
qed (simp add: assms host_call_unlinked)

end

sublocale surroundings \<subseteq> run: host_invariant E fragment "\<lambda>w. reaches x0 (snd w)" for fragment x0
  by unfold_locales (simp_all add: set_mem_def host_reaches)

context surroundings
begin

lemma dispatched: "keeps (\<lambda>p. reaches x0 (snd p)) (dispatch_to E export input)"
proof (rule keepsI)
  fix p :: "('x, 'p) plug"
  assume p: "reaches x0 (snd p)"
  obtain ep io where e: "p = (ep, io)" by (rule prod.exhaust)
  show "reaches x0 (snd (snd (dispatch_to E export input p)))"
  proof (cases "ep_backend ep")
    case (Native f)
    then show ?thesis using p by (auto simp: e dispatch_to_def reaches_def split: prod.split)
  next
    case (Extism xt)
    let ?m = "and_then (encode_or E ''failed to CBOR-encode CastInput'' (cbor_of_cast_input input)) (plugin_call E (ep_fragment ep) export)"
    have "keeps (\<lambda>w. reaches x0 (snd w)) ?m"
      by (intro keeps_and_then keeps_encode_or keepsI run.plugin_call_keeps)
    from keepsD [OF this, of "(xt, io)"] p show ?thesis
      by (auto simp: e dispatch_to_def Extism split: prod.splits sum.splits)
  qed
qed

lemma handled:
  "keeps (\<lambda>p. reaches x0 (snd p)) (handle_cast E input)" "keeps (\<lambda>p. reaches x0 (snd p)) (handle_call E input)"
  unfolding handle_cast_def handle_call_def by (rule dispatched)+

lemma started: "keeps (reaches x0) (start_instance E fragment node kind_node our_did st mem)"
proof (rule keepsI)
  fix io :: "'x io"
  assume io: "reaches x0 io"
  let ?xt = "\<lparr>xt_mem = mem, xt_fns = map snd (linked_fns kind_node), xt_state = state_ctx_new st, xt_create = [], xt_delete = []\<rparr>"
  let ?m = "if ''init'' \<in> set (kn_api kind_node) then init_call E fragment (ctx_for_init our_did fragment node) st else ret Running"
  have "keeps (\<lambda>w. reaches x0 (snd w)) (init_call E fragment ctx b)" for ctx b
    unfolding init_call_def by (intro keeps_and_then keeps_encode_or keeps_ret keepsI run.plugin_call_keeps)
  then have "keeps (\<lambda>w. reaches x0 (snd w)) ?m" by simp
  from keepsD [OF this, of "(?xt, io)"] io
  show "reaches x0 (snd (start_instance E fragment node kind_node our_did st mem io))"
    unfolding start_instance_def Let_def by (auto split: prod.splits sum.splits)
qed

lemma loaded: "keeps (reaches x0) (load E fragment node kind_node our_did url)"
  unfolding load_def Let_def load_state_def
  by (auto intro!: keeps_and_then keeps_with_context keeps_map_err keeps_attempt reaches_outside foreign started
      simp del: append_Cons append_assoc split: option.split)

lemma seconds: "keeps (reaches x0) (now_secs E)"
  unfolding now_secs_def by (rule reaches_outside) (rule clock)

end

text \<open>Nothing is asked of the relation that holds everywhere.\<close>

interpretation anything: surroundings E "\<lambda>_ _. True" for E :: "('x, 'p) env"
  by unfold_locales simp_all

section \<open>Stored documents stay stored\<close>

text \<open>A block store that keeps what it has, whatever else is called.\<close>

definition keeps_blocks :: "('x, 'p) env \<Rightarrow> ('x \<Rightarrow> string \<Rightarrow> json option) \<Rightarrow> bool" where
  "keeps_blocks E blocks \<longleftrightarrow> kubo_ok E blocks \<and> surroundings E (grows blocks)"

end
