(* ===== verification/Rpc_Facts.thy ===== *)
theory Rpc_Facts
  imports Rpc
begin

text \<open>
  What the RPC handler guarantees: who passes its gates, that a rejected message has no effect, what
  deletion requests can remove, and what becomes of creation requests.
\<close>

section \<open>The gates\<close>

interpretation rpc: gate E "\<lambda>w. st_owners (rt_stats w)" "rpc_gate E ctx" CAP_RPC "starts_with (rc_our_did ctx @ ''#'')"
  for E :: "('x, 'p) env" and ctx
  by unfold_locales (simp add: rpc_gate_def)

lemma then_p_live: "then_p (live m) f w = (case m w of (Inl e, w') \<Rightarrow> Some (Inl e, w') | (Inr a, w') \<Rightarrow> f a w')"
  by (auto simp: then_p_def live_def split: prod.split sum.split)

lemma then_p_live_Inl: "m w = (Inl e, w') \<Longrightarrow> then_p (live m) f w = Some (Inl e, w')"
  by (simp add: then_p_live)

lemma then_p_live_Inr: "m w = (Inr a, w') \<Longrightarrow> then_p (live m) f w = f a w'"
  by (simp add: then_p_live)

text \<open>C22: the RPC transport gate decides as documented: a message of another runtime is handled only
  if its sender is an owner, or is denied neither by its own entry nor by the wildcard and holds the
  \<open>rpc\<close> capability; otherwise the handler returns an error and nothing at all has changed, no plugin
  was called and no reply was sent.\<close>

theorem rpc_rejected_without_effect:
  assumes "\<not> starts_with (rc_our_did ctx @ ''#'') (msg_from message)"
    and "\<not> is_owner E (st_owners (rt_stats w)) (msg_from message)"
    and "map_of acl (normalize_principal E (msg_from message)) = Some Deny \<or> map_of acl ''*'' = Some Deny \<or>
      \<not> check_cap E acl (msg_from message) CAP_RPC"
  shows "\<exists>e. handle_rpc_message E ctx acl message w = Some (Inl e, w)"
proof -
  have "fst (rpc_gate E ctx acl (msg_from message) w) \<noteq> Inr ()"
    unfolding rpc.passes_iff using assms by auto
  then obtain e where "rpc_gate E ctx acl (msg_from message) w = (Inl e, w)"
    using rpc.refuses by blast
  then show ?thesis by (simp add: handle_rpc_message_def then_p_live)
qed

lemma entity_gate_closed:
  "ep_acl entity = [] \<or> map_of (rt_acl_cache w) (''acls.'' @ ep_acl entity) = None \<Longrightarrow>
     \<exists>e. entity_gate E ctx entity from verb w = (Inl e, w)"
  by (auto simp: entity_gate_def)

lemma gate_closed_message:
  "entity_gate E ctx entity (msg_from message) (verb_of_term term) w = (Inl e, w) \<Longrightarrow>
     handle_entity_plugin_message E ctx message term entity w = Some (Inl e, w)"
  by (simp add: handle_entity_plugin_message_def then_p_live)

lemma error_reply_outside:
  "\<exists>r x. send_rpc_error_reply E ctx message reason w = (r, w\<lparr>rt_io := (rt_io w)\<lparr>io_out := x\<rparr>\<rparr>)"
proof -
  let ?P = "\<lambda>w'. \<exists>x. w' = w\<lparr>rt_io := (rt_io w)\<lparr>io_out := x\<rparr>\<rparr>"
  have o: "keeps ?P (on_out m)" for m by (intro keepsI) (auto simp: zoom_def split: prod.splits)
  have "keeps ?P (send_rpc_error_reply E ctx message reason)"
    unfolding send_rpc_error_reply_def send_rpc_reply_def send_rpc_reply_typed_def sender_did_def encode_or_def
    by (intro keeps_and_then keeps_with_context keeps_ok_or o)
  moreover have "?P w" by (rule exI [of _ "io_out (rt_io w)"]) simp
  ultimately have "?P (snd (send_rpc_error_reply E ctx message reason w))" by (rule keepsD)
  then show ?thesis by (metis prod.collapse)
qed

text \<open>C23: for messages the entity gate is closed by default. An entity whose list name is empty, or names a
  list that is not in the cache, gets no message of the RPC service, whoever sends it, owners included:
  its handler refuses before the plugin is called and changes nothing, and all that a whole message
  to it does is outside the runtime, such as an error reply. (Scheduled calls and group queries do not
  pass this gate.)\<close>

theorem entity_gate_fail_closed:
  assumes "ep_acl entity = [] \<or> map_of (rt_acl_cache w) (''acls.'' @ ep_acl entity) = None"
  shows "(\<exists>e. handle_entity_plugin_message E ctx message term entity w = Some (Inl e, w)) \<and>
    (map_of (rt_registry w) fragment = Some entity \<and> extract_fragment (msg_to message) (rc_our_did ctx) = Some fragment \<longrightarrow>
      (\<exists>r x. handle_rpc_message E ctx acl message w = Some (r, w\<lparr>rt_io := (rt_io w)\<lparr>io_out := x\<rparr>\<rparr>)))"
proof (intro conjI impI)
  have closed: "\<exists>e. handle_entity_plugin_message E ctx message v entity w = Some (Inl e, w)" for v
    using entity_gate_closed [OF assms, of E ctx "msg_from message" "verb_of_term v"] gate_closed_message by blast
  then show "\<exists>e. handle_entity_plugin_message E ctx message term entity w = Some (Inl e, w)" .
  assume addressed: "map_of (rt_registry w) fragment = Some entity \<and>
    extract_fragment (msg_to message) (rc_our_did ctx) = Some fragment"
  have same: "\<exists>x. w = w\<lparr>rt_io := (rt_io w)\<lparr>io_out := x\<rparr>\<rparr>" by (rule exI [of _ "io_out (rt_io w)"]) simp
  obtain r where g: "rpc_gate E ctx acl (msg_from message) w = (r, w)" by (metis rpc.keeps_state prod.collapse)
  show "\<exists>r x. handle_rpc_message E ctx acl message w = Some (r, w\<lparr>rt_io := (rt_io w)\<lparr>io_out := x\<rparr>\<rparr>)"
  proof (cases "\<exists>u. r = Inr u \<and> msg_message_type message = const_message_type_rpc E \<and> cbor_decode E (msg_payload message) \<noteq> None")
    case False
    then have "\<exists>r. handle_rpc_message E ctx acl message w = Some (r, w)"
      using g by (cases r; cases "cbor_decode E (msg_payload message)")
        (auto simp: handle_rpc_message_def then_p_def with_context_def live_def)
    with same show ?thesis by metis
  next
    case True
    then obtain v where t: "cbor_decode E (msg_payload message) = Some v" by blast
    obtain e where e: "handle_entity_plugin_message E ctx message v entity w = Some (Inl e, w)" using closed by blast
    have "handle_rpc_message E ctx acl message w = live (send_rpc_error_reply E ctx message (display e)) w"
      using True g addressed e t
      by (auto simp: handle_rpc_message_def with_context_def then_p_def attempt_p_def live_def)
    with error_reply_outside [of E ctx message "display e" w] show ?thesis by (auto simp: live_def)
  qed
qed

text \<open>A caller the entity gate refuses reaches no plugin of that entity.\<close>

lemma entity_gate_refused:
  "entity_gate E ctx entity (msg_from message) (verb_of_term term) w = (Inl e, w') \<Longrightarrow>
     handle_entity_plugin_message E ctx message term entity w = Some (Inl e, w')"
  by (simp add: handle_entity_plugin_message_def then_p_live)

text \<open>A caller of this runtime is known to the lists by its bare fragment; any other by its full name.\<close>

lemma gate_caller_local: "gate_caller did (did @ ''#'' @ frag) = ''#'' @ frag"
proof -
  have "strip_prefix (did @ ''#'') ((did @ ''#'') @ frag) = Some frag" by (rule strip_prefix_append)
  then show ?thesis by (simp add: gate_caller_def)
qed

section \<open>Deletion requests\<close>

text \<open>Every registered entity with a parent has it registered: no orphans.\<close>

definition parents_present :: "(string, 'p entity_plugin) hash_map \<Rightarrow> bool" where
  "parents_present reg \<longleftrightarrow>
     (\<forall>name e p. map_of reg name = Some e \<and> ep_parent e = Some p \<longrightarrow> map_of reg p \<noteq> None)"

lemma may_deleteD:
  assumes "may_delete reg caller name"
  obtains target where "map_of reg name = Some target"
    and "ep_parent target = Some caller \<or> name = caller"
    and "\<And>other e. map_of reg other = Some e \<Longrightarrow> ep_parent e \<noteq> Some name"
proof -
  from assms obtain target where t: "map_of reg name = Some target"
    "ep_parent target = Some caller \<or> name = caller" "\<not> list_ex (\<lambda>e. ep_parent (snd e) = Some name) reg"
    by (auto simp: may_delete_def split: option.splits)
  have "ep_parent e \<noteq> Some name" if "map_of reg other = Some e" for other e
    using map_of_SomeD [OF that] t(3) by (auto simp: list_ex_iff)
  with t that show thesis by blast
qed

lemma delete_one_registry:
  "rt_registry (snd (delete_one entity target w)) =
     (if may_delete (rt_registry w) (ep_fragment entity) target
      then hm_remove target (rt_registry w) else rt_registry w)"
  by (simp add: delete_one_def)

definition deletable :: "(string, 'p entity_plugin) hash_map \<Rightarrow> string \<Rightarrow> (string, 'p entity_plugin) hash_map \<Rightarrow> bool" where
  "deletable reg0 caller reg \<longleftrightarrow>
     (\<forall>name. map_of reg name = map_of reg0 name \<or>
        map_of reg name = None \<and>
        (\<exists>target. map_of reg0 name = Some target \<and> (ep_parent target = Some caller \<or> name = caller)))"

lemma deletable_refl: "deletable reg caller reg"
  by (simp add: deletable_def)

lemma deletable_Some: "deletable reg0 caller reg \<Longrightarrow> map_of reg name = Some t \<Longrightarrow> map_of reg0 name = Some t"
  unfolding deletable_def by (metis option.distinct(1))

lemma delete_one_deletable:
  assumes "deletable reg0 (ep_fragment entity) (rt_registry w)"
  shows "deletable reg0 (ep_fragment entity) (rt_registry (snd (delete_one entity target w)))"
proof (cases "may_delete (rt_registry w) (ep_fragment entity) target")
  case True
  then obtain t where "map_of (rt_registry w) target = Some t"
    "ep_parent t = Some (ep_fragment entity) \<or> target = ep_fragment entity" by (rule may_deleteD)
  moreover from this assms have "map_of reg0 target = Some t" by (simp add: deletable_Some)
  ultimately show ?thesis using assms True by (auto simp: deletable_def delete_one_registry)
next
  case False
  then show ?thesis using assms by (simp add: delete_one_registry)
qed

lemma delete_one_parents:
  assumes "parents_present (rt_registry w)"
  shows "parents_present (rt_registry (snd (delete_one entity target w)))"
proof (cases "may_delete (rt_registry w) (ep_fragment entity) target")
  case True
  then have "\<And>other e. map_of (rt_registry w) other = Some e \<Longrightarrow> ep_parent e \<noteq> Some target"
    by (rule may_deleteD)
  then show ?thesis using assms True
    by (auto simp: parents_present_def delete_one_registry split: if_splits)
next
  case False
  then show ?thesis using assms by (simp add: delete_one_registry)
qed

lemma delete_one_only_registry:
  assumes "v = w\<lparr>rt_registry := rt_registry v\<rparr>"
  shows "snd (delete_one entity target v) = w\<lparr>rt_registry := rt_registry (snd (delete_one entity target v))\<rparr>"
proof -
  have "v\<lparr>rt_registry := R\<rparr> = w\<lparr>rt_registry := R\<rparr>" for R
    by (subst assms) simp
  then show ?thesis using assms by (simp add: delete_one_def)
qed

text \<open>C20: the deletion requests of a dispatch remove at most the calling entity itself and its direct
  children, never an entity that still has children, so they never leave an orphan; every other
  entity, and everything outside the registry, stays as it was.\<close>

theorem deletion_requests_safe:
  assumes "for_each (delete_one entity) targets w = (r, w')"
  shows "deletable (rt_registry w) (ep_fragment entity) (rt_registry w') \<and>
    (parents_present (rt_registry w) \<longrightarrow> parents_present (rt_registry w')) \<and>
    w' = w\<lparr>rt_registry := rt_registry w'\<rparr> \<and> r = Inr ()"
proof -
  have k: "keeps P (for_each (delete_one entity) targets)"
    if "\<And>t v. P v \<Longrightarrow> P (snd (delete_one entity t v))" for P :: "('a, 'b) runtime \<Rightarrow> bool"
    by (intro keeps_for_each keepsI that)
  have 1: "deletable (rt_registry w) (ep_fragment entity) (rt_registry w')"
    using keepsD [OF k [of "\<lambda>v. deletable (rt_registry w) (ep_fragment entity) (rt_registry v)",
      OF delete_one_deletable], of w] assms
    by (simp add: deletable_refl)
  have 2: "parents_present (rt_registry w')" if "parents_present (rt_registry w)"
    using keepsD [OF k [of "\<lambda>v. parents_present (rt_registry v)", OF delete_one_parents], of w] assms that
    by simp
  have 3: "w' = w\<lparr>rt_registry := rt_registry w'\<rparr>"
    using keepsD [OF k [of "\<lambda>v. v = w\<lparr>rt_registry := rt_registry v\<rparr>", OF delete_one_only_registry], of w] assms
    by simp
  have "fst (for_each (delete_one entity) targets v) = Inr ()" for v
    by (induction targets arbitrary: v) (simp_all add: delete_one_def)
  then have "r = Inr ()" using assms by (metis fst_conv)
  with 1 2 3 show ?thesis by blast
qed

section \<open>Creation requests\<close>

text \<open>A creation request for a kind that is not in the kind registry is dropped without any effect,
  and in a runtime whose kind registry is empty every creation request is.\<close>

lemma creation_without_kind_dropped:
  assumes "rt_kinds w = []"
  shows "for_each_p (create_one E ctx entity) reqs w = Some (Inr (), w)"
  using assms by (induction reqs) (simp_all add: create_one_def then_p_def live_def)

text \<open>C38: creating an entity of a registered kind in a runtime with a manifest never ends: once the
  plugin is loaded and running and the manifest has been fetched and republished, the task waits for
  the write lock of \<open>stats\<close> while it holds a read guard of it itself. The handler does not return,
  and with it the main loop.\<close>

theorem creation_deadlocks:
  assumes "map_of (rt_kinds w) (cr_kind_protocol req) = Some kind_node"
    and "load E (cr_fragment req) (created_node entity req) kind_node (rc_our_did ctx) (rc_kubo_rpc_url ctx) (rt_io w) =
      (Inr (ep, Running), io')"
    and "st_root_cid (rt_stats w) = Some root"
    and "kubo_ok E blocks" and "blocks (io_out io') root = Some (json_of_manifest m)" and "manifest_ok m"
  shows "for_each_p (create_one E ctx entity) (req # reqs) w = None"
proof -
  let ?w = "w\<lparr>rt_io := io', rt_registry := hm_insert (cr_fragment req) ep (rt_registry w)\<rparr>"
  let ?url = "rc_kubo_rpc_url ctx"
  obtain x1 where 1: "dag_get E manifest_of_json ?url root (io_out io') = (Inr m, x1)"
    using kubo_ok_get [OF assms(4,5), of manifest_of_json m ?url] manifest_rt [OF assms(6)] by auto
  obtain c x2 where 2: "dag_put E ?url (json_of_entity_node ((created_node entity req)\<lparr>en_lifecycle := Running\<rparr>)) x1 = (Inr c, x2)"
    using kubo_ok_put [OF assms(4)] by metis
  obtain c' x3 where 3: "dag_put E ?url (json_of_manifest (insert_entity (cr_fragment req) c m)) x2 = (Inr c', x3)"
    using kubo_ok_put [OF assms(4)] by metis
  have "persist_new_entity E ?url root (cr_fragment req) ((created_node entity req)\<lparr>en_lifecycle := Running\<rparr>) True ?w = None"
    by (simp add: persist_new_entity_def then_p_def live_def zoom_def 1 2 3 attempt_def write_stats_def
        split: prod.split)
  then have "create_one E ctx entity req w = None"
    using assms(1,2,3) by (simp add: create_one_def then_p_live attempt_def zoom_def Let_def then_p_def attempt_p_def live_def)
  then show ?thesis by (simp add: then_p_def)
qed

end
