(* ===== verification/Crud_Facts.thy ===== *)
theory Crud_Facts
  imports Crud Rpc_Facts
begin

text \<open>
  What the CRUD service guarantees: its gate, the path syntax, the manifest cycle as a refinement of
  editing one abstract manifest, what a failed edit leaves, the protection of configuration keys, and
  where the live state and the manifest part.
\<close>

section \<open>Gate\<close>

interpretation crud: gate E "\<lambda>w. st_owners (rt_stats w)" "crud_gate E" CAP_CRUD "\<lambda>_. False"
  for E :: "('x, 'p) env"
  by unfold_locales (simp add: crud_gate_def)

text \<open>The CRUD gate decides as documented: an owner always passes; anyone else only if denied
  neither by their own entry nor by the wildcard and holding the \<open>crud\<close> capability; a refused message
  has no effect at all.\<close>

lemma crud_gate_decision:
  "(is_owner E (st_owners (rt_stats w)) (msg_from message) \<or>
      map_of acl (normalize_principal E (msg_from message)) \<noteq> Some Deny \<and> map_of acl ''*'' \<noteq> Some Deny \<and>
      check_cap E acl (msg_from message) CAP_CRUD) \<and>
     handle_crud_message E ctx acl message w = dispatch_management E ctx message w \<or>
   \<not> is_owner E (st_owners (rt_stats w)) (msg_from message) \<and> (\<exists>e. handle_crud_message E ctx acl message w = (Inl e, w))"
proof (cases "fst (crud_gate E acl (msg_from message) w) = Inr ()")
  case True
  then have g: "crud_gate E acl (msg_from message) w = (Inr (), w)"
    using crud.keeps_state by (metis prod.collapse)
  from True have "is_owner E (st_owners (rt_stats w)) (msg_from message) \<or>
      map_of acl (normalize_principal E (msg_from message)) \<noteq> Some Deny \<and> map_of acl ''*'' \<noteq> Some Deny \<and>
      check_cap E acl (msg_from message) CAP_CRUD"
    unfolding crud.passes_iff by simp
  with g show ?thesis by (simp add: handle_crud_message_def and_then_Inr)
next
  case False
  then obtain e where "crud_gate E acl (msg_from message) w = (Inl e, w)" using crud.refuses by blast
  moreover have "\<not> is_owner E (st_owners (rt_stats w)) (msg_from message)"
    using False unfolding crud.passes_iff by simp
  ultimately show ?thesis by (simp add: handle_crud_message_def and_then_Inl)
qed

section \<open>Paths\<close>

text \<open>Paths of the form \<open>:ns.seg1.seg2\<close> are parsed into the namespace and the segments they were
  written from, for every namespace and all non-empty segments without dots.\<close>

lemma parse_path_written:
  assumes "ns \<noteq> []" and "CHR ''.'' \<notin> set ns" and "\<And>s. s \<in> set segs \<Longrightarrow> s \<noteq> [] \<and> CHR ''.'' \<notin> set s"
  shows "parse_path ('':'' @ join_with ''.'' (ns # segs)) = Inr (ns, segs)"
proof (cases segs)
  case Nil
  then have "split_once (CHR ''.'') ns = None" using assms(2) by (simp add: split_once_None)
  then show ?thesis using Nil assms(1) by (simp add: parse_path_def strip_prefix_def starts_with_def)
next
  case (Cons s ss)
  have f: "filter (\<lambda>s. s \<noteq> []) segs = segs" using assms(3) by (simp add: filter_id_conv)
  have "split_on (CHR ''.'') (join_with ''.'' segs) = segs"
    using split_join [of segs "CHR ''.''"] assms(3) Cons by simp
  moreover have "split_once (CHR ''.'') (join_with ''.'' (ns # segs)) = Some (ns, join_with ''.'' segs)"
    using split_once_append [OF assms(2)] Cons by simp
  ultimately show ?thesis
    using assms(1) f by (simp add: parse_path_def strip_prefix_def starts_with_def)
qed

section \<open>Actions on the outside only\<close>

text \<open>The outside world may have moved; nothing of the runtime's own state has.\<close>

definition outside_only :: "('x, 'p) runtime \<Rightarrow> ('x, 'p) runtime \<Rightarrow> bool" where
  "outside_only w0 w \<longleftrightarrow> (\<exists>x. w = w0\<lparr>rt_io := (rt_io w0)\<lparr>io_out := x\<rparr>\<rparr>)"

lemma outside_only_refl [simp]: "outside_only w w"
  unfolding outside_only_def by (rule exI [of _ "io_out (rt_io w)"]) simp

lemma outside_only_simps:
  assumes "outside_only w0 w"
  shows "rt_registry w = rt_registry w0" "rt_kinds w = rt_kinds w0" "rt_stats w = rt_stats w0"
    "rt_root_acl w = rt_root_acl w0" "rt_acl_cache w = rt_acl_cache w0" "rt_config w = rt_config w0"
    "rt_i18n w = rt_i18n w0" "io_queue (rt_io w) = io_queue (rt_io w0)" "io_spawned (rt_io w) = io_spawned (rt_io w0)"
  using assms by (auto simp: outside_only_def)

named_theorems quiet_actions \<open>actions that only touch the outside world\<close>

lemma quiet_on_out [quiet_actions]: "keeps (outside_only w0) (on_out m)"
  by (intro keepsI) (auto simp: outside_only_def zoom_def split: prod.splits)

lemma quiet_with_context [quiet_actions]: "keeps P m \<Longrightarrow> keeps P (with_context s m)"
  by (rule keeps_with_context)

lemma quiet_caller_lang [quiet_actions]: "keeps (outside_only w0) (caller_lang E from)"
  unfolding caller_lang_def by (intro keeps_and_then keeps_attempt keeps_gets quiet_actions)

lemma quiet_sender_did [quiet_actions]: "keeps P (sender_did E from)"
  unfolding sender_did_def by (intro keeps_with_context keeps_ok_or)

lemma quiet_reply_raw [quiet_actions]: "keeps (outside_only w0) (send_crud_reply_raw E ctx msg rt ct b)"
  unfolding send_crud_reply_raw_def by (intro keeps_and_then quiet_actions)

lemma quiet_reply [quiet_actions]: "keeps (outside_only w0) (send_crud_reply E ctx msg rt b)"
  unfolding send_crud_reply_def by (rule quiet_reply_raw)

lemma quiet_replies [quiet_actions]:
  "keeps (outside_only w0) (send_crud_reply_cbor E ctx msg rt v)"
  "keeps (outside_only w0) (send_crud_ok E ctx msg rt)"
  "keeps (outside_only w0) (send_crud_ok_cid E ctx msg rt cid)"
  "keeps (outside_only w0) (send_crud_error E ctx msg rt reason)"
  unfolding send_crud_reply_cbor_def send_crud_ok_def send_crud_ok_cid_def send_crud_error_def
  by (intro keeps_and_then keeps_with_context keeps_encode_or quiet_reply)+

lemma quiet_i18n_errors [quiet_actions]:
  "keeps (outside_only w0) (send_crud_i18n_error E ctx msg rt key)"
  "keeps (outside_only w0) (send_crud_i18n_errorf E ctx msg rt key args)"
  unfolding send_crud_i18n_error_def send_crud_i18n_errorf_def
  by (intro keeps_and_then keeps_gets quiet_actions)+

lemma quiet_current_root [quiet_actions]: "keeps P current_root_cid"
  unfolding current_root_cid_def by (intro keeps_and_then keeps_gets keeps_ok_or)

lemma quiet_load_manifest [quiet_actions]: "keeps (outside_only w0) (load_manifest E ctx)"
  unfolding load_manifest_def by (intro keeps_and_then quiet_actions)

lemma quiet_fetch_entity [quiet_actions]: "keeps (outside_only w0) (fetch_entity_node E ctx name)"
  unfolding fetch_entity_node_def by (intro keeps_and_then keeps_with_context keeps_ok_or quiet_actions)

lemma quiet_state: "keeps (outside_only w) m \<Longrightarrow> outside_only w (snd (m w))"
  by (rule keepsD) auto

section \<open>The manifest cycle\<close>

lemma attempt_out: "\<exists>r x'. attempt (on_out m) w = (Inr r, w\<lparr>rt_io := (rt_io w)\<lparr>io_out := x'\<rparr>\<rparr>) \<and> x' = snd (m (io_out (rt_io w)))"
  by (auto simp: attempt_def zoom_def split: prod.splits)

text \<open>What a successful cycle does to the runtime's state, and what a failed one leaves.\<close>

lemma with_manifest_effect:
  assumes "with_manifest_crud E ctx f w = (r, w')"
  shows "(\<exists>e. r = Inl e \<and> outside_only w w') \<or>
    (\<exists>new m x. r = Inr new \<and>
       w' = w\<lparr>rt_io := (rt_io w)\<lparr>io_out := x\<rparr>,
              rt_stats := adopt_manifest new (f m) ((rt_stats w)\<lparr>st_entity_names := map fst (rt_registry w)\<rparr>)\<rparr>)"
proof -
  let ?u = "cc_kubo_rpc_url ctx"
  show ?thesis
  proof (cases "st_root_cid (rt_stats w)")
    case None
    then show ?thesis using assms by (auto simp: with_manifest_crud_def current_root_cid_def and_then_def)
  next
    case (Some old)
    obtain a x1 where 1: "dag_get E manifest_of_json ?u old (io_out (rt_io w)) = (a, x1)" by (rule prod.exhaust)
    show ?thesis
    proof (cases a)
      case (Inl e)
      then show ?thesis using assms Some 1
        by (auto simp: with_manifest_crud_def current_root_cid_def and_then_def zoom_def outside_only_def)
    next
      case (Inr m)
      obtain b x2 where 2: "dag_put E ?u (json_of_manifest (f m)) x1 = (b, x2)" by (rule prod.exhaust)
      show ?thesis
      proof (cases b)
        case (Inl e)
        then show ?thesis using assms Some 1 2 Inr
          by (auto simp: with_manifest_crud_def current_root_cid_def and_then_def zoom_def outside_only_def Let_def)
      next
        case (Inr new)
        obtain p x3 where 3: "pin_update E ?u old new x2 = (p, x3)" by (rule prod.exhaust)
        with Inr have "r = Inr new" and "w' = w\<lparr>rt_io := (rt_io w)\<lparr>io_out := x3\<rparr>,
            rt_stats := adopt_manifest new (f m) ((rt_stats w)\<lparr>st_entity_names := map fst (rt_registry w)\<rparr>)\<rparr>"
          using assms Some 1 2 \<open>a = Inr m\<close>
          by (simp_all add: with_manifest_crud_def current_root_cid_def and_then_def zoom_def Let_def attempt_def
              update_stats_entities_def)
        then show ?thesis by blast
      qed
    qed
  qed
qed

text \<open>The abstract state behind the runtime: the manifest stored under its root.\<close>

definition holds_manifest :: "('x \<Rightarrow> string \<Rightarrow> json option) \<Rightarrow> ('x, 'p) runtime \<Rightarrow> runtime_manifest \<Rightarrow> bool" where
  "holds_manifest blocks w m \<longleftrightarrow> manifest_ok m \<and>
     (\<exists>root. st_root_cid (rt_stats w) = Some root \<and> blocks (io_out (rt_io w)) root = Some (json_of_manifest m))"

lemma holds_manifest_load:
  assumes "kubo_ok E blocks" and "holds_manifest blocks w m"
  obtains x where "load_manifest E ctx w = (Inr m, w\<lparr>rt_io := (rt_io w)\<lparr>io_out := x\<rparr>\<rparr>)" "blocks x = blocks (io_out (rt_io w))"
proof -
  from assms(2) obtain root where r: "st_root_cid (rt_stats w) = Some root"
    "blocks (io_out (rt_io w)) root = Some (json_of_manifest m)" and ok: "manifest_ok m"
    by (auto simp: holds_manifest_def)
  obtain x where "dag_get E manifest_of_json (cc_kubo_rpc_url ctx) root (io_out (rt_io w)) = (Inr m, x)"
    "blocks x = blocks (io_out (rt_io w))"
    using kubo_ok_get [where dec = manifest_of_json, OF assms(1) r(2) manifest_rt [OF ok]] .
  with r(1) show thesis
    by (intro that [of x]) (simp_all add: load_manifest_def current_root_cid_def zoom_def and_then_def)
qed

lemma adopt_manifest_root [simp]: "st_root_cid (adopt_manifest new m s) = Some new"
  by (simp add: adopt_manifest_def Let_def split: option.split yaml.split)

lemma with_manifest_stored:
  assumes "kubo_ok E blocks" and "holds_manifest blocks w m"
    and "json_of_manifest (f m) = json_of_manifest m'" and "manifest_ok m'"
  shows "\<exists>new w'. with_manifest_crud E ctx f w = (Inr new, w') \<and> holds_manifest blocks w' m' \<and>
    st_root_cid (rt_stats w') = Some new \<and> rt_stats w' = adopt_manifest new (f m) ((rt_stats w)\<lparr>st_entity_names := map fst (rt_registry w)\<rparr>) \<and>
    (\<forall>c j. blocks (io_out (rt_io w)) c = Some j \<longrightarrow> blocks (io_out (rt_io w')) c = Some j)"
proof -
  let ?u = "cc_kubo_rpc_url ctx"
  from assms(2) obtain root where r: "st_root_cid (rt_stats w) = Some root"
    "blocks (io_out (rt_io w)) root = Some (json_of_manifest m)" and ok: "manifest_ok m"
    by (auto simp: holds_manifest_def)
  obtain x1 where 1: "dag_get E manifest_of_json ?u root (io_out (rt_io w)) = (Inr m, x1)"
    "blocks x1 = blocks (io_out (rt_io w))"
    using kubo_ok_get [where dec = manifest_of_json, OF assms(1) r(2) manifest_rt [OF ok]] .
  obtain new x2 where 2: "dag_put E ?u (json_of_manifest (f m)) x1 = (Inr new, x2)"
    "blocks x2 = (blocks x1)(new \<mapsto> json_of_manifest (f m))"
    "blocks x1 new = None \<or> blocks x1 new = Some (json_of_manifest (f m))"
    using kubo_ok_put [OF assms(1)] .
  let ?x = "snd (pin_update E ?u root new x2)"
  let ?s = "adopt_manifest new (f m) ((rt_stats w)\<lparr>st_entity_names := map fst (rt_registry w)\<rparr>)"
  have p: "blocks ?x = blocks x2" by (rule kubo_ok_pin [OF assms(1)])
  have e: "with_manifest_crud E ctx f w = (Inr new, w\<lparr>rt_io := (rt_io w)\<lparr>io_out := ?x\<rparr>, rt_stats := ?s\<rparr>)"
    by (simp add: with_manifest_crud_def current_root_cid_def r(1) and_then_def zoom_def 1(1) 2(1) Let_def
        attempt_def update_stats_entities_def split: prod.split)
  have "blocks ?x c = Some j" if "blocks (io_out (rt_io w)) c = Some j" for c j
    using that p 1(2) 2(2,3) by (cases "c = new") auto
  with e p 2(2) assms(3,4) show ?thesis by (auto simp: holds_manifest_def)
qed

lemmas with_manifest_holds = with_manifest_stored [OF _ _ refl]

text \<open>Every edit of the handlers keeps a manifest well formed.\<close>

lemma bt_insert_set: "e \<in> set (bt_insert k v m) \<Longrightarrow> e = (k, v) \<or> e \<in> set m"
  by (induction k v m rule: bt_insert.induct) (auto split: if_splits)

lemma bt_remove_set: "e \<in> set (bt_remove k m) \<Longrightarrow> e \<in> set m"
  by (simp add: bt_remove_def)

lemma manifest_ok_edits:
  assumes "manifest_ok m"
  shows "manifest_ok (insert_entity name cid m)" "manifest_ok (remove_entity name m)"
    "manifest_ok (insert_acl name cid m)" "manifest_ok (remove_acl name m)" "manifest_ok (set_root_acl cid m)"
    "manifest_ok (insert_kind p cid m)" "manifest_ok (remove_kind p m)"
  using assms
  by (simp_all add: manifest_ok_def insert_entity_def remove_entity_def insert_acl_def remove_acl_def set_root_acl_def
      insert_kind_def remove_kind_def insert_protocol_def remove_protocol_def kind_tree_insert_wf kind_tree_remove_wf)

lemma manifest_ok_config_edits:
  assumes "manifest_ok m"
  shows "manifest_ok (remove_config key m)" "yaml_ok val \<Longrightarrow> manifest_ok (insert_config key val m)"
  using assms by (auto simp: manifest_ok_def remove_config_def insert_config_def dest: bt_insert_set bt_remove_set)

text \<open>C10: the manifest cycle refines an edit of one abstract manifest. In a runtime that holds \<open>m\<close>
  under its root, with a reachable block store, the cycle for an edit \<open>f\<close> returns a new root, the
  runtime then holds exactly \<open>f m\<close>, reading it back gives \<open>f m\<close>, and every document stored before is
  still stored, the old root included.\<close>

theorem manifest_cycle_refines:
  assumes "kubo_ok E blocks" and "holds_manifest blocks w m" and "manifest_ok (f m)"
  shows "\<exists>new w' w''. with_manifest_crud E ctx f w = (Inr new, w') \<and> st_root_cid (rt_stats w') = Some new \<and>
    holds_manifest blocks w' (f m) \<and> load_manifest E ctx w' = (Inr (f m), w'') \<and>
    (\<forall>c j. blocks (io_out (rt_io w)) c = Some j \<longrightarrow> blocks (io_out (rt_io w')) c = Some j)"
proof -
  obtain new w' where c: "with_manifest_crud E ctx f w = (Inr new, w')" "holds_manifest blocks w' (f m)"
    "st_root_cid (rt_stats w') = Some new"
    "\<forall>c j. blocks (io_out (rt_io w)) c = Some j \<longrightarrow> blocks (io_out (rt_io w')) c = Some j"
    using with_manifest_holds [where f = f, OF assms] by blast
  obtain x where "load_manifest E ctx w' = (Inr (f m), w'\<lparr>rt_io := (rt_io w')\<lparr>io_out := x\<rparr>\<rparr>)"
    using holds_manifest_load [OF assms(1) c(2)] .
  with c show ?thesis by blast
qed

text \<open>A successful cycle, call by call.\<close>

lemma with_manifest_success:
  assumes "with_manifest_crud E ctx f w = (Inr new, w')"
  shows "\<exists>old m x1 x2. st_root_cid (rt_stats w) = Some old \<and>
    dag_get E manifest_of_json (cc_kubo_rpc_url ctx) old (io_out (rt_io w)) = (Inr m, x1) \<and>
    dag_put E (cc_kubo_rpc_url ctx) (json_of_manifest (f m)) x1 = (Inr new, x2) \<and>
    w' = w\<lparr>rt_io := (rt_io w)\<lparr>io_out := snd (pin_update E (cc_kubo_rpc_url ctx) old new x2)\<rparr>,
           rt_stats := adopt_manifest new (f m) ((rt_stats w)\<lparr>st_entity_names := map fst (rt_registry w)\<rparr>)\<rparr>"
proof (cases "st_root_cid (rt_stats w)")
  case None
  then show ?thesis using assms by (simp add: with_manifest_crud_def current_root_cid_def and_then_def)
next
  case (Some old)
  with assms show ?thesis
    by (auto simp: with_manifest_crud_def current_root_cid_def and_then_def zoom_def Let_def attempt_def update_stats_entities_def
        split: prod.splits sum.splits)
qed

text \<open>C21: a manifest cycle that fails, at whatever step, changes nothing in the runtime. A cycle that
  succeeds has fetched the manifest \<open>m\<close> under the old root and stored \<open>f m\<close> under the new one, and
  changes exactly three fields of the runtime: the root is the new one, the entity names are those of
  the registry, and the owners are those the new manifest lists, or the old ones when it has no list.
  Registry, kinds, access lists, configuration, translations, queued envelopes and spawned tasks, and
  every other statistic stay as they were.\<close>

theorem manifest_cycle_atomic:
  "case with_manifest_crud E ctx f w of
     (Inl e, w') \<Rightarrow> \<exists>x. w' = w\<lparr>rt_io := (rt_io w)\<lparr>io_out := x\<rparr>\<rparr>
   | (Inr new, w') \<Rightarrow> \<exists>old m x1 x2. st_root_cid (rt_stats w) = Some old \<and>
       dag_get E manifest_of_json (cc_kubo_rpc_url ctx) old (io_out (rt_io w)) = (Inr m, x1) \<and>
       dag_put E (cc_kubo_rpc_url ctx) (json_of_manifest (f m)) x1 = (Inr new, x2) \<and>
       w' = w\<lparr>rt_io := (rt_io w)\<lparr>io_out := snd (pin_update E (cc_kubo_rpc_url ctx) old new x2)\<rparr>,
              rt_stats := (rt_stats w)\<lparr>st_root_cid := Some new, st_entity_names := map fst (rt_registry w),
                st_owners := (case map_of (mf_config (f m)) ''owners'' of
                    Some (YSequence seq) \<Rightarrow> yaml_strs seq | _ \<Rightarrow> st_owners (rt_stats w))\<rparr>\<rparr>"
proof -
  have adopt: "adopt_manifest new m ((rt_stats w)\<lparr>st_entity_names := ns\<rparr>) =
      (rt_stats w)\<lparr>st_root_cid := Some new, st_entity_names := ns, st_owners := (case map_of (mf_config m) ''owners'' of
        Some (YSequence seq) \<Rightarrow> yaml_strs seq | _ \<Rightarrow> st_owners (rt_stats w))\<rparr>" for new m ns
    by (simp add: adopt_manifest_def Let_def split: option.split yaml.split)
  obtain r w' where r: "with_manifest_crud E ctx f w = (r, w')" by (rule prod.exhaust)
  show ?thesis
  proof (cases r)
    case (Inl e)
    with with_manifest_effect [OF r] show ?thesis by (simp add: r outside_only_def)
  next
    case (Inr new)
    with with_manifest_success [of E ctx f w new w'] r show ?thesis by (simp add: adopt)
  qed
qed

section \<open>Where the live state and the manifest part\<close>

definition registry_is :: "(string, 'p entity_plugin) hash_map \<Rightarrow> ('x, 'p) runtime \<Rightarrow> bool" where
  "registry_is R w \<longleftrightarrow> rt_registry w = R"

lemma outside_keeps_registry:
  assumes "\<And>w0. keeps (outside_only w0) m"
  shows "keeps (registry_is R) m"
  using quiet_state [OF assms] outside_only_simps(1) by (metis keepsI registry_is_def)

lemmas quiet_registry = quiet_replies [THEN outside_keeps_registry] quiet_i18n_errors [THEN outside_keeps_registry]
  quiet_load_manifest [THEN outside_keeps_registry] quiet_fetch_entity [THEN outside_keeps_registry]
  quiet_on_out [THEN outside_keeps_registry]

lemma cycle_keeps_registry: "keeps (registry_is R) (with_manifest_crud E ctx f)"
proof (rule keepsI)
  fix w :: "('a, 'b) runtime"
  assume R: "registry_is R w"
  obtain r w' where e: "with_manifest_crud E ctx f w = (r, w')" by (rule prod.exhaust)
  from with_manifest_effect [OF e] show "registry_is R (snd (with_manifest_crud E ctx f w))"
    using R e outside_only_simps(1) by (elim disjE exE conjE) (auto simp: registry_is_def)
qed

lemma update_entity_keeps_registry: "keeps (registry_is R) (update_entity_node E ctx name entity)"
  unfolding update_entity_node_def
  by (intro keeps_and_then keeps_with_context quiet_registry cycle_keeps_registry keeps_ret)

text \<open>Setting or clearing the access list of an entity does not reach the running plugin. The
  registry is the same after the operation, whatever its outcome, so the gate goes on using the old
  list name: an entity whose list was cleared (deny all) stays open until the runtime restarts.\<close>

lemma entity_acl_edit_not_live:
  "rt_registry (snd (handle_entity_acl_field E ctx message name sub_path tail args reply_type w)) = rt_registry w"
proof -
  have "keeps (registry_is (rt_registry w)) (handle_entity_acl_field E ctx message name sub_path tail args reply_type)"
    unfolding handle_entity_acl_field_def
    by (auto intro!: keeps_and_then keeps_fail update_entity_keeps_registry quiet_registry
        split: option.split list.split cbor.split)
  then show ?thesis using keepsD [of "registry_is (rt_registry w)" _ w] by (simp add: registry_is_def)
qed

definition stats_is :: "stats \<Rightarrow> ('x, 'p) runtime \<Rightarrow> bool" where
  "stats_is S w \<longleftrightarrow> rt_stats w = S"

lemma register_entity_keeps_stats:
  assumes "register_entity_plugin E ctx name node w = (r, w')"
  shows "rt_stats w' = rt_stats w"
proof -
  have z: "keeps (stats_is S) (on_io m)" for S m
    by (intro keeps_zoom) (simp add: stats_is_def)
  have l: "keeps (stats_is S) (load_manifest E ctx)" for S
    unfolding load_manifest_def by (intro keeps_and_then quiet_current_root z)
  have k: "keeps (stats_is S) (lookup_kind E ctx kind)" for S kind
    unfolding lookup_kind_def
    by (auto intro!: keeps_and_then keeps_attempt z l split: option.split sum.split)
  have "keeps (stats_is (rt_stats w)) (register_entity_plugin E ctx name node)"
    unfolding register_entity_plugin_def
    by (auto intro!: keeps_and_then keeps_attempt z k keeps_modify simp: stats_is_def split: option.split sum.split prod.split)
  from keepsD [OF this, of w] show ?thesis by (simp add: stats_is_def assms)
qed

text \<open>An upserted entity is missing from the entity names of the status page: the names are taken
  from the registry inside the manifest cycle, before the new plugin is registered.\<close>

lemma upsert_names_stale:
  assumes "with_manifest_crud E ctx f w = (Inr cid, w1)"
    and "register_entity_plugin E ctx name node w1 = (r, w2)"
    and "map_of (rt_registry w) name = None"
  shows "st_entity_names (rt_stats w2) = map fst (rt_registry w) \<and> name \<notin> set (st_entity_names (rt_stats w2))"
proof -
  have "st_entity_names (adopt_manifest new m s) = st_entity_names s" for new m s
    by (simp add: adopt_manifest_def Let_def split: option.split yaml.split)
  then have 1: "st_entity_names (rt_stats w1) = map fst (rt_registry w)"
    using with_manifest_effect [OF assms(1)] by auto
  have "rt_stats w2 = rt_stats w1" using register_entity_keeps_stats [OF assms(2)] .
  with 1 assms(3) show ?thesis by (simp add: map_of_eq_None_iff)
qed

section \<open>Configuration keys\<close>

text \<open>A protected key (the bundle, its passphrase, the slug, the config path, anything that begins
  with \<open>secret\<close>) is out of reach: a read, a write or a delete of it is answered by the same error
  and touches neither the configuration, nor the manifest, nor anything else of the runtime; and no
  protected key is among the keys that may be read from the daemon or written to the manifest.\<close>

lemma protected_keys_unreachable:
  assumes "msg_message_type message = const_message_type_crud E"
    and "decode_crud_payload E (msg_payload message) = Inr op" and "crud_route op = (path, tail, args)"
    and "parse_path path = Inr (''config'', [key])" and "is_protected_config_key key"
  shows "dispatch_management E ctx message =
      send_crud_i18n_errorf E ctx message (const_message_type_crud_reply E) ''config-key-protected'' [(''key'', key)] \<and>
    outside_only w (snd (dispatch_management E ctx message w)) \<and>
    key \<notin> set DAEMON_CONFIG_KEYS \<and> key \<notin> set MANIFEST_CONFIG_KEYS"
proof -
  have d: "dispatch_management E ctx message =
      send_crud_i18n_errorf E ctx message (const_message_type_crud_reply E) ''config-key-protected'' [(''key'', key)]"
    using assms by (simp add: dispatch_management_def Let_def fun_eq_iff and_then_def lift_res_def handle_config_ns_def)
  moreover have "outside_only w (snd (dispatch_management E ctx message w))"
    unfolding d by (rule quiet_state) (rule quiet_i18n_errors)
  moreover have "key \<notin> set DAEMON_CONFIG_KEYS" "key \<notin> set MANIFEST_CONFIG_KEYS"
    using assms(5)
    by (auto simp: is_protected_config_key_def PROTECTED_CONFIG_KEYS_def DAEMON_CONFIG_KEYS_def
        MANIFEST_CONFIG_KEYS_def starts_with_def)
  ultimately show ?thesis by blast
qed

text \<open>The values a daemon key holds, by its type.\<close>

definition daemon_value_ok :: "string \<Rightarrow> yaml \<Rightarrow> bool" where
  "daemon_value_ok key val \<longleftrightarrow>
     (if key = ''log_file'' then val = YNull \<or> yaml_as_str val \<noteq> None
      else if key = ''did_resolver_positive_ttl_secs'' \<or> key = ''did_resolver_negative_ttl_secs'' then yaml_as_u64 val \<noteq> None
      else yaml_as_str val \<noteq> None)"

lemma yaml_as_str_Some: "yaml_as_str v = Some s \<longleftrightarrow> v = YString s"
  by (cases v) auto

lemma yaml_as_u64_Some: "yaml_as_u64 v = Some n \<Longrightarrow> v = YInt (uint n)"
  by (cases v) (auto dest: u64_try_from_uint)

text \<open>A daemon key reads back the value that was written to it, if the value has the key's type,
  and no other key changes. A value of another type is ignored (for \<open>log_file\<close>: clears it), although
  the handler answers \<open>:ok\<close>.\<close>

lemma daemon_key_set_get:
  "key \<in> set DAEMON_CONFIG_KEYS \<longrightarrow>
     (let cfg' = set_daemon_config_key key val cfg in
       daemon_config_key_value cfg' key =
         (if daemon_value_ok key val then val
          else if key = ''log_file'' then YNull else daemon_config_key_value cfg key) \<and>
       (\<forall>other. other \<noteq> key \<longrightarrow> daemon_config_key_value cfg' other = daemon_config_key_value cfg other))"
  by (cases "yaml_as_str val"; cases "yaml_as_u64 val")
    (auto simp: DAEMON_CONFIG_KEYS_def set_daemon_config_key_def daemon_config_key_value_def daemon_value_ok_def
      yaml_as_str_Some dest: yaml_as_u64_Some)

end
