(* ===== verification/Manifest_Spec.thy ===== *)
theory Manifest_Spec
  imports Crud_Facts
begin

text \<open>
  The abstract state machine behind the daemon: its state is one manifest, its steps are the edits the
  management service offers, with the conditions its handlers check. \<open>Daemon_Facts\<close> shows that the
  whole daemon refines it. A value put into the configuration is stored as JSON, which has no
  infinities and no NaN: \<open>settle\<close> is what is read back.
\<close>

section \<open>Values as they are stored\<close>

fun settle :: "yaml \<Rightarrow> yaml" where
  "settle (YFloat f) = (if f64_finite f then YFloat f else YNull)"
| "settle (YSequence xs) = YSequence (map settle xs)"
| "settle (YMapping m) = YMapping (map (\<lambda>e. (fst e, settle (snd e))) m)"
| "settle v = v"

fun yaml_keyed :: "yaml \<Rightarrow> bool" where
  "yaml_keyed (YSequence xs) = (\<forall>x \<in> set xs. yaml_keyed x)"
| "yaml_keyed (YMapping m) = (distinct (map fst m) \<and> (\<forall>e \<in> set m. yaml_keyed (snd e)))"
| "yaml_keyed _ = True"

lemma json_of_settle: "json_of_yaml (settle v) = json_of_yaml v"
  by (induction v) auto

lemma settle_ok: "yaml_keyed v \<Longrightarrow> yaml_ok (settle v)"
  by (induction v) (auto simp: comp_def)

lemma settle_same: "yaml_ok v \<Longrightarrow> settle v = v"
  by (induction v) (auto intro!: map_idI)

lemma hm_insert_set: "e \<in> set (hm_insert k v m) \<Longrightarrow> e = (k, v) \<or> e \<in> set m"
  unfolding hm_insert_def by (induction m) (auto split: if_splits)

lemma fold_text_keyed:
  assumes "hm_ok m" and "\<And>e. e \<in> set m \<Longrightarrow> yaml_keyed (snd e)" and "\<And>e. e \<in> set es \<Longrightarrow> yaml_keyed (snd e)"
  shows "hm_ok (foldl (\<lambda>m e. case fst e of CText key \<Rightarrow> hm_insert key (snd e) m | _ \<Rightarrow> m) m es) \<and>
    (\<forall>e \<in> set (foldl (\<lambda>m e. case fst e of CText key \<Rightarrow> hm_insert key (snd e) m | _ \<Rightarrow> m) m es). yaml_keyed (snd e))"
  using assms
proof (induction es arbitrary: m)
  case (Cons e es)
  let ?m = "case fst e of CText key \<Rightarrow> hm_insert key (snd e) m | _ \<Rightarrow> m"
  have ok: "hm_ok ?m" using Cons.prems(1) by (simp split: cbor.split)
  have "yaml_keyed (snd e')" if "e' \<in> set (hm_insert key (snd e) m)" for e' key
    using hm_insert_set [OF that] Cons.prems(2) Cons.prems(3) [of e] by (metis list.set_intros(1) snd_conv)
  then have keyed: "yaml_keyed (snd e')" if "e' \<in> set ?m" for e'
    using that Cons.prems(2) by (auto split: cbor.splits)
  show ?case using Cons.IH [OF ok keyed] Cons.prems(3) by simp
qed simp

lemma cbor_to_yaml_keyed: "yaml_keyed (cbor_to_yaml v)"
proof (induction v rule: cbor_to_yaml.induct)
  case (7 pairs)
  have "yaml_keyed (snd e)" if "e \<in> set (map (\<lambda>e. (fst e, cbor_to_yaml (snd e))) pairs)" for e
    using 7 that by auto
  from fold_text_keyed [of "[]" "map (\<lambda>e. (fst e, cbor_to_yaml (snd e))) pairs", OF _ _ this] show ?case by (simp add: hm_ok_def)
qed (auto split: option.split)

section \<open>The machine\<close>

datatype manifest_edit =
    Set_entity string string
  | Drop_entity string
  | Set_acl string string
  | Drop_acl string
  | Set_root_acl string
  | Set_kind string string
  | Drop_kind string
  | Set_config string yaml
  | Drop_config string

text \<open>What a handler checks before it edits.\<close>

fun edit_allowed :: "manifest_edit \<Rightarrow> bool" where
  "edit_allowed (Set_acl _ cid) = is_cidv1 cid"
| "edit_allowed (Set_root_acl cid) = is_cidv1 cid"
| "edit_allowed (Set_kind _ cid) = is_cidv1 cid"
| "edit_allowed (Set_config key val) = (key \<in> set MANIFEST_CONFIG_KEYS \<and> yaml_keyed val)"
| "edit_allowed (Drop_config key) = (key \<notin> set DAEMON_CONFIG_KEYS \<and> \<not> is_protected_config_key key)"
| "edit_allowed _ = True"

text \<open>The edit a handler passes to the manifest cycle, and what the store then holds.\<close>

fun edit_fun :: "manifest_edit \<Rightarrow> runtime_manifest \<Rightarrow> runtime_manifest" where
  "edit_fun (Set_entity name cid) = insert_entity name cid"
| "edit_fun (Drop_entity name) = remove_entity name"
| "edit_fun (Set_acl name cid) = insert_acl name cid"
| "edit_fun (Drop_acl name) = remove_acl name"
| "edit_fun (Set_root_acl cid) = set_root_acl cid"
| "edit_fun (Set_kind protocol cid) = insert_kind protocol cid"
| "edit_fun (Drop_kind protocol) = remove_kind protocol"
| "edit_fun (Set_config key val) = insert_config key val"
| "edit_fun (Drop_config key) = remove_config key"

fun apply_edit :: "manifest_edit \<Rightarrow> runtime_manifest \<Rightarrow> runtime_manifest" where
  "apply_edit (Set_config key val) m = insert_config key (settle val) m"
| "apply_edit e m = edit_fun e m"

inductive manifest_step :: "runtime_manifest \<Rightarrow> runtime_manifest \<Rightarrow> bool" where
  edit: "edit_allowed e \<Longrightarrow> manifest_step m (apply_edit e m)"

inductive_cases manifest_stepE: "manifest_step m m'"

lemma enc_bt_insert_settle: "enc_map json_of_yaml (bt_insert k (settle v) m) = enc_map json_of_yaml (bt_insert k v m)"
  by (induction k v m rule: bt_insert.induct) (auto simp: enc_map_def json_of_settle)

text \<open>The store cannot tell the two apart.\<close>

lemma edit_json: "json_of_manifest (edit_fun e m) = json_of_manifest (apply_edit e m)"
  by (cases e) (simp_all add: json_of_manifest_def insert_config_def enc_bt_insert_settle)

lemma edit_ok: "edit_allowed e \<Longrightarrow> manifest_ok m \<Longrightarrow> manifest_ok (apply_edit e m)"
  by (cases e) (simp_all add: manifest_ok_edits manifest_ok_config_edits settle_ok)

text \<open>One cycle of a handler is one step of the machine.\<close>

lemma cycle_steps:
  assumes "kubo_ok E blocks" and "holds_manifest blocks w m" and "edit_allowed e"
  shows "\<exists>new w'. with_manifest_crud E ctx (edit_fun e) w = (Inr new, w') \<and> holds_manifest blocks w' (apply_edit e m)"
proof -
  have ok: "manifest_ok (apply_edit e m)"
    using edit_ok [OF assms(3)] assms(2) by (auto simp: holds_manifest_def)
  show ?thesis using with_manifest_stored [where f = "edit_fun e", OF assms(1,2) edit_json ok] by blast
qed

section \<open>What no run of the machine does\<close>

text \<open>The published configuration never gets a protected key, such as the passphrase of the bundle.\<close>

definition publishes_no_secret :: "runtime_manifest \<Rightarrow> bool" where
  "publishes_no_secret m \<longleftrightarrow> (\<forall>key. is_protected_config_key key \<longrightarrow> map_of (mf_config m) key = None)"

lemma manifest_keys_public: "key \<in> set MANIFEST_CONFIG_KEYS \<Longrightarrow> \<not> is_protected_config_key key"
  by (auto simp: MANIFEST_CONFIG_KEYS_def is_protected_config_key_def PROTECTED_CONFIG_KEYS_def starts_with_def)

lemma step_no_secret: "manifest_step m m' \<Longrightarrow> bt_ok (mf_config m) \<Longrightarrow> publishes_no_secret m \<Longrightarrow> publishes_no_secret m'"
proof (elim manifest_stepE)
  fix e assume "bt_ok (mf_config m)" "publishes_no_secret m" "edit_allowed e" "m' = apply_edit e m"
  then show "publishes_no_secret m'"
    by (cases e) (auto simp: publishes_no_secret_def insert_entity_def remove_entity_def insert_acl_def remove_acl_def
        set_root_acl_def insert_kind_def remove_kind_def insert_config_def remove_config_def dest: manifest_keys_public)
qed

lemma steps_no_secret:
  assumes "manifest_step\<^sup>*\<^sup>* m m'" and "manifest_ok m" and "publishes_no_secret m"
  shows "publishes_no_secret m' \<and> manifest_ok m'"
  using assms(1)
proof (induction rule: rtranclp_induct)
  case (step y z)
  then have "manifest_ok z" by (auto elim!: manifest_stepE intro: edit_ok)
  with step show ?case using step_no_secret by (auto simp: manifest_ok_def)
qed (use assms in simp)

end
