(* ===== verification/Daemon_Frame.thy ===== *)
theory Daemon_Frame
  imports Outside Manifest_Spec Rpc_Facts
begin

text \<open>
  Invariants of the running daemon. \<open>evolves\<close> says what a handler may change: it never touches the
  kinds, the identity of the runtime, or the keying of the registry. Four locales, each on top of
  \<open>surroundings\<close>, prove once, through every service and the tasks beside them, that a predicate is
  kept: \<open>message_frame\<close> for what messages and schedules do, \<open>crud_frame\<close> for a predicate that also
  knows the manifest and is kept by each of its edits, \<open>frame\<close> for one indifferent to the manifest,
  and \<open>start_frame\<close> for start-up too. They are interpreted for the daemon in \<open>Daemon_Facts\<close>.
\<close>

section \<open>Partial actions\<close>

definition keeps_p :: "('w \<Rightarrow> bool) \<Rightarrow> ('w, 'a) pact \<Rightarrow> bool" where
  "keeps_p P m \<longleftrightarrow> (\<forall>w r w'. P w \<longrightarrow> m w = Some (r, w') \<longrightarrow> P w')"

lemma keeps_pD: "keeps_p P m \<Longrightarrow> P w \<Longrightarrow> m w = Some (r, w') \<Longrightarrow> P w'"
  by (simp add: keeps_p_def)

lemma keeps_p_live: "keeps P m \<Longrightarrow> keeps_p P (live m)"
  unfolding keeps_p_def live_def by (metis keepsD option.inject snd_conv)

lemma keeps_p_then: "keeps_p P m \<Longrightarrow> (\<And>a. keeps_p P (f a)) \<Longrightarrow> keeps_p P (then_p m f)"
proof -
  assume m: "keeps_p P m" and f: "\<And>a. keeps_p P (f a)"
  have "P w'" if w: "P w" and t: "then_p m f w = Some (r, w')" for w r w'
  proof -
  from t obtain q v where q: "m w = Some (q, v)" by (cases "m w") (auto simp: then_p_def)
  have v: "P v" by (rule keeps_pD [OF m w q])
  show ?thesis
  proof (cases q)
    case (Inl e)
    then show ?thesis using t q v by (simp add: then_p_def)
  next
    case (Inr a)
    then have "f a v = Some (r, w')" using t q by (simp add: then_p_def)
    then show ?thesis by (rule keeps_pD [OF f v])
  qed
  qed
  then show ?thesis unfolding keeps_p_def by blast
qed

lemma keeps_p_then_yields:
  assumes m: "keeps P m" and q: "yields m Q" and f: "\<And>a. Q a \<Longrightarrow> keeps_p P (f a)"
  shows "keeps_p P (then_p (live m) f)"
  unfolding keeps_p_def
proof (intro allI impI)
  fix w r w' assume w: "P w" and t: "then_p (live m) f w = Some (r, w')"
  obtain a v where av: "m w = (a, v)" by (rule prod.exhaust)
  with keepsD [OF m w] have v: "P v" by simp
  show "P w'"
  proof (cases a)
    case (Inl e)
    then show ?thesis using t av v by (simp add: then_p_def live_def)
  next
    case (Inr b)
    then have "Q b" "f b v = Some (r, w')" using t av q by (auto simp: then_p_def live_def yields_def)
    then show ?thesis using keeps_pD [OF f v] by blast
  qed
qed

lemma keeps_p_attempt: "keeps_p P m \<Longrightarrow> keeps_p P (attempt_p m)"
  by (auto simp: keeps_p_def attempt_p_def)

lemma keeps_p_for_each: "(\<And>x. x \<in> set xs \<Longrightarrow> keeps_p P (f x)) \<Longrightarrow> keeps_p P (for_each_p f xs)"
  by (induction xs) (auto intro: keeps_p_then keeps_p_live)

lemma keeps_p_fun: "(\<And>w. keeps_p P (m w)) \<Longrightarrow> keeps_p P (\<lambda>w. m w w)"
  by (simp add: keeps_p_def)

section \<open>What a handler may change\<close>

text \<open>Every entity is registered once, under its own fragment.\<close>

definition well_keyed :: "(string, 'p entity_plugin) hash_map \<Rightarrow> bool" where
  "well_keyed reg \<longleftrightarrow> hm_ok reg \<and> list_all (\<lambda>(name, ep). ep_fragment ep = name) reg"

lemma well_keyed_Nil [simp]: "well_keyed []"
  by (simp add: well_keyed_def)

lemma well_keyed_iff: "well_keyed reg \<longleftrightarrow> hm_ok reg \<and> (\<forall>name ep. map_of reg name = Some ep \<longrightarrow> ep_fragment ep = name)"
  unfolding well_keyed_def list_all_iff by (auto dest: map_of_SomeD intro!: map_of_is_SomeI hm_ok_distinct)

lemma well_keyed_look: "well_keyed reg \<Longrightarrow> map_of reg name = Some ep \<Longrightarrow> ep_fragment ep = name"
  by (simp add: well_keyed_iff)

lemma well_keyed_insert: "well_keyed reg \<Longrightarrow> ep_fragment ep = name \<Longrightarrow> well_keyed (hm_insert name ep reg)"
  by (simp add: well_keyed_iff)

lemma well_keyed_remove: "well_keyed reg \<Longrightarrow> well_keyed (hm_remove name reg)"
  by (simp add: well_keyed_iff)

text \<open>Who the runtime is, and the part of its configuration that only a restart changes.\<close>

definition self_of :: "stats \<Rightarrow> string \<times> string \<times> u64 \<times> bool \<times> string option" where
  "self_of s = (st_our_did s, st_endpoint_id s, st_started_at s, st_ipfs_publisher_enabled s, st_config_path s)"

definition fixed_of :: "config \<Rightarrow> string option \<times> (string, yaml) hash_map" where
  "fixed_of c = (cf_config_path c, cf_extra c)"

lemma self_of_update [simp]:
  "self_of (s\<lparr>st_entity_names := names\<rparr>) = self_of s" "self_of (s\<lparr>st_owners := os\<rparr>) = self_of s"
  "self_of (s\<lparr>st_root_cid := cid\<rparr>) = self_of s" "self_of (s\<lparr>st_rpc_requests := n\<rparr>) = self_of s"
  "self_of (s\<lparr>st_ipfs_requests := n\<rparr>) = self_of s" "self_of (adopt_manifest new_cid m s) = self_of s"
  by (auto simp: self_of_def adopt_manifest_def Let_def split: option.split yaml.split)

lemma fixed_of_update [simp]: "fixed_of (set_daemon_config_key key val c) = fixed_of c"
  by (auto simp: fixed_of_def set_daemon_config_key_def split: option.split)

definition evolves :: "('x, 'p) runtime \<Rightarrow> ('x, 'p) runtime \<Rightarrow> bool" where
  "evolves w w' \<longleftrightarrow> rt_kinds w' = rt_kinds w \<and> self_of (rt_stats w') = self_of (rt_stats w) \<and>
     fixed_of (rt_config w') = fixed_of (rt_config w) \<and> (well_keyed (rt_registry w) \<longrightarrow> well_keyed (rt_registry w'))"

lemma evolves_simps [simp]:
  "evolves w w" "evolves w (w\<lparr>rt_stats := s\<rparr>) \<longleftrightarrow> self_of s = self_of (rt_stats w)"
  "evolves w (w\<lparr>rt_config := c\<rparr>) \<longleftrightarrow> fixed_of c = fixed_of (rt_config w)"
  "evolves w (w\<lparr>rt_io := io, rt_i18n := i18n\<rparr>)"
  "evolves w (w\<lparr>rt_io := io\<rparr>)" "evolves w (w\<lparr>rt_root_acl := acl\<rparr>)" "evolves w (w\<lparr>rt_acl_cache := cache\<rparr>)"
  "evolves w (w\<lparr>rt_i18n := i18n\<rparr>)" "evolves w (w\<lparr>rt_registry := hm_remove name (rt_registry w)\<rparr>)"
  "ep_fragment ep = name \<Longrightarrow> evolves w (w\<lparr>rt_registry := hm_insert name ep (rt_registry w)\<rparr>)"
  by (auto simp: evolves_def well_keyed_remove well_keyed_insert)

text \<open>Changes that leave the root as it is.\<close>

definition edits :: "('x, 'p) runtime \<Rightarrow> ('x, 'p) runtime \<Rightarrow> bool" where
  "edits w w' \<longleftrightarrow> evolves w w' \<and> st_root_cid (rt_stats w') = st_root_cid (rt_stats w)"

lemma edits_simps [simp]:
  "edits w w" "edits w (w\<lparr>rt_config := c\<rparr>) \<longleftrightarrow> fixed_of c = fixed_of (rt_config w)"
  "edits w (w\<lparr>rt_io := io, rt_i18n := i18n\<rparr>)"
  "edits w (w\<lparr>rt_io := io\<rparr>)" "edits w (w\<lparr>rt_root_acl := acl\<rparr>)" "edits w (w\<lparr>rt_acl_cache := cache\<rparr>)"
  "edits w (w\<lparr>rt_i18n := i18n\<rparr>)" "edits w (w\<lparr>rt_registry := hm_remove name (rt_registry w)\<rparr>)"
  "edits w (w\<lparr>rt_stats := (rt_stats w)\<lparr>st_owners := os\<rparr>\<rparr>)"
  "ep_fragment ep = name \<Longrightarrow> edits w (w\<lparr>rt_registry := hm_insert name ep (rt_registry w)\<rparr>)"
  by (simp_all add: edits_def)

lemma calls_keep_fragment [simp]:
  "ep_fragment (fst (snd (handle_call E inp (ep, io)))) = ep_fragment ep"
  "ep_fragment (fst (snd (handle_cast E inp (ep, io)))) = ep_fragment ep"
  "ep_fragment (mark_saved b ep) = ep_fragment ep"
  by (auto simp: handle_call_def handle_cast_def dispatch_to_def mark_saved_def split: entity_backend.split prod.split sum.split)

section \<open>Predicates that messages keep\<close>

text \<open>
  What RPC and IPFS messages, scheduled calls and the outbox can change at most: the registry, the
  outside, and the two counters of requests.
\<close>

definition managed :: "('x, 'p) runtime \<Rightarrow> (string, kind_node) hash_map \<times> stats \<times> acl_map \<times> (string, acl_map) hash_map \<times> config \<times> i18n" where
  "managed w = (rt_kinds w, (rt_stats w)\<lparr>st_rpc_requests := 0, st_ipfs_requests := 0\<rparr>, rt_root_acl w, rt_acl_cache w,
     rt_config w, rt_i18n w)"

definition serves :: "('x, 'p) runtime \<Rightarrow> ('x, 'p) runtime \<Rightarrow> bool" where
  "serves w w' \<longleftrightarrow> managed w' = managed w \<and> (well_keyed (rt_registry w) \<longrightarrow> well_keyed (rt_registry w'))"

lemma serves_simps [simp]:
  "serves w w" "serves w (w\<lparr>rt_io := io\<rparr>)" "serves w (w\<lparr>rt_registry := hm_remove name (rt_registry w)\<rparr>)"
  "ep_fragment ep = name \<Longrightarrow> serves w (w\<lparr>rt_registry := hm_insert name ep (rt_registry w)\<rparr>)"
  "serves w (w\<lparr>rt_stats := (rt_stats w)\<lparr>st_rpc_requests := n\<rparr>\<rparr>)"
  "serves w (w\<lparr>rt_stats := (rt_stats w)\<lparr>st_ipfs_requests := n\<rparr>\<rparr>)"
  by (auto simp: serves_def managed_def well_keyed_remove well_keyed_insert)

lemma serves_evolves: "serves w w' \<Longrightarrow> evolves w w'"
proof -
  assume a: "serves w w'"
  have "self_of s = self_of (s\<lparr>st_rpc_requests := 0, st_ipfs_requests := 0\<rparr>)" for s by simp
  then show ?thesis using a unfolding serves_def evolves_def managed_def by (metis Pair_inject)
qed

lemma serves_edits: "serves w w' \<Longrightarrow> edits w w'"
proof -
  assume a: "serves w w'"
  have "st_root_cid s = st_root_cid (s\<lparr>st_rpc_requests := 0, st_ipfs_requests := 0\<rparr>)" for s by simp
  with a serves_evolves [OF a] show ?thesis unfolding serves_def edits_def managed_def by (metis Pair_inject)
qed

text \<open>The one place in the world a runtime stands at.\<close>

abbreviation here :: "('x, 'p) runtime \<Rightarrow> 'x" where
  "here w \<equiv> io_out (rt_io w)"

lemma here_put_plugin [simp]: "here (put_plugin name ep w) = here w"
  by simp

lemma serves_put_plugin:
  assumes "\<And>ep io. ep_fragment (fst (snd (m (ep, io)))) = ep_fragment ep"
  shows "serves w (snd (with_plugin name ep m w))"
proof (cases "map_of (rt_registry w) name")
  case None
  then show ?thesis by (simp add: with_plugin_def put_plugin_def split: prod.split)
next
  case (Some ep1)
  have "ep_fragment (fst (snd (m (ep1, rt_io w)))) = ep_fragment ep1" by (rule assms)
  then show ?thesis
    using Some by (auto simp: with_plugin_def put_plugin_def serves_def managed_def well_keyed_look intro!: well_keyed_insert
      split: prod.split)
qed

locale message_frame = surroundings E R for E :: "('x, 'p) env" and R +
  fixes P :: "('x, 'p) runtime \<Rightarrow> bool"
  assumes served: "P w \<Longrightarrow> serves w w' \<Longrightarrow> R (here w) (here w') \<Longrightarrow> P w'"
begin

lemma on_channel: "(\<And>x0. keeps (reaches x0) m) \<Longrightarrow> keeps P (on_io m)"
proof (rule keepsI)
  fix w assume m: "\<And>x0. keeps (reaches x0) m" and w: "P w"
  from m have "reaches (here w) (snd (m (rt_io w)))"
    by (rule keepsD) (simp add: reaches_def at_rest)
  with w show "P (snd (on_io m w))"
    by (auto simp: zoom_def reaches_def split: prod.splits elim: served)
qed

lemma io: "(\<And>x0. keeps (R x0) m) \<Longrightarrow> keeps P (on_out m)"
  by (intro on_channel reaches_outside)

lemma io_fun: "(\<And>w x0. keeps (R x0) (m w)) \<Longrightarrow> keeps P (\<lambda>w. on_out (m w) w)"
  by (rule keeps_fun) (rule io)

lemma serving: "(\<And>w. serves w (f w)) \<Longrightarrow> (\<And>w. here (f w) = here w) \<Longrightarrow> keeps P (modify f)"
  by (intro keeps_modify) (erule served, simp_all add: at_rest)

lemma waits: "keeps_p P (write_stats True f)"
  by (simp add: keeps_p_def write_stats_def)

lemma plugin:
  assumes "\<And>ep io. ep_fragment (fst (snd (m (ep, io)))) = ep_fragment ep"
    and "\<And>x0. keeps (\<lambda>p. reaches x0 (snd p)) m"
  shows "keeps P (with_plugin name ep m)"
proof (rule keepsI)
  fix w assume w: "P w"
  have "reaches (here w) (snd (snd (m (current name ep w, rt_io w))))"
    using keepsD [OF assms(2), of "here w" "(current name ep w, rt_io w)"] by (simp add: reaches_def at_rest)
  then have "R (here w) (here (snd (with_plugin name ep m w)))"
    by (auto simp: with_plugin_def reaches_def split: prod.splits)
  with w show "P (snd (with_plugin name ep m w))" using served serves_put_plugin [of m, OF assms(1)] by blast
qed

lemma called: "keeps P (with_plugin name ep (handle_cast E input))" "keeps P (with_plugin name ep (handle_call E input))"
  by (rule plugin; simp add: handled)+

lemma marked: "keeps P (with_plugin name ep (modify (\<lambda>(p, io). (mark_saved b p, io))))"
  by (rule plugin) (auto simp: keeps_def)

text \<open>A plugin that was just loaded may be registered.\<close>

lemma loading:
  assumes "\<And>ep lc. ep_fragment ep = name \<Longrightarrow> keeps P (g (Inr (ep, lc)))" and "\<And>e. keeps P (g (Inl e))"
  shows "keeps P (and_then (attempt (on_io (load E name node k did url))) g)"
  using assms
  by (intro keeps_and_then_yields [OF keeps_attempt [OF on_channel [OF loaded]] yields_attempt [OF yields_zoom [OF load_yields]]])
    (auto split: sum.splits)

lemma loading_p:
  assumes "\<And>ep lc. ep_fragment ep = name \<Longrightarrow> keeps_p P (g (Inr (ep, lc)))" and "\<And>e. keeps_p P (g (Inl e))"
  shows "keeps_p P (then_p (live (attempt (on_io (load E name node k did url)))) g)"
  using assms
  by (intro keeps_p_then_yields [OF keeps_attempt [OF on_channel [OF loaded]] yields_attempt [OF yields_zoom [OF load_yields]]])
    (auto split: sum.splits)

lemma check: "keeps P (check_full E acl caller caps no_groups)"
  using check_full_eval [OF quiet_no_groups] by (metis keepsI snd_conv)

lemma query: "keeps P (query_actor_group E g caller)"
  unfolding query_actor_group_def Let_def
  by (auto intro!: keeps_and_then keeps_with_context on_channel seconds called split: option.split)

lemma in_grp: "keeps P (in_group E (\<lambda>g. query_actor_group E g caller) key n)"
  unfolding in_group_def Let_def by (intro keeps_and_then keeps_attempt query keeps_ret)

lemma deny: "keeps P (deny_groups E (\<lambda>g. query_actor_group E g caller) caller n acl)"
  by (induction acl) (auto intro!: keeps_and_then in_grp)

lemma allow: "keeps P (allow_groups E (\<lambda>g. query_actor_group E g caller) n caps acl)"
  by (induction acl) (auto intro!: keeps_and_then in_grp split: capability_entry.split)

lemma check_groups: "keeps P (check_full E acl caller caps (\<lambda>g. query_actor_group E g caller))"
  unfolding check_full_def Let_def by (auto intro!: keeps_and_then deny allow)

lemma save: "keeps P (save_pending E url name ep pending)"
  unfolding save_pending_def
  by (auto intro!: keeps_and_then keeps_attempt io foreign marked split: option.split sum.split)

lemma sender: "keeps P (sender_did E from)"
  unfolding sender_did_def by (intro keeps_with_context keeps_ok_or)

lemma lang: "keeps P (caller_lang E from)"
  unfolding caller_lang_def by (intro keeps_and_then keeps_attempt io foreign keeps_gets)

subsection \<open>RPC\<close>

lemma rpc_replies:
  "keeps P (send_rpc_reply_typed E ctx msg ct b)" "keeps P (send_rpc_reply E ctx msg b)"
  "keeps P (send_rpc_error_reply E ctx msg r)" "keeps P (send_rpc_i18n_error E ctx msg k)"
  unfolding send_rpc_i18n_error_def send_rpc_error_reply_def send_rpc_reply_def send_rpc_reply_typed_def
  by (intro keeps_and_then keeps_with_context keeps_encode_or keeps_gets sender lang io replies)+

lemma rpc_gate: "keeps P (rpc_gate E ctx acl from)"
  unfolding rpc_gate_def by (rule keepsI) (auto intro: keepsD [OF check])

lemma entity_gate: "keeps P (entity_gate E ctx entity from verb)"
  unfolding entity_gate_def Let_def
  by (auto intro!: keeps_and_then keeps_with_context check_groups split: option.split)

lemma persist_new: "keeps_p P (persist_new_entity E url old fragment node True)"
  unfolding persist_new_entity_def by (intro keeps_p_then keeps_p_live keeps_attempt io kubo waits)

lemma create_one: "keeps_p P (create_one E ctx entity req)"
  unfolding keeps_p_def
proof (intro allI impI)
  fix w r w' assume w: "P w" and c: "create_one E ctx entity req w = Some (r, w')"
  show "P w'"
  proof (cases "map_of (rt_kinds w) (cr_kind_protocol req)")
    case None
    then show ?thesis using w c by (simp add: create_one_def)
  next
    case (Some k)
    let ?node = "created_node entity req"
    let ?put = "\<lambda>ep. live (modify (\<lambda>w. w\<lparr>rt_registry := hm_insert (cr_fragment req) ep (rt_registry w)\<rparr>))"
    have persist: "keeps_p P (\<lambda>w. case st_root_cid (rt_stats w) of
        Some old_cid \<Rightarrow> then_p (attempt_p (persist_new_entity E (rc_kubo_rpc_url ctx) old_cid (cr_fragment req)
            (?node\<lparr>en_lifecycle := Running\<rparr>) True)) (\<lambda>_. live (ret ())) w
      | None \<Rightarrow> Some (Inr (), w))"
      unfolding keeps_p_def
      by (auto split: option.splits dest!: keeps_pD [OF keeps_p_then [OF keeps_p_attempt [OF persist_new]], rotated 2]
          intro: keeps_p_live)
    have K: "keeps_p P (then_p (live (attempt (on_io (load E (cr_fragment req) ?node k (rc_our_did ctx) (rc_kubo_rpc_url ctx)))))
        (\<lambda>loaded. case loaded of
           Inr (ep, Running) \<Rightarrow> then_p (?put ep) (\<lambda>_. \<lambda>w. case st_root_cid (rt_stats w) of
                Some old_cid \<Rightarrow> then_p (attempt_p (persist_new_entity E (rc_kubo_rpc_url ctx) old_cid (cr_fragment req)
                    (?node\<lparr>en_lifecycle := Running\<rparr>) True)) (\<lambda>_. live (ret ())) w
              | None \<Rightarrow> Some (Inr (), w))
         | Inr (_, LError) \<Rightarrow> live (modify (\<lambda>w. w\<lparr>rt_io := (rt_io w)\<lparr>io_queue := io_queue (rt_io w) @
              [init_failed_envelope E (rc_our_did ctx) req]\<rparr>\<rparr>))
         | _ \<Rightarrow> live (ret ())))" (is "keeps_p P ?M")
      by (rule loading_p) (auto intro!: keeps_p_then keeps_p_live serving persist split: lifecycle.split)
    have "?M w = Some (r, w')" using c by (simp only: create_one_def Some option.case Let_def)
    then show ?thesis by (rule keeps_pD [where P = P, OF K w])
  qed
qed

lemma entity_message: "keeps_p P (handle_entity_plugin_message E ctx msg term entity)"
  unfolding handle_entity_plugin_message_def dispatch_entity_def delete_one_def
  by (intro keeps_p_then keeps_p_live keeps_p_for_each keeps_for_each keeps_with_context keeps_encode_or entity_gate save
      create_one serving) (simp_all add: called split: plugin_kind.split)

lemma rpc_message: "keeps_p P (handle_rpc_message E ctx acl msg)"
  unfolding handle_rpc_message_def
  by (auto intro!: keeps_p_then keeps_p_live keeps_p_attempt keeps_with_context rpc_gate rpc_replies entity_message
      split: option.split sum.split cbor.split)

lemma serve_rpc: "keeps_p P (serve_rpc E our_did url msg)"
proof -
  have "keeps_p P (\<lambda>w. then_p (attempt_p (handle_rpc_message E ctx (rt_root_acl w) msg)) (\<lambda>_. live (ret ())) w)" for ctx
    by (rule keeps_p_fun) (intro keeps_p_then keeps_p_attempt rpc_message keeps_p_live keeps_ret)
  then show ?thesis unfolding serve_rpc_def by (intro keeps_p_then keeps_p_live serving) simp_all
qed

lemma serve_ipfs: "keeps P (serve_ipfs E our_did url msg)"
  unfolding serve_ipfs_def by (intro keeps_and_then keeps_attempt serving io ipfs_message keeps_gets keeps_ret) simp_all

lemma drain: "keeps P (drain_envelopes E our_did)"
  unfolding drain_envelopes_def by (intro keeps_and_then keeps_gets keeps_for_each serving io envelope) simp_all

lemma messages: "keeps_p P (tick E our_did \<lparr>in_rpc = rpcs, in_ipfs = ipfs, in_crud = []\<rparr>)"
  unfolding tick_def Let_def
  by (rule keeps_p_fun) (auto intro!: keeps_p_then keeps_p_live keeps_p_for_each keeps_for_each serve_rpc serve_ipfs drain)

lemma scheduled: "keeps P (dispatch_scheduled E ctx fragment i content)"
  unfolding dispatch_scheduled_def Let_def
  by (auto intro!: keeps_and_then keeps_attempt called save io clock split: option.split sum.split plugin_kind.split)

text \<open>The tasks of the scheduler, which own a list of jobs beside the runtime.\<close>

lemma on_rt: "keeps P m \<Longrightarrow> keeps (\<lambda>s. P (sd_rt s)) (on_rt m)"
  by (auto simp: keeps_def zoom_def split: prod.split)

lemma jobs: "keeps (\<lambda>s. P (sd_rt s)) (modify (\<lambda>s. s\<lparr>sd_jobs := f s\<rparr>))"
  by (intro keeps_modify) simp

lemma add_job: "keeps (\<lambda>s. P (sd_rt s)) (add_job E j)"
proof -
  have "keeps (\<lambda>s. P (sd_rt s)) (\<lambda>s. on_rt (on_out (sched_add E (length (sd_jobs s)))) s)"
    by (rule keeps_fun) (rule on_rt [OF io [OF by_sched_add [THEN call]]])
  then show ?thesis unfolding add_job_def by (intro keeps_and_then keeps_ret jobs)
qed

lemma fired: "keeps (\<lambda>s. P (sd_rt s)) (fire_job E ctx j)"
  unfolding fire_job_def
  by (auto intro!: keeps_and_then keeps_attempt on_rt io random_job scheduled add_job split: option.split sum.split)

lemma registered: "keeps (\<lambda>s. P (sd_rt s)) (register_schedule E fragment i req)"
  unfolding register_schedule_def
  by (auto intro!: keeps_and_then on_rt io clock random_job add_job split: schedule_request.split)

lemma spawned: "keeps (\<lambda>s. P (sd_rt s)) (run_spawned E)"
proof (rule keepsI)
  fix s :: "('x, 'p) scheduled" assume s: "P (sd_rt s)"
  show "P (sd_rt (snd (run_spawned E s)))"
  proof (cases "io_spawned (rt_io (sd_rt s))")
    case (Cons sp rest)
    let ?m = "and_then (modify (\<lambda>s. s\<lparr>sd_rt := (sd_rt s)\<lparr>rt_io := (rt_io (sd_rt s))\<lparr>io_spawned := rest\<rparr>\<rparr>\<rparr>)) (\<lambda>_.
      and_then (attempt (register_schedule E (sp_fragment sp) None (sp_request sp))) (\<lambda>_. ret ()))"
    have "keeps (\<lambda>s. P (sd_rt s)) ?m"
      by (intro keeps_and_then keeps_attempt registered keeps_ret keeps_modify) (auto elim: served simp: at_rest)
    from keepsD [OF this s] show ?thesis using Cons by (simp add: run_spawned_def)
  qed (simp add: run_spawned_def s)
qed

end

section \<open>Predicates that management keeps\<close>

locale crud_frame = surroundings E R for E :: "('x, 'p) env" and R +
  fixes P :: "('x, 'p) runtime \<Rightarrow> bool"
  assumes edited: "P w \<Longrightarrow> edits w w' \<Longrightarrow> R (here w) (here w') \<Longrightarrow> P w'"
    and cycled: "edit_allowed e \<Longrightarrow> keeps P (with_manifest_crud E ctx (edit_fun e))"

sublocale crud_frame \<subseteq> message_frame
  by unfold_locales (blast intro: edited serves_edits)

context crud_frame
begin

lemma mod: "(\<And>w. edits w (f w)) \<Longrightarrow> (\<And>w. here (f w) = here w) \<Longrightarrow> keeps P (modify f)"
  by (intro keeps_modify) (erule edited, simp_all add: at_rest)

lemma cycles:
  "keeps P (with_manifest_crud E ctx (insert_entity name cid))" "keeps P (with_manifest_crud E ctx (remove_entity name))"
  "is_cidv1 cid \<Longrightarrow> keeps P (with_manifest_crud E ctx (insert_acl name cid))"
  "keeps P (with_manifest_crud E ctx (remove_acl name))"
  "is_cidv1 cid \<Longrightarrow> keeps P (with_manifest_crud E ctx (set_root_acl cid))"
  "is_cidv1 cid \<Longrightarrow> keeps P (with_manifest_crud E ctx (insert_kind protocol cid))"
  "keeps P (with_manifest_crud E ctx (remove_kind protocol))"
  "key \<in> set MANIFEST_CONFIG_KEYS \<Longrightarrow> keeps P (with_manifest_crud E ctx (insert_config key (cbor_to_yaml val)))"
  "key \<notin> set DAEMON_CONFIG_KEYS \<Longrightarrow> \<not> is_protected_config_key key \<Longrightarrow> keeps P (with_manifest_crud E ctx (remove_config key))"
  using cycled [of "Set_entity name cid"] cycled [of "Drop_entity name"] cycled [of "Set_acl name cid"] cycled [of "Drop_acl name"]
    cycled [of "Set_root_acl cid"] cycled [of "Set_kind protocol cid"] cycled [of "Drop_kind protocol"]
    cycled [of "Set_config key (cbor_to_yaml val)"] cycled [of "Drop_config key"]
  by (simp_all add: cbor_to_yaml_keyed)

subsection \<open>CRUD\<close>

lemma crud_reads:
  "keeps P current_root_cid" "keeps P (load_manifest E ctx)" "keeps P (fetch_entity_node E ctx name)"
  unfolding fetch_entity_node_def load_manifest_def current_root_cid_def
  by (intro keeps_and_then keeps_with_context keeps_gets keeps_ok_or io kubo)+

lemma crud_replies:
  "keeps P (send_crud_reply_raw E ctx msg rt ct b)" "keeps P (send_crud_reply E ctx msg rt b)"
  "keeps P (send_crud_reply_cbor E ctx msg rt v)" "keeps P (send_crud_ok E ctx msg rt)"
  "keeps P (send_crud_ok_cid E ctx msg rt cid)" "keeps P (send_crud_error E ctx msg rt r)"
  "keeps P (send_crud_i18n_error E ctx msg rt k)" "keeps P (send_crud_i18n_errorf E ctx msg rt k args)"
  unfolding send_crud_i18n_error_def send_crud_i18n_errorf_def send_crud_error_def send_crud_ok_cid_def send_crud_ok_def
    send_crud_reply_cbor_def send_crud_reply_def send_crud_reply_raw_def
  by (intro keeps_and_then keeps_with_context keeps_encode_or keeps_gets sender lang io replies)+

lemma update_node: "keeps P (update_entity_node E ctx name node)"
  unfolding update_entity_node_def by (intro keeps_and_then keeps_with_context io kubo cycles keeps_ret)

lemma cache_update: "keeps P (acl_cache_update E ctx key cid)"
  unfolding acl_cache_update_def by (auto intro!: keeps_and_then keeps_attempt io acl_load mod split: sum.split)

lemma management_cap: "keeps P (check_entity_management_cap E msg caps)"
  unfolding check_entity_management_cap_def by (rule keeps_fun) (intro keeps_with_context check)

lemma daemon_key: "keeps P (set_daemon_key E key val)"
  unfolding set_daemon_key_def by (intro keeps_and_then keeps_attempt io_fun foreign mod keeps_ret) simp_all

lemmas crud_writes = update_node cache_update management_cap daemon_key

lemma register_plugin: "keeps P (register_entity_plugin E ctx name node)"
proof -
  have "keeps P (lookup_kind E ctx kind)" for kind
    unfolding lookup_kind_def by (auto intro!: keeps_and_then keeps_attempt crud_reads io kubo split: option.split sum.split)
  then show ?thesis
    unfolding register_entity_plugin_def
    by (intro keeps_and_then) (auto intro!: loading mod split: option.split)
qed

lemma swap: "keeps P (swap_lang E ctx key val)"
proof (rule keepsI)
  fix w assume w: "P w"
  have "R (here w) (snd (switch_lang E lang url i18n (here w)))" for lang url i18n
    using switched at_rest by (rule keepsD)
  then have "R (here w) (here (snd (swap_lang E ctx key val w)))"
    by (auto simp: swap_lang_def zoom_def at_rest split: bool.split yaml.split prod.split sum.split) (metis snd_conv)+
  moreover have "edits w (snd (swap_lang E ctx key val w))"
    by (auto simp: swap_lang_def zoom_def split: bool.split yaml.split prod.split sum.split)
  ultimately show "P (snd (swap_lang E ctx key val w))" using edited [OF w] by blast
qed

lemmas crud_parts = crud_reads crud_replies crud_writes cycles register_plugin swap io kubo acl_load mod

lemma entities_ns: "keeps P (handle_entities_ns E ctx msg rest tail args rt)"
  unfolding handle_entities_ns_def handle_single_entity_def get_entity_def delete_entity_def upsert_entity_def
    handle_entity_field_def get_entity_field_def handle_entity_acl_field_def
  by (auto intro!: keeps_and_then keeps_with_context keeps_encode_or crud_parts split: list.split option.split cbor.split)

lemma kinds_ns: "keeps P (handle_kinds_ns E ctx msg rest tail args rt)"
  unfolding handle_kinds_ns_def
  by (auto intro!: keeps_and_then crud_parts split: list.split option.split cbor.split)

lemma acls_ns: "keeps P (handle_root_acls E ctx msg rest tail args rt)"
  unfolding handle_root_acls_def
  by (auto intro!: keeps_and_then crud_parts split: list.split option.split cbor.split)

lemma acl_ns: "keeps P (handle_root_acl E ctx msg tail args rt)"
  unfolding handle_root_acl_def
  by (auto intro!: keeps_and_then keeps_with_context crud_parts split: list.split option.split cbor.split)

lemma config_ns: "keeps P (handle_config_ns E ctx msg rest tail args rt)"
  unfolding handle_config_ns_def config_root_def Let_def
  by (auto intro!: keeps_and_then crud_parts split: list.split option.split)

lemma crud_gate: "keeps P (crud_gate E acl from)"
  unfolding crud_gate_def by (rule keepsI) (auto intro: keepsD [OF check])

lemma crud_message: "keeps P (handle_crud_message E ctx acl msg)"
  unfolding handle_crud_message_def dispatch_management_def Let_def
  by (auto intro!: keeps_and_then crud_gate crud_replies entities_ns kinds_ns acls_ns acl_ns config_ns split: prod.split)

subsection \<open>The loop and the tasks beside it\<close>

lemma serve_crud: "keeps P (serve_crud E our_did url msg)"
  unfolding serve_crud_def by (intro keeps_and_then keeps_attempt crud_message keeps_gets keeps_ret)

lemma tick: "keeps_p P (tick E our_did ib)"
  unfolding tick_def Let_def
  by (rule keeps_p_fun) (intro keeps_p_then keeps_p_live keeps_p_for_each keeps_for_each serve_rpc serve_ipfs serve_crud drain)

lemma claim: "keeps P (handle_claim E own)"
  unfolding handle_claim_def Let_def set_owners_def grant_owners_in_acl_def persist_claim_def
  by (auto intro!: keeps_and_then keeps_attempt mod io owners_file split: option.split)

end

section \<open>Predicates that do not know the manifest\<close>

locale frame = surroundings E R for E :: "('x, 'p) env" and R +
  fixes P :: "('x, 'p) runtime \<Rightarrow> bool"
  assumes framed: "P w \<Longrightarrow> evolves w w' \<Longrightarrow> R (here w) (here w') \<Longrightarrow> P w'"
begin

lemma cycle: "keeps P (with_manifest_crud E ctx f)"
proof -
  have out: "keeps P (on_out m)" if "\<And>x0. keeps (R x0) m" for m :: "('x, 'a) act"
  proof (rule keepsI)
    fix w assume "P w"
    moreover have "R (here w) (snd (m (here w)))" using that at_rest by (rule keepsD)
    ultimately show "P (snd (on_out m w))" by (auto simp: zoom_def split: prod.splits elim: framed)
  qed
  have m: "keeps P (modify f)" if "\<And>w. evolves w (f w)" "\<And>w. here (f w) = here w" for f
    using that by (intro keeps_modify) (erule framed, simp_all add: at_rest)
  show ?thesis
    unfolding with_manifest_crud_def update_stats_entities_def current_root_cid_def Let_def
    by (intro keeps_and_then keeps_attempt keeps_gets keeps_ok_or out kubo m keeps_ret) simp_all
qed

end

sublocale frame \<subseteq> crud_frame
  by unfold_locales (auto simp: edits_def intro: framed cycle)

text \<open>Start-up also replaces the statistics.\<close>

locale start_frame = frame +
  assumes restat: "P w \<Longrightarrow> P (w\<lparr>rt_stats := s\<rparr>)"
begin

lemma updates:
  "P w \<Longrightarrow> P (w\<lparr>rt_i18n := i18n\<rparr>)" "P w \<Longrightarrow> P (w\<lparr>rt_root_acl := acl\<rparr>)" "P w \<Longrightarrow> P (w\<lparr>rt_acl_cache := cache\<rparr>)"
  "ep_fragment ep = name \<Longrightarrow> P w \<Longrightarrow> P (w\<lparr>rt_registry := hm_insert name ep (rt_registry w)\<rparr>)"
  by (auto elim: framed simp: at_rest)

lemma load_one: "keeps P (load_entity E url did manifest e n)"
  unfolding load_entity_def
  by (auto intro!: keeps_and_then keeps_attempt loading mod io kubo split: option.split sum.split)

lemma startup: "keeps P (startup dbg E args)"
  unfolding startup_def Let_def if_root_def load_entities_def register_scheduler_def load_acls_def load_named_acl_def
    grant_owners_in_acl_def now_unix_secs_def publisher_settings_def
  by (auto simp: scheduler_plugin_def new_native_def
      intro!: keeps_and_then keeps_attempt keeps_with_context keeps_fold_act load_one io kubo acl_load on_channel [OF seconds] clock translated
        root_found scheduler_started lang_found
        keeps_modify updates restat
      split: option.split sum.split prod.split)

end

end
