(* ===== verification/Actors.thy ===== *)
theory Actors
  imports Plugin
begin

text \<open>
  The bundled plugins, \<open>src/plugins/\<close>: the helpers they include from \<open>shared/types.rs\<close> and the
  exports of counter, set, register and root, as WebAssembly runs over their thread-local state.
  A \<open>RefCell\<close> is its value with the flag of an exclusive borrow: borrowing it again panics, which
  traps the instance and leaves the flag set. The verbs are pure functions of the state; the runs
  around them decode the call, borrow the cell, persist, and send the reply.
\<close>

section \<open>Shared helpers\<close>

record codec =
  cd_enc :: "cbor \<Rightarrow> bytes option"
  cd_dec :: "bytes \<Rightarrow> cbor option"

definition codec_of :: "('x, 'p) env \<Rightarrow> codec" where
  "codec_of E = \<lparr>cd_enc = cbor_encode E, cd_dec = cbor_decode E\<rparr>"

text \<open>\<open>cbor_encode(..)\<close> with its \<open>expect\<close>: a refusal of the encoder is a panic.\<close>

definition enc_then :: "codec \<Rightarrow> cbor \<Rightarrow> 'p \<Rightarrow> (bytes \<Rightarrow> 'p wasm_run) \<Rightarrow> 'p wasm_run" where
  "enc_then cd v p k = (case cd_enc cd v of None \<Rightarrow> Wasm_trap p | Some b \<Rightarrow> k b)"

definition cbor_ok_unit :: cbor where
  "cbor_ok_unit = CText '':ok''"

definition cbor_ok :: "cbor \<Rightarrow> cbor" where
  "cbor_ok v = CArray [CText '':ok'', v]"

definition cbor_error :: "string \<Rightarrow> cbor" where
  "cbor_error reason = CArray [CText '':error'', CText reason]"

definition send_reply :: "codec \<Rightarrow> local_message \<Rightarrow> bytes \<Rightarrow> 'p \<Rightarrow> 'p wasm_run \<Rightarrow> 'p wasm_run" where
  "send_reply cd msg content p k =
     (case cd_enc cd (cbor_of_reply_request
          \<lparr>rr_msg = msg, rr_content_type = ''application/cbor'', rr_content = content\<rparr>) of
        None \<Rightarrow> k
      | Some bytes \<Rightarrow> Wasm_host Ma_reply bytes p (\<lambda>_. k))"

definition persist_state_bytes :: "bytes \<Rightarrow> 'p \<Rightarrow> 'p wasm_run \<Rightarrow> 'p wasm_run" where
  "persist_state_bytes bytes p k = Wasm_host Ma_set_state bytes p (\<lambda>_. k)"

definition parse_verb :: "codec \<Rightarrow> bytes \<Rightarrow> (string \<times> cbor list) option" where
  "parse_verb cd content =
     (case cd_dec cd content of
        Some (CText s) \<Rightarrow> Some (s, [])
      | Some (CArray (CText v # args)) \<Rightarrow> Some (v, args)
      | _ \<Rightarrow> None)"

definition arg_text :: "cbor list \<Rightarrow> nat \<Rightarrow> string option" where
  "arg_text args idx =
     (if idx < length args then (case args ! idx of CText s \<Rightarrow> Some s | _ \<Rightarrow> None) else None)"

definition arg_i64 :: "cbor list \<Rightarrow> nat \<Rightarrow> i64 option" where
  "arg_i64 args idx =
     (if idx < length args then (case args ! idx of CInteger n \<Rightarrow> i64_try_from n | _ \<Rightarrow> None) else None)"

text \<open>The plugin's view of the \<open>init\<close> payload.\<close>

record plugin_init =
  pi_self_did :: string
  pi_fragment :: string
  pi_parent :: "string option"
  pi_state :: bytes

definition plugin_init_of_cbor :: "cbor \<Rightarrow> plugin_init option" where
  "plugin_init_of_cbor v = do {
     fs \<leftarrow> c_struct v;
     ctx \<leftarrow> c_field fs ''ctx'' c_struct;
     self \<leftarrow> c_field ctx ''self'' c_text;
     fragment \<leftarrow> c_field ctx ''fragment'' c_text;
     parent \<leftarrow> c_option ctx ''parent'' c_text;
     state \<leftarrow> c_default fs ''state'' [] c_bytes;
     Some \<lparr>pi_self_did = self, pi_fragment = fragment, pi_parent = parent, pi_state = state\<rparr>
   }"

text \<open>The frame of every dispatch export: decode the input and the verb, run the verb, return no output.\<close>

definition dispatch_export :: "codec \<Rightarrow> (local_message \<Rightarrow> string \<Rightarrow> cbor list \<Rightarrow> 'p wasm_run) \<Rightarrow> bytes \<Rightarrow> 'p \<Rightarrow> 'p wasm_run" where
  "dispatch_export cd body input p =
     (case Option.bind (cd_dec cd input) cast_input_of_cbor of
        None \<Rightarrow> Wasm_ret [] p
      | Some cast \<Rightarrow>
          (case parse_verb cd (lm_content (ci_msg cast)) of
             None \<Rightarrow> enc_then cd (cbor_error ''invalid verb term'') p (\<lambda>b.
               send_reply cd (ci_msg cast) b p (Wasm_ret [] p))
           | Some (verb, args) \<Rightarrow> body (ci_msg cast) verb args))"

definition init_export :: "codec \<Rightarrow> (plugin_init \<Rightarrow> 'p wasm_run) \<Rightarrow> bytes \<Rightarrow> 'p \<Rightarrow> 'p wasm_run" where
  "init_export cd body input p =
     (case Option.bind (cd_dec cd input) plugin_init_of_cbor of
        None \<Rightarrow> enc_then cd (cbor_error ''init decode'') p (\<lambda>b. Wasm_ret b p)
      | Some payload \<Rightarrow> body payload)"

text \<open>Encode the result of a verb, release the cell (\<open>p\<close>), reply, and return no output.\<close>

definition reply_and_return :: "codec \<Rightarrow> local_message \<Rightarrow> cbor \<Rightarrow> 'p \<Rightarrow> 'p \<Rightarrow> 'p wasm_run" where
  "reply_and_return cd msg result held p =
     enc_then cd result held (\<lambda>b. send_reply cd msg b p (Wasm_ret [] p))"

section \<open>Counter\<close>

record counter_mem =
  cm_value :: i64
  cm_borrowed :: bool

definition clamp_i64 :: "int \<Rightarrow> i64" where
  "clamp_i64 n = word_of_int (max (- (2 ^ 63)) (min (2 ^ 63 - 1) n))"

definition saturating_add :: "i64 \<Rightarrow> i64 \<Rightarrow> i64" where
  "saturating_add a b = clamp_i64 (sint a + sint b)"

definition saturating_sub :: "i64 \<Rightarrow> i64 \<Rightarrow> i64" where
  "saturating_sub a b = clamp_i64 (sint a - sint b)"

definition counter_state :: "i64 \<Rightarrow> cbor" where
  "counter_state v = CMap [(CText ''value'', CInteger (sint v))]"

text \<open>A verb gives the reply, the new value and whether it persists.\<close>

definition counter_verb :: "i64 \<Rightarrow> string \<Rightarrow> cbor list \<Rightarrow> cbor \<times> i64 \<times> bool" where
  "counter_verb val verb args =
     (if verb = '':get'' then (cbor_ok (CInteger (sint val)), val, False)
      else if verb = '':reset'' then (cbor_ok (CInteger 0), 0, True)
      else if verb = '':inc'' then
        (let n = (case arg_i64 args 0 of None \<Rightarrow> 1 | Some n \<Rightarrow> n); v = saturating_add val n
         in (cbor_ok (CInteger (sint v)), v, True))
      else if verb = '':dec'' then
        (let n = (case arg_i64 args 0 of None \<Rightarrow> 1 | Some n \<Rightarrow> n); v = saturating_sub val n
         in (cbor_ok (CInteger (sint v)), v, True))
      else if verb = '':set'' then
        (case arg_i64 args 0 of
           Some n \<Rightarrow> (cbor_ok (CInteger (sint n)), n, True)
         | None \<Rightarrow> (cbor_error '':set requires an integer argument'', val, False))
      else (cbor_error (''unknown verb: '' @ verb), val, False))"

definition counter_handle_call :: "codec \<Rightarrow> bytes \<Rightarrow> counter_mem \<Rightarrow> counter_mem wasm_run" where
  "counter_handle_call cd input p = dispatch_export cd (\<lambda>msg verb args.
     if cm_borrowed p then Wasm_trap p
     else case counter_verb (cm_value p) verb args of
       (result, v, persists) \<Rightarrow>
         (let held = \<lparr>cm_value = v, cm_borrowed = True\<rparr>; released = \<lparr>cm_value = v, cm_borrowed = False\<rparr> in
          if persists then enc_then cd (counter_state v) held (\<lambda>bytes.
            persist_state_bytes bytes held (reply_and_return cd msg result held released))
          else reply_and_return cd msg result held released)) input p"

text \<open>\<open>init\<close> takes the last \<open>value\<close> entry of the state that is an \<open>i64\<close>.\<close>

definition counter_restore :: "i64 \<Rightarrow> (cbor \<times> cbor) list \<Rightarrow> i64" where
  "counter_restore v0 entries = foldl (\<lambda>v (key, x).
     if key = CText ''value'' then (case x of CInteger n \<Rightarrow> (case i64_try_from n of Some m \<Rightarrow> m | None \<Rightarrow> v) | _ \<Rightarrow> v)
     else v) v0 entries"

definition counter_init :: "codec \<Rightarrow> bytes \<Rightarrow> counter_mem \<Rightarrow> counter_mem wasm_run" where
  "counter_init cd input p = init_export cd (\<lambda>payload.
     let p' = (if pi_state payload = [] then p
               else case cd_dec cd (pi_state payload) of
                 Some (CMap entries) \<Rightarrow> p\<lparr>cm_value := counter_restore (cm_value p) entries\<rparr>
               | _ \<Rightarrow> p)
     in enc_then cd cbor_ok_unit p' (\<lambda>b. Wasm_ret b p')) input p"

definition counter_new :: counter_mem where
  "counter_new = \<lparr>cm_value = 0, cm_borrowed = False\<rparr>"

definition counter_export :: "codec \<Rightarrow> string \<Rightarrow> bytes \<Rightarrow> counter_mem \<Rightarrow> counter_mem wasm_run" where
  "counter_export cd export input p =
     (if export = ''init'' then counter_init cd input p
      else if export = ''handle_call'' then counter_handle_call cd input p
      else Wasm_trap p)"

section \<open>Set\<close>

record set_mem_state =
  sm_members :: "string list"
  sm_borrowed :: bool
  sm_self_did :: string
  sm_parent :: "string option"

definition set_is_writer :: "set_mem_state \<Rightarrow> string \<Rightarrow> bool" where
  "set_is_writer p from = (sm_self_did p = from \<or> sm_parent p = Some from)"

definition set_state_value :: "string list \<Rightarrow> cbor" where
  "set_state_value ms = CArray (map CText ms)"

definition set_verb :: "bool \<Rightarrow> string list \<Rightarrow> string \<Rightarrow> cbor list \<Rightarrow> cbor \<times> string list \<times> bool" where
  "set_verb writer members verb args =
     (if verb = '':count'' then (cbor_ok (CInteger (sint (word_of_nat (length members) :: i64))), members, False)
      else if verb = '':members'' then (cbor_ok (set_state_value members), members, False)
      else if verb = '':contains'' then
        (case arg_text args 0 of
           Some val \<Rightarrow> (cbor_ok (CBool (val \<in> set members)), members, False)
         | None \<Rightarrow> (cbor_error '':contains requires a value'', members, False))
      else if verb = '':add'' then
        (if \<not> writer then (cbor_error ''permission denied'', members, False)
         else case arg_text args 0 of
           Some val \<Rightarrow>
             (if val \<notin> set members then (cbor_ok CNull, members @ [val], True)
              else (cbor_ok CNull, members, False))
         | None \<Rightarrow> (cbor_error '':add requires a value'', members, False))
      else if verb = '':remove'' then
        (if \<not> writer then (cbor_error ''permission denied'', members, False)
         else case arg_text args 0 of
           Some val \<Rightarrow> (cbor_ok CNull, filter (\<lambda>m. m \<noteq> val) members, True)
         | None \<Rightarrow> (cbor_error '':remove requires a value'', members, False))
      else if verb = '':clear'' then
        (if \<not> writer then (cbor_error ''permission denied'', members, False)
         else (cbor_ok CNull, [], True))
      else (cbor_error (''unknown verb: '' @ verb), members, False))"

text \<open>\<open>persist()\<close> borrows the cell itself.\<close>

definition set_persist :: "codec \<Rightarrow> set_mem_state \<Rightarrow> set_mem_state wasm_run \<Rightarrow> set_mem_state wasm_run" where
  "set_persist cd p k =
     (if sm_borrowed p then Wasm_trap p
      else enc_then cd (set_state_value (sm_members p)) p (\<lambda>bytes. persist_state_bytes bytes p k))"

definition set_handle_call :: "codec \<Rightarrow> bytes \<Rightarrow> set_mem_state \<Rightarrow> set_mem_state wasm_run" where
  "set_handle_call cd input p = dispatch_export cd (\<lambda>msg verb args.
     if sm_borrowed p then Wasm_trap p
     else case set_verb (set_is_writer p (lm_from msg)) (sm_members p) verb args of
       (result, ms, persists) \<Rightarrow>
         (let held = p\<lparr>sm_members := ms, sm_borrowed := True\<rparr>; released = held\<lparr>sm_borrowed := False\<rparr> in
          if persists then set_persist cd held (reply_and_return cd msg result held released)
          else reply_and_return cd msg result held released)) input p"

fun texts :: "cbor list \<Rightarrow> string list" where
  "texts [] = []"
| "texts (CText s # vs) = s # texts vs"
| "texts (_ # vs) = texts vs"

definition set_init :: "codec \<Rightarrow> bytes \<Rightarrow> set_mem_state \<Rightarrow> set_mem_state wasm_run" where
  "set_init cd input p = init_export cd (\<lambda>payload.
     let p1 = p\<lparr>sm_self_did := pi_self_did payload, sm_parent := pi_parent payload\<rparr>;
         p2 = (if pi_state payload = [] then p1
               else case cd_dec cd (pi_state payload) of
                 Some (CArray items) \<Rightarrow> p1\<lparr>sm_members := texts items\<rparr>
               | _ \<Rightarrow> p1)
     in enc_then cd cbor_ok_unit p2 (\<lambda>b. Wasm_ret b p2)) input p"

definition set_new :: set_mem_state where
  "set_new = \<lparr>sm_members = [], sm_borrowed = False, sm_self_did = [], sm_parent = None\<rparr>"

definition set_export :: "codec \<Rightarrow> string \<Rightarrow> bytes \<Rightarrow> set_mem_state \<Rightarrow> set_mem_state wasm_run" where
  "set_export cd export input p =
     (if export = ''init'' then set_init cd input p
      else if export = ''handle_call'' then set_handle_call cd input p
      else Wasm_trap p)"

section \<open>Register\<close>

record register_state =
  rg_fwd :: "(string, string) btree_map"
  rg_rev :: "(string, string) btree_map"

record register_mem =
  rm_state :: register_state
  rm_borrowed :: bool
  rm_self_did :: string
  rm_parent :: "string option"

definition register_is_writer :: "register_mem \<Rightarrow> string \<Rightarrow> bool" where
  "register_is_writer p from = (rm_self_did p = from \<or> rm_parent p = Some from)"

definition text_map :: "(string, string) btree_map \<Rightarrow> cbor" where
  "text_map m = CMap (map (\<lambda>e. (CText (fst e), CText (snd e))) m)"

definition register_state_value :: "register_state \<Rightarrow> cbor" where
  "register_state_value st = CMap [(CText ''fwd'', text_map (rg_fwd st)), (CText ''rev'', text_map (rg_rev st))]"

definition text_map_of_cbor :: "cbor \<Rightarrow> (string, string) btree_map option" where
  "text_map_of_cbor v = do {
     fs \<leftarrow> c_struct v;
     es \<leftarrow> all_some (map (\<lambda>e. do { k \<leftarrow> c_text (fst e); x \<leftarrow> c_text (snd e); Some (k, x) }) fs);
     Some (fold (\<lambda>(k, x). bt_insert k x) es [])
   }"

definition register_state_of_cbor :: "cbor \<Rightarrow> register_state option" where
  "register_state_of_cbor v = do {
     fs \<leftarrow> c_struct v;
     fwd \<leftarrow> c_field fs ''fwd'' text_map_of_cbor;
     rev \<leftarrow> c_field fs ''rev'' text_map_of_cbor;
     Some \<lparr>rg_fwd = fwd, rg_rev = rev\<rparr>
   }"

text \<open>The three mutations of the two maps, in the order the source makes them.\<close>

definition register_set :: "string \<Rightarrow> string \<Rightarrow> register_state \<Rightarrow> register_state" where
  "register_set key val st =
     (let rev1 = (case map_of (rg_fwd st) key of Some old_val \<Rightarrow> bt_remove old_val (rg_rev st) | None \<Rightarrow> rg_rev st);
          fwd1 = (case map_of rev1 val of Some old_key \<Rightarrow> bt_remove old_key (rg_fwd st) | None \<Rightarrow> rg_fwd st)
      in \<lparr>rg_fwd = bt_insert key val fwd1, rg_rev = bt_insert val key rev1\<rparr>)"

definition register_delete :: "string \<Rightarrow> register_state \<Rightarrow> register_state" where
  "register_delete key st =
     (case map_of (rg_fwd st) key of
        Some val \<Rightarrow> \<lparr>rg_fwd = bt_remove key (rg_fwd st), rg_rev = bt_remove val (rg_rev st)\<rparr>
      | None \<Rightarrow> st)"

definition register_delete_value :: "string \<Rightarrow> register_state \<Rightarrow> register_state" where
  "register_delete_value val st =
     (case map_of (rg_rev st) val of
        Some key \<Rightarrow> \<lparr>rg_fwd = bt_remove key (rg_fwd st), rg_rev = bt_remove val (rg_rev st)\<rparr>
      | None \<Rightarrow> st)"

definition register_read :: "register_state \<Rightarrow> string \<Rightarrow> cbor list \<Rightarrow> cbor option" where
  "register_read st verb args =
     (if verb = '':count'' then Some (cbor_ok (CInteger (sint (word_of_nat (length (rg_fwd st)) :: i64))))
      else if verb = '':keys'' then Some (cbor_ok (CArray (map (\<lambda>e. CText (fst e)) (rg_fwd st))))
      else if verb = '':values'' then Some (cbor_ok (CArray (map (\<lambda>e. CText (snd e)) (rg_fwd st))))
      else if verb = '':get'' then Some
        (case arg_text args 0 of
           Some key \<Rightarrow> (case map_of (rg_fwd st) key of Some v \<Rightarrow> cbor_ok (CText v) | None \<Rightarrow> cbor_error ''not found'')
         | None \<Rightarrow> cbor_error '':get requires a key'')
      else if verb = '':reverse'' then Some
        (case arg_text args 0 of
           Some val \<Rightarrow> (case map_of (rg_rev st) val of Some k \<Rightarrow> cbor_ok (CText k) | None \<Rightarrow> cbor_error ''not found'')
         | None \<Rightarrow> cbor_error '':reverse requires a value'')
      else if verb = '':has'' then Some
        (case arg_text args 0 of
           Some key \<Rightarrow> cbor_ok (CBool (map_of (rg_fwd st) key \<noteq> None))
         | None \<Rightarrow> cbor_error '':has requires a key'')
      else if verb = '':has_value'' then Some
        (case arg_text args 0 of
           Some val \<Rightarrow> cbor_ok (CBool (map_of (rg_rev st) val \<noteq> None))
         | None \<Rightarrow> cbor_error '':has_value requires a value'')
      else None)"

definition register_verb :: "bool \<Rightarrow> register_state \<Rightarrow> string \<Rightarrow> cbor list \<Rightarrow> cbor \<times> register_state \<times> bool" where
  "register_verb writer st verb args =
     (case register_read st verb args of
        Some reply \<Rightarrow> (reply, st, False)
      | None \<Rightarrow>
          if verb = '':set'' then
            (if \<not> writer then (cbor_error ''permission denied'', st, False)
             else case (arg_text args 0, arg_text args 1) of
               (Some key, Some val) \<Rightarrow> (cbor_ok CNull, register_set key val st, True)
             | _ \<Rightarrow> (cbor_error '':set requires key and value'', st, False))
          else if verb = '':delete'' then
            (if \<not> writer then (cbor_error ''permission denied'', st, False)
             else case arg_text args 0 of
               Some key \<Rightarrow> (cbor_ok CNull, register_delete key st, True)
             | None \<Rightarrow> (cbor_error '':delete requires a key'', st, False))
          else if verb = '':delete_value'' then
            (if \<not> writer then (cbor_error ''permission denied'', st, False)
             else case arg_text args 0 of
               Some val \<Rightarrow> (cbor_ok CNull, register_delete_value val st, True)
             | None \<Rightarrow> (cbor_error '':delete_value requires a value'', st, False))
          else if verb = '':clear'' then
            (if \<not> writer then (cbor_error ''permission denied'', st, False)
             else (cbor_ok CNull, \<lparr>rg_fwd = [], rg_rev = []\<rparr>, True))
          else (cbor_error (''unknown verb: '' @ verb), st, False))"

text \<open>\<open>persist()\<close> borrows the cell itself, and skips the call when the encoder refuses.\<close>

definition register_persist :: "codec \<Rightarrow> register_mem \<Rightarrow> register_mem wasm_run \<Rightarrow> register_mem wasm_run" where
  "register_persist cd p k =
     (if rm_borrowed p then Wasm_trap p
      else case cd_enc cd (register_state_value (rm_state p)) of
        None \<Rightarrow> k
      | Some bytes \<Rightarrow> persist_state_bytes bytes p k)"

definition register_handle_call :: "codec \<Rightarrow> bytes \<Rightarrow> register_mem \<Rightarrow> register_mem wasm_run" where
  "register_handle_call cd input p = dispatch_export cd (\<lambda>msg verb args.
     if rm_borrowed p then Wasm_trap p
     else case register_verb (register_is_writer p (lm_from msg)) (rm_state p) verb args of
       (result, st, persists) \<Rightarrow>
         (let held = p\<lparr>rm_state := st, rm_borrowed := True\<rparr>; released = held\<lparr>rm_borrowed := False\<rparr> in
          if persists then register_persist cd held (reply_and_return cd msg result held released)
          else reply_and_return cd msg result held released)) input p"

definition register_init :: "codec \<Rightarrow> bytes \<Rightarrow> register_mem \<Rightarrow> register_mem wasm_run" where
  "register_init cd input p = init_export cd (\<lambda>payload.
     let p1 = p\<lparr>rm_self_did := pi_self_did payload, rm_parent := pi_parent payload\<rparr>;
         p2 = (if pi_state payload = [] then p1
               else case Option.bind (cd_dec cd (pi_state payload)) register_state_of_cbor of
                 Some st \<Rightarrow> p1\<lparr>rm_state := st\<rparr>
               | None \<Rightarrow> p1)
     in enc_then cd cbor_ok_unit p2 (\<lambda>b. Wasm_ret b p2)) input p"

definition register_new :: register_mem where
  "register_new = \<lparr>rm_state = \<lparr>rg_fwd = [], rg_rev = []\<rparr>, rm_borrowed = False, rm_self_did = [], rm_parent = None\<rparr>"

definition register_export :: "codec \<Rightarrow> string \<Rightarrow> bytes \<Rightarrow> register_mem \<Rightarrow> register_mem wasm_run" where
  "register_export cd export input p =
     (if export = ''init'' then register_init cd input p
      else if export = ''handle_call'' then register_handle_call cd input p
      else Wasm_trap p)"

section \<open>Root\<close>

record root_mem =
  rt_self_did :: string
  rt_parent :: "string option"

definition root_init :: "codec \<Rightarrow> bytes \<Rightarrow> root_mem \<Rightarrow> root_mem wasm_run" where
  "root_init cd input p = init_export cd (\<lambda>payload.
     let p1 = \<lparr>rt_self_did = pi_self_did payload, rt_parent = pi_parent payload\<rparr>
     in enc_then cd cbor_ok_unit p1 (\<lambda>b. Wasm_ret b p1)) input p"

definition create_input_value :: "string \<Rightarrow> string \<Rightarrow> cbor" where
  "create_input_value kind cid = CMap [(CText ''kind'', CText kind), (CText ''behaviour'', CText cid)]"

text \<open>Encode a value, send it as the reply and return no output.\<close>

definition reply_value :: "codec \<Rightarrow> local_message \<Rightarrow> cbor \<Rightarrow> 'p \<Rightarrow> 'p wasm_run" where
  "reply_value cd msg v p = reply_and_return cd msg v p p"

definition root_create :: "codec \<Rightarrow> local_message \<Rightarrow> cbor list \<Rightarrow> root_mem \<Rightarrow> root_mem wasm_run" where
  "root_create cd msg args p =
     (case (arg_text args 0, arg_text args 1) of
        (Some kind, Some cid) \<Rightarrow>
          enc_then cd (create_input_value kind cid) p (\<lambda>req_bytes.
            Wasm_host Ma_create_entity req_bytes p (\<lambda>result_bytes.
              if result_bytes = [] then reply_value cd msg (cbor_error ''create failed'') p
              else case Option.bind (cd_dec cd result_bytes) c_text of
                None \<Rightarrow> reply_value cd msg (cbor_error ''create result decode'') p
              | Some fragment \<Rightarrow>
                  reply_value cd msg
                    (case arg_text args 2 of
                       Some lbl \<Rightarrow> cbor_ok (CArray [CText fragment, CText lbl])
                     | None \<Rightarrow> cbor_ok (CText fragment)) p))
      | _ \<Rightarrow> reply_value cd msg (cbor_error '':create requires kind and cid'') p)"

definition root_delete :: "codec \<Rightarrow> local_message \<Rightarrow> cbor list \<Rightarrow> root_mem \<Rightarrow> root_mem wasm_run" where
  "root_delete cd msg args p =
     (case arg_text args 0 of
        None \<Rightarrow> reply_value cd msg (cbor_error '':delete requires a fragment'') p
      | Some fragment \<Rightarrow>
          enc_then cd (CText fragment) p (\<lambda>frag_bytes.
            Wasm_host Ma_delete_entity frag_bytes p (\<lambda>_. reply_value cd msg cbor_ok_unit p)))"

definition root_handle_cast :: "codec \<Rightarrow> bytes \<Rightarrow> root_mem \<Rightarrow> root_mem wasm_run" where
  "root_handle_cast cd input p = dispatch_export cd (\<lambda>msg verb args.
     if verb = '':ping'' then reply_value cd msg (CText '':pong'') p
     else if verb = '':create'' then root_create cd msg args p
     else if verb = '':delete'' then root_delete cd msg args p
     else reply_value cd msg (cbor_error (''unknown verb: '' @ verb)) p) input p"

definition root_export :: "codec \<Rightarrow> string \<Rightarrow> bytes \<Rightarrow> root_mem \<Rightarrow> root_mem wasm_run" where
  "root_export cd export input p =
     (if export = ''init'' then root_init cd input p
      else if export = ''handle_cast'' then root_handle_cast cd input p
      else Wasm_trap p)"

end
