(* ===== verification/Actor_Facts.thy ===== *)
theory Actor_Facts
  imports Actors
begin

text \<open>
  What the bundled plugins compute: saturating counter arithmetic, the maps of the register as inverse
  to each other, and whole histories of calls. The locale \<open>actor\<close> states what the set and the register
  share: an export that answers, or traps in \<open>persist\<close> and leaves its cell borrowed.
\<close>

section \<open>Counter arithmetic\<close>

lemma sint_clamp_i64: "sint (clamp_i64 n) = max (- (2 ^ 63)) (min (2 ^ 63 - 1) n)"
proof -
  have "signed_take_bit 63 (max (- (2 ^ 63)) (min (2 ^ 63 - 1) n)) = max (- (2 ^ 63)) (min (2 ^ 63 - 1) (n :: int))"
    by (intro signed_take_bit_int_eq_self) auto
  then show ?thesis by (simp add: clamp_i64_def signed_of_int)
qed

lemma clamp_i64_sint [simp]: "clamp_i64 (sint v) = v"
proof -
  have "- (2 ^ 63) \<le> sint v" "sint v \<le> 2 ^ 63 - 1"
    using sint_range_size [of v] by (simp_all add: word_size)
  then show ?thesis by (simp add: clamp_i64_def min_absorb2 max_absorb2)
qed

text \<open>The counter never wraps: after \<open>:inc n\<close>, \<open>:dec n\<close>, \<open>:set n\<close> and \<open>:reset\<close> its value is the
  exact result clamped to the range of \<open>i64\<close>, the reply carries that value, and it is persisted;
  \<open>:get\<close> and unknown verbs change and persist nothing.\<close>

lemma counter_verb_exact:
  "counter_verb v '':inc'' [CInteger (sint n)] =
     (cbor_ok (CInteger (max (- (2 ^ 63)) (min (2 ^ 63 - 1) (sint v + sint n)))), clamp_i64 (sint v + sint n), True) \<and>
   counter_verb v '':dec'' [CInteger (sint n)] =
     (cbor_ok (CInteger (max (- (2 ^ 63)) (min (2 ^ 63 - 1) (sint v - sint n)))), clamp_i64 (sint v - sint n), True) \<and>
   counter_verb v '':set'' [CInteger (sint n)] = (cbor_ok (CInteger (sint n)), n, True) \<and>
   counter_verb v '':reset'' args = (cbor_ok (CInteger 0), 0, True) \<and>
   counter_verb v '':get'' args = (cbor_ok (CInteger (sint v)), v, False) \<and>
   sint (clamp_i64 k) = max (- (2 ^ 63)) (min (2 ^ 63 - 1) k)"
proof -
  have "i64_try_from (sint n) = Some n"
    using sint_range_size [of n] by (auto simp: i64_try_from_def word_size)
  then have a: "arg_i64 [CInteger (sint n)] 0 = Some n" by (simp add: arg_i64_def)
  show ?thesis
    by (simp add: counter_verb_def a saturating_add_def saturating_sub_def sint_clamp_i64 Let_def)
qed

section \<open>Register\<close>

definition register_inv :: "register_state \<Rightarrow> bool" where
  "register_inv st \<longleftrightarrow> bt_ok (rg_fwd st) \<and> bt_ok (rg_rev st) \<and>
     (\<forall>k v. map_of (rg_fwd st) k = Some v \<longleftrightarrow> map_of (rg_rev st) v = Some k)"

lemma register_inv_iff:
  "register_inv st \<Longrightarrow> map_of (rg_rev st) v = Some k \<longleftrightarrow> map_of (rg_fwd st) k = Some v"
  by (simp add: register_inv_def)

lemma register_inv_ok: "register_inv st \<Longrightarrow> bt_ok (rg_fwd st)" "register_inv st \<Longrightarrow> bt_ok (rg_rev st)"
  by (simp_all add: register_inv_def)

lemma register_inj:
  assumes "register_inv st" and "map_of (rg_fwd st) k = Some v" and "map_of (rg_fwd st) j = Some v"
  shows "j = k"
  using assms(2,3) by (simp flip: register_inv_iff [OF assms(1)])

definition without_key :: "string \<Rightarrow> register_state \<Rightarrow> (string, string) btree_map" where
  "without_key key st =
     (case map_of (rg_fwd st) key of Some old_val \<Rightarrow> bt_remove old_val (rg_rev st) | None \<Rightarrow> rg_rev st)"

lemma without_key_look:
  assumes "register_inv st"
  shows "map_of (without_key key st) u = (if map_of (rg_rev st) u = Some key then None else map_of (rg_rev st) u)"
  by (cases "map_of (rg_fwd st) key") (simp_all add: without_key_def register_inv_iff [OF assms])

lemma without_key_ok: "register_inv st \<Longrightarrow> bt_ok (without_key key st)"
  by (auto simp: without_key_def register_inv_def split: option.split)

definition without_value :: "string \<Rightarrow> string \<Rightarrow> register_state \<Rightarrow> (string, string) btree_map" where
  "without_value key val st =
     (case map_of (without_key key st) val of Some old_key \<Rightarrow> bt_remove old_key (rg_fwd st) | None \<Rightarrow> rg_fwd st)"

lemma without_value_look:
  assumes "register_inv st" and "j \<noteq> key"
  shows "map_of (without_value key val st) j = (if map_of (rg_fwd st) j = Some val then None else map_of (rg_fwd st) j)"
proof (cases "map_of (rg_rev st) val")
  case None
  then have "map_of (rg_fwd st) j \<noteq> Some val" using register_inv_iff [OF assms(1), of val j] by simp
  then show ?thesis by (simp add: without_value_def without_key_look [OF assms(1)] None)
next
  case (Some k)
  then have k: "map_of (rg_fwd st) k = Some val" using register_inv_iff [OF assms(1), of val k] by simp
  have "map_of (rg_fwd st) j = Some val \<longleftrightarrow> j = k"
    using register_inv_iff [OF assms(1), of val j] Some by auto
  then show ?thesis
    using assms(2) by (cases "k = key") (simp_all add: without_value_def without_key_look [OF assms(1)] Some)
qed

lemma without_value_ok: "register_inv st \<Longrightarrow> bt_ok (without_value key val st)"
  by (auto simp: without_value_def register_inv_def split: option.split)

lemma register_set_eq:
  "register_set key val st =
     \<lparr>rg_fwd = bt_insert key val (without_value key val st), rg_rev = bt_insert val key (without_key key st)\<rparr>"
  by (simp add: register_set_def without_value_def without_key_def Let_def)

lemma register_set_look:
  assumes "register_inv st"
  shows "map_of (rg_fwd (register_set key val st)) j =
      (if j = key then Some val else if map_of (rg_fwd st) j = Some val then None else map_of (rg_fwd st) j)"
    and "map_of (rg_rev (register_set key val st)) u =
      (if u = val then Some key else if map_of (rg_rev st) u = Some key then None else map_of (rg_rev st) u)"
  by (simp_all add: register_set_eq without_value_ok without_key_ok assms without_value_look [OF assms]
      without_key_look [OF assms])

lemma register_set_inv:
  assumes "register_inv st"
  shows "register_inv (register_set key val st)"
proof -
  have "bt_ok (rg_fwd (register_set key val st))" "bt_ok (rg_rev (register_set key val st))"
    by (simp_all add: register_set_eq without_value_ok without_key_ok assms)
  moreover have "map_of (rg_fwd (register_set key val st)) k = Some v \<longleftrightarrow>
      map_of (rg_rev (register_set key val st)) v = Some k" for k v
    using register_inj [OF assms] by (simp add: register_set_look [OF assms] register_inv_iff [OF assms]) metis
  ultimately show ?thesis by (simp add: register_inv_def)
qed

lemma register_delete_inv:
  assumes "register_inv st"
  shows "register_inv (register_delete key st)"
proof (cases "map_of (rg_fwd st) key")
  case (Some val)
  have "(map_of (bt_remove key (rg_fwd st)) k = Some v) = (map_of (bt_remove val (rg_rev st)) v = Some k)" for k v
    using Some register_inj [OF assms] by (simp add: register_inv_iff [OF assms]) metis
  then show ?thesis
    using register_inv_ok [OF assms] by (simp add: register_delete_def Some register_inv_def)
qed (simp add: register_delete_def assms)

lemma register_delete_value_inv:
  assumes "register_inv st"
  shows "register_inv (register_delete_value val st)"
proof (cases "map_of (rg_rev st) val")
  case (Some key)
  then have "map_of (rg_fwd st) key = Some val" by (simp add: register_inv_iff [OF assms])
  then have "register_delete_value val st = register_delete key st"
    by (simp add: register_delete_value_def register_delete_def Some)
  then show ?thesis by (simp add: register_delete_inv [OF assms])
qed (simp add: register_delete_value_def assms)

lemma register_empty_inv [simp]: "register_inv \<lparr>rg_fwd = [], rg_rev = []\<rparr>"
  by (simp add: register_inv_def)

lemma register_verb_cases:
  "fst (snd (register_verb w st v args)) = st \<or>
   w \<and> snd (snd (register_verb w st v args)) \<and>
     (fst (snd (register_verb w st v args)) = \<lparr>rg_fwd = [], rg_rev = []\<rparr> \<or>
      (\<exists>k. fst (snd (register_verb w st v args)) = register_delete k st) \<or>
      (\<exists>u. fst (snd (register_verb w st v args)) = register_delete_value u st) \<or>
      (\<exists>k u. fst (snd (register_verb w st v args)) = register_set k u st))"
  by (cases "register_read st v args"; cases "arg_text args 0"; cases "arg_text args 1")
    (auto simp: register_verb_def)

lemma register_verb_inv: "register_inv st \<Longrightarrow> register_inv (fst (snd (register_verb w st v args)))"
  using register_verb_cases [of w st v args]
  by (elim disjE conjE exE) (simp_all add: register_set_inv register_delete_inv register_delete_value_inv)

text \<open>\<open>:set k v\<close> on a consistent register binds \<open>k\<close> to \<open>v\<close>, unbinds every other key of \<open>v\<close>, and
  leaves every other binding as it was.\<close>

lemma register_set_binds:
  assumes "register_inv st"
  shows "map_of (rg_fwd (fst (snd (register_verb True st '':set'' [CText k, CText v])))) j =
    (if j = k then Some v else if map_of (rg_fwd st) j = Some v then None else map_of (rg_fwd st) j)"
proof -
  have "fst (snd (register_verb True st '':set'' [CText k, CText v])) = register_set k v st"
    by (simp add: register_verb_def register_read_def arg_text_def)
  then show ?thesis by (simp add: register_set_look [OF assms])
qed

section \<open>Dispatching to a bundled plugin\<close>

definition enc :: "('x, 'p) env \<Rightarrow> cbor \<Rightarrow> bytes" where
  "enc E v = the (cbor_encode E v)"

lemma enc_faithful:
  assumes "cbor_faithful E"
  shows "cbor_encode E v = Some (enc E v)" and "cbor_decode E (enc E v) = Some v"
proof -
  obtain b where "cbor_encode E v = Some b" "cbor_decode E b = Some v"
    using assms by (rule cbor_faithfulE)
  then show "cbor_encode E v = Some (enc E v)" and "cbor_decode E (enc E v) = Some v"
    by (simp_all add: enc_def)
qed

lemma codec_faithful:
  assumes "cbor_faithful E"
  shows "cd_enc (codec_of E) v = Some (enc E v)" and "cd_dec (codec_of E) (enc E v) = Some v"
  by (simp_all add: codec_of_def enc_faithful [OF assms])

text \<open>The envelope \<open>ma_reply\<close> makes of a reply.\<close>

definition reply_envelope :: "local_message \<Rightarrow> bytes \<Rightarrow> send_envelope" where
  "reply_envelope msg content =
     \<lparr>se_to = lm_from msg, se_content_type = ''application/cbor'', se_content = content,
      se_reply_to = Some (lm_id msg)\<rparr>"

lemma host_reply:
  assumes "cbor_faithful E" and "Ma_reply \<in> set (xt_fns (fst w))"
  shows "host_call E fragment Ma_reply
      (enc E (cbor_of_reply_request \<lparr>rr_msg = msg, rr_content_type = ''application/cbor'', rr_content = content\<rparr>)) w =
    (Inr [], send_tx fragment (reply_envelope msg content) w)"
  using assms(2)
  by (simp add: host_call_def ma_reply_fn_def from_cbor_bytes_def enc_faithful [OF assms(1)] reply_envelope_def)

lemma host_set_state:
  assumes "Ma_set_state \<in> set (xt_fns (fst w))"
  shows "host_call E fragment Ma_set_state b w =
    (Inr [], ((fst w)\<lparr>xt_state := set_state b (xt_state (fst w))\<rparr>, snd w))"
  using assms by (simp add: host_call_def ma_set_state_fn_def)

lemma run_reply_and_return:
  assumes "cbor_faithful E" and "Ma_reply \<in> set (xt_fns (fst w))"
  shows "run_wasm E fragment (reply_and_return (codec_of E) msg result held p) w =
    (Inr [], set_mem p (send_tx fragment (reply_envelope msg (enc E result)) w))"
  using assms
  by (simp add: reply_and_return_def enc_then_def send_reply_def codec_faithful [OF assms(1)]
      host_reply set_mem_def send_tx_def)

lemma dispatch_export_body:
  assumes "cbor_faithful E" and "parse_verb (codec_of E) (lm_content msg) = Some (verb, args)"
  shows "dispatch_export (codec_of E) body (enc E (cbor_of_cast_input \<lparr>ci_msg = msg\<rparr>)) p = body msg verb args"
  using assms(2) by (simp add: dispatch_export_def codec_faithful [OF assms(1)])

lemma dispatch_to_run:
  assumes "cbor_faithful E" and "ep_backend ep = Extism xt"
    and "run_wasm E (ep_fragment ep) (wasm_call E export (enc E (cbor_of_cast_input input)) (xt_mem xt)) (xt, io) =
      (Inr out, (xt', io'))"
  shows "dispatch_to E export input (ep, io) =
    (Inr (fst (collect out xt')), (ep\<lparr>ep_backend := Extism (snd (collect out xt'))\<rparr>, io'))"
  by (simp add: dispatch_to_def assms(2) and_then_def encode_or_def enc_faithful [OF assms(1)] plugin_call_def
      assms(3) split: prod.split)

lemma dispatch_to_trap:
  assumes "cbor_faithful E" and "ep_backend ep = Extism xt"
    and "wasm_call E export (enc E (cbor_of_cast_input input)) (xt_mem xt) = Wasm_trap p"
  shows "\<exists>e. dispatch_to E export input (ep, io) = (Inl e, (ep\<lparr>ep_backend := Extism (xt\<lparr>xt_mem := p\<rparr>)\<rparr>, io))"
  by (simp add: dispatch_to_def assms(2) and_then_def encode_or_def enc_faithful [OF assms(1)] plugin_call_def
      assms(3) set_mem_def)

section \<open>Actors that lose their cell\<close>

text \<open>
  The set and the register keep their state in a cell that only their writers change, and both borrow
  it a second time to persist it. Their contract: \<open>verb\<close> gets whether the sender may write, and says
  whether it persists; a call that does not persist replies and leaves the instance as it was, one
  that does traps with the cell still borrowed, and an instance whose cell is borrowed traps.
\<close>

definition verdict :: "(bool \<Rightarrow> 'st \<Rightarrow> string \<Rightarrow> cbor list \<Rightarrow> cbor \<times> 'st \<times> bool) \<Rightarrow> ('m \<Rightarrow> 'st) \<Rightarrow> ('m \<Rightarrow> string \<Rightarrow> bool) \<Rightarrow>
    ('x, 'm) env \<Rightarrow> 'm \<Rightarrow> local_message \<Rightarrow> cbor \<times> 'st \<times> bool" where
  "verdict verb state writer E p m =
     (case parse_verb (codec_of E) (lm_content m) of
        Some (v, args) \<Rightarrow> verb (writer p (lm_from m)) (state p) v args
      | None \<Rightarrow> (cbor_error ''invalid verb term'', state p, False))"

abbreviation persisting :: "cbor \<times> 'st \<times> bool \<Rightarrow> bool" where
  "persisting r \<equiv> snd (snd r)"

text \<open>Calls dispatched one after the other to one instance, with the result of each.\<close>

fun calls :: "('x, 'p) env \<Rightarrow> local_message list \<Rightarrow> ('x, 'p) plug \<Rightarrow> dispatch_result res list \<times> ('x, 'p) plug" where
  "calls E [] s = ([], s)"
| "calls E (m # ms) s =
     (case dispatch_to E ''handle_call'' \<lparr>ci_msg = m\<rparr> s of (r, s') \<Rightarrow>
      case calls E ms s' of (rs, s'') \<Rightarrow> (r # rs, s''))"

text \<open>A dispatch that was answered in a reply only: no output, nothing to persist.\<close>

definition silent :: "dispatch_result res \<Rightarrow> bool" where
  "silent r = (case r of Inl _ \<Rightarrow> True | Inr d \<Rightarrow> dr_output d = [] \<and> dr_pending_state d = None)"

lemma silent_traps: "map isl rs = replicate n True \<Longrightarrow> list_all silent rs"
proof (induction rs arbitrary: n)
  case (Cons r rs)
  then show ?case by (cases n; cases r) (auto simp: silent_def)
qed simp

definition well_formed_calls :: "('x, 'p) env \<Rightarrow> local_message list \<Rightarrow> bool" where
  "well_formed_calls E ms \<longleftrightarrow> list_all (\<lambda>m. parse_verb (codec_of E) (lm_content m) \<noteq> None) ms"

locale actor =
  fixes export :: "codec \<Rightarrow> string \<Rightarrow> bytes \<Rightarrow> 'm \<Rightarrow> 'm wasm_run"
    and verb :: "bool \<Rightarrow> 'st \<Rightarrow> string \<Rightarrow> cbor list \<Rightarrow> cbor \<times> 'st \<times> bool"
    and state :: "'m \<Rightarrow> 'st" and borrowed :: "'m \<Rightarrow> bool" and writer :: "'m \<Rightarrow> string \<Rightarrow> bool"
    and inv :: "'st \<Rightarrow> bool"
  assumes verb_inv: "inv st \<Longrightarrow> inv (fst (snd (verb w st v args)))"
    and reader_never_persists: "\<not> persisting (verb False st v args)"
    and unpersisted_keeps: "\<not> persisting (verb w st v args) \<Longrightarrow> fst (snd (verb w st v args)) = st"
    and reads: "Option.bind (cd_dec cd input) cast_input_of_cbor = Some \<lparr>ci_msg = msg\<rparr> \<Longrightarrow>
      parse_verb cd (lm_content msg) = Some (v, args) \<Longrightarrow> \<not> borrowed p \<Longrightarrow>
      verb (writer p (lm_from msg)) (state p) v args = (result, st, False) \<Longrightarrow>
      \<exists>held. export cd ''handle_call'' input p = reply_and_return cd msg result held p"
    and writes: "Option.bind (cd_dec cd input) cast_input_of_cbor = Some \<lparr>ci_msg = msg\<rparr> \<Longrightarrow>
      parse_verb cd (lm_content msg) = Some (v, args) \<Longrightarrow> \<not> borrowed p \<Longrightarrow>
      verb (writer p (lm_from msg)) (state p) v args = (result, st, True) \<Longrightarrow>
      \<exists>p'. export cd ''handle_call'' input p = Wasm_trap p' \<and> borrowed p' \<and> state p' = st"
    and dead: "Option.bind (cd_dec cd input) cast_input_of_cbor = Some \<lparr>ci_msg = msg\<rparr> \<Longrightarrow>
      parse_verb cd (lm_content msg) = Some (v, args) \<Longrightarrow> borrowed p \<Longrightarrow>
      export cd ''handle_call'' input p = Wasm_trap p"
begin

lemma call_read:
  assumes "cbor_faithful E" and "wasm_call E = export (codec_of E)" and "ep_backend ep = Extism xt"
    and "\<not> borrowed (xt_mem xt)" and "Ma_reply \<in> set (xt_fns xt)" and "sc_pending (xt_state xt) = None"
    and "parse_verb (codec_of E) (lm_content m) \<noteq> None" and "\<not> persisting (verdict verb state writer E (xt_mem xt) m)"
  shows "\<exists>d xt'. dispatch_to E ''handle_call'' \<lparr>ci_msg = m\<rparr> (ep, io) = (Inr d, (ep\<lparr>ep_backend := Extism xt'\<rparr>,
      io\<lparr>io_queue := io_queue io @ [(ep_fragment ep, reply_envelope m (enc E (fst (verdict verb state writer E (xt_mem xt) m))))]\<rparr>)) \<and>
    silent (Inr d) \<and> xt_mem xt' = xt_mem xt \<and> xt_fns xt' = xt_fns xt \<and> sc_pending (xt_state xt') = None"
proof -
  obtain v args where pv: "parse_verb (codec_of E) (lm_content m) = Some (v, args)" using assms(7) by auto
  obtain result st where r: "verb (writer (xt_mem xt) (lm_from m)) (state (xt_mem xt)) v args = (result, st, False)"
    using assms(8) by (cases "verb (writer (xt_mem xt) (lm_from m)) (state (xt_mem xt)) v args") (auto simp: verdict_def pv)
  have "Option.bind (cd_dec (codec_of E) (enc E (cbor_of_cast_input \<lparr>ci_msg = m\<rparr>))) cast_input_of_cbor = Some \<lparr>ci_msg = m\<rparr>"
    by (simp add: codec_faithful [OF assms(1)])
  from reads [OF this pv assms(4) r] obtain held where
    e: "export (codec_of E) ''handle_call'' (enc E (cbor_of_cast_input \<lparr>ci_msg = m\<rparr>)) (xt_mem xt) =
      reply_and_return (codec_of E) m result held (xt_mem xt)" by blast
  have "run_wasm E (ep_fragment ep)
      (wasm_call E ''handle_call'' (enc E (cbor_of_cast_input \<lparr>ci_msg = m\<rparr>)) (xt_mem xt)) (xt, io) =
      (Inr [], (xt, io\<lparr>io_queue := io_queue io @ [(ep_fragment ep, reply_envelope m (enc E result))]\<rparr>))"
    using assms(5) by (simp add: assms(2) e run_reply_and_return [OF assms(1)] set_mem_def send_tx_def)
  note dispatch_to_run [OF assms(1,3) this]
  then show ?thesis
    by (intro exI [of _ "fst (collect [] xt)"] exI [of _ "snd (collect [] xt)"])
      (simp add: collect_def verdict_def pv r silent_def assms(6))
qed

lemma readers_answered:
  assumes "\<forall>m \<in> set ms. \<not> writer p (lm_from m)"
  shows "takeWhile (\<lambda>m. \<not> persisting (verdict verb state writer E p m)) ms = ms"
  unfolding takeWhile_eq_all_conv using assms by (simp add: verdict_def reader_never_persists split: option.split)

lemma calls_dead:
  assumes "cbor_faithful E" and "wasm_call E = export (codec_of E)" and "ep_backend ep = Extism xt"
    and "borrowed (xt_mem xt)" and "well_formed_calls E ms"
  shows "\<exists>rs. calls E ms (ep, io) = (rs, (ep, io)) \<and> map isl rs = replicate (length ms) True"
  using assms(5)
proof (induction ms)
  case (Cons m ms)
  obtain v args where pv: "parse_verb (codec_of E) (lm_content m) = Some (v, args)"
    using Cons.prems by (auto simp: well_formed_calls_def)
  have "Option.bind (cd_dec (codec_of E) (enc E (cbor_of_cast_input \<lparr>ci_msg = m\<rparr>))) cast_input_of_cbor = Some \<lparr>ci_msg = m\<rparr>"
    by (simp add: codec_faithful [OF assms(1)])
  then have "wasm_call E ''handle_call'' (enc E (cbor_of_cast_input \<lparr>ci_msg = m\<rparr>)) (xt_mem xt) = Wasm_trap (xt_mem xt)"
    using dead [OF _ pv assms(4)] by (simp add: assms(2))
  from dispatch_to_trap [OF assms(1,3) this, of io] obtain e where
    "dispatch_to E ''handle_call'' \<lparr>ci_msg = m\<rparr> (ep, io) = (Inl e, (ep, io))" using assms(3) by auto
  moreover obtain rs where "calls E ms (ep, io) = (rs, (ep, io))" "map isl rs = replicate (length ms) True"
    using Cons.IH Cons.prems by (auto simp: well_formed_calls_def)
  ultimately show ?case by simp
qed simp

text \<open>Every history of well-formed calls: answered from the state at the beginning up to the first call that
  persists; that one and all after it trap.\<close>

lemma history:
  assumes "cbor_faithful E" and "wasm_call E = export (codec_of E)"
    and "ep_backend ep = Extism xt" and "\<not> borrowed (xt_mem xt)" and "Ma_reply \<in> set (xt_fns xt)"
    and "sc_pending (xt_state xt) = None" and "inv (state (xt_mem xt))" and "well_formed_calls E ms"
  shows "let answered = takeWhile (\<lambda>m. \<not> persisting (verdict verb state writer E (xt_mem xt) m)) ms in
    \<exists>rs ep' xt'. calls E ms (ep, io) = (rs, (ep', io\<lparr>io_queue := io_queue io @
        map (\<lambda>m. (ep_fragment ep, reply_envelope m (enc E (fst (verdict verb state writer E (xt_mem xt) m))))) answered\<rparr>)) \<and>
      map isl rs = replicate (length answered) False @ replicate (length ms - length answered) True \<and>
      list_all silent rs \<and> ep_backend ep' = Extism xt' \<and> inv (state (xt_mem xt')) \<and>
      (if answered = ms then xt_mem xt' = xt_mem xt
       else borrowed (xt_mem xt') \<and>
         state (xt_mem xt') = fst (snd (verdict verb state writer E (xt_mem xt) (ms ! length answered))))"
  using assms(3-8)
proof (induction ms arbitrary: ep xt io)
  case Nil
  then show ?case by simp
next
  case (Cons m ms)
  let ?v = "verdict verb state writer E (xt_mem xt)"
  let ?pre = "takeWhile (\<lambda>m. \<not> persisting (?v m)) ms"
  have parsed: "parse_verb (codec_of E) (lm_content m) \<noteq> None" and rest: "well_formed_calls E ms"
    using Cons.prems(6) by (simp_all add: well_formed_calls_def)
  show ?case
  proof (cases "persisting (?v m)")
    case False
    let ?io = "io\<lparr>io_queue := io_queue io @ [(ep_fragment ep, reply_envelope m (enc E (fst (?v m))))]\<rparr>"
    obtain d xt1 where d: "dispatch_to E ''handle_call'' \<lparr>ci_msg = m\<rparr> (ep, io) = (Inr d, (ep\<lparr>ep_backend := Extism xt1\<rparr>, ?io))"
      and 1: "silent (Inr d)" "xt_mem xt1 = xt_mem xt" "xt_fns xt1 = xt_fns xt" "sc_pending (xt_state xt1) = None"
      using call_read [OF assms(1,2) Cons.prems(1-4) parsed False] by blast
    let ?ep = "ep\<lparr>ep_backend := Extism xt1\<rparr>"
    obtain rs ep' xt' where IH: "calls E ms (?ep, ?io) = (rs, (ep', ?io\<lparr>io_queue := io_queue ?io @
        map (\<lambda>m. (ep_fragment ep, reply_envelope m (enc E (fst (?v m))))) ?pre\<rparr>))"
      "map isl rs = replicate (length ?pre) False @ replicate (length ms - length ?pre) True"
      "list_all silent rs" "ep_backend ep' = Extism xt'" "inv (state (xt_mem xt'))"
      "if ?pre = ms then xt_mem xt' = xt_mem xt
       else borrowed (xt_mem xt') \<and> state (xt_mem xt') = fst (snd (?v (ms ! length ?pre)))"
      using Cons.IH [of ?ep xt1 ?io] Cons.prems 1 rest unfolding Let_def by auto
    show ?thesis
      using d 1(1) IH False
      by (simp add: Let_def)
  next
    case True
    obtain v args where pv: "parse_verb (codec_of E) (lm_content m) = Some (v, args)" using parsed by auto
    obtain result st where r: "verb (writer (xt_mem xt) (lm_from m)) (state (xt_mem xt)) v args = (result, st, True)"
      using True by (cases "verb (writer (xt_mem xt) (lm_from m)) (state (xt_mem xt)) v args") (auto simp: verdict_def pv)
    have c: "Option.bind (cd_dec (codec_of E) (enc E (cbor_of_cast_input \<lparr>ci_msg = m\<rparr>))) cast_input_of_cbor = Some \<lparr>ci_msg = m\<rparr>"
      by (simp add: codec_faithful [OF assms(1)])
    from writes [OF this pv Cons.prems(2) r] obtain p' where
      p': "wasm_call E ''handle_call'' (enc E (cbor_of_cast_input \<lparr>ci_msg = m\<rparr>)) (xt_mem xt) = Wasm_trap p'"
        "borrowed p'" "state p' = st" by (auto simp: assms(2))
    let ?xt = "xt\<lparr>xt_mem := p'\<rparr>" and ?ep = "ep\<lparr>ep_backend := Extism (xt\<lparr>xt_mem := p'\<rparr>)\<rparr>"
    obtain e where e: "dispatch_to E ''handle_call'' \<lparr>ci_msg = m\<rparr> (ep, io) = (Inl e, (?ep, io))"
      using dispatch_to_trap [OF assms(1) Cons.prems(1) p'(1)] by blast
    obtain rs where rs: "calls E ms (?ep, io) = (rs, (?ep, io))" "map isl rs = replicate (length ms) True"
      using calls_dead [OF assms(1,2), of ?ep ?xt ms io] p'(2) rest by auto
    have "list_all silent rs"
      using rs(2) by (rule silent_traps)
    moreover have "inv st" using verb_inv [OF Cons.prems(5), of "writer (xt_mem xt) (lm_from m)" v args] by (simp add: r)
    moreover have "silent (Inl e)" by (simp add: silent_def)
    moreover have "fst (snd (?v m)) = st" by (simp add: verdict_def pv r)
    moreover have "calls E (m # ms) (ep, io) = (Inl e # rs, (?ep, io))" using e rs(1) by simp
    moreover have "takeWhile (\<lambda>m. \<not> persisting (?v m)) (m # ms) = []" using True by simp
    ultimately show ?thesis
      unfolding Let_def \<open>takeWhile (\<lambda>m. \<not> persisting (?v m)) (m # ms) = []\<close>
      using rs(2) p'(2,3) by (intro exI [of _ "Inl e # rs"] exI [of _ ?ep] exI [of _ ?xt]) simp
  qed
qed

end

text \<open>The instance a counter verb leaves, its state queued if the verb persists.\<close>

definition counter_after :: "('x, 'p) env \<Rightarrow> i64 \<Rightarrow> bool \<Rightarrow> counter_mem extism \<Rightarrow> counter_mem extism" where
  "counter_after E v persists xt =
     xt\<lparr>xt_state := (if persists then set_state (enc E (counter_state v)) (xt_state xt) else xt_state xt),
        xt_mem := \<lparr>cm_value = v, cm_borrowed = False\<rparr>\<rparr>"

lemma counter_run:
  assumes "cbor_faithful E" and "wasm_call E = counter_export (codec_of E)"
    and "ep_backend ep = Extism xt" and "\<not> cm_borrowed (xt_mem xt)"
    and "Ma_reply \<in> set (xt_fns xt)" and "Ma_set_state \<in> set (xt_fns xt)"
    and "parse_verb (codec_of E) (lm_content msg) = Some (verb, args)"
    and "counter_verb (cm_value (xt_mem xt)) verb args = (result, v, persists)"
  shows "dispatch_to E ''handle_call'' \<lparr>ci_msg = msg\<rparr> (ep, io) =
    (Inr (fst (collect [] (counter_after E v persists xt))),
     (ep\<lparr>ep_backend := Extism (snd (collect [] (counter_after E v persists xt)))\<rparr>,
      io\<lparr>io_queue := io_queue io @ [(ep_fragment ep, reply_envelope msg (enc E result))]\<rparr>))"
proof (rule dispatch_to_run [OF assms(1,3)])
  show "run_wasm E (ep_fragment ep)
      (wasm_call E ''handle_call'' (enc E (cbor_of_cast_input \<lparr>ci_msg = msg\<rparr>)) (xt_mem xt)) (xt, io) =
      (Inr [], (counter_after E v persists xt,
        io\<lparr>io_queue := io_queue io @ [(ep_fragment ep, reply_envelope msg (enc E result))]\<rparr>))"
    using assms(4,5,6)
    by (cases persists)
      (simp_all add: assms(2,8) counter_after_def counter_export_def counter_handle_call_def Let_def enc_then_def
        dispatch_export_body [OF assms(1,7)] persist_state_bytes_def codec_faithful [OF assms(1)]
        host_set_state run_reply_and_return [OF assms(1)] set_mem_def send_tx_def)
qed

text \<open>A counter dispatch from the message to its effects: with a codec that round-trips and the
  two host functions linked, a verb sends exactly one reply with its result to the sender, quoting
  the message's id, updates the instance, and queues the new state exactly when the verb persists
  and the state differs from the persisted one.\<close>

lemma counter_dispatch:
  assumes "cbor_faithful E" and "wasm_call E = counter_export (codec_of E)"
    and "ep_backend ep = Extism xt" and "\<not> cm_borrowed (xt_mem xt)"
    and "Ma_reply \<in> set (xt_fns xt)" and "Ma_set_state \<in> set (xt_fns xt)"
    and "parse_verb (codec_of E) (lm_content msg) = Some (verb, args)"
    and "counter_verb (cm_value (xt_mem xt)) verb args = (result, v, persists)"
  shows "\<exists>res ep' io' xt'.
    dispatch_to E ''handle_call'' \<lparr>ci_msg = msg\<rparr> (ep, io) = (Inr res, (ep', io')) \<and>
    io_queue io' = io_queue io @ [(ep_fragment ep, reply_envelope msg (enc E result))] \<and>
    ep_backend ep' = Extism xt' \<and> xt_mem xt' = \<lparr>cm_value = v, cm_borrowed = False\<rparr> \<and>
    dr_pending_state res =
      (if persists \<and> sc_persisted (xt_state xt) \<noteq> Some (enc E (counter_state v))
       then Some (enc E (counter_state v)) else sc_pending (xt_state xt))"
  unfolding counter_run [OF assms] by (auto simp: collect_def counter_after_def set_state_def)

text \<open>An instance that traps on a call, and then on every call, and has no other effect.\<close>

definition dead_after :: "('x, 'p) env \<Rightarrow> 'p entity_plugin \<Rightarrow> 'p extism \<Rightarrow> local_message \<Rightarrow> 'x io \<Rightarrow> bool" where
  "dead_after E ep xt msg io \<longleftrightarrow>
     (\<exists>e ep' xt'. dispatch_to E ''handle_call'' \<lparr>ci_msg = msg\<rparr> (ep, io) = (Inl e, (ep', io)) \<and>
        ep_backend ep' = Extism xt' \<and> xt_state xt' = xt_state xt \<and>
        (\<forall>msg2 verb2 args2 io2. parse_verb (codec_of E) (lm_content msg2) = Some (verb2, args2) \<longrightarrow>
           (\<exists>e2. dispatch_to E ''handle_call'' \<lparr>ci_msg = msg2\<rparr> (ep', io2) = (Inl e2, (ep', io2)))))"

lemma dead_afterI:
  assumes "cbor_faithful E" and "ep_backend ep = Extism xt"
    and "wasm_call E ''handle_call'' (enc E (cbor_of_cast_input \<lparr>ci_msg = msg\<rparr>)) (xt_mem xt) = Wasm_trap p"
    and "\<And>msg2 verb2 args2. parse_verb (codec_of E) (lm_content msg2) = Some (verb2, args2) \<Longrightarrow>
      wasm_call E ''handle_call'' (enc E (cbor_of_cast_input \<lparr>ci_msg = msg2\<rparr>)) p = Wasm_trap p"
  shows "dead_after E ep xt msg io"
proof -
  let ?ep = "ep\<lparr>ep_backend := Extism (xt\<lparr>xt_mem := p\<rparr>)\<rparr>"
  obtain e where d: "dispatch_to E ''handle_call'' \<lparr>ci_msg = msg\<rparr> (ep, io) = (Inl e, (?ep, io))"
    using dispatch_to_trap [OF assms(1,2,3)] by blast
  have "\<exists>e2. dispatch_to E ''handle_call'' \<lparr>ci_msg = msg2\<rparr> (?ep, io2) = (Inl e2, (?ep, io2))"
    if "parse_verb (codec_of E) (lm_content msg2) = Some (verb2, args2)" for msg2 verb2 args2 io2
    using dispatch_to_trap [OF assms(1), of ?ep "xt\<lparr>xt_mem := p\<rparr>" "''handle_call''" "\<lparr>ci_msg = msg2\<rparr>" p io2]
      assms(4) [OF that] by simp
  then show ?thesis unfolding dead_after_def using d by fastforce
qed

text \<open>C34: the set actor cannot be written to: every verb that changes the members, or persists them
  unchanged, is answered by a trap inside \<open>persist()\<close>, which borrows the cell the handler holds. The
  dispatch fails, no reply is sent, nothing is queued for persistence, and from then on every verb
  traps.\<close>

theorem set_write_traps:
  assumes "cbor_faithful E" and "wasm_call E = set_export (codec_of E)"
    and "ep_backend ep = Extism xt"
    and "parse_verb (codec_of E) (lm_content msg) = Some (verb, args)"
    and "set_verb (set_is_writer (xt_mem xt) (lm_from msg)) (sm_members (xt_mem xt)) verb args = (result, ms, True)"
  shows "dead_after E ep xt msg io"
proof -
  let ?p = "if sm_borrowed (xt_mem xt) then xt_mem xt else (xt_mem xt)\<lparr>sm_members := ms, sm_borrowed := True\<rparr>"
  have "wasm_call E ''handle_call'' (enc E (cbor_of_cast_input \<lparr>ci_msg = msg\<rparr>)) (xt_mem xt) = Wasm_trap ?p"
    by (simp add: assms(2,5) set_export_def set_handle_call_def dispatch_export_body [OF assms(1,4)]
        set_persist_def Let_def)
  then show ?thesis
    by (rule dead_afterI [OF assms(1,3)])
      (simp add: assms(2) set_export_def set_handle_call_def dispatch_export_body [OF assms(1)])
qed

text \<open>The register has the same defect: \<open>:set\<close>, \<open>:delete\<close>, \<open>:delete_value\<close> and \<open>:clear\<close> by a
  permitted writer trap the instance, lose the reply, persist nothing, and disable it.\<close>

lemma register_write_traps:
  assumes "cbor_faithful E" and "wasm_call E = register_export (codec_of E)"
    and "ep_backend ep = Extism xt"
    and "parse_verb (codec_of E) (lm_content msg) = Some (verb, args)"
    and "register_verb (register_is_writer (xt_mem xt) (lm_from msg)) (rm_state (xt_mem xt)) verb args = (result, st, True)"
  shows "dead_after E ep xt msg io"
proof -
  let ?p = "if rm_borrowed (xt_mem xt) then xt_mem xt else (xt_mem xt)\<lparr>rm_state := st, rm_borrowed := True\<rparr>"
  have "wasm_call E ''handle_call'' (enc E (cbor_of_cast_input \<lparr>ci_msg = msg\<rparr>)) (xt_mem xt) = Wasm_trap ?p"
    by (simp add: assms(2,5) register_export_def register_handle_call_def dispatch_export_body [OF assms(1,4)]
        register_persist_def Let_def)
  then show ?thesis
    by (rule dead_afterI [OF assms(1,3)])
      (simp add: assms(2) register_export_def register_handle_call_def dispatch_export_body [OF assms(1)])
qed

interpretation set_actor: actor set_export set_verb sm_members sm_borrowed set_is_writer distinct
proof unfold_locales
  show "distinct (fst (snd (set_verb w ms v args)))" if "distinct ms" for w ms v args
    using that by (simp add: set_verb_def split: option.split)
  show "\<not> persisting (set_verb False ms v args)" for ms v args
    by (simp add: set_verb_def split: option.split)
  show keep: "fst (snd (set_verb w ms v args)) = ms" if "\<not> persisting (set_verb w ms v args)" for w ms v args
    using that by (simp add: set_verb_def split: option.splits if_splits)
  fix cd input msg v args p result st
  assume c: "Option.bind (cd_dec cd input) cast_input_of_cbor = Some \<lparr>ci_msg = msg\<rparr>"
    and pv: "parse_verb cd (lm_content msg) = Some (v, args)"
  show "set_export cd ''handle_call'' input p = Wasm_trap p" if "sm_borrowed p"
    using that by (simp add: set_export_def set_handle_call_def dispatch_export_def c pv)
  show "\<exists>held. set_export cd ''handle_call'' input p = reply_and_return cd msg result held p"
    if "\<not> sm_borrowed p" and r: "set_verb (set_is_writer p (lm_from msg)) (sm_members p) v args = (result, st, False)"
  proof -
    have "st = sm_members p" using keep [of "set_is_writer p (lm_from msg)" "sm_members p" v args] r by simp
    then have "set_export cd ''handle_call'' input p = reply_and_return cd msg result (p\<lparr>sm_borrowed := True\<rparr>) (p\<lparr>sm_borrowed := False\<rparr>)"
      using that by (simp add: set_export_def set_handle_call_def dispatch_export_def c pv Let_def)
    moreover have "p\<lparr>sm_borrowed := False\<rparr> = p" using that(1) by (cases p) simp
    ultimately show ?thesis by metis
  qed
  show "\<exists>p'. set_export cd ''handle_call'' input p = Wasm_trap p' \<and> sm_borrowed p' \<and> sm_members p' = st"
    if "\<not> sm_borrowed p" "set_verb (set_is_writer p (lm_from msg)) (sm_members p) v args = (result, st, True)"
    using that by (simp add: set_export_def set_handle_call_def dispatch_export_def c pv Let_def set_persist_def)
qed

interpretation register_actor: actor register_export register_verb rm_state rm_borrowed register_is_writer register_inv
proof unfold_locales
  show "register_inv (fst (snd (register_verb w st v args)))" if "register_inv st" for w st v args
    using that by (rule register_verb_inv)
  show "\<not> persisting (register_verb False st v args)" for st v args
    by (cases "register_read st v args") (auto simp: register_verb_def)
  show keep: "fst (snd (register_verb w st v args)) = st" if "\<not> persisting (register_verb w st v args)" for w st v args
    using register_verb_cases [of w st v args] that by blast
  fix cd input msg v args p result st
  assume c: "Option.bind (cd_dec cd input) cast_input_of_cbor = Some \<lparr>ci_msg = msg\<rparr>"
    and pv: "parse_verb cd (lm_content msg) = Some (v, args)"
  show "register_export cd ''handle_call'' input p = Wasm_trap p" if "rm_borrowed p"
    using that by (simp add: register_export_def register_handle_call_def dispatch_export_def c pv)
  show "\<exists>held. register_export cd ''handle_call'' input p = reply_and_return cd msg result held p"
    if "\<not> rm_borrowed p" and r: "register_verb (register_is_writer p (lm_from msg)) (rm_state p) v args = (result, st, False)"
  proof -
    have "st = rm_state p" using keep [of "register_is_writer p (lm_from msg)" "rm_state p" v args] r by simp
    then have "register_export cd ''handle_call'' input p = reply_and_return cd msg result (p\<lparr>rm_borrowed := True\<rparr>) (p\<lparr>rm_borrowed := False\<rparr>)"
      using that by (simp add: register_export_def register_handle_call_def dispatch_export_def c pv Let_def)
    moreover have "p\<lparr>rm_borrowed := False\<rparr> = p" using that(1) by (cases p) simp
    ultimately show ?thesis by metis
  qed
  show "\<exists>p'. register_export cd ''handle_call'' input p = Wasm_trap p' \<and> rm_borrowed p' \<and> rm_state p' = st"
    if "\<not> rm_borrowed p" "register_verb (register_is_writer p (lm_from msg)) (rm_state p) v args = (result, st, True)"
    using that by (simp add: register_export_def register_handle_call_def dispatch_export_def c pv Let_def register_persist_def)
qed

abbreviation set_verdict :: "('x, set_mem_state) env \<Rightarrow> set_mem_state \<Rightarrow> local_message \<Rightarrow> cbor \<times> string list \<times> bool" where
  "set_verdict \<equiv> verdict set_verb sm_members set_is_writer"

abbreviation register_verdict :: "('x, register_mem) env \<Rightarrow> register_mem \<Rightarrow> local_message \<Rightarrow> cbor \<times> register_state \<times> bool" where
  "register_verdict \<equiv> verdict register_verb rm_state register_is_writer"

text \<open>C15: every history of calls of a set actor, traps included. Let its cell be free and hold a duplicate-free
  list, and dispatch any sequence of well-formed verbs to it. Up to the first verb that persists (an
  \<open>:add\<close> of a new member, a \<open>:remove\<close> or a \<open>:clear\<close> by a permitted writer) each is answered by exactly one
  reply, computed from the members at the beginning, so \<open>:contains\<close> by membership in them and a
  write by anybody else by an error. That first persisting verb and every verb after it fail
  without a reply; the cell then holds the one change and stays borrowed. Nothing is ever output or
  handed out to be persisted, and the members stay free of duplicates.\<close>

theorem set_actor_history:
  assumes "cbor_faithful E" and "wasm_call E = set_export (codec_of E)"
    and "ep_backend ep = Extism xt" and "\<not> sm_borrowed (xt_mem xt)" and "Ma_reply \<in> set (xt_fns xt)"
    and "sc_pending (xt_state xt) = None" and "distinct (sm_members (xt_mem xt))" and "well_formed_calls E ms"
  shows "(let answered = takeWhile (\<lambda>m. \<not> persisting (set_verdict E (xt_mem xt) m)) ms in
    \<exists>rs ep' xt'. calls E ms (ep, io) = (rs, (ep', io\<lparr>io_queue := io_queue io @
        map (\<lambda>m. (ep_fragment ep, reply_envelope m (enc E (fst (set_verdict E (xt_mem xt) m))))) answered\<rparr>)) \<and>
      map isl rs = replicate (length answered) False @ replicate (length ms - length answered) True \<and>
      list_all silent rs \<and> ep_backend ep' = Extism xt' \<and> distinct (sm_members (xt_mem xt')) \<and>
      (if answered = ms then xt_mem xt' = xt_mem xt
       else sm_borrowed (xt_mem xt') \<and>
         sm_members (xt_mem xt') = fst (snd (set_verdict E (xt_mem xt) (ms ! length answered))))) \<and>
    (\<forall>m x. parse_verb (codec_of E) (lm_content m) = Some ('':contains'', [CText x]) \<longrightarrow>
      set_verdict E (xt_mem xt) m = (cbor_ok (CBool (x \<in> set (sm_members (xt_mem xt)))), sm_members (xt_mem xt), False))"
  using set_actor.history [OF assms]
  by (simp add: verdict_def set_verb_def arg_text_def)

text \<open>C19: every history of calls of a register, traps included. Let its cell be free and hold two sorted maps
  inverse to each other, and dispatch any sequence of well-formed verbs to it. Up to the first verb that
  writes (\<open>:set\<close>, \<open>:delete\<close>, \<open>:delete_value\<close> or \<open>:clear\<close> by a permitted writer) each is answered by
  exactly one reply, computed from the maps at the beginning; \<open>:get k\<close> is answered by \<open>v\<close> exactly when
  \<open>:reverse v\<close> is answered by \<open>k\<close>. That first write and every verb after it fail without a reply; the
  cell then holds the result of the one write and stays borrowed. Nothing is ever output or handed out
  to be persisted, and the two maps stay sorted and inverse to each other.\<close>

theorem register_history:
  assumes "cbor_faithful E" and "wasm_call E = register_export (codec_of E)"
    and "ep_backend ep = Extism xt" and "\<not> rm_borrowed (xt_mem xt)" and "Ma_reply \<in> set (xt_fns xt)"
    and "sc_pending (xt_state xt) = None" and "register_inv (rm_state (xt_mem xt))" and "well_formed_calls E ms"
  shows "(let answered = takeWhile (\<lambda>m. \<not> persisting (register_verdict E (xt_mem xt) m)) ms in
    \<exists>rs ep' xt'. calls E ms (ep, io) = (rs, (ep', io\<lparr>io_queue := io_queue io @
        map (\<lambda>m. (ep_fragment ep, reply_envelope m (enc E (fst (register_verdict E (xt_mem xt) m))))) answered\<rparr>)) \<and>
      map isl rs = replicate (length answered) False @ replicate (length ms - length answered) True \<and>
      list_all silent rs \<and> ep_backend ep' = Extism xt' \<and> register_inv (rm_state (xt_mem xt')) \<and>
      (if answered = ms then xt_mem xt' = xt_mem xt
       else rm_borrowed (xt_mem xt') \<and>
         rm_state (xt_mem xt') = fst (snd (register_verdict E (xt_mem xt) (ms ! length answered))))) \<and>
    (\<forall>m1 m2 k v. parse_verb (codec_of E) (lm_content m1) = Some ('':get'', [CText k]) \<and>
      parse_verb (codec_of E) (lm_content m2) = Some ('':reverse'', [CText v]) \<longrightarrow>
      (fst (register_verdict E (xt_mem xt) m1) = cbor_ok (CText v) \<longleftrightarrow>
       fst (register_verdict E (xt_mem xt) m2) = cbor_ok (CText k)))"
proof
  let ?st = "rm_state (xt_mem xt)"
  have g: "fst (register_verb w ?st '':get'' [CText k]) = cbor_ok (CText v) \<longleftrightarrow> map_of (rg_fwd ?st) k = Some v" for w k v
    by (auto simp: register_verb_def register_read_def arg_text_def cbor_ok_def cbor_error_def split: option.split)
  have r: "fst (register_verb w ?st '':reverse'' [CText v]) = cbor_ok (CText k) \<longleftrightarrow> map_of (rg_rev ?st) v = Some k" for w k v
    by (auto simp: register_verb_def register_read_def arg_text_def cbor_ok_def cbor_error_def split: option.split)
  show "\<forall>m1 m2 k v. parse_verb (codec_of E) (lm_content m1) = Some ('':get'', [CText k]) \<and>
      parse_verb (codec_of E) (lm_content m2) = Some ('':reverse'', [CText v]) \<longrightarrow>
      (fst (register_verdict E (xt_mem xt) m1) = cbor_ok (CText v) \<longleftrightarrow>
       fst (register_verdict E (xt_mem xt) m2) = cbor_ok (CText k))"
    by (auto simp: verdict_def g r register_inv_iff [OF assms(7)])
qed (rule register_actor.history [OF assms])

text \<open>A read of the set actor is answered, leaves the instance as it was, and outputs nothing: the
  answer travels in the reply envelope only.\<close>

lemma set_read_dispatch:
  assumes "cbor_faithful E" and "wasm_call E = set_export (codec_of E)"
    and "ep_backend ep = Extism xt" and "\<not> sm_borrowed (xt_mem xt)" and "Ma_reply \<in> set (xt_fns xt)"
    and "parse_verb (codec_of E) (lm_content msg) = Some (verb, args)"
    and "set_verb (set_is_writer (xt_mem xt) (lm_from msg)) (sm_members (xt_mem xt)) verb args = (result, ms, False)"
  shows "\<exists>res ep' io'. dispatch_to E ''handle_call'' \<lparr>ci_msg = msg\<rparr> (ep, io) = (Inr res, (ep', io')) \<and>
    dr_output res = [] \<and>
    io' = io\<lparr>io_queue := io_queue io @ [(ep_fragment ep, reply_envelope msg (enc E result))]\<rparr>"
proof -
  have ms: "ms = sm_members (xt_mem xt)"
    using set_actor.unpersisted_keeps [of "set_is_writer (xt_mem xt) (lm_from msg)" "sm_members (xt_mem xt)" verb args]
      assms(7) by simp
  have "run_wasm E (ep_fragment ep)
      (wasm_call E ''handle_call'' (enc E (cbor_of_cast_input \<lparr>ci_msg = msg\<rparr>)) (xt_mem xt)) (xt, io) =
      (Inr [], (xt\<lparr>xt_mem := (xt_mem xt)\<lparr>sm_members := ms, sm_borrowed := False\<rparr>\<rparr>,
        io\<lparr>io_queue := io_queue io @ [(ep_fragment ep, reply_envelope msg (enc E result))]\<rparr>))"
    using assms(4,5)
    by (simp add: assms(2,7) set_export_def set_handle_call_def Let_def
        dispatch_export_body [OF assms(1,6)] run_reply_and_return [OF assms(1)] set_mem_def send_tx_def)
  note dispatch_to_run [OF assms(1,3) this]
  then show ?thesis by (auto simp: collect_def)
qed

end
