(* ===== verification/Bootstrap_Facts.thy ===== *)
theory Bootstrap_Facts
  imports Bootstrap Crud_Facts Actor_Facts
begin

text \<open>
  What bootstrap promises: a descriptor published under a root is exported from that root unchanged.
  And what shutdown does not do: a plugin without a \<open>save_state\<close> export, as every bundled plugin is,
  never has its state linked from the manifest.
\<close>

section \<open>Loops over the block store\<close>

lemma publish_one:
  assumes "kubo_ok E blocks"
  obtains c x' where "with_context s (dag_put E url j) x = (Inr c, x')" "blocks x' c = Some j" "grows blocks x x'"
proof -
  obtain c x' where c: "dag_put E url j x = (Inr c, x')" "blocks x' = (blocks x)(c \<mapsto> j)"
    "blocks x c = None \<or> blocks x c = Some j"
    using kubo_ok_put [OF assms] .
  then have "grows blocks x x'" by (auto simp: grows_def)
  with c show thesis by (intro that [of c x']) (simp_all add: with_context_Inr)
qed

lemma fetch_one:
  assumes "kubo_ok E blocks" and "blocks x c = Some j" and "dec j = Some a"
  obtains x' where "with_context s (dag_get E dec url c) x = (Inr a, x')" "blocks x' = blocks x"
proof -
  obtain x' where "dag_get E dec url c x = (Inr a, x')" "blocks x' = blocks x"
    using kubo_ok_get [where dec = dec, OF assms] .
  then show thesis by (intro that [of x']) (simp_all add: with_context_Inr)
qed

text \<open>A loop that publishes every entry of a table and files the identifiers under the entry's key.\<close>

lemma publish_all:
  assumes "kubo_ok E blocks" and "distinct (map fst xs)"
    and "\<And>e m. e \<in> set xs \<Longrightarrow> step e m =
      and_then (with_context (s e) (dag_put E url (doc e))) (\<lambda>c. ret (ins (fst e) (ipld_link_new c) m))"
  shows "\<exists>cid x'. fold_act step xs m x = (Inr (fold (\<lambda>e. ins (fst e) (ipld_link_new (cid (fst e)))) xs m), x') \<and>
    grows blocks x x' \<and> (\<forall>e \<in> set xs. blocks x' (cid (fst e)) = Some (doc e))"
  using assms(2,3)
proof (induction xs arbitrary: m x)
  case Nil
  then show ?case by simp
next
  case (Cons e xs)
  obtain c y where c: "with_context (s e) (dag_put E url (doc e)) x = (Inr c, y)" "blocks y c = Some (doc e)"
    "grows blocks x y" using publish_one [OF assms(1)] .
  have "\<exists>cid x'. fold_act step xs (ins (fst e) (ipld_link_new c) m) y =
      (Inr (fold (\<lambda>e. ins (fst e) (ipld_link_new (cid (fst e)))) xs (ins (fst e) (ipld_link_new c) m)), x') \<and>
      grows blocks y x' \<and> (\<forall>e \<in> set xs. blocks x' (cid (fst e)) = Some (doc e))"
    using Cons.prems by (intro Cons.IH) simp_all
  then obtain cid x' where r: "fold_act step xs (ins (fst e) (ipld_link_new c) m) y =
      (Inr (fold (\<lambda>e. ins (fst e) (ipld_link_new (cid (fst e)))) xs (ins (fst e) (ipld_link_new c) m)), x')"
    "grows blocks y x'" "\<forall>e \<in> set xs. blocks x' (cid (fst e)) = Some (doc e)" by blast
  let ?cid = "cid(fst e := c)"
  have "fst e' \<noteq> fst e" if "e' \<in> set xs" for e'
    using Cons.prems(1) that by (metis distinct.simps(2) imageI list.simps(9) set_map)
  then have "fold (\<lambda>e. ins (fst e) (ipld_link_new (?cid (fst e)))) xs m' =
      fold (\<lambda>e. ins (fst e) (ipld_link_new (cid (fst e)))) xs m'"
    and "\<forall>e \<in> set xs. blocks x' (?cid (fst e)) = Some (doc e)" for m'
    using r(3) by (auto intro!: fold_cong)
  moreover have "fold_act step (e # xs) m x = fold_act step xs (ins (fst e) (ipld_link_new c) m) y"
    using Cons.prems(2) [of e m] c(1) by (simp add: and_then_def)
  ultimately have "fold_act step (e # xs) m x =
      (Inr (fold (\<lambda>e. ins (fst e) (ipld_link_new (?cid (fst e)))) (e # xs) m), x') \<and>
      grows blocks x x' \<and> (\<forall>e' \<in> set (e # xs). blocks x' (?cid (fst e')) = Some (doc e'))"
    using r(1,2) c(2,3) by (auto intro: grows_trans growsD)
  then show ?case by blast
qed

lemma fetch_all:
  assumes "kubo_ok E blocks"
    and "\<And>e m. e \<in> set xs \<Longrightarrow> step e m =
      and_then (with_context (s e) (dag_get E dec url (link_cid (snd e)))) (\<lambda>a. ret (ins (fst e) (f a) m))"
    and "\<And>e. e \<in> set xs \<Longrightarrow> \<exists>j. blocks x (link_cid (snd e)) = Some j \<and> dec j = Some (v (fst e))"
  shows "\<exists>x'. fold_act step xs m x = (Inr (fold (\<lambda>e. ins (fst e) (f (v (fst e)))) xs m), x') \<and> blocks x' = blocks x"
  using assms(2,3)
proof (induction xs arbitrary: m x)
  case Nil
  then show ?case by simp
next
  case (Cons e xs)
  obtain j where j: "blocks x (link_cid (snd e)) = Some j" "dec j = Some (v (fst e))"
    using Cons.prems(2) [of e] by auto
  obtain y where y: "with_context (s e) (dag_get E dec url (link_cid (snd e))) x = (Inr (v (fst e)), y)"
    "blocks y = blocks x" using fetch_one [where dec = dec, OF assms(1) j] .
  have "\<exists>x'. fold_act step xs (ins (fst e) (f (v (fst e))) m) y =
      (Inr (fold (\<lambda>e. ins (fst e) (f (v (fst e)))) xs (ins (fst e) (f (v (fst e))) m)), x') \<and> blocks x' = blocks y"
    using Cons.prems y(2) by (intro Cons.IH) simp_all
  moreover have "fold_act step (e # xs) m x = fold_act step xs (ins (fst e) (f (v (fst e))) m) y"
    using Cons.prems(1) [of e m] y(1) by (simp add: and_then_def)
  ultimately show ?case using y(2) by auto
qed

lemma fold_hm_map:
  "distinct (map fst xs) \<Longrightarrow> fold (\<lambda>e. hm_insert (fst e) (g e)) xs [] = map (\<lambda>e. (fst e, g e)) xs"
proof -
  assume d: "distinct (map fst xs)"
  have "fold (\<lambda>e. hm_insert (fst e) (g e)) xs [] = fold (\<lambda>(k, v). hm_insert k v) (map (\<lambda>e. (fst e, g e)) xs) []"
    by (simp add: fold_map comp_def)
  also have "\<dots> = [] @ map (\<lambda>e. (fst e, g e)) xs"
    by (rule fold_hm_insert_rebuild) (use d in \<open>simp add: comp_def\<close>)
  finally show ?thesis by simp
qed

section \<open>The kinds of a descriptor\<close>

text \<open>
  Protocols a descriptor can name without one hiding another: in normal form (one leading slash),
  none at or below another.
\<close>

definition prefix_free :: "string set \<Rightarrow> bool" where
  "prefix_free ps \<longleftrightarrow>
     (\<forall>p \<in> ps. \<forall>q \<in> ps. prefix (protocol_segments p) (protocol_segments q) \<longrightarrow> p = q)"

lemma prefix_freeD: "prefix_free ps \<Longrightarrow> p \<in> ps \<Longrightarrow> q \<in> ps \<Longrightarrow> prefix (protocol_segments p) (protocol_segments q) \<Longrightarrow> p = q"
  by (simp add: prefix_free_def)

lemma prefix_free_subset: "prefix_free ps \<Longrightarrow> qs \<subseteq> ps \<Longrightarrow> prefix_free qs"
  by (meson prefix_free_def subsetD)

definition kinds_ok :: "(string, bootstrap_kind) btree_map \<Rightarrow> bool" where
  "kinds_ok ks \<longleftrightarrow> bt_ok ks \<and> (\<forall>e \<in> set ks. bt_ok (bk_attributes (snd e))) \<and>
     (\<forall>p \<in> fst ` set ks. path_str (protocol_segments p) = p) \<and>
     prefix_free (fst ` set ks)"

lemma kt_blocked_prefix: "kt_blocked t p \<Longrightarrow> \<exists>q. strict_prefix q p \<and> kind_tree_get t q \<noteq> None"
proof (induction t p rule: kt_blocked.induct)
  case (3 m key k rest)
  show ?case
  proof (cases "map_of m key")
    case (Some n)
    show ?thesis
    proof (cases n)
      case (Leaf l)
      then have "kind_tree_get m [key] \<noteq> None" using Some by simp
      then show ?thesis by (intro exI [of _ "[key]"]) simp
    next
      case (Branch inner)
      then obtain q where q: "strict_prefix q (k # rest)" "kind_tree_get inner q \<noteq> None"
        using 3 Some by auto
      then obtain a as where "q = a # as" by (cases q) (auto elim: kind_tree_get.elims)
      then have "kind_tree_get m (key # q) \<noteq> None" using q(2) Some Branch by simp
      with q(1) show ?thesis by (intro exI [of _ "key # q"]) simp
    qed
  qed (use 3 in simp)
qed simp_all

definition tree_of :: "(string \<Rightarrow> ipld_link) \<Rightarrow> string set \<Rightarrow> kind_tree \<Rightarrow> bool" where
  "tree_of l ps t \<longleftrightarrow> kt_inv t \<and> (\<forall>p \<in> ps. kind_tree_get t (protocol_segments p) = Some (l p)) \<and>
     (\<forall>q. kind_tree_get t q \<noteq> None \<longrightarrow> q \<in> protocol_segments ` ps)"

lemma tree_of_insert:
  assumes "tree_of l ps t" and "prefix_free (insert p ps)"
  shows "tree_of l (insert p ps) (insert_protocol p (l p) t)"
proof -
  let ?p = "protocol_segments p"
  have inv: "kt_inv t" and wf: "kt_wf t" using assms(1) by (simp_all add: tree_of_def kt_inv_wf)
  have "\<not> kt_blocked t ?p"
  proof
    assume "kt_blocked t ?p"
    then obtain q where "strict_prefix q ?p" "kind_tree_get t q \<noteq> None" using kt_blocked_prefix by blast
    moreover then obtain r where "r \<in> ps" "q = protocol_segments r" using assms(1) by (auto simp: tree_of_def)
    ultimately show False using prefix_freeD [OF assms(2), of r p] by (auto simp: strict_prefix_def)
  qed
  then have get: "kind_tree_get (insert_protocol p (l p) t) q =
      (if q = ?p then Some (l p) else if strict_prefix ?p q then None else kind_tree_get t q)" for q
    using wf by (simp add: insert_protocol_def kind_tree_get_insert)
  have "kind_tree_get (insert_protocol p (l p) t) (protocol_segments q) = Some (l q)" if "q \<in> insert p ps" for q
  proof (cases "q = p")
    case False
    then have "\<not> prefix ?p (protocol_segments q)" using prefix_freeD [OF assms(2), of p q] that by auto
    with False that assms(1) show ?thesis by (auto simp: get tree_of_def strict_prefix_def)
  qed (simp add: get)
  moreover have "q \<in> protocol_segments ` insert p ps" if "kind_tree_get (insert_protocol p (l p) t) q \<noteq> None" for q
    using that assms(1) by (auto simp: get tree_of_def split: if_splits)
  ultimately show ?thesis using kt_inv_insert [OF inv] by (simp add: tree_of_def)
qed

lemma tree_of_fold:
  assumes "tree_of l ps t" and "prefix_free (ps \<union> fst ` set ks)"
  shows "tree_of l (ps \<union> fst ` set ks) (fold (\<lambda>e. insert_protocol (fst e) (l (fst e))) ks t)"
  using assms
proof (induction ks arbitrary: ps t)
  case (Cons e ks)
  have "tree_of l (insert (fst e) ps) (insert_protocol (fst e) (l (fst e)) t)"
    using Cons.prems by (intro tree_of_insert prefix_free_subset [OF Cons.prems(2)]) auto
  then have "tree_of l (insert (fst e) ps \<union> fst ` set ks)
      (fold (\<lambda>e. insert_protocol (fst e) (l (fst e))) ks (insert_protocol (fst e) (l (fst e)) t))"
    using Cons.prems(2) by (intro Cons.IH) simp_all
  then show ?case by simp
qed simp

lemma kinds_tree_of:
  assumes "kinds_ok ks"
  shows "tree_of l (fst ` set ks) (fold (\<lambda>e. insert_protocol (fst e) (l (fst e))) ks [])"
proof -
  have "tree_of l ({} \<union> fst ` set ks) (fold (\<lambda>e. insert_protocol (fst e) (l (fst e))) ks [])"
    using assms by (intro tree_of_fold) (simp_all add: tree_of_def kt_inv_Nil kinds_ok_def)
  then show ?thesis by simp
qed

lemma tree_of_iter:
  assumes "tree_of l ps t" and "\<And>p. p \<in> ps \<Longrightarrow> path_str (protocol_segments p) = p"
  shows "fst ` set (iter_protocols t) = ps" "\<And>e. e \<in> set (iter_protocols t) \<Longrightarrow> snd e = l (fst e)"
proof -
  have inv: "kt_inv t" using assms(1) by (simp add: tree_of_def)
  have ids: "fst ` set (iter_protocols t) = set (protocol_ids t)"
    unfolding iter_protocols_ids [OF inv, symmetric] by (simp only: set_map)
  have "set (kt_paths t) = {q. kind_tree_get t q \<noteq> None}"
    using kt_paths_get [OF kt_inv_wf [OF inv]] by blast
  then have "set (protocol_ids t) = path_str ` {q. kind_tree_get t q \<noteq> None}"
    by (simp only: protocol_ids_paths set_map)
  also have "{q. kind_tree_get t q \<noteq> None} = protocol_segments ` ps"
    using assms(1) unfolding tree_of_def by blast
  finally show f: "fst ` set (iter_protocols t) = ps" using ids assms(2) by (simp add: image_image)
  fix e assume e: "e \<in> set (iter_protocols t)"
  then have "get_protocol t (fst e) = Some (snd e)" by (intro iter_protocols_elem) simp
  moreover have "fst e \<in> ps" using e f by blast
  ultimately show "snd e = l (fst e)" using assms(1) by (simp add: tree_of_def get_protocol_def)
qed

text \<open>Sorted maps are determined by their lookups, so the order of insertion does not matter.\<close>

lemma bt_ext:
  assumes "bt_ok m" and "bt_ok m'" and "\<And>k. map_of m k = map_of m' k"
  shows "m = m'"
proof -
  have d: "distinct (map fst m)" "distinct (map fst m')" using assms(1,2) by (auto dest: bt_ok_distinct)
  have s: "set m = set m'" using d assms(3) by (metis ext map_of_inject_set)
  show ?thesis
  proof (rule map_sorted_distinct_set_unique [where f = fst])
    show "inj_on fst (set m \<union> set m')" using d(1) s by (simp add: distinct_map)
  qed (use assms(1,2) d s in \<open>simp_all add: bt_ok_def strict_sorted_iff\<close>)
qed

text \<open>Filling a sorted map with a function of the key.\<close>

lemma fold_bt_look:
  "bt_ok m \<Longrightarrow> bt_ok (fold (\<lambda>e. bt_insert (fst e) (g (fst e))) xs m) \<and>
     map_of (fold (\<lambda>e. bt_insert (fst e) (g (fst e))) xs m) k =
       (if k \<in> fst ` set xs then Some (g k) else map_of m k)"
  by (induction xs arbitrary: m) auto

lemma fold_bt_rebuild:
  assumes "bt_ok ks" and "fst ` set xs = fst ` set ks"
  shows "fold (\<lambda>e. bt_insert (fst e) (the (map_of ks (fst e)))) xs [] = ks"
proof (rule bt_ext [OF _ assms(1)])
  note f = fold_bt_look [where m = "[]" and g = "\<lambda>k. the (map_of ks k)" and xs = xs]
  show "bt_ok (fold (\<lambda>e. bt_insert (fst e) (the (map_of ks (fst e)))) xs [])" using f by simp
  fix k
  have "(k \<in> fst ` set ks) = (map_of ks k \<noteq> None)" by (metis map_of_eq_None_iff)
  then show "map_of (fold (\<lambda>e. bt_insert (fst e) (the (map_of ks (fst e)))) xs []) k = map_of ks k"
    using f assms(2) by auto
qed

section \<open>The round trip\<close>

text \<open>
  \<open>acl_codec\<close> is the documented round trip of an access list through \<open>ma_core\<close>'s JSON form.
  A descriptor is well formed if its tables have distinct keys, as maps do, its kinds do not hide one
  another, and its entities are given inline.
\<close>

definition acl_codec :: "('x, 'p) env \<Rightarrow> bool" where
  "acl_codec E \<longleftrightarrow> (\<forall>a. hm_ok a \<longrightarrow> acl_of_json E (acl_to_json E a) = Some a)"

definition bootstrap_ok :: "bootstrap_runtime \<Rightarrow> bool" where
  "bootstrap_ok cfg \<longleftrightarrow> kinds_ok (bs_kinds cfg) \<and> hm_ok (acl_or_default (bs_acl cfg)) \<and>
     hm_ok (bs_entities cfg) \<and> (\<forall>e \<in> set (bs_entities cfg). \<exists>k b a s. snd e = Bs_Inline k b a s) \<and>
     hm_ok (bs_acls cfg) \<and> (\<forall>e \<in> set (bs_acls cfg). hm_ok (snd e))"

lemma bundled_lang_map_ok: "hm_ok (bundled_lang_map E)"
proof -
  have "hm_ok m \<Longrightarrow> hm_ok (fold (\<lambda>(k, v) m. case yaml_as_str v of
      Some cid \<Rightarrow> hm_insert k (ipld_link_new cid) m | None \<Rightarrow> m) ls m)"
    for m and ls :: "(string \<times> yaml) list"
    by (induction ls arbitrary: m) (auto split: option.split)
  then show ?thesis
    by (auto simp: bundled_lang_map_def split: option.split yaml.split)
qed

lemma with_active_lang_ok:
  assumes "bt_ok config" and "\<forall>e \<in> set config. yaml_ok (snd e)"
  shows "bt_ok (with_active_lang E lang config) \<and> (\<forall>e \<in> set (with_active_lang E lang config). yaml_ok (snd e))"
  using assms by (auto simp: with_active_lang_def dest!: bt_insert_set)

text \<open>The node an inline entity is published as, and what export makes of it.\<close>

fun entity_doc :: "bootstrap_entity \<Rightarrow> entity_node" where
  "entity_doc (Bs_Inline k b a s) = inline_node k b a s"
| "entity_doc (Bs_Cid c) = inline_node [] None [] None"

definition inline_of :: "entity_node \<Rightarrow> bootstrap_entity" where
  "inline_of n = Bs_Inline (en_kind n) (en_behaviour n) (en_acl n) (en_state n)"

definition bare_kind :: "kind_node \<Rightarrow> bootstrap_kind" where
  "bare_kind n = \<lparr>bk_api = kn_api n, bk_host_functions = kn_host_functions n, bk_evaluator = kn_evaluator n,
     bk_attributes = kn_attributes n, bk_allow = kn_allow n\<rparr>"

lemma bare_kind_of [simp]: "bare_kind (kind_node_of p bk) = bk"
  by (simp add: bare_kind_def kind_node_of_def)

text \<open>Three loops of publishing, then the manifest that links what they published.\<close>

lemma publish_entities:
  assumes "kubo_ok E blocks" and "hm_ok es" and "\<forall>e \<in> set es. \<exists>k b a s. snd e = Bs_Inline k b a s"
  obtains cid x' where
    "fold_act (publish_entity E url) es [] x = (Inr (map (\<lambda>e. (fst e, ipld_link_new (cid (fst e)))) es), x')"
    "grows blocks x x'" "\<forall>e \<in> set es. blocks x' (cid (fst e)) = Some (json_of_entity_node (entity_doc (snd e)))"
proof -
  have d: "distinct (map fst es)" using assms(2) by (simp add: hm_ok_def)
  have "publish_entity E url e m =
      and_then (with_context (''dag_put entity '' @ fst e) (dag_put E url (json_of_entity_node (entity_doc (snd e)))))
        (\<lambda>c. ret (hm_insert (fst e) (ipld_link_new c) m))" if "e \<in> set es" for e m
    using assms(3) that by (auto simp: publish_entity_def)
  from publish_all [where step = "publish_entity E url" and ins = hm_insert and xs = es, OF assms(1) d this, of "[]" x]
  show thesis using that fold_hm_map [OF d, of "\<lambda>e. ipld_link_new (_ (fst e))"] by auto
qed

lemma publish_acls:
  assumes "kubo_ok E blocks" and "hm_ok as"
  obtains cid x' where
    "fold_act (publish_acl E url) as [] x = (Inr (map (\<lambda>e. (fst e, ipld_link_new (cid (fst e)))) as), x')"
    "grows blocks x x'" "\<forall>e \<in> set as. blocks x' (cid (fst e)) = Some (acl_to_json E (snd e))"
proof -
  have d: "distinct (map fst as)" using assms(2) by (simp add: hm_ok_def)
  from publish_all [where step = "publish_acl E url" and ins = hm_insert and xs = as, OF assms(1) d publish_acl_def, of "[]" x]
  show thesis using that fold_hm_map [OF d, of "\<lambda>e. ipld_link_new (_ (fst e))"] by auto
qed

text \<open>The kinds published and read back.\<close>

lemma publish_kinds:
  assumes "kubo_ok E blocks" and "kinds_ok ks"
  obtains t cid x' where "fold_act (publish_kind E url) ks [] x = (Inr t, x')" "grows blocks x x'" "kt_wf t"
    "fst ` set (iter_protocols t) = fst ` set ks"
    "\<forall>e \<in> set (iter_protocols t). snd e = ipld_link_new (cid (fst e))"
    "\<forall>e \<in> set ks. blocks x' (cid (fst e)) = Some (json_of_kind_node (kind_node_of (fst e) (snd e)))"
proof -
  have d: "distinct (map fst ks)" using assms(2) by (simp add: kinds_ok_def bt_ok_distinct)
  obtain cid x' where r: "fold_act (publish_kind E url) ks [] x =
      (Inr (fold (\<lambda>e. insert_protocol (fst e) (ipld_link_new (cid (fst e)))) ks []), x')" "grows blocks x x'"
    "\<forall>e \<in> set ks. blocks x' (cid (fst e)) = Some (json_of_kind_node (kind_node_of (fst e) (snd e)))"
    using publish_all [where step = "publish_kind E url" and ins = insert_protocol and xs = ks,
        OF assms(1) d publish_kind_def, of "[]" x] by blast
  let ?t = "fold (\<lambda>e. insert_protocol (fst e) (ipld_link_new (cid (fst e)))) ks []"
  have t: "tree_of (\<lambda>p. ipld_link_new (cid p)) (fst ` set ks) ?t" by (rule kinds_tree_of [OF assms(2)])
  have n: "path_str (protocol_segments p) = p" if "p \<in> fst ` set ks" for p
    using assms(2) that unfolding kinds_ok_def by blast
  from t have "kt_wf ?t" by (simp add: tree_of_def kt_inv_wf)
  with r tree_of_iter [OF t n] show thesis by (intro that [of ?t x' cid]) auto
qed

lemma export_kinds:
  assumes "kubo_ok E blocks" and "kinds_ok ks"
    and "fst ` set (iter_protocols t) = fst ` set ks"
    and "\<And>e. e \<in> set (iter_protocols t) \<Longrightarrow> snd e = ipld_link_new (cid (fst e))"
    and "\<forall>e \<in> set ks. blocks x (cid (fst e)) = Some (json_of_kind_node (kind_node_of (fst e) (snd e)))"
  obtains x' where "fold_act (export_kind E url) (iter_protocols t) [] x = (Inr ks, x')" "blocks x' = blocks x"
proof -
  let ?v = "\<lambda>p. kind_node_of p (the (map_of ks p))"
  have d: "distinct (map fst ks)" and ok: "bt_ok ks" using assms(2) by (simp_all add: kinds_ok_def bt_ok_distinct)
  have b: "\<exists>j. blocks x (link_cid (snd e)) = Some j \<and> kind_node_of_json j = Some (?v (fst e))"
    if "e \<in> set (iter_protocols t)" for e
  proof -
    have "fst e \<in> fst ` set ks" using that assms(3) by blast
    then obtain bk where bk: "(fst e, bk) \<in> set ks" by auto
    then have "map_of ks (fst e) = Some bk" using d by simp
    moreover have "bt_ok (bk_attributes bk)" using bk assms(2) unfolding kinds_ok_def by fastforce
    then have "kind_node_of_json (json_of_kind_node (kind_node_of (fst e) bk)) = Some (kind_node_of (fst e) bk)"
      by (intro kind_node_roundtrip) (simp add: kind_node_of_def)
    moreover have "blocks x (cid (fst e)) = Some (json_of_kind_node (kind_node_of (fst e) bk))"
      using assms(5) bk by fastforce
    ultimately show ?thesis using assms(4) [OF that] by (simp add: ipld_link_new_def)
  qed
  have s: "export_kind E url e m = and_then (with_context (''fetching kind '' @ fst e)
      (dag_get E kind_node_of_json url (link_cid (snd e)))) (\<lambda>a. ret (bt_insert (fst e) (bare_kind a) m))" for e m
    by (simp add: export_kind_def bare_kind_def)
  obtain x' where "fold_act (export_kind E url) (iter_protocols t) [] x =
      (Inr (fold (\<lambda>e. bt_insert (fst e) (bare_kind (?v (fst e)))) (iter_protocols t) []), x')" "blocks x' = blocks x"
    using fetch_all [where step = "export_kind E url" and ins = bt_insert and f = bare_kind and v = ?v
        and dec = kind_node_of_json and xs = "iter_protocols t", OF assms(1) s b, of "[]"] by blast
  then show thesis using that fold_bt_rebuild [OF ok assms(3)] by simp
qed

text \<open>A table of names fetched back, entry by entry.\<close>

lemma export_table:
  assumes "kubo_ok E blocks" and "distinct (map fst es)"
    and "\<And>e m. step e m = and_then (with_context (s e) (dag_get E dec url (link_cid (snd e)))) (\<lambda>a. ret (hm_insert (fst e) (f a) m))"
    and "\<And>e. e \<in> set es \<Longrightarrow> \<exists>j a. blocks x (cid (fst e)) = Some j \<and> dec j = Some a \<and> f a = snd e"
  obtains x' where "fold_act step (map (\<lambda>e. (fst e, ipld_link_new (cid (fst e)))) es) [] x = (Inr es, x')" "blocks x' = blocks x"
proof -
  let ?xs = "map (\<lambda>e. (fst e, ipld_link_new (cid (fst e)))) es"
  let ?v = "\<lambda>k. the (dec (the (blocks x (cid k))))"
  have "\<exists>j. blocks x (link_cid (snd e)) = Some j \<and> dec j = Some (?v (fst e))" if "e \<in> set ?xs" for e
    using that assms(4) by (fastforce simp: ipld_link_new_def)
  then obtain x' where x': "fold_act step ?xs [] x = (Inr (fold (\<lambda>e. hm_insert (fst e) (f (?v (fst e)))) ?xs []), x')"
    "blocks x' = blocks x"
    using fetch_all [where step = step and ins = hm_insert and f = f and v = ?v and dec = dec and xs = ?xs,
        OF assms(1) assms(3), of x "[]"] by blast
  have "(fst e, f (?v (fst e))) = e" if "e \<in> set es" for e
    using assms(4) [OF that] by (auto simp: prod_eq_iff)
  then have "map (\<lambda>e. (fst e, f (?v (fst e)))) es = es" by (intro map_idI) auto
  then have "fold (\<lambda>e. hm_insert (fst e) (f (?v (fst e)))) ?xs [] = es"
    using fold_hm_map [of ?xs "\<lambda>e. f (?v (fst e))"] assms(2) by (simp add: comp_def)
  with x' that show thesis by simp
qed

lemma export_manifest:
  assumes "kubo_ok E blocks" and "acl_codec E" and "bootstrap_ok cfg" and "manifest_ok m"
    and "blocks x root = Some (json_of_manifest m)"
    and "fst ` set (iter_protocols (mf_kinds m)) = fst ` set (bs_kinds cfg)"
    and "\<And>e. e \<in> set (iter_protocols (mf_kinds m)) \<Longrightarrow> snd e = ipld_link_new (ck (fst e))"
    and "\<forall>e \<in> set (bs_kinds cfg). blocks x (ck (fst e)) = Some (json_of_kind_node (kind_node_of (fst e) (snd e)))"
    and "mf_entities m = map (\<lambda>e. (fst e, ipld_link_new (ce (fst e)))) (bs_entities cfg)"
    and "\<forall>e \<in> set (bs_entities cfg). blocks x (ce (fst e)) = Some (json_of_entity_node (entity_doc (snd e)))"
    and "mf_acls m = map (\<lambda>e. (fst e, ipld_link_new (ca (fst e)))) (bs_acls cfg)"
    and "\<forall>e \<in> set (bs_acls cfg). blocks x (ca (fst e)) = Some (acl_to_json E (snd e))"
    and "mf_acl m = Some (ipld_link_new cr)" and "blocks x cr = Some (acl_to_json E (acl_or_default (bs_acl cfg)))"
  shows "\<exists>x'. export_runtime E root url x = (Inr (cfg\<lparr>bs_acl := Some (acl_or_default (bs_acl cfg))\<rparr>), x')"
proof -
  note k = assms(1)
  obtain x1 where 1: "with_context ''fetching root manifest'' (dag_get E manifest_of_json url root) x = (Inr m, x1)"
    "blocks x1 = blocks x" using fetch_one [where dec = manifest_of_json, OF k assms(5) manifest_rt [OF assms(4)]] .
  have ks: "kinds_ok (bs_kinds cfg)" and de: "distinct (map fst (bs_entities cfg))" and da: "distinct (map fst (bs_acls cfg))"
    using assms(3) by (simp_all add: bootstrap_ok_def hm_ok_def)
  obtain x2 where 2: "fold_act (export_kind E url) (iter_protocols (mf_kinds m)) [] x1 = (Inr (bs_kinds cfg), x2)"
    "blocks x2 = blocks x"
    using export_kinds [where cid = ck, OF k ks assms(6,7), of x1] assms(8) 1(2) by auto
  have s: "export_entity E url e m = and_then (with_context (''fetching entity '' @ fst e)
      (dag_get E entity_node_of_json url (link_cid (snd e)))) (\<lambda>a. ret (hm_insert (fst e) (inline_of a) m))" for e m
    by (simp add: export_entity_def inline_of_def)
  have e: "\<exists>j a. blocks x2 (ce (fst e)) = Some j \<and> entity_node_of_json j = Some a \<and> inline_of a = snd e"
    if "e \<in> set (bs_entities cfg)" for e
    using assms(3,10) that 2(2) by (fastforce simp: bootstrap_ok_def inline_of_def inline_node_def)
  obtain x3 where 3: "fold_act (export_entity E url) (mf_entities m) [] x2 = (Inr (bs_entities cfg), x3)" "blocks x3 = blocks x"
    using export_table [where step = "export_entity E url" and dec = entity_node_of_json and f = inline_of and cid = ce
        and es = "bs_entities cfg", OF k de s e]
    unfolding assms(9) 2(2) by blast
  have a: "\<exists>j a. blocks x3 (ca (fst e)) = Some j \<and> acl_of_json E j = Some a \<and> a = snd e"
    if "e \<in> set (bs_acls cfg)" for e
    using assms(2,3,12) that 3(2) by (simp add: bootstrap_ok_def acl_codec_def)
  obtain x4 where 4: "fold_act (export_acl E url) (mf_acls m) [] x3 = (Inr (bs_acls cfg), x4)" "blocks x4 = blocks x"
    using export_table [where step = "export_acl E url" and dec = "acl_of_json E" and f = "\<lambda>a. a" and cid = ca
        and es = "bs_acls cfg", OF k da export_acl_def a]
    unfolding assms(11) 3(2) by blast
  have "acl_of_json E (acl_to_json E (acl_or_default (bs_acl cfg))) = Some (acl_or_default (bs_acl cfg))"
    using assms(2,3) by (simp add: bootstrap_ok_def acl_codec_def)
  then obtain x5 where "with_context ''fetching root acl'' (dag_get E (acl_of_json E) url cr) x4 =
      (Inr (acl_or_default (bs_acl cfg)), x5)"
    using fetch_one [where dec = "acl_of_json E", OF k] assms(14) 4(2) by metis
  then show ?thesis
    by (simp add: export_runtime_def and_then_def 1(1) 2(1) 3(1) 4(1) assms(13) ipld_link_new_def)
qed

text \<open>Beyond \<open>kubo_ok\<close>, for a root that is pinned for the first time: Kubo takes a pin, afterwards what was
  named is pinned, and no document has changed. \<open>pinned\<close> reads the pinned CIDs off the world.\<close>

definition pins_ok :: "('x, 'p) env \<Rightarrow> ('x \<Rightarrow> string \<Rightarrow> json option) \<Rightarrow> ('x \<Rightarrow> string set) \<Rightarrow> bool" where
  "pins_ok E blocks pinned \<longleftrightarrow> (\<forall>url c x. \<exists>x'. pin_add E url c x = (Inr (), x') \<and> blocks x' = blocks x \<and> c \<in> pinned x')"

lemma swapped_pin:
  assumes "kubo_ok E blocks" and "old = None \<longrightarrow> pins_ok E blocks pinned"
  obtains x' where "swap_pin E url old root x = (Inr (), x')" "blocks x' = blocks x" "old = None \<longrightarrow> root \<in> pinned x'"
proof (cases old)
  case None
  then obtain x' where "pin_add E url root x = (Inr (), x')" "blocks x' = blocks x" "root \<in> pinned x'"
    using assms(2) unfolding pins_ok_def by blast
  then show thesis by (intro that [of x']) (simp_all add: swap_pin_def None with_context_Inr)
next
  case (Some c)
  show thesis
    by (rule that [of "snd (pin_update E url c root x)"])
      (simp_all add: swap_pin_def Some and_then_def attempt_def kubo_ok_pin [OF assms(1)] split: prod.split)
qed

text \<open>For a well-formed descriptor and a reachable block store, \<open>build_manifest\<close> publishes (and, for a first root, pins) a root from which
  \<open>export_runtime\<close> reads back the very same descriptor.\<close>

lemma build_then_export:
  assumes "kubo_ok E blocks" and "acl_codec E" and "bootstrap_ok cfg"
    and "bt_ok config" and "\<forall>e \<in> set config. yaml_ok (snd e)" and "old = None \<longrightarrow> pins_ok E blocks pinned"
  shows "\<exists>root x' x''. build_manifest E cfg url config lang old x = (Inr root, x') \<and> (old = None \<longrightarrow> root \<in> pinned x') \<and>
    export_runtime E root url x' = (Inr (cfg\<lparr>bs_acl := Some (acl_or_default (bs_acl cfg))\<rparr>), x'')"
proof -
  note k = assms(1)
  have ok: "kinds_ok (bs_kinds cfg)" "hm_ok (bs_entities cfg)" "hm_ok (bs_acls cfg)"
    "\<forall>e \<in> set (bs_entities cfg). \<exists>k b a s. snd e = Bs_Inline k b a s"
    using assms(3) by (simp_all add: bootstrap_ok_def)
  obtain t ck x1 where 1: "fold_act (publish_kind E url) (bs_kinds cfg) [] x = (Inr t, x1)" "grows blocks x x1" "kt_wf t"
    "fst ` set (iter_protocols t) = fst ` set (bs_kinds cfg)"
    "\<forall>e \<in> set (iter_protocols t). snd e = ipld_link_new (ck (fst e))"
    "\<forall>e \<in> set (bs_kinds cfg). blocks x1 (ck (fst e)) = Some (json_of_kind_node (kind_node_of (fst e) (snd e)))"
    using publish_kinds [where url = url and x = x, OF k ok(1)] .
  obtain ce x2 where 2: "fold_act (publish_entity E url) (bs_entities cfg) [] x1 =
      (Inr (map (\<lambda>e. (fst e, ipld_link_new (ce (fst e)))) (bs_entities cfg)), x2)" "grows blocks x1 x2"
    "\<forall>e \<in> set (bs_entities cfg). blocks x2 (ce (fst e)) = Some (json_of_entity_node (entity_doc (snd e)))"
    using publish_entities [where url = url and x = x1, OF k ok(2,4)] .
  obtain ca x3 where 3: "fold_act (publish_acl E url) (bs_acls cfg) [] x2 =
      (Inr (map (\<lambda>e. (fst e, ipld_link_new (ca (fst e)))) (bs_acls cfg)), x3)" "grows blocks x2 x3"
    "\<forall>e \<in> set (bs_acls cfg). blocks x3 (ca (fst e)) = Some (acl_to_json E (snd e))"
    using publish_acls [where url = url and x = x2, OF k ok(3)] .
  obtain cr x4 where 4: "with_context ''dag_put root acl'' (dag_put E url (acl_to_json E (acl_or_default (bs_acl cfg)))) x3 =
      (Inr cr, x4)" "blocks x4 cr = Some (acl_to_json E (acl_or_default (bs_acl cfg)))" "grows blocks x3 x4"
    using publish_one [OF k] .
  let ?m = "\<lparr>mf_acl = Some (ipld_link_new cr), mf_acls = map (\<lambda>e. (fst e, ipld_link_new (ca (fst e)))) (bs_acls cfg),
    mf_protocol = ''/ma/runtime/0.1.0'', mf_kinds = t,
    mf_entities = map (\<lambda>e. (fst e, ipld_link_new (ce (fst e)))) (bs_entities cfg), mf_i18n = bundled_lang_map E,
    mf_config = with_active_lang E lang config\<rparr>"
  obtain root x5 where 5: "with_context ''dag_put root manifest'' (dag_put E url (json_of_manifest ?m)) x4 = (Inr root, x5)"
    "blocks x5 root = Some (json_of_manifest ?m)" "grows blocks x4 x5"
    using publish_one [OF k] .
  obtain y where y: "swap_pin E url old root x5 = (Inr (), y)" and p: "blocks y = blocks x5"
    and q: "old = None \<longrightarrow> root \<in> pinned y"
    using swapped_pin [OF k assms(6)] .
  have b: "build_manifest E cfg url config lang old x = (Inr root, y)"
    by (simp add: build_manifest_def and_then_def 1(1) 2(1) 3(1) 4(1) 5(1) Let_def y)
  have g: "grows blocks x1 y" "grows blocks x2 y" "grows blocks x3 y" "grows blocks x4 y" "blocks y root = Some (json_of_manifest ?m)"
    using 2(2) 3(2) 4(3) 5(2,3) by (auto simp: grows_def p)
  have m: "manifest_ok ?m"
    using 1(3) ok(2,3) with_active_lang_ok [OF assms(4,5)] bundled_lang_map_ok [of E]
    by (simp add: manifest_ok_def hm_ok_def comp_def)
  have "\<exists>x''. export_runtime E root url y = (Inr (cfg\<lparr>bs_acl := Some (acl_or_default (bs_acl cfg))\<rparr>), x'')"
    by (rule export_manifest [where ck = ck and ce = ce and ca = ca and cr = cr, OF k assms(2,3) m g(5)])
      (use 1(4,5,6) 2(3) 3(3) 4(2) growsD [OF g(1)] growsD [OF g(2)] growsD [OF g(3)] growsD [OF g(4)] in simp_all)
  with b q show ?thesis by blast
qed

section \<open>Saving at shutdown\<close>

text \<open>A program whose instances have no \<open>save_state\<close> export; the bundled plugins are all such.\<close>

definition no_save_state :: "(string \<Rightarrow> bytes \<Rightarrow> 'p \<Rightarrow> 'p wasm_run) \<Rightarrow> bool" where
  "no_save_state exports \<longleftrightarrow> (\<forall>b p. \<exists>q. exports ''save_state'' b p = Wasm_trap q)"

lemma bundled_no_save_state:
  "no_save_state (counter_export cd)" "no_save_state (set_export cd)" "no_save_state (register_export cd)"
  "no_save_state (root_export cd)"
  by (simp_all add: no_save_state_def counter_export_def set_export_def register_export_def root_export_def)

lemma trigger_save_nothing:
  assumes "no_save_state (wasm_call E)" and "trigger_save E url (ep, io) = (r, (ep', io'))"
  shows "(r = Inr None \<or> (\<exists>e. r = Inl e)) \<and> io' = io"
proof (cases "ep_backend ep")
  case (Native f)
  then show ?thesis using assms(2) by (simp add: trigger_save_def)
next
  case (Extism xt)
  obtain q where "wasm_call E ''save_state'' [] (xt_mem xt) = Wasm_trap q"
    using assms(1) unfolding no_save_state_def by blast
  then show ?thesis using assms(2) Extism by (auto simp: trigger_save_def plugin_call_def set_mem_def)
qed

lemma save_entity_nothing:
  assumes "no_save_state (wasm_call E)"
  shows "\<exists>w'. save_entity_state E url e m w = (Inr m, w') \<and> rt_io w' = rt_io w"
proof (cases "ep_kind (snd e) = Stateless")
  case True
  then show ?thesis by (simp add: save_entity_state_def)
next
  case False
  obtain r ep' io' where t: "trigger_save E url (current (fst e) (snd e) w, rt_io w) = (r, (ep', io'))"
    by (metis surj_pair)
  with trigger_save_nothing [OF assms t] False show ?thesis
    by (auto simp: save_entity_state_def and_then_def attempt_def with_plugin_def put_plugin_def)
qed

lemma save_entities_nothing:
  assumes "no_save_state (wasm_call E)"
  shows "\<exists>w'. fold_act (save_entity_state E url) es m w = (Inr m, w') \<and> rt_io w' = rt_io w"
proof (induction es arbitrary: w)
  case (Cons e es)
  obtain w1 where 1: "save_entity_state E url e m w = (Inr m, w1)" "rt_io w1 = rt_io w"
    using save_entity_nothing [OF assms] by blast
  obtain w2 where "fold_act (save_entity_state E url) es m w1 = (Inr m, w2)" "rt_io w2 = rt_io w1"
    using Cons.IH by blast
  with 1 show ?case by (simp add: and_then_def)
qed simp

text \<open>C36: the shutdown save links no state of a bundled plugin. Whatever the plugins of the registry
  hold, as long as their program has no \<open>save_state\<close> export (none of counter, set, register and root
  has one), the save succeeds and publishes exactly the manifest that was the root before: every
  entity node keeps the state link it had, so a counter starts again from its old value.\<close>

theorem shutdown_links_no_state:
  assumes "kubo_ok E blocks" and "manifest_ok m" and "blocks (io_out (rt_io w)) root = Some (json_of_manifest m)"
    and "no_save_state (wasm_call E)"
  shows "\<exists>new w'. save_all_entity_states E root url w = (Inr new, w') \<and>
    blocks (io_out (rt_io w')) new = Some (json_of_manifest m)"
proof -
  obtain x1 where 1: "with_context ''fetching current runtime manifest'' (dag_get E manifest_of_json url root) (io_out (rt_io w)) = (Inr m, x1)"
    "blocks x1 = blocks (io_out (rt_io w))"
    using fetch_one [where dec = manifest_of_json, OF assms(1,3) manifest_rt [OF assms(2)]] .
  then have d: "dag_get E manifest_of_json url root (io_out (rt_io w)) = (Inr m, x1)" by (simp add: with_context_ok)
  let ?w1 = "w\<lparr>rt_io := (rt_io w)\<lparr>io_out := x1\<rparr>\<rparr>"
  obtain w2 where 2: "fold_act (save_entity_state E url) (rt_registry w) m ?w1 = (Inr m, w2)" "rt_io w2 = rt_io ?w1"
    using save_entities_nothing [OF assms(4)] by blast
  obtain new x3 where 3: "with_context [] (dag_put E url (json_of_manifest m)) x1 = (Inr new, x3)"
    "blocks x3 new = Some (json_of_manifest m)" "grows blocks x1 x3"
    using publish_one [OF assms(1)] .
  then have p: "dag_put E url (json_of_manifest m) x1 = (Inr new, x3)" by (simp add: with_context_ok)
  obtain q x4 where 4: "pin_update E url root new x3 = (q, x4)" by (rule prod.exhaust)
  then have "blocks x4 = blocks x3" using kubo_ok_pin [OF assms(1), of url root new x3] by simp
  with 2 3 show ?thesis
    by (simp add: save_all_entity_states_def and_then_def with_context_def zoom_def d p 4 attempt_def)
qed

end
