(* ===== verification/Status_Facts.thy ===== *)
theory Status_Facts
  imports Status Bootstrap_Facts
begin

text \<open>
  What claiming guarantees, and what it does not: a claimed runtime refuses every further claim, and
  claims do not deadlock on their locks, but two claims under way at once both succeed; and the first manifest cycle after a claim hands the
  runtime back, since the minimal manifest it was started from still lists no owner.
\<close>

section \<open>One claim\<close>

lemma persist_claim_ok: "\<exists>x. persist_claim E path owners w = (Inr (), w\<lparr>rt_io := (rt_io w)\<lparr>io_out := x\<rparr>\<rparr>)"
proof (cases path)
  case None
  then show ?thesis by (auto simp: persist_claim_def intro: exI [of _ "io_out (rt_io w)"])
next
  case (Some p)
  then show ?thesis
    by (auto simp: persist_claim_def and_then_def attempt_def zoom_def split: prod.split)
qed

lemma persist_claim_keeps: "outside_only w (snd (persist_claim E path owners w))"
  using persist_claim_ok [of E path owners w] by (auto simp: outside_only_def)

lemma handle_claim_refused:
  "st_owners (rt_stats w) \<noteq> [] \<Longrightarrow> handle_claim E own w = (Inr already_claimed_reply, w)"
  by (simp add: handle_claim_def)

definition owned :: "string list \<Rightarrow> ('x, 'p) runtime \<Rightarrow> ('x, 'p) runtime" where
  "owned owners w = w\<lparr>rt_stats := (rt_stats w)\<lparr>st_owners := owners\<rparr>, rt_root_acl := owner_grants owners (rt_root_acl w)\<rparr>"

lemma handle_claim_granted:
  assumes "st_owners (rt_stats w) = []"
  obtains w' where "handle_claim E own w = (Inr (claimed_reply [own]), w')" "outside_only (owned [own] w) w'"
proof -
  obtain x where x: "persist_claim E (st_config_path (rt_stats w)) [own] (owned [own] w) =
      (Inr (), (owned [own] w)\<lparr>rt_io := (rt_io (owned [own] w))\<lparr>io_out := x\<rparr>\<rparr>)"
    using persist_claim_ok [of E "st_config_path (rt_stats w)" "[own]" "owned [own] w"] by (elim exE)
  have o: "owned [own] w = w\<lparr>rt_stats := (rt_stats w)\<lparr>st_owners := [own]\<rparr>, rt_root_acl := owner_grants [own] (rt_root_acl w)\<rparr>"
    by (simp add: owned_def)
  have "handle_claim E own w = (Inr (claimed_reply [own]), (owned [own] w)\<lparr>rt_io := (rt_io (owned [own] w))\<lparr>io_out := x\<rparr>\<rparr>)"
    using assms x unfolding o
    by (simp add: handle_claim_def Let_def set_owners_def grant_owners_in_acl_def and_then_Inr)
  moreover have "outside_only (owned [own] w) ((owned [own] w)\<lparr>rt_io := (rt_io (owned [own] w))\<lparr>io_out := x\<rparr>\<rparr>)"
    unfolding outside_only_def by blast
  ultimately show thesis by (rule that)
qed

text \<open>The files of a runtime after a claim was persisted.\<close>

definition persisted :: "('x, 'p) env \<Rightarrow> string option \<Rightarrow> string list \<Rightarrow> 'x \<Rightarrow> 'x" where
  "persisted E path owners x =
     (case path of None \<Rightarrow> x | Some p \<Rightarrow> snd (persist_owners_to_config E p owners x))"

lemma persist_claim_eval:
  "persist_claim E path owners w =
     (Inr (), w\<lparr>rt_io := (rt_io w)\<lparr>io_out := persisted E path owners (io_out (rt_io w))\<rparr>\<rparr>)"
  by (cases path) (auto simp: persist_claim_def persisted_def and_then_def attempt_def zoom_def split: prod.splits)

text \<open>Requests served one after the other, with their answers.\<close>

fun claims_in_turn :: "('x, 'p) env \<Rightarrow> string list \<Rightarrow> ('x, 'p, http_reply list) rt_act" where
  "claims_in_turn E [] = ret []"
| "claims_in_turn E (own # owns) =
     and_then (handle_claim E own) (\<lambda>r. and_then (claims_in_turn E owns) (\<lambda>rs. ret (r # rs)))"

lemma claims_in_turn_refused:
  "st_owners (rt_stats w) \<noteq> [] \<Longrightarrow>
     claims_in_turn E owns w = (Inr (replicate (length owns) already_claimed_reply), w)"
  by (induction owns) (simp_all add: and_then_def handle_claim_refused)

text \<open>C30: one claim at a time. In every state with an owner, however it was reached, a claim is answered by
  a conflict and changes nothing at all. In every state without one (so also when a manifest edit has
  emptied the list again) the text of the request body becomes the only owner and gets every
  capability in the live root list; the configuration file, if there is one, is asked to take it, and
  nothing else of the runtime changes. Then all claims after it, one after the other, are conflicts.
  Who sends the request is not asked.\<close>

theorem claim_sequential:
  "(st_owners (rt_stats w) \<noteq> [] \<longrightarrow> handle_claim E own w = (Inr already_claimed_reply, w)) \<and>
   (st_owners (rt_stats w) = [] \<longrightarrow> (\<exists>w'. handle_claim E own w = (Inr (claimed_reply [own]), w') \<and>
      w' = w\<lparr>rt_stats := (rt_stats w)\<lparr>st_owners := [own]\<rparr>,
             rt_root_acl := hm_insert own (Allow [''*'']) (rt_root_acl w),
             rt_io := (rt_io w)\<lparr>io_out := persisted E (st_config_path (rt_stats w)) [own] (io_out (rt_io w))\<rparr>\<rparr> \<and>
      (\<forall>others. claims_in_turn E others w' = (Inr (replicate (length others) already_claimed_reply), w'))))"
proof (intro conjI impI)
  assume "st_owners (rt_stats w) \<noteq> []"
  then show "handle_claim E own w = (Inr already_claimed_reply, w)" by (rule handle_claim_refused)
next
  assume o: "st_owners (rt_stats w) = []"
  let ?w' = "w\<lparr>rt_stats := (rt_stats w)\<lparr>st_owners := [own]\<rparr>,
             rt_root_acl := hm_insert own (Allow [''*'']) (rt_root_acl w),
             rt_io := (rt_io w)\<lparr>io_out := persisted E (st_config_path (rt_stats w)) [own] (io_out (rt_io w))\<rparr>\<rparr>"
  have "handle_claim E own w = (Inr (claimed_reply [own]), ?w')"
    by (simp add: handle_claim_def o Let_def set_owners_def grant_owners_in_acl_def owner_grants_def and_then_Inr persist_claim_eval)
  moreover have "claims_in_turn E others ?w' = (Inr (replicate (length others) already_claimed_reply), ?w')" for others
    by (rule claims_in_turn_refused) simp
  ultimately show "\<exists>w'. handle_claim E own w = (Inr (claimed_reply [own]), w') \<and> w' = ?w' \<and>
      (\<forall>others. claims_in_turn E others w' = (Inr (replicate (length others) already_claimed_reply), w'))"
    by simp
qed

section \<open>Claims that overlap\<close>

text \<open>The steps taken one after the other are the handler.\<close>

lemma claim_steps_handler:
  assumes "handle_claim E own w = (Inr r, w')"
  shows "((\<lambda>(ph, w). claim_step E own ph w) ^^ 4) (Arrived, w) = (Answered r, w')"
proof (cases "st_owners (rt_stats w) = []")
  case True
  let ?w = "snd (grant_owners_in_acl [own] (snd (set_owners [own] w)))"
  obtain x where "persist_claim E (st_config_path (rt_stats w)) [own] ?w = (Inr (), ?w\<lparr>rt_io := (rt_io ?w)\<lparr>io_out := x\<rparr>\<rparr>)"
    using persist_claim_ok [of E "st_config_path (rt_stats w)" "[own]" ?w] by (elim exE)
  with True assms show ?thesis
    by (auto simp: eval_nat_numeral handle_claim_def Let_def and_then_def set_owners_def grant_owners_in_acl_def)
qed (use assms in \<open>simp add: eval_nat_numeral handle_claim_def\<close>)

abbreviation claims_run :: "('x, 'p) env \<Rightarrow> (string \<times> claim_phase) list \<times> ('x, 'p) runtime \<Rightarrow>
    (string \<times> claim_phase) list \<times> ('x, 'p) runtime \<Rightarrow> bool" where
  "claims_run E \<equiv> (claims_step E)\<^sup>*\<^sup>*"

lemma step_first: "\<not> answered ph \<Longrightarrow> claim_step E a ph w = (ph', w') \<Longrightarrow> claims_step E ([(a, ph), q], w) ([(a, ph'), q], w')"
  using claims_step.advance [of 0 "[(a, ph), q]" a ph E w ph' w'] by simp

lemma step_second: "\<not> answered ph \<Longrightarrow> claim_step E b ph w = (ph', w') \<Longrightarrow> claims_step E ([p, (b, ph)], w) ([p, (b, ph')], w')"
  using claims_step.advance [of 1 "[p, (b, ph)]" b ph E w ph' w'] by simp

text \<open>C31: two claims under way at once both succeed. From an unclaimed runtime there is an order of
  their steps (both check before either writes) after which both have been told that the runtime is
  theirs, the second is its only owner, and both hold every capability in the live root list.\<close>

theorem claim_race:
  assumes "st_owners (rt_stats w) = []"
  shows "\<exists>w'. claims_run E ([(a, Arrived), (b, Arrived)], w)
      ([(a, Answered (claimed_reply [a])), (b, Answered (claimed_reply [b]))], w') \<and>
    st_owners (rt_stats w') = [b] \<and>
    map_of (rt_root_acl w') a = Some (Allow [''*'']) \<and> map_of (rt_root_acl w') b = Some (Allow [''*''])"
proof -
  let ?p = "st_config_path (rt_stats w)"
  let ?w1 = "snd (grant_owners_in_acl [a] (snd (set_owners [a] w)))"
  let ?w2 = "snd (grant_owners_in_acl [b] (snd (set_owners [b] ?w1)))"
  obtain w3 where 3: "snd (persist_claim E ?p [a] ?w2) = w3" "outside_only ?w2 w3"
    using persist_claim_keeps by blast
  obtain w4 where 4: "snd (persist_claim E ?p [b] w3) = w4" "outside_only w3 w4"
    using persist_claim_keeps by blast
  have s: "claims_step E ([(a, Arrived), (b, Arrived)], w) ([(a, Passed ?p), (b, Arrived)], w)"
    "claims_step E ([(a, Passed ?p), (b, Arrived)], w) ([(a, Passed ?p), (b, Passed ?p)], w)"
    "claims_step E ([(a, Passed ?p), (b, Passed ?p)], w) ([(a, Owning ?p), (b, Passed ?p)], snd (set_owners [a] w))"
    "claims_step E ([(a, Owning ?p), (b, Passed ?p)], snd (set_owners [a] w)) ([(a, Granted ?p), (b, Passed ?p)], ?w1)"
    "claims_step E ([(a, Granted ?p), (b, Passed ?p)], ?w1) ([(a, Granted ?p), (b, Owning ?p)], snd (set_owners [b] ?w1))"
    "claims_step E ([(a, Granted ?p), (b, Owning ?p)], snd (set_owners [b] ?w1)) ([(a, Granted ?p), (b, Granted ?p)], ?w2)"
    "claims_step E ([(a, Granted ?p), (b, Granted ?p)], ?w2) ([(a, Answered (claimed_reply [a])), (b, Granted ?p)], w3)"
    "claims_step E ([(a, Answered (claimed_reply [a])), (b, Granted ?p)], w3)
       ([(a, Answered (claimed_reply [a])), (b, Answered (claimed_reply [b]))], w4)"
    using assms 3(1) 4(1) by (auto intro!: step_first step_second)
  have r: "claims_run E ([(a, Arrived), (b, Arrived)], w)
      ([(a, Answered (claimed_reply [a])), (b, Answered (claimed_reply [b]))], w4)"
    using s by (meson converse_rtranclp_into_rtranclp rtranclp.rtrancl_refl)
  have "rt_stats w4 = rt_stats ?w2" "rt_root_acl w4 = rt_root_acl ?w2"
    using outside_only_simps [OF 3(2)] outside_only_simps [OF 4(2)] by simp_all
  then show ?thesis
    by (intro exI [of _ w4] conjI r) (simp_all add: set_owners_def grant_owners_in_acl_def owner_grants_def)
qed

section \<open>Claims and the locks they take\<close>

text \<open>Without the guards these are the steps of before.\<close>

fun phase_of :: "claim_at \<Rightarrow> claim_phase" where
  "phase_of Before_check = Arrived"
| "phase_of Checking = Arrived"
| "phase_of Refusing = Answered already_claimed_reply"
| "phase_of (Before_write path) = Passed path"
| "phase_of (Writing path) = Passed path"
| "phase_of (Before_grant path) = Owning path"
| "phase_of (Granting path) = Owning path"
| "phase_of (Before_persist path) = Granted path"
| "phase_of (Replied r) = Answered r"

definition phases :: "(string \<times> claim_at) list \<Rightarrow> (string \<times> claim_phase) list" where
  "phases = map (\<lambda>(own, at). (own, phase_of at))"

lemma guarded_step_phase:
  "guarded_step E own ph g w = Some (ph', g', w') \<Longrightarrow>
     phase_of ph' = phase_of ph \<and> w' = w \<or>
     \<not> answered (phase_of ph) \<and> claim_step E own (phase_of ph) w = (phase_of ph', w')"
  by (cases ph) (auto split: if_splits)

lemma guarded_claimE:
  assumes "guarded_claims E (cs, g, w) (cs', g', w')"
  obtains i own ph ph' where "cs' = cs[i := (own, ph')]" "i < length cs" "cs ! i = (own, ph)"
    "guarded_step E own ph g w = Some (ph', g', w')"
  using assms by (blast elim: guarded_claimsE)

lemma guarded_claims_phases:
  assumes "guarded_claims E (cs, g, w) (cs', g', w')"
  shows "claims_run E (phases cs, w) (phases cs', w')"
proof -
  from assms obtain i own ph ph' where 1: "cs' = cs[i := (own, ph')]" "i < length cs" "cs ! i = (own, ph)"
    "guarded_step E own ph g w = Some (ph', g', w')" by (rule guarded_claimE)
  have u: "phases cs' = (phases cs)[i := (own, phase_of ph')]" using 1(1) by (simp add: phases_def map_update)
  have n: "i < length (phases cs)" "phases cs ! i = (own, phase_of ph)" using 1(2,3) by (simp_all add: phases_def)
  from guarded_step_phase [OF 1(4)] show ?thesis
  proof (elim disjE conjE)
    assume "phase_of ph' = phase_of ph" "w' = w"
    then show ?thesis using u n by (metis list_update_id rtranclp.rtrancl_refl)
  next
    assume "\<not> answered (phase_of ph)" "claim_step E own (phase_of ph) w = (phase_of ph', w')"
    with claims_step.advance [OF n] show ?thesis unfolding u by blast
  qed
qed

text \<open>The guards given out are the guards held, and a writer of \<open>stats\<close> is alone with it.\<close>

fun reading :: "claim_at \<Rightarrow> nat" where
  "reading Checking = 1" | "reading ph = 0"

fun writing :: "claim_at \<Rightarrow> nat" where
  "writing (Writing path) = 1" | "writing ph = 0"

fun granting :: "claim_at \<Rightarrow> nat" where
  "granting (Granting path) = 1" | "granting ph = 0"

lemma holders:
  "0 < reading ph \<longleftrightarrow> ph = Checking" "0 < writing ph \<longleftrightarrow> (\<exists>path. ph = Writing path)"
  "0 < granting ph \<longleftrightarrow> (\<exists>path. ph = Granting path)"
  by (cases ph; simp)+

definition claims_total :: "(claim_at \<Rightarrow> nat) \<Rightarrow> (string \<times> claim_at) list \<Rightarrow> nat" where
  "claims_total f cs = sum_list (map (f \<circ> snd) cs)"

lemma total_update:
  "i < length cs \<Longrightarrow> cs ! i = (own, ph) \<Longrightarrow> claims_total f (cs[i := (own', ph')]) + f ph = claims_total f cs + f ph'"
proof (induction cs arbitrary: i)
  case (Cons c cs)
  then show ?case by (cases i) (fastforce simp: claims_total_def)+
qed simp

definition guards_ok :: "(string \<times> claim_at) list \<Rightarrow> guards \<Rightarrow> bool" where
  "guards_ok cs g \<longleftrightarrow> gd_stats_readers g = claims_total reading cs \<and> (if gd_stats_writer g then 1 else 0) = claims_total writing cs \<and>
     (if gd_acl_writer g then 1 else 0) = claims_total granting cs \<and> (gd_stats_writer g \<longrightarrow> gd_stats_readers g = 0)"

lemma guarded_claims_ok:
  assumes "guarded_claims E (cs, g, w) (cs', g', w')" and "guards_ok cs g"
  shows "guards_ok cs' g'"
proof -
  from assms(1) obtain i own ph ph' where 1: "cs' = cs[i := (own, ph')]" "i < length cs" "cs ! i = (own, ph)"
    "guarded_step E own ph g w = Some (ph', g', w')" by (rule guarded_claimE)
  note t = total_update [OF 1(2,3), of _ own ph', folded 1(1)]
  show ?thesis
    using 1(4) assms(2) t [of reading] t [of writing] t [of granting]
    by (cases ph) (auto simp: guards_ok_def split: if_splits)
qed

fun steps_left :: "claim_at \<Rightarrow> nat" where
  "steps_left Before_check = 7"
| "steps_left Checking = 6"
| "steps_left (Before_write path) = 5"
| "steps_left (Writing path) = 4"
| "steps_left (Before_grant path) = 3"
| "steps_left (Granting path) = 2"
| "steps_left Refusing = 1"
| "steps_left (Before_persist path) = 1"
| "steps_left (Replied r) = 0"

lemma guarded_claims_left:
  assumes "guarded_claims E (cs, g, w) (cs', g', w')"
  shows "claims_total steps_left cs' < claims_total steps_left cs"
proof -
  from assms obtain i own ph ph' where 1: "cs' = cs[i := (own, ph')]" "i < length cs" "cs ! i = (own, ph)"
    "guarded_step E own ph g w = Some (ph', g', w')" by (rule guarded_claimE)
  have "steps_left ph' < steps_left ph" using 1(4) by (cases ph) (auto split: if_splits)
  with total_update [OF 1(2,3), of steps_left own ph', folded 1(1)] show ?thesis by simp
qed

lemma total_pos: "0 < claims_total f cs \<Longrightarrow> \<exists>own ph. (own, ph) \<in> set cs \<and> 0 < f ph"
  unfolding claims_total_def by (induction cs) fastforce+

text \<open>As long as a claim is not answered, some claim can take its next step: whoever holds a guard can go on
  without another one, and when nobody holds any, whoever asks gets it.\<close>

lemma guarded_claims_proceed:
  assumes ok: "guards_ok cs g" and open_claim: "(own, ph) \<in> set cs" "\<forall>r. ph \<noteq> Replied r"
  shows "\<exists>s. guarded_claims E (cs, g, w) s"
proof -
  have step: "\<exists>s. guarded_claims E (cs, g, w) s" if "(o1, p1) \<in> set cs" "guarded_step E o1 p1 g w = Some r" for o1 p1 r
    using that by (metis guarded_claims.proceed in_set_conv_nth prod_cases3)
  consider (held) "0 < claims_total reading cs + claims_total writing cs + claims_total granting cs"
    | (free) "gd_stats_readers g = 0" "\<not> gd_stats_writer g" "\<not> gd_acl_writer g"
    using ok by (cases "gd_stats_writer g"; cases "gd_acl_writer g") (auto simp: guards_ok_def)
  then show ?thesis
  proof cases
    case held
    then consider "0 < claims_total reading cs" | "0 < claims_total writing cs" | "0 < claims_total granting cs" by linarith
    then obtain o1 p1 where p: "(o1, p1) \<in> set cs" "p1 = Checking \<or> (\<exists>path. p1 = Writing path \<or> p1 = Granting path)"
      by cases (auto dest!: total_pos simp: holders)
    then obtain r where "guarded_step E o1 p1 g w = Some r" by auto
    with p(1) show ?thesis by (rule step)
  next
    case free
    then obtain r where "guarded_step E own ph g w = Some r" using open_claim(2) by (cases ph) auto
    with open_claim(1) show ?thesis by (rule step)
  qed
qed

lemma guarded_run:
  assumes "(guarded_claims E ^^ n) (cs, no_guards, w) (cs', g', w')" and "\<forall>c \<in> set cs. snd c = Before_check"
  shows "claims_run E (phases cs, w) (phases cs', w') \<and> guards_ok cs' g' \<and> n + claims_total steps_left cs' \<le> 7 * length cs"
  using assms(1)
proof (induction n arbitrary: cs' g' w')
  case 0
  have "claims_total f cs = f Before_check * length cs" for f
    using assms(2) by (induction cs) (auto simp: claims_total_def)
  then show ?case using 0 by (auto simp: guards_ok_def no_guards_def)
next
  case (Suc n)
  from Suc.prems obtain cs1 g1 w1 where 1: "(guarded_claims E ^^ n) (cs, no_guards, w) (cs1, g1, w1)"
    and 2: "guarded_claims E (cs1, g1, w1) (cs', g', w')" by (metis prod_cases3 relpowp_Suc_E)
  from Suc.IH [OF 1] guarded_claims_phases [OF 2] guarded_claims_ok [OF 2] guarded_claims_left [OF 2]
  show ?case by (auto intro: rtranclp_trans)
qed

text \<open>C32: claims neither deadlock nor run for ever. Take any number of claims that arrive together and any
  order of their steps, in which a step that asks for the read or write guard of the statistics or the
  write guard of the access list waits until it can be given. Every such run is one of the lock-free
  runs above; no two claims ever write the statistics, or write and read them, at once; no run is
  longer than seven steps per claim; and a run can stop only where every claim has its answer, with no
  guard left behind.\<close>

theorem claims_never_deadlock:
  assumes "\<forall>c \<in> set cs. snd c = Before_check" and "(guarded_claims E ^^ n) (cs, no_guards, w) (cs', g', w')"
  shows "claims_run E (phases cs, w) (phases cs', w') \<and>
    claims_total writing cs' \<le> 1 \<and> (claims_total writing cs' = 1 \<longrightarrow> claims_total reading cs' = 0) \<and> n \<le> 7 * length cs \<and>
    ((\<nexists>s. guarded_claims E (cs', g', w') s) \<longrightarrow> (\<forall>c \<in> set cs'. \<exists>r. snd c = Replied r) \<and> g' = no_guards)"
proof -
  note r = guarded_run [OF assms(2,1)]
  then have ok: "guards_ok cs' g'" by simp
  have stop: "(\<forall>c \<in> set cs'. \<exists>r. snd c = Replied r) \<and> g' = no_guards" if "\<nexists>s. guarded_claims E (cs', g', w') s"
  proof
    show replied: "\<forall>c \<in> set cs'. \<exists>r. snd c = Replied r"
      using guarded_claims_proceed [OF ok] that by (metis prod.collapse)
    have z: "claims_total f cs' = 0" if "\<And>r. f (Replied r) = 0" for f :: "claim_at \<Rightarrow> nat"
      using that replied by (fastforce simp: claims_total_def)
    have "claims_total reading cs' = 0" "claims_total writing cs' = 0" "claims_total granting cs' = 0" by (rule z; simp)+
    then show "g' = no_guards" using ok by (cases g') (auto simp: guards_ok_def no_guards_def)
  qed
  have "claims_total writing cs' \<le> 1 \<and> (claims_total writing cs' = 1 \<longrightarrow> claims_total reading cs' = 0)"
    using ok by (cases "gd_stats_writer g'") (auto simp: guards_ok_def)
  with r stop show ?thesis by simp
qed

text \<open>A claim that has not passed the check on a claimed runtime never changes anything.\<close>

definition waiting :: "claim_phase \<Rightarrow> bool" where
  "waiting ph \<longleftrightarrow> ph = Arrived \<or> ph = Answered already_claimed_reply"

lemma claims_refused:
  assumes "claims_run E (cs, w) (cs', w')" and "st_owners (rt_stats w) \<noteq> []" and "\<forall>c \<in> set cs. waiting (snd c)"
  shows "w' = w \<and> (\<forall>c \<in> set cs'. waiting (snd c))"
  using assms(1)
proof (induction "(cs', w')" arbitrary: cs' w' rule: rtranclp_induct)
  case base
  then show ?case using assms(3) by simp
next
  case (step y)
  obtain cs1 w1 where y: "y = (cs1, w1)" by (cases y)
  then have IH: "w1 = w" "\<forall>c \<in> set cs1. waiting (snd c)" using step(3) by blast+
  from step(2) y obtain i own ph ph' where s: "i < length cs1" "cs1 ! i = (own, ph)"
    "claim_step E own ph w1 = (ph', w')" "cs' = cs1[i := (own, ph')]" by (auto elim: claims_stepE)
  have "waiting ph" using IH(2) s(1,2) by (metis nth_mem snd_conv)
  then have "w' = w1 \<and> waiting ph'" using s(3) assms(2) IH(1) by (auto simp: waiting_def)
  then show ?case using IH s(4) by (auto dest!: set_update_subset_insert [THEN subsetD])
qed

lemma outside_out [simp]: "outside_only w (w\<lparr>rt_io := (rt_io w)\<lparr>io_out := x\<rparr>\<rparr>)"
  by (auto simp: outside_only_def)

text \<open>No request to the status server changes the runtime, save a claim of an unclaimed one.\<close>

lemma status_pages_read_only:
  assumes "serve_route to_yaml E route own w = (r, w')" and "route \<noteq> Claim \<or> st_owners (rt_stats w) \<noteq> []"
  shows "outside_only w w'"
proof (cases route)
  case Claim
  then show ?thesis using assms handle_claim_refused [of w E own] by (simp add: serve_route_def)
next
  case Index
  then show ?thesis using assms(1)
    by (auto simp: serve_route_def handle_index_def now_unix_secs_def now_secs_def and_then_def zoom_def outside_out split: prod.splits)
next
  case Status_json
  then show ?thesis using assms(1)
    by (auto simp: serve_route_def handle_status_json_def now_unix_secs_def now_secs_def and_then_def zoom_def outside_out split: prod.splits)
next
  case Bootstrap_yaml
  then show ?thesis using assms(1)
    by (auto simp: serve_route_def handle_bootstrap_yaml_def and_then_def attempt_def zoom_def outside_out
        split: prod.splits option.splits)
qed

section \<open>What the index page shows\<close>

lemma sublist_join: "x \<in> set xs \<Longrightarrow> sublist x (join_with sep xs)"
proof (induction sep xs rule: join_with.induct)
  case (3 sep y z zs)
  then show ?case
    by (auto simp: sublist_append simp del: append_assoc)
qed auto

lemma sublist_wrapped: "sublist s (a @ name @ b @ s @ c)"
  by (metis append.assoc sublist_appendI)

text \<open>C40: the owner is shown as it was claimed. Whatever text a claim on an unclaimed runtime names as
  the owner (it is neither checked to be an identity nor escaped), the index page from then on
  contains that text verbatim, markup included.\<close>

theorem claimed_owner_shown_verbatim:
  assumes "st_owners (rt_stats w) = []" and "handle_claim E own w = (r, w')" and "handle_index E w' = (Inr page, w'')"
  shows "sublist own page"
proof -
  obtain w1 where "handle_claim E own w = (Inr (claimed_reply [own]), w1)" "outside_only (owned [own] w) w1"
    using handle_claim_granted [OF assms(1)] .
  with assms(2) have "st_owners (rt_stats w') = [own]"
    using outside_only_simps(3) [of "owned [own] w" w'] by (simp add: owned_def)
  moreover obtain now io where "handle_index E w' = (Inr (index_html (rt_stats w') now), w'\<lparr>rt_io := io\<rparr>)"
    using assms(3) by (auto simp: handle_index_def and_then_ok now_unix_secs_def zoom_def split: prod.splits)
  ultimately have "page = index_html (rt_stats w') now" "owner_html (st_owners (rt_stats w')) = own"
    using assms(3) by (simp_all add: owner_html_def)
  moreover have "sublist (ROW ''Owner'' own) page"
    unfolding calculation(1) index_html_def calculation(2) by (rule sublist_join) simp
  moreover have "sublist own (ROW ''Owner'' own)"
    unfolding ROW_def by (rule sublist_wrapped)
  ultimately show ?thesis by (blast intro: sublist_order.order_trans)
qed

section \<open>A claim does not last\<close>

text \<open>Reading and writing configuration files leaves the block store alone.\<close>

definition files_apart :: "('x, 'p) env \<Rightarrow> ('x \<Rightarrow> string \<Rightarrow> json option) \<Rightarrow> bool" where
  "files_apart E blocks \<longleftrightarrow> (\<forall>cfg x. blocks (snd (config_save E cfg x)) = blocks x) \<and>
     (\<forall>p x. blocks (snd (read_to_string E p x)) = blocks x)"

definition blocks_are :: "('x \<Rightarrow> string \<Rightarrow> json option) \<Rightarrow> (string \<Rightarrow> json option) \<Rightarrow> 'x \<Rightarrow> bool" where
  "blocks_are blocks B x \<longleftrightarrow> blocks x = B"

lemma persist_owners_blocks:
  assumes "files_apart E blocks"
  shows "keeps (blocks_are blocks B) (persist_owners_to_config E path owners)"
proof -
  have "keeps (blocks_are blocks B) (\<lambda>x. (if path_exists E path x then read_to_string E path else ret []) x)"
    using assms by (auto intro!: keepsI simp: files_apart_def blocks_are_def)
  moreover have "keeps (blocks_are blocks B) (config_save E cfg)" for cfg
    using assms by (auto intro!: keepsI simp: files_apart_def blocks_are_def)
  ultimately show ?thesis unfolding persist_owners_to_config_def Let_def by (intro keeps_and_then keeps_ok_or)
qed

lemma persist_claim_blocks:
  assumes "files_apart E blocks"
  shows "blocks (io_out (rt_io (snd (persist_claim E path owners w)))) = blocks (io_out (rt_io w))"
proof (cases path)
  case (Some p)
  let ?x = "io_out (rt_io w)"
  have "blocks (snd (persist_owners_to_config E p owners ?x)) = blocks ?x"
    using keepsD [OF persist_owners_blocks [OF assms, of "blocks ?x" p owners], of ?x] by (simp add: blocks_are_def)
  then show ?thesis using Some
    by (auto simp: persist_claim_def and_then_def attempt_def zoom_def split: prod.splits)
qed (simp add: persist_claim_def)

lemma handle_claim_blocks:
  assumes "files_apart E blocks"
  shows "blocks (io_out (rt_io (snd (handle_claim E own w)))) = blocks (io_out (rt_io w))"
proof (cases "st_owners (rt_stats w) = []")
  case True
  let ?w = "snd (grant_owners_in_acl [own] (snd (set_owners [own] w)))"
  have "snd (handle_claim E own w) = snd (persist_claim E (st_config_path (rt_stats w)) [own] ?w)"
    using True by (auto simp: handle_claim_def Let_def set_owners_def grant_owners_in_acl_def and_then_def
        split: prod.splits sum.splits)
  then show ?thesis using persist_claim_blocks [OF assms, of _ "[own]" ?w]
    by (simp add: set_owners_def grant_owners_in_acl_def)
qed (simp add: handle_claim_refused)

lemma minimal_manifest_ok: "manifest_ok (minimal_manifest acl owners)"
  by (simp add: minimal_manifest_def manifest_default_def manifest_ok_def hm_ok_def bt_ok_def)

text \<open>C33: a claim lasts until the next manifest edit. In a runtime started from the minimal manifest
  (which lists no owner), after a claim, any edit of the manifest that leaves its configuration alone,
  even one made by the new owner, empties the owner list again, and whoever claims next becomes the
  only owner.\<close>

theorem claim_lost:
  assumes "kubo_ok E blocks" and "files_apart E blocks" and "st_owners (rt_stats w) = []"
    and "holds_manifest blocks w (minimal_manifest acl [])"
    and "manifest_ok (f (minimal_manifest acl []))"
    and "mf_config (f (minimal_manifest acl [])) = mf_config (minimal_manifest acl [])"
  shows "\<exists>w1 new w2 w3. handle_claim E own w = (Inr (claimed_reply [own]), w1) \<and> st_owners (rt_stats w1) = [own] \<and>
    with_manifest_crud E ctx f w1 = (Inr new, w2) \<and> st_owners (rt_stats w2) = [] \<and>
    handle_claim E other w2 = (Inr (claimed_reply [other]), w3) \<and> st_owners (rt_stats w3) = [other]"
proof -
  let ?m = "minimal_manifest acl []"
  obtain w1 where 1: "handle_claim E own w = (Inr (claimed_reply [own]), w1)" "outside_only (owned [own] w) w1"
    using handle_claim_granted [OF assms(3)] .
  have o1: "rt_stats w1 = (rt_stats w)\<lparr>st_owners := [own]\<rparr>" using outside_only_simps(3) [OF 1(2)] by (simp add: owned_def)
  have "holds_manifest blocks w1 ?m"
    using assms(4) handle_claim_blocks [OF assms(2), of own w] 1(1) o1 by (simp add: holds_manifest_def)
  then obtain new w2 where 2: "with_manifest_crud E ctx f w1 = (Inr new, w2)"
    "rt_stats w2 = adopt_manifest new (f ?m) ((rt_stats w1)\<lparr>st_entity_names := map fst (rt_registry w1)\<rparr>)"
    using with_manifest_holds [where f = f, OF assms(1) _ assms(5)] by blast
  have o2: "st_owners (rt_stats w2) = []"
    unfolding 2(2) adopt_manifest_def assms(6) by (simp add: minimal_manifest_def Let_def)
  obtain w3 where 3: "handle_claim E other w2 = (Inr (claimed_reply [other]), w3)" "outside_only (owned [other] w2) w3"
    using handle_claim_granted [OF o2] .
  have "st_owners (rt_stats w3) = [other]" using outside_only_simps(3) [OF 3(2)] by (simp add: owned_def)
  with 1(1) o1 2(1) o2 3(1) show ?thesis by simp
qed

end
