(* ===== verification/Schedule_Facts.thy ===== *)
theory Schedule_Facts
  imports Schedule
begin

text \<open>
  What schedules mean: the durations that are accepted and their value, the delay of a one-shot job,
  random jobs that never end, and what a scheduled call cannot do.
\<close>

section \<open>Durations\<close>

text \<open>A duration is a sequence of decimal numbers, each followed by its unit.\<close>

definition unit_factor :: "char \<Rightarrow> nat option" where
  "unit_factor u = (if u = CHR ''s'' then Some 1 else if u = CHR ''m'' then Some 60
     else if u = CHR ''h'' then Some 3600 else if u = CHR ''d'' then Some 86400 else None)"

type_synonym segment = "string \<times> char"

definition segment_ok :: "segment \<Rightarrow> bool" where
  "segment_ok g \<longleftrightarrow> fst g \<noteq> [] \<and> list_all is_digit (fst g) \<and> dec_val (fst g) < 2 ^ 64 \<and> unit_factor (snd g) \<noteq> None"

definition segments_str :: "segment list \<Rightarrow> string" where
  "segments_str gs = concat (map (\<lambda>g. fst g @ [snd g]) gs)"

definition segments_secs :: "segment list \<Rightarrow> nat" where
  "segments_secs gs = sum_list (map (\<lambda>g. dec_val (fst g) * the (unit_factor (snd g))) gs)"

lemma segments_simps [simp]:
  "segments_str [] = []" "segments_secs [] = 0"
  "segments_str (g # gs) = fst g @ snd g # segments_str gs"
  "segments_secs (g # gs) = dec_val (fst g) * the (unit_factor (snd g)) + segments_secs gs"
  by (simp_all add: segments_str_def segments_secs_def)

lemma unit_not_digit: "unit_factor u \<noteq> None \<Longrightarrow> \<not> is_digit u"
  by (auto simp: unit_factor_def is_digit_def split: if_splits)

lemma unit_secs_factor: "unit_secs u n = map_option (\<lambda>k. n * word_of_nat k) (unit_factor u)"
  by (simp add: unit_secs_def unit_factor_def)

lemma digits_then_other:
  assumes "list_all is_digit a" and "list_all is_digit b" and "\<not> is_digit x" and "\<not> is_digit y"
  shows "a @ x # as = b @ y # bs \<longleftrightarrow> a = b \<and> x = y \<and> as = bs"
  using assms(1,2)
proof (induction a arbitrary: b)
  case Nil
  then show ?case using assms(3) by (cases b) auto
next
  case (Cons c a)
  then show ?case using assms(4) by (cases b) auto
qed

lemma digits_not_segments: "list_all is_digit buf \<Longrightarrow> list_all segment_ok gs \<Longrightarrow> buf = segments_str gs \<longleftrightarrow> buf = [] \<and> gs = []"
proof (cases gs)
  case (Cons g gs')
  assume "list_all is_digit buf" "list_all segment_ok gs"
  with Cons have "buf \<noteq> segments_str gs"
    using unit_not_digit [of "snd g"] by (auto simp: segment_ok_def)
  with Cons show ?thesis by simp
qed simp

lemma parse_u64_Some: "parse_u64 s = Some n \<longleftrightarrow> s \<noteq> [] \<and> dec_val s < 2 ^ 64 \<and> n = word_of_nat (dec_val s)"
  by (auto simp: parse_u64_def)

lemma duration_loop_segments:
  assumes "list_all is_digit buf"
  shows "duration_loop E s buf acc rest = Inr ([], t) \<longleftrightarrow>
    (\<exists>gs. list_all segment_ok gs \<and> buf @ rest = segments_str gs \<and> t = acc + word_of_nat (segments_secs gs))"
  using assms
proof (induction rest arbitrary: buf acc)
  case Nil
  have "(\<exists>gs. list_all segment_ok gs \<and> buf = segments_str gs \<and> t = acc + word_of_nat (segments_secs gs)) \<longleftrightarrow>
      buf = [] \<and> t = acc"
  proof
    assume "\<exists>gs. list_all segment_ok gs \<and> buf = segments_str gs \<and> t = acc + word_of_nat (segments_secs gs)"
    then obtain gs where "list_all segment_ok gs" "buf = segments_str gs" "t = acc + word_of_nat (segments_secs gs)" by blast
    with digits_not_segments [OF Nil] show "buf = [] \<and> t = acc" by fastforce
  qed (auto intro: exI [of _ "[]"])
  then show ?case by auto
next
  case (Cons ch rest)
  show ?case
  proof (cases "is_digit ch")
    case True
    then show ?thesis using Cons.prems Cons.IH [of "buf @ [ch]" acc] by simp
  next
    case False
    have r: "list_all segment_ok gs \<and> buf @ ch # rest = segments_str gs \<longleftrightarrow>
        (\<exists>gs'. gs = (buf, ch) # gs' \<and> segment_ok (buf, ch) \<and> list_all segment_ok gs' \<and> rest = segments_str gs')" for gs
    proof (cases gs)
      case (Cons g gs')
      have "buf @ ch # rest = fst g @ snd g # segments_str gs' \<longleftrightarrow> buf = fst g \<and> ch = snd g \<and> rest = segments_str gs'"
        if "segment_ok g"
        using that False unit_not_digit [of "snd g"]
        by (intro digits_then_other [OF \<open>list_all is_digit buf\<close>]) (simp_all add: segment_ok_def)
      then show ?thesis by (cases g) (auto simp: Cons)
    qed simp
    have "duration_loop E s buf acc (ch # rest) = Inr ([], t) \<longleftrightarrow>
        (\<exists>k. segment_ok (buf, ch) \<and> unit_factor ch = Some k \<and>
          duration_loop E s [] (acc + word_of_nat (dec_val buf) * word_of_nat k) rest = Inr ([], t))"
      using False Cons.prems
      by (auto simp: unit_secs_factor segment_ok_def parse_u64_Some split: option.splits)
        (auto simp: parse_u64_def split: if_splits)
    also have "\<dots> \<longleftrightarrow> (\<exists>gs'. segment_ok (buf, ch) \<and> list_all segment_ok gs' \<and> rest = segments_str gs' \<and>
        t = acc + word_of_nat (segments_secs ((buf, ch) # gs')))"
    proof (cases "segment_ok (buf, ch)")
      case True
      then obtain k where k: "unit_factor ch = Some k" by (auto simp: segment_ok_def)
      with True show ?thesis
        using Cons.IH [of "[]" "acc + word_of_nat (dec_val buf) * word_of_nat k"] by (simp add: add.assoc)
    qed simp
    also have "\<dots> \<longleftrightarrow> (\<exists>gs. list_all segment_ok gs \<and> buf @ ch # rest = segments_str gs \<and> t = acc + word_of_nat (segments_secs gs))"
      unfolding conj_assoc [symmetric] r by blast
    finally show ?thesis .
  qed
qed

text \<open>C17: the durations that are accepted, and their value. \<open>parse_duration\<close> returns \<open>t\<close> exactly for
  the texts that are a sequence of numbers (each below 2^64) with a unit, where \<open>t\<close> is their sum in
  seconds modulo 2^64 and \<open>t\<close> is not zero; so the empty text, \<open>0s\<close> and every sequence whose sum is a
  multiple of 2^64 are refused. The wrap-around itself is silent: a duration beyond the range of
  \<open>u64\<close> is otherwise not refused but taken for a shorter one.\<close>

theorem duration_accepts:
  "parse_duration E s = Inr t \<longleftrightarrow>
     t \<noteq> 0 \<and> (\<exists>gs. list_all segment_ok gs \<and> s = segments_str gs \<and> t = word_of_nat (segments_secs gs))"
proof -
  have "parse_duration E s = Inr t \<longleftrightarrow> t \<noteq> 0 \<and> duration_loop E s [] 0 s = Inr ([], t)"
    by (auto simp: parse_duration_def split: sum.splits prod.splits if_splits)
  then show ?thesis using duration_loop_segments [of "[]" E s 0 s t] by simp
qed

section \<open>Delays\<close>

text \<open>The delay of a one-shot job: the time that is left, or none when it is past, unless the
  difference leaves the range of \<open>i64\<close>, where it wraps: a time far in the past is then far away.\<close>

definition wrap_i64 :: "int \<Rightarrow> int" where
  "wrap_i64 d = (if d < - (2 ^ 63) then d + 2 ^ 64 else if 2 ^ 63 \<le> d then d - 2 ^ 64 else d)"

lemma wrap_i64_eq:
  assumes "- (2 ^ 64) \<le> d" and "d < 2 ^ 64"
  shows "signed_take_bit 63 d = wrap_i64 d"
proof -
  have e: "signed_take_bit 63 d = (d + 2 ^ 63) mod 2 ^ 64 - 2 ^ 63"
    by (simp add: signed_take_bit_eq_take_bit_shift take_bit_eq_mod)
  consider "d < - (2 ^ 63)" | "2 ^ 63 \<le> d" | "- (2 ^ 63) \<le> d" "d < 2 ^ 63" by linarith
  then show ?thesis
  proof cases
    case 1
    have "(d + 2 ^ 63) mod 2 ^ 64 = (d + 2 ^ 63 + 2 ^ 64) mod 2 ^ 64" by (metis mod_add_self2)
    also have "\<dots> = d + 2 ^ 63 + 2 ^ 64" using 1 assms by (intro mod_pos_pos_trivial) simp_all
    finally show ?thesis using 1 by (simp add: e wrap_i64_def)
  next
    case 2
    have "(d + 2 ^ 63) mod 2 ^ 64 = (d + 2 ^ 63 - 2 ^ 64) mod 2 ^ 64" by (metis minus_mod_self2)
    also have "\<dots> = d + 2 ^ 63 - 2 ^ 64" using 2 assms by (intro mod_pos_pos_trivial) simp_all
    finally show ?thesis using 2 by (simp add: e wrap_i64_def)
  next
    case 3
    then have "(d + 2 ^ 63) mod 2 ^ 64 = d + 2 ^ 63" by (intro mod_pos_pos_trivial) simp_all
    with 3 show ?thesis by (simp add: e wrap_i64_def)
  qed
qed

lemma at_delay_exact:
  "uint (at_delay_ms ts now) =
     max 0 (wrap_i64 (sint ts - sint now))"
proof -
  have b: "- (2 ^ 63) \<le> sint ts" "sint ts < 2 ^ 63" "- (2 ^ 63) \<le> sint now" "sint now < 2 ^ 63"
    using sint_greater_eq [of ts] sint_less [of ts] sint_greater_eq [of now] sint_less [of now] by simp_all
  have "sint (ts - now) = wrap_i64 (sint ts - sint now)"
    using b by (simp add: sint_word_ariths wrap_i64_eq)
  moreover have "uint (at_delay_ms ts now) = max 0 (sint (ts - now))"
    using sint_less [of "ts - now"] by (simp add: at_delay_ms_def uint_word_of_int max_def mod_pos_pos_trivial)
  ultimately show ?thesis by simp
qed

section \<open>Random jobs\<close>

text \<open>The documented range of the generator.\<close>

definition gen_in_range :: "('x, 'p) env \<Rightarrow> bool" where
  "gen_in_range E \<longleftrightarrow> (\<forall>lo hi x. lo < hi \<longrightarrow> lo \<le> fst (gen_range E lo hi x) \<and> fst (gen_range E lo hi x) < hi)"

lemma rand_delay_range:
  assumes "gen_in_range E"
  obtains d x' where "rand_delay E m x = (Inr d, x')" "1 \<le> d" "d \<le> max m 1"
proof -
  let ?M = "max m 1"
  have m1: "1 \<le> unat ?M" by (metis max.cobounded2 unat_1 word_le_nat_alt)
  obtain n x' where n: "gen_range E 1 (Suc (unat ?M)) x = (n, x')" by (rule prod.exhaust)
  have r: "1 \<le> n" "n < Suc (unat ?M)"
    using assms m1 n unfolding gen_in_range_def by (metis fst_conv le_imp_less_Suc)+
  then have "unat (word_of_nat n :: u64) = n" using unsigned_less [of ?M, where ?'a = nat] by (simp add: unat_of_nat)
  with r n show thesis
    by (intro that [of "word_of_nat n" x']) (simp_all add: rand_delay_def word_le_nat_alt)
qed

lemma save_pending_total: "\<exists>w'. save_pending E url name ep pending w = (Inr (), w')"
  by (auto simp: save_pending_def and_then_def attempt_def with_plugin_def split: option.splits prod.splits sum.splits)

lemma dispatch_scheduled_total: "\<exists>w'. dispatch_scheduled E ctx fragment i content w = (Inr (), w')"
proof (cases "map_of (rt_registry w) fragment")
  case (Some ep)
  then show ?thesis
    using save_pending_total [of E]
    by (auto simp: dispatch_scheduled_def and_then_def zoom_def attempt_def Let_def split: prod.splits sum.splits)
qed (simp add: dispatch_scheduled_def)

text \<open>A random job never ends. When it fires, whatever became of its entity (removed, trapped), it
  leaves the scheduler, provided that takes the job, with a new job for the same fragment and the
  same call, due in one second at least and \<open>max_secs\<close> (but not less than one) at most, that will do
  the same. The schedule of a removed entity goes on for ever.\<close>

lemma random_never_ends:
  assumes "gen_in_range E" and "\<And>n x. \<exists>i x'. sched_add E n x = (Inr i, x')" and "jb_again j = Some m"
  shows "\<exists>s' d. fire_job E ctx j s = (Inr (), s') \<and> 1 \<le> d \<and> d \<le> max m 1 \<and>
    sd_jobs s' = sd_jobs s @ [j\<lparr>jb_timing := Once_secs d\<rparr>]"
proof -
  obtain w1 where 1: "dispatch_scheduled E ctx (jb_fragment j) (jb_schedule_id j) (jb_content j) (sd_rt s) = (Inr (), w1)"
    using dispatch_scheduled_total by blast
  obtain d x2 where 2: "rand_delay E m (io_out (rt_io w1)) = (Inr d, x2)" "1 \<le> d" "d \<le> max m 1"
    using rand_delay_range [OF assms(1)] .
  let ?j = "\<lparr>jb_timing = Once_secs d, jb_fragment = jb_fragment j, jb_schedule_id = jb_schedule_id j,
    jb_content = jb_content j, jb_again = Some m\<rparr>"
  obtain i x3 where 3: "sched_add E (length (sd_jobs s)) x2 = (Inr i, x3)" using assms(2) by blast
  have "?j = j\<lparr>jb_timing := Once_secs d\<rparr>" using assms(3) by simp
  moreover have "\<exists>s'. fire_job E ctx j s = (Inr (), s') \<and> sd_jobs s' = sd_jobs s @ [?j]"
    using assms(3) by (simp add: fire_job_def and_then_def zoom_def 1 make_random_job_def 2(1) attempt_def add_job_def 3)
  ultimately show ?thesis using 2(2,3) by auto
qed

section \<open>What a scheduled call cannot do\<close>

lemma collect_clears:
  "collect out xt = (res, xt') \<Longrightarrow> xt_create xt' = [] \<and> xt_delete xt' = []"
  by (auto simp: collect_def)

text \<open>A plugin with no creation or deletion request left to be carried out.\<close>

definition no_requests :: "'p entity_plugin \<Rightarrow> bool" where
  "no_requests ep \<longleftrightarrow> (case ep_backend ep of Native _ \<Rightarrow> True | Extism xt \<Rightarrow> xt_create xt = [] \<and> xt_delete xt = [])"

lemma dispatch_to_no_requests: "dispatch_to E export inp (ep, io) = (Inr res, (ep', io')) \<Longrightarrow> no_requests ep'"
  by (auto simp: dispatch_to_def no_requests_def dest!: collect_clears
      split: entity_backend.splits prod.splits sum.splits)

lemma mark_saved_no_requests: "no_requests ep \<Longrightarrow> no_requests (mark_saved b ep)"
  by (auto simp: mark_saved_def no_requests_def split: entity_backend.splits)

definition call_of :: "('x, 'p) env \<Rightarrow> 'p entity_plugin \<Rightarrow> cast_input \<Rightarrow> (('x, 'p) plug, dispatch_result) act" where
  "call_of E ep inp = (case ep_kind ep of Stateless \<Rightarrow> handle_cast E inp | Stateful \<Rightarrow> handle_call E inp)"

lemma call_of_no_requests: "call_of E ep0 inp (ep, io) = (Inr res, (ep', io')) \<Longrightarrow> no_requests ep'"
  by (auto simp: call_of_def handle_cast_def handle_call_def split: plugin_kind.splits dest: dispatch_to_no_requests)

lemma save_pending_rest:
  assumes "map_of (rt_registry w) name = Some p" and "save_pending E url name ep pending w = (r, w')"
  shows "rt_stats w' = rt_stats w \<and> map fst (rt_registry w') = map fst (rt_registry w) \<and>
    (no_requests p \<longrightarrow> (\<exists>p'. map_of (rt_registry w') name = Some p' \<and> no_requests p'))"
  using assms
  by (auto simp: save_pending_def and_then_def attempt_def zoom_def with_plugin_def current_def mark_saved_no_requests
      split: option.splits prod.splits sum.splits)

text \<open>A scheduled call creates and deletes nothing. It never fails as a whole, changes neither the
  statistics (so not the root) nor the set of registered entities, and the requests a successful
  call left in the plugin's queues are taken out of them and dropped, where the same call made by a
  message would have carried them out.\<close>

lemma scheduled_requests_dropped:
  assumes "map_of (rt_registry w) fragment = Some ep" and "\<And>inp io. \<exists>res p. call_of E ep inp (ep, io) = (Inr res, p)"
  shows "\<exists>w' ep'. dispatch_scheduled E ctx fragment i content w = (Inr (), w') \<and> rt_stats w' = rt_stats w \<and>
    map fst (rt_registry w') = map fst (rt_registry w) \<and> map_of (rt_registry w') fragment = Some ep' \<and> no_requests ep'"
proof -
  obtain n x1 where 1: "now_nanos E (io_out (rt_io w)) = (n, x1)" by (rule prod.exhaust)
  let ?w1 = "w\<lparr>rt_io := (rt_io w)\<lparr>io_out := x1\<rparr>\<rparr>"
  let ?inp = "\<lparr>ci_msg = scheduled_message E ctx fragment content (as_nanos_u64 n)\<rparr>"
  obtain res ep1 io1 where 2: "call_of E ep ?inp (ep, rt_io ?w1) = (Inr res, (ep1, io1))"
    using assms(2) by (metis surj_pair)
  let ?w2 = "put_plugin fragment ep1 (?w1\<lparr>rt_io := io1\<rparr>)"
  obtain w' where w': "save_pending E (sx_kubo_rpc_url ctx) fragment ep (dr_pending_state res) ?w2 = (Inr (), w')"
    using save_pending_total by blast
  have d: "dispatch_scheduled E ctx fragment i content w = (Inr (), w')"
    using assms(1) 1 2 w'
    by (simp add: dispatch_scheduled_def and_then_def zoom_def Let_def attempt_def with_plugin_def current_def call_of_def)
  have "map_of (rt_registry ?w2) fragment = Some ep1" using assms(1) by simp
  from save_pending_rest [OF this w'] call_of_no_requests [OF 2] d show ?thesis by auto
qed

end
