(* ===== verification/Daemon_Facts.thy ===== *)
theory Daemon_Facts
  imports Daemon_Frame Status_Facts Schedule_Facts
begin

text \<open>
  The reachable states of the daemon and what holds in all of them: nothing ever fills the registry of
  kinds, the registry of entities stays well keyed, the runtime stays who it is. Then what start-up
  leaves, and the guarantees of the publisher and of the event loop.
\<close>

section \<open>Reachable states\<close>

text \<open>
  What can happen to a running daemon: a tick of the loop that ends, a job of the scheduler that fires,
  a task of the scheduler entity that registers one, a claim, and what the relation \<open>R\<close> allows in the
  world outside (in which the publisher and the status pages only act).
\<close>

inductive daemon_step :: "('x, 'p) env \<Rightarrow> ('x \<Rightarrow> 'x \<Rightarrow> bool) \<Rightarrow> string \<Rightarrow> ('x, 'p) runtime \<Rightarrow> ('x, 'p) runtime \<Rightarrow> bool" for E R our_did where
  ticks: "tick E our_did ib w = Some (r, w') \<Longrightarrow> daemon_step E R our_did w w'"
| fires: "fire_job E ctx j \<lparr>sd_rt = w, sd_jobs = jobs\<rparr> = (r2, s) \<Longrightarrow> daemon_step E R our_did w (sd_rt s)"
| registers: "run_spawned E \<lparr>sd_rt = w, sd_jobs = jobs\<rparr> = (r4, s) \<Longrightarrow> daemon_step E R our_did w (sd_rt s)"
| claims: "handle_claim E own w = (r3, w') \<Longrightarrow> daemon_step E R our_did w w'"
| outside: "R (here w) x \<Longrightarrow> daemon_step E R our_did w (w\<lparr>rt_io := (rt_io w)\<lparr>io_out := x\<rparr>\<rparr>)"

inductive_cases daemon_stepE: "daemon_step E R our_did w w'"

text \<open>The states a started daemon reaches, whatever the world outside does.\<close>

inductive reachable :: "(cbor \<Rightarrow> string) \<Rightarrow> ('x, 'p) env \<Rightarrow> startup_args \<Rightarrow> ('x, 'p) runtime \<Rightarrow> bool" for dbg E args where
  started: "startup dbg E args (empty_runtime x config) = (Inr (), w) \<Longrightarrow> reachable dbg E args w"
| stepped: "reachable dbg E args w \<Longrightarrow> daemon_step E (\<lambda>_ _. True) (sa_our_did args) w w' \<Longrightarrow> reachable dbg E args w'"

text \<open>A frame predicate that start-up establishes holds in every reachable state.\<close>

context crud_frame
begin

lemma step: "daemon_step E R our_did w w' \<Longrightarrow> P w \<Longrightarrow> P w'"
proof (erule daemon_stepE)
  fix ib r assume "P w" "tick E our_did ib w = Some (r, w')"
  then show "P w'" using keeps_pD [OF tick] by blast
next
  fix ctx j jobs r s assume w: "P w" and e: "fire_job E ctx j \<lparr>sd_rt = w, sd_jobs = jobs\<rparr> = (r, s)" "w' = sd_rt s"
  have "P (sd_rt (snd (fire_job E ctx j \<lparr>sd_rt = w, sd_jobs = jobs\<rparr>)))" by (rule keepsD [OF fired]) (simp add: w)
  then show "P w'" using e by simp
next
  fix jobs r s assume w: "P w" and e: "run_spawned E \<lparr>sd_rt = w, sd_jobs = jobs\<rparr> = (r, s)" "w' = sd_rt s"
  have "P (sd_rt (snd (run_spawned E \<lparr>sd_rt = w, sd_jobs = jobs\<rparr>)))" by (rule keepsD [OF spawned]) (simp add: w)
  then show "P w'" using e by simp
next
  fix own r assume "P w" "handle_claim E own w = (r, w')"
  then show "P w'" using keepsD [OF claim] by (metis snd_conv)
next
  fix x assume "P w" "R (here w) x" "w' = w\<lparr>rt_io := (rt_io w)\<lparr>io_out := x\<rparr>\<rparr>"
  then show "P w'" by (auto elim: edited)
qed

lemma steps: "(daemon_step E R our_did)\<^sup>*\<^sup>* w w' \<Longrightarrow> P w \<Longrightarrow> P w'"
  by (induction rule: rtranclp_induct) (auto intro: step)

end

context frame
begin

lemma manages: "crud_frame E R P"
  by (rule crud_frame_axioms)

end

lemma reachable_frame:
  assumes P: "frame E (\<lambda>_ _. True) P"
    and "\<And>x config w. startup dbg E args (empty_runtime x config) = (Inr (), w) \<Longrightarrow> P w"
    and "reachable dbg E args w"
  shows "P w"
  using assms(3) by induction (auto intro: assms(2) crud_frame.step [OF frame.manages [OF P]])

lemma started_frame:
  assumes "start_frame E R P" and "P (empty_runtime x config)"
    and "startup dbg E args (empty_runtime x config) = (Inr (), w)"
  shows "P w"
  using keepsD [OF start_frame.startup [OF assms(1)] assms(2), of dbg args] by (simp add: assms(3))

lemma reachable_start_frame:
  assumes "start_frame E (\<lambda>_ _. True) P" and "\<And>x config. P (empty_runtime x config)" and "reachable dbg E args w"
  shows "P w"
  by (rule reachable_frame [OF start_frame.axioms(1) [OF assms(1)] _ assms(3)]) (rule started_frame [OF assms(1,2)])

definition no_kinds :: "('x, 'p) runtime \<Rightarrow> bool" where
  "no_kinds w \<longleftrightarrow> rt_kinds w = []"

definition keyed :: "('x, 'p) runtime \<Rightarrow> bool" where
  "keyed w \<longleftrightarrow> well_keyed (rt_registry w)"

definition fixed_config :: "config \<Rightarrow> ('x, 'p) runtime \<Rightarrow> bool" where
  "fixed_config c w \<longleftrightarrow> fixed_of (rt_config w) = fixed_of c"

interpretation kinds: start_frame E "\<lambda>_ _. True" no_kinds for E
  by unfold_locales (simp_all add: no_kinds_def evolves_def)

interpretation keyed: start_frame E "\<lambda>_ _. True" keyed for E
  by unfold_locales (simp_all add: keyed_def evolves_def)

interpretation config: start_frame E "\<lambda>_ _. True" "fixed_config c" for E c
  by unfold_locales (simp_all add: fixed_config_def evolves_def)

lemma reachable_no_kinds: "reachable dbg E args w \<Longrightarrow> rt_kinds w = []"
  using reachable_start_frame [OF kinds.start_frame_axioms, of dbg E args w] by (simp add: no_kinds_def empty_runtime_def)

text \<open>C37: no plugin ever creates an entity. In every state a started daemon can reach, through any
  messages, scheduled calls and claims, the registry of kinds is empty (nothing in the program fills
  it), so every creation request of a plugin is dropped without a trace, whatever kind it names.\<close>

theorem no_entity_ever_created:
  assumes "reachable dbg E args w"
  shows "rt_kinds w = [] \<and> create_one E ctx entity req w = Some (Inr (), w)"
  using reachable_no_kinds [OF assms] by (simp add: create_one_def)

section \<open>Who may manage\<close>

definition managed_as :: "('x, 'p) runtime \<Rightarrow> ('x, 'p) runtime \<Rightarrow> bool" where
  "managed_as w0 w \<longleftrightarrow> managed w = managed w0"

interpretation unmanaged: message_frame E "\<lambda>_ _. True" "managed_as w0" for E w0
  by unfold_locales (simp add: managed_as_def serves_def)

lemma managed_parts:
  assumes "managed w' = managed w"
  shows "st_root_cid (rt_stats w') = st_root_cid (rt_stats w)" "st_owners (rt_stats w') = st_owners (rt_stats w)"
    "st_entity_names (rt_stats w') = st_entity_names (rt_stats w)" "rt_root_acl w' = rt_root_acl w"
    "rt_acl_cache w' = rt_acl_cache w" "rt_kinds w' = rt_kinds w" "rt_config w' = rt_config w" "rt_i18n w' = rt_i18n w"
proof -
  from assms have m: "(rt_stats w')\<lparr>st_rpc_requests := 0, st_ipfs_requests := 0\<rparr> = (rt_stats w)\<lparr>st_rpc_requests := 0, st_ipfs_requests := 0\<rparr>"
    "rt_root_acl w' = rt_root_acl w" "rt_acl_cache w' = rt_acl_cache w" "rt_kinds w' = rt_kinds w" "rt_config w' = rt_config w"
    "rt_i18n w' = rt_i18n w"
    by (simp_all add: managed_def)
  from arg_cong [OF m(1), of st_root_cid] arg_cong [OF m(1), of st_owners] arg_cong [OF m(1), of st_entity_names] m(2-6)
  show "st_root_cid (rt_stats w') = st_root_cid (rt_stats w)" "st_owners (rt_stats w') = st_owners (rt_stats w)"
    "st_entity_names (rt_stats w') = st_entity_names (rt_stats w)" "rt_root_acl w' = rt_root_acl w"
    "rt_acl_cache w' = rt_acl_cache w" "rt_kinds w' = rt_kinds w" "rt_config w' = rt_config w" "rt_i18n w' = rt_i18n w"
    by simp_all
qed

text \<open>The senders the management gate lets in: owners, and who holds the capability and is not denied.\<close>

definition may_manage :: "('x, 'p) env \<Rightarrow> ('x, 'p) runtime \<Rightarrow> string \<Rightarrow> bool" where
  "may_manage E w sender \<longleftrightarrow> is_owner E (st_owners (rt_stats w)) sender \<or>
     map_of (rt_root_acl w) (normalize_principal E sender) \<noteq> Some Deny \<and> map_of (rt_root_acl w) ''*'' \<noteq> Some Deny \<and>
     check_cap E (rt_root_acl w) sender CAP_CRUD"

lemma refused_crud:
  assumes "\<not> may_manage E w (msg_from msg)"
  shows "serve_crud E our_did url msg w = (Inr (), w)"
proof -
  have "fst (crud_gate E (rt_root_acl w) (msg_from msg) w) \<noteq> Inr ()"
    using assms by (simp add: crud.passes_iff may_manage_def)
  from crud.refuses [OF this] obtain e where "crud_gate E (rt_root_acl w) (msg_from msg) w = (Inl e, w)" by (elim exE)
  then show ?thesis by (simp add: serve_crud_def handle_crud_message_def and_then_def attempt_def gets_def)
qed

lemma refused_keeps:
  assumes "\<not> may_manage E w0 (msg_from msg)"
  shows "keeps (managed_as w0) (serve_crud E our_did url msg)"
proof (rule keepsI)
  fix w assume w: "managed_as w0 w"
  then have "may_manage E w = may_manage E w0"
    using managed_parts [of w w0] by (simp add: managed_as_def may_manage_def fun_eq_iff)
  with w assms show "managed_as w0 (snd (serve_crud E our_did url msg w))" by (simp add: refused_crud)
qed

lemma refused_tick:
  assumes "\<forall>msg \<in> set (in_crud ib). \<not> may_manage E w0 (msg_from msg)"
  shows "keeps_p (managed_as w0) (tick E our_did ib)"
  unfolding tick_def Let_def
  by (rule keeps_p_fun) (use assms in \<open>intro keeps_p_then keeps_p_live keeps_p_for_each keeps_for_each unmanaged.serve_rpc
      unmanaged.serve_ipfs unmanaged.drain refused_keeps, auto\<close>)

text \<open>C2: only those who may manage change what is managed. Take any number of ticks in which every
  management message comes from a sender who, at the start, is no owner and does not hold the \<open>crud\<close>
  capability (or is denied). Whatever else arrives, from whomever, and whatever the plugins it reaches
  do, afterwards the root, the owners, the known entity names, the root list, the cached lists, the
  registry of kinds, the configuration and the language are what they were.\<close>

theorem only_managers_manage:
  assumes "\<forall>ib \<in> set ibs. \<forall>msg \<in> set (in_crud ib). \<not> may_manage E w (msg_from msg)"
    and "for_each_p (tick E our_did) ibs w = Some (r, w')"
  shows "st_root_cid (rt_stats w') = st_root_cid (rt_stats w) \<and> st_owners (rt_stats w') = st_owners (rt_stats w) \<and>
    st_entity_names (rt_stats w') = st_entity_names (rt_stats w) \<and> rt_root_acl w' = rt_root_acl w \<and>
    rt_acl_cache w' = rt_acl_cache w \<and> rt_kinds w' = rt_kinds w \<and> rt_config w' = rt_config w \<and> rt_i18n w' = rt_i18n w"
proof -
  have k: "keeps_p (managed_as w) (for_each_p (tick E our_did) ibs)"
    using assms(1) by (intro keeps_p_for_each refused_tick) blast
  have "managed w' = managed w"
    using keeps_pD [where P = "managed_as w", OF k _ assms(2)] by (simp add: managed_as_def)
  then show ?thesis by (intro conjI; elim managed_parts)
qed

text \<open>Management goes through the management service alone. When the configuration turns the CRUD
  service off, no run of the event loop, whatever messages arrive from whomever and whatever the
  plugins they reach do, changes the root, the owners, the known entity names, the root list, the
  cached lists, the registry of kinds or the configuration.\<close>

lemma crud_off_protects:
  assumes "\<not> get_bool_setting config ''crud_service'' True"
    and "for_each_p (\<lambda>ib. tick E our_did (enabled_inboxes config ib)) ibs w = Some (r, w')"
  shows "st_root_cid (rt_stats w') = st_root_cid (rt_stats w) \<and> st_owners (rt_stats w') = st_owners (rt_stats w) \<and>
    st_entity_names (rt_stats w') = st_entity_names (rt_stats w) \<and> rt_root_acl w' = rt_root_acl w \<and>
    rt_acl_cache w' = rt_acl_cache w \<and> rt_kinds w' = rt_kinds w \<and> rt_config w' = rt_config w"
proof -
  have k: "keeps_p (managed_as w) (for_each_p (\<lambda>ib. tick E our_did (enabled_inboxes config ib)) ibs)"
    using assms(1) by (intro keeps_p_for_each) (auto simp: enabled_inboxes_def intro: unmanaged.messages)
  have "managed w' = managed w"
    using keeps_pD [where P = "managed_as w", OF k _ assms(2)] by (simp add: managed_as_def)
  then show ?thesis by (intro conjI; elim managed_parts)
qed

section \<open>Start-up\<close>

lemma owner_grants_look:
  "map_of (owner_grants owners acl) k = (if k \<in> set owners then Some (Allow [''*'']) else map_of acl k)"
  unfolding owner_grants_def by (induction owners arbitrary: acl) auto

lemma resolve_owners_fold:
  "set (fold (\<lambda>own owners. if own \<in> set owners then owners else owners @ [own]) cli os) = set os \<union> set cli \<and>
   (distinct os \<longrightarrow> distinct (fold (\<lambda>own owners. if own \<in> set owners then owners else owners @ [own]) cli os))"
  by (induction cli arbitrary: os) auto

lemma load_acls_registry: "keeps (registry_is R) (load_acls E url rc)"
proof -
  have m: "keeps (registry_is R) (modify f)" if "\<And>w. rt_registry (f w) = rt_registry w" for f
    using that by (intro keeps_modify) (simp add: registry_is_def)
  have z: "keeps (registry_is R) (on_io m)" for m
    by (intro keeps_zoom) (simp add: registry_is_def)
  show ?thesis unfolding load_acls_def load_named_acl_def
    by (auto intro!: keeps_and_then keeps_attempt keeps_fold_act m z split: option.split sum.split)
qed

text \<open>Actions that never fail.\<close>

definition succeeds :: "('w, 'a) act \<Rightarrow> bool" where
  "succeeds m \<longleftrightarrow> (\<forall>w. \<exists>a w'. m w = (Inr a, w'))"

lemma succeeds_simple [simp, intro]: "succeeds (ret a)" "succeeds (gets g)" "succeeds (modify h)" "succeeds (attempt m)"
  "succeeds (Pair (Inr a))"
  by (auto simp: succeeds_def attempt_def split: prod.split)

lemma succeeds_and_then [intro]: "succeeds m \<Longrightarrow> (\<And>a. succeeds (f a)) \<Longrightarrow> succeeds (and_then m f)"
  unfolding succeeds_def and_then_def by (metis (no_types, lifting) case_prod_conv sum.case(2))

lemma succeeds_zoom [intro]: "succeeds m \<Longrightarrow> succeeds (zoom g p m)"
  unfolding succeeds_def zoom_def by (metis (no_types, lifting) case_prod_conv)

lemma succeeds_fold_act: "(\<And>x s. succeeds (f x s)) \<Longrightarrow> succeeds (fold_act f xs s)"
  by (induction xs arbitrary: s) auto

lemma succeedsE: "succeeds m \<Longrightarrow> \<exists>a w'. m w = (Inr a, w')"
  by (simp add: succeeds_def)

lemma succeeds_i18n: "succeeds (i18n_init E lang url lang_cid root)"
proof -
  have "succeeds (load_langs E url links all)" for links all
  proof (induction links arbitrary: all)
    case (Cons l links)
    then show ?case by (cases l) (auto simp: fetch_ftl_def intro!: succeeds_and_then)
  qed simp
  then show ?thesis
    unfolding i18n_init_def load_all_messages_def fetch_lang_map_def
    by (auto intro!: succeeds_and_then split: option.split sum.split)
qed

lemma succeeds_startup_parts:
  "succeeds (startup_lang E url base root)" "succeeds (load_entities E rc url did)" "succeeds (load_acls E url rc)"
  "succeeds (now_unix_secs E)"
  unfolding startup_lang_def load_entities_def load_entity_def load_acls_def load_named_acl_def now_unix_secs_def resolve_active_lang_def
  by (auto intro!: succeeds_and_then succeeds_fold_act succeeds_zoom split: option.split sum.split)
    (auto simp: succeeds_def now_secs_def zoom_def split: prod.split)

text \<open>What remains of start-up once the root is known.\<close>

definition startup_from :: "(cbor \<Rightarrow> string) \<Rightarrow> ('x, 'p) env \<Rightarrow> startup_args \<Rightarrow> config \<Rightarrow> string option \<Rightarrow> ('x, 'p, unit) rt_act" where
  "startup_from dbg E args config root_cid =
     and_then (on_out (startup_lang E (cf_kubo_rpc_url config) (sa_lang args) root_cid)) (\<lambda>lang.
     and_then (on_out (i18n_init E lang (cf_kubo_rpc_url config) (sa_lang_cid args) root_cid)) (\<lambda>i18n.
     and_then (modify (\<lambda>w. w\<lparr>rt_i18n := i18n\<rparr>)) (\<lambda>_.
     and_then (if_root root_cid (\<lambda>rc. and_then (load_entities E rc (cf_kubo_rpc_url config) (sa_our_did args)) (\<lambda>_. ret ()))) (\<lambda>_.
     and_then (on_out (start_scheduler E)) (\<lambda>_.
     and_then (register_scheduler dbg E) (\<lambda>_.
     and_then (if_root root_cid (load_acls E (cf_kubo_rpc_url config))) (\<lambda>_.
     and_then (with_context ''failed to derive signing key'' (lift_res (sa_signing_key args))) (\<lambda>_.
     and_then (if resolve_owners config (sa_owner args) \<noteq> [] then grant_owners_in_acl (resolve_owners config (sa_owner args)) else ret ()) (\<lambda>_.
     and_then (now_unix_secs E) (\<lambda>now.
     and_then (modify (\<lambda>w. w\<lparr>rt_stats := startup_stats config (sa_our_did args) (sa_endpoint_id args) root_cid
       (resolve_owners config (sa_owner args)) (map fst (rt_registry w)) now\<rparr>)) (\<lambda>_.
     publisher_settings args config)))))))))))"

lemma startup_then:
  assumes "startup_root E (cf_kubo_rpc_url (rt_config w0)) (sa_root_cid args) (sa_runtime_ipns_id args) (io_out (rt_io w0)) = (Inr root, x)"
  shows "startup dbg E args w0 = startup_from dbg E args (rt_config w0) root (w0\<lparr>rt_io := (rt_io w0)\<lparr>io_out := x\<rparr>\<rparr>)"
  using assms by (simp add: startup_def startup_from_def Let_def and_then_Inr zoom_def)

lemma succeeds_if_root: "(\<And>rc. succeeds (f rc)) \<Longrightarrow> succeeds (if_root root f)"
  by (simp add: if_root_def split: option.split)

lemma succeeds_grant: "succeeds (if b then grant_owners_in_acl os else ret ())"
  by (simp add: grant_owners_in_acl_def)

lemma succeeds_register: "succeeds (register_scheduler dbg E)"
  by (simp add: register_scheduler_def)

text \<open>The errors of an action.\<close>

definition errs :: "(error \<Rightarrow> bool) \<Rightarrow> ('w, 'a) act \<Rightarrow> bool" where
  "errs Q m \<longleftrightarrow> (\<forall>w e w'. m w = (Inl e, w') \<longrightarrow> Q e)"

lemma errsD: "errs Q m \<Longrightarrow> m w = (Inl e, w') \<Longrightarrow> Q e"
  unfolding errs_def by blast

lemma errs_succeeds: "succeeds m \<Longrightarrow> errs Q m"
  unfolding succeeds_def errs_def by (metis Inl_Inr_False prod.inject)

lemma errs_none: "errs (\<lambda>_. False) m \<Longrightarrow> succeeds m"
  unfolding succeeds_def errs_def by (metis sum.exhaust surj_pair)

lemma errs_and_then: "errs Q m \<Longrightarrow> (\<And>a. errs Q (f a)) \<Longrightarrow> errs Q (and_then m f)"
  by (auto simp: errs_def and_then_def split: prod.splits sum.splits)

lemma errs_with_context: "errs (\<lambda>e. Q (Context s e)) m \<Longrightarrow> errs Q (with_context s m)"
  by (auto simp: errs_def with_context_def split: prod.splits sum.splits)

lemma errs_zoom: "errs Q m \<Longrightarrow> errs Q (zoom g p m)"
  by (auto simp: errs_def zoom_def split: prod.splits)

lemma errs_lift_res: "(\<And>e. r = Inl e \<Longrightarrow> Q e) \<Longrightarrow> errs Q (lift_res r)"
  by (simp add: errs_def)

lemma errs_ok_or: "(x = None \<Longrightarrow> Q e) \<Longrightarrow> errs Q (ok_or e x)"
  by (cases x) (auto simp: errs_def)

lemma errs_foreign: "(\<And>x e. fst (m x) = Inl e \<Longrightarrow> Q e) \<Longrightarrow> errs Q m"
  unfolding errs_def by (metis fst_conv)

text \<open>
  The errors start-up can end with once the root is known, in the order of the code: the scheduler
  cannot be made or started, the signing key cannot be derived, the path of the bundle cannot be had,
  or there is no passphrase for the periodic publisher.
\<close>

definition startup_error :: "('x, 'p) env \<Rightarrow> startup_args \<Rightarrow> config \<Rightarrow> error \<Rightarrow> bool" where
  "startup_error E args config e \<longleftrightarrow>
     (\<exists>x d. fst (sched_new E x) = Inl d \<and> e = Context ''creating job scheduler'' d) \<or>
     (\<exists>x d. fst (sched_start E x) = Inl d \<and> e = Context ''starting job scheduler'' d) \<or>
     (\<exists>d. sa_signing_key args = Inl d \<and> e = Context ''failed to derive signing key'' d) \<or>
     sa_secret_bundle args = Inl e \<or>
     (cf_secret_bundle_passphrase config = None \<and> e = Error ''secret_bundle_passphrase is required for periodic DID publish'')"

definition startable :: "('x, 'p) env \<Rightarrow> startup_args \<Rightarrow> config \<Rightarrow> bool" where
  "startable E args config \<longleftrightarrow>
     (\<forall>x. is_ok (fst (sched_new E x)) \<and> is_ok (fst (sched_start E x))) \<and>
     is_ok (sa_signing_key args) \<and> is_ok (sa_secret_bundle args) \<and> cf_secret_bundle_passphrase config \<noteq> None"

lemma is_ok_iff: "is_ok r \<longleftrightarrow> (\<forall>e. r \<noteq> Inl e)"
  by (cases r) simp_all

lemma startable_no_error: "startable E args config \<Longrightarrow> \<not> startup_error E args config e"
  by (auto simp: startable_def startup_error_def is_ok_iff)

lemma errs_scheduler: "errs (startup_error E args config) (start_scheduler E)"
  unfolding start_scheduler_def
  by (intro errs_and_then errs_with_context errs_foreign) (auto simp: startup_error_def)

lemma errs_signing:
  "errs (startup_error E args config) (with_context ''failed to derive signing key'' (lift_res (sa_signing_key args)))"
  by (intro errs_with_context errs_lift_res) (auto simp: startup_error_def)

lemma errs_publisher: "errs (startup_error E args config) (publisher_settings args config)"
  unfolding publisher_settings_def
  by (intro errs_and_then errs_lift_res errs_ok_or errs_succeeds [OF succeeds_simple(1)]) (auto simp: startup_error_def)

lemma errs_startup_from: "errs (startup_error E args config) (startup_from dbg E args config root)"
  unfolding startup_from_def
  apply (rule errs_and_then, rule errs_succeeds, rule succeeds_zoom, rule succeeds_zoom, rule succeeds_startup_parts)
  apply (rule errs_and_then, rule errs_succeeds, rule succeeds_zoom, rule succeeds_zoom, rule succeeds_i18n)
  apply (rule errs_and_then, rule errs_succeeds, rule succeeds_simple)
  apply (rule errs_and_then, rule errs_succeeds, rule succeeds_if_root, rule succeeds_and_then, rule succeeds_startup_parts,
      rule succeeds_simple)
  apply (rule errs_and_then, rule errs_zoom, rule errs_zoom, rule errs_scheduler)
  apply (rule errs_and_then, rule errs_succeeds, rule succeeds_register)
  apply (rule errs_and_then, rule errs_succeeds, rule succeeds_if_root, rule succeeds_startup_parts)
  apply (rule errs_and_then, rule errs_signing)
  apply (rule errs_and_then, rule errs_succeeds, rule succeeds_grant)
  apply (rule errs_and_then, rule errs_succeeds, rule succeeds_startup_parts)
  apply (rule errs_and_then, rule errs_succeeds, rule succeeds_simple)
  apply (rule errs_publisher)
  done

lemma succeeds_startup_from:
  assumes "startable E args config"
  shows "succeeds (startup_from dbg E args config root)"
  using errs_startup_from [of E args config dbg root] startable_no_error [OF assms]
  by (intro errs_none) (simp add: errs_def)

lemma startup_from_leaves:
  assumes "startup_from dbg E args config root w0 = (Inr (), w)"
  shows "map_of (rt_registry w) SCHEDULER_FRAGMENT = Some (scheduler_plugin dbg E) \<and>
    st_root_cid (rt_stats w) = root \<and>
    st_owners (rt_stats w) = resolve_owners config (sa_owner args) \<and>
    list_all (\<lambda>own. map_of (rt_root_acl w) own = Some (Allow [''*''])) (st_owners (rt_stats w)) \<and>
    st_entity_names (rt_stats w) = map fst (rt_registry w) \<and> st_rpc_requests (rt_stats w) = 0 \<and>
    is_ok (sa_signing_key args) \<and> is_ok (sa_secret_bundle args) \<and> cf_secret_bundle_passphrase config \<noteq> None"
proof -
  let ?os = "resolve_owners config (sa_owner args)"
  let ?grant = "if ?os \<noteq> [] then grant_owners_in_acl ?os else ret ()"
  from assms obtain w1 w2 w3 w3a w4 w5 w6 now a1 a2 a3 a4 a5 where
    1: "register_scheduler dbg E w1 = (Inr a1, w2)"
    and 2: "if_root root (load_acls E (cf_kubo_rpc_url config)) w2 = (Inr a2, w3)"
    and key: "with_context ''failed to derive signing key'' (lift_res (sa_signing_key args)) w3 = (Inr a4, w3a)"
    and 3: "?grant w3a = (Inr a3, w4)" and 4: "now_unix_secs E w4 = (Inr now, w5)"
    and 5: "modify (\<lambda>w. w\<lparr>rt_stats := startup_stats config (sa_our_did args)
        (sa_endpoint_id args) root ?os (map fst (rt_registry w)) now\<rparr>) w5 = (Inr a5, w6)"
    and 6: "publisher_settings args config w6 = (Inr (), w)"
    unfolding startup_from_def by (auto simp only: and_then_ok)
  have p: "is_ok (sa_signing_key args)" "w3a = w3" "is_ok (sa_secret_bundle args)" "cf_secret_bundle_passphrase config \<noteq> None" "w = w6"
    using key 6 by (auto simp: with_context_ok publisher_settings_def and_then_ok ok_or_def ret_def fail_def split: option.splits)
  have r2: "map_of (rt_registry w2) SCHEDULER_FRAGMENT = Some (scheduler_plugin dbg E)"
    using 1 by (auto simp: register_scheduler_def)
  have r3: "rt_registry w3 = rt_registry w2"
  proof (cases root)
    case (Some rc)
    then show ?thesis using 2 keepsD [OF load_acls_registry [of "rt_registry w2" E _ rc], of w2]
      by (simp add: if_root_def registry_is_def) (metis snd_conv)
  qed (use 2 in \<open>simp add: if_root_def\<close>)
  have g: "rt_registry w4 = rt_registry w3" "rt_root_acl w4 = owner_grants ?os (rt_root_acl w3)"
    using 3 p(2) by (auto simp: grant_owners_in_acl_def owner_grants_def split: if_splits)
  from 4 obtain io where "w5 = w4\<lparr>rt_io := io\<rparr>" by (auto simp: now_unix_secs_def zoom_def split: prod.splits)
  with 5 p(5) have "w = w4\<lparr>rt_io := io, rt_stats := startup_stats config (sa_our_did args)
      (sa_endpoint_id args) root ?os (map fst (rt_registry w4)) now\<rparr>" by simp
  with r2 r3 g p(1,3,4) show ?thesis by (simp add: startup_stats_def list_all_iff owner_grants_look)
qed

text \<open>C26: start-up. Once the root is determined (given, found under the runtime's name, or made) it can
  only end with one of five errors: the job scheduler cannot be made or cannot be started, the signing
  key cannot be derived, or the bundle's path or passphrase cannot be had for the periodic publisher;
  if none of these arises it succeeds, whatever documents cannot be fetched or read. When it succeeds
  the native scheduler is registered under its reserved name, whatever the manifest had there; the root
  is the one determined; the owners are those of the configuration and the command line together; each
  of them holds every capability in the live root list; and no message has been counted.\<close>

theorem startup_leaves:
  assumes "startup_root E (cf_kubo_rpc_url (rt_config w0)) (sa_root_cid args) (sa_runtime_ipns_id args) (io_out (rt_io w0)) = (Inr root, x)"
    and "startup dbg E args w0 = (r, w)"
  shows "(case r of
      Inl e \<Rightarrow> startup_error E args (rt_config w0) e
    | Inr _ \<Rightarrow>
        map_of (rt_registry w) SCHEDULER_FRAGMENT = Some (scheduler_plugin dbg E) \<and>
        st_root_cid (rt_stats w) = root \<and>
        st_owners (rt_stats w) = resolve_owners (rt_config w0) (sa_owner args) \<and>
        list_all (\<lambda>own. map_of (rt_root_acl w) own = Some (Allow [''*''])) (st_owners (rt_stats w)) \<and>
        st_entity_names (rt_stats w) = map fst (rt_registry w) \<and> st_rpc_requests (rt_stats w) = 0 \<and>
        is_ok (sa_signing_key args) \<and> is_ok (sa_secret_bundle args) \<and> cf_secret_bundle_passphrase (rt_config w0) \<noteq> None) \<and>
    (startable E args (rt_config w0) \<longrightarrow> r = Inr ())"
proof (cases r)
  case (Inl e)
  then have "startup_error E args (rt_config w0) e"
    using assms(2) [unfolded startup_then [OF assms(1)]] by (blast intro: errsD [OF errs_startup_from])
  then show ?thesis using Inl startable_no_error by auto
next
  case (Inr u)
  then show ?thesis
    using startup_from_leaves [of dbg E args "rt_config w0" root _ w, OF assms(2) [unfolded startup_then [OF assms(1)] Inr, simplified]] by auto
qed

lemma started_stats:
  assumes "startup dbg E args w0 = (Inr (), w)"
  shows "\<exists>root os names now. rt_stats w = startup_stats (rt_config w0) (sa_our_did args) (sa_endpoint_id args) root os names now"
proof -
  from assms obtain root x where
    root: "startup_root E (cf_kubo_rpc_url (rt_config w0)) (sa_root_cid args) (sa_runtime_ipns_id args) (io_out (rt_io w0)) = (Inr root, x)"
    unfolding startup_def Let_def by (auto simp only: and_then_ok) (auto simp: zoom_def split: prod.splits)
  from assms [unfolded startup_then [OF root]] show ?thesis
    unfolding startup_from_def
    by (auto simp only: and_then_ok) (auto simp: publisher_settings_def and_then_ok ok_or_def split: option.splits, blast)
qed

text \<open>The statistics and the configuration agree on who the runtime is.\<close>

definition self_known :: "startup_args \<Rightarrow> ('x, 'p) runtime \<Rightarrow> bool" where
  "self_known args w \<longleftrightarrow> st_our_did (rt_stats w) = sa_our_did args \<and> st_endpoint_id (rt_stats w) = sa_endpoint_id args \<and>
     st_config_path (rt_stats w) = cf_config_path (rt_config w) \<and>
     st_ipfs_publisher_enabled (rt_stats w) = get_bool_setting (rt_config w) ''ipfs_publisher'' True"

interpretation self: frame E "\<lambda>_ _. True" "self_known args" for E args
  by unfold_locales (simp add: self_known_def evolves_def self_of_def fixed_of_def get_bool_setting_def)

text \<open>C9: the state stays well formed. In every state the daemon can reach, through any messages, scheduled
  calls, registrations and claims, each entity is registered once and under its own fragment (so the
  envelopes it sends carry the name it is addressed by), the runtime is still who it was started as,
  and its statistics agree with the configuration on the configuration file and on whether the IPFS
  service runs, whatever was written to the configuration meanwhile.\<close>

theorem reachable_well_formed:
  assumes "reachable dbg E args w"
  shows "distinct (map fst (rt_registry w)) \<and>
    list_all (\<lambda>(name, ep). ep_fragment ep = name) (rt_registry w) \<and>
    st_our_did (rt_stats w) = sa_our_did args \<and> st_endpoint_id (rt_stats w) = sa_endpoint_id args \<and>
    st_config_path (rt_stats w) = cf_config_path (rt_config w) \<and>
    st_ipfs_publisher_enabled (rt_stats w) = get_bool_setting (rt_config w) ''ipfs_publisher'' True"
proof -
  have "keyed w"
    by (rule reachable_start_frame [OF keyed.start_frame_axioms _ assms]) (simp add: keyed_def empty_runtime_def)
  moreover have "self_known args w"
  proof (rule reachable_frame [OF self.frame_axioms _ assms])
    fix x config w assume s: "startup dbg E args (empty_runtime x config) = (Inr (), w)"
    then have "fixed_config config w"
      by (rule started_frame [OF config.start_frame_axioms, rotated]) (simp add: fixed_config_def empty_runtime_def)
    with started_stats [OF s] show "self_known args w"
      by (auto simp: self_known_def startup_stats_def fixed_config_def fixed_of_def get_bool_setting_def empty_runtime_def)
  qed
  ultimately show ?thesis by (simp add: keyed_def well_keyed_def self_known_def hm_ok_def)
qed

text \<open>The configuration a bootstrap publishes is always well formed, as the round trip needs.\<close>

lemma runtime_manifest_config_ok: "bt_ok (runtime_manifest_config cfg)"
  "\<forall>e \<in> set (runtime_manifest_config cfg). yaml_ok (snd e)"
proof -
  have ok: "bt_ok (fold (\<lambda>(k, v). bt_insert k v) xs m)" if "bt_ok m" for xs and m :: "(string, yaml) btree_map"
    using that by (induction xs arbitrary: m) auto
  have vals: "(\<forall>e \<in> set xs. yaml_ok (snd e)) \<Longrightarrow> (\<forall>e \<in> set m. yaml_ok (snd e)) \<Longrightarrow>
      e \<in> set (fold (\<lambda>(k, v). bt_insert k v) xs m) \<Longrightarrow> yaml_ok (snd e)" for xs m and e :: "string \<times> yaml"
  proof (induction xs arbitrary: m)
    case (Cons x xs)
    have "\<forall>e \<in> set (bt_insert (fst x) (snd x) m). yaml_ok (snd e)"
      using Cons.prems(1,2) by (auto dest!: bt_insert_set)
    then show ?case using Cons by (auto simp: case_prod_beta)
  qed simp
  show "bt_ok (runtime_manifest_config cfg)"
    unfolding runtime_manifest_config_def by (rule ok) (rule bt_ok_Nil)
  show "\<forall>e \<in> set (runtime_manifest_config cfg). yaml_ok (snd e)"
    unfolding runtime_manifest_config_def by (intro ballI, erule vals [rotated 2]) simp_all
qed

lemma cors_origins_nonempty: "status_cors_allowed_origins cfg \<noteq> []"
  by (auto simp: status_cors_allowed_origins_def CORS_DEFAULTS_def split: option.split yaml.split)

section \<open>Bootstrap\<close>

text \<open>C11: bootstrap and export are inverse. For a bootstrap file that holds a well-formed descriptor, and a
  reachable block store, \<open>--gen-root-cid\<close> prints a root from which \<open>export_runtime\<close> reads back the very
  same descriptor, whatever the configuration of the daemon: every kind under its protocol, every
  entity with its behaviour, list name and state, every named list; an absent root list comes back as
  the empty, deny-all one. That is so with \<open>--root-cid\<close>, where the pin is moved from the old root and
  a failure to do so is only logged, and without it, where Kubo is asked for a pin: provided it
  takes it, the printed root is pinned.\<close>

theorem bootstrap_export_roundtrip:
  assumes "kubo_ok E blocks" and "acl_codec E" and "bootstrap_ok cfg"
    and "wait_ready x0 = (Inr (), x1)" and "read_to_string E path x1 = (Inr raw, x2)" and "from_yaml raw = Some cfg"
    and "cl_root_cid cli = None \<longrightarrow> pins_ok E blocks pinned" and "new_publisher (cf_kubo_rpc_url config) = Inr ()"
  shows "\<exists>root x' x''. gen_root_cid from_yaml new_publisher wait_ready E cli config lang_base path x0 = (Inr root, x') \<and>
    (cl_root_cid cli = None \<longrightarrow> root \<in> pinned x') \<and>
    export_runtime E root (cf_kubo_rpc_url config) x' = (Inr (cfg\<lparr>bs_acl := Some (acl_or_default (bs_acl cfg))\<rparr>), x'')"
proof -
  let ?url = "cf_kubo_rpc_url config" and ?lang = "case lang_base of Some lang \<Rightarrow> lang | None \<Rightarrow> ''nb''"
  obtain root x' x'' where b: "build_manifest E cfg ?url (runtime_manifest_config config) ?lang (cl_root_cid cli) x2 = (Inr root, x')"
    and p: "cl_root_cid cli = None \<longrightarrow> root \<in> pinned x'"
    and e: "export_runtime E root ?url x' = (Inr (cfg\<lparr>bs_acl := Some (acl_or_default (bs_acl cfg))\<rparr>), x'')"
    using build_then_export [OF assms(1-3) runtime_manifest_config_ok [of config] assms(7), where url = ?url and x = x2] by blast
  have "gen_root_cid from_yaml new_publisher wait_ready E cli config lang_base path x0 = (Inr root, x')"
    by (simp add: gen_root_cid_def run_bootstrap_def and_then_def with_context_def ok_or_def lift_res_def assms(4-6,8) b)
  with e p show ?thesis
    by (intro exI [of _ root] exI [of _ x'] exI [of _ x'']) simp
qed

section \<open>The publisher\<close>

lemma publish_root_records:
  "\<exists>p' x'. publish_root PE E url h root p x = (Inr p', x') \<and>
     (p' = p \<or> p' = \<lparr>pb_last_cid = Some root, pb_last_at = pe_instant PE x'\<rparr>)"
  by (auto simp: publish_root_def and_then_def attempt_def split: prod.split sum.split)

lemma publisher_tick_silent:
  "st_root_cid (rt_stats w) = None \<or>
     (pb_last_cid p = st_root_cid (rt_stats w) \<and> pe_instant PE (io_out (rt_io w)) - pb_last_at p < warm) \<Longrightarrow>
   publisher_tick PE E url h warm p w = (Inr p, w)"
  by (auto simp: publisher_tick_def split: option.split)

lemma publisher_tick_publishes:
  assumes "st_root_cid (rt_stats w) = Some root" and "cid_try_from E root"
    and "\<not> (pb_last_cid p = Some root \<and> pe_instant PE (io_out (rt_io w)) - pb_last_at p < warm)"
  shows "publisher_tick PE E url h warm p w = on_out (publish_root PE E url h root p) w"
  using assms by (auto simp: publisher_tick_def)

lemma publish_root_out:
  "\<exists>p' w'. on_out (publish_root PE E url h root p) w = (Inr p', w') \<and> outside_only w w' \<and>
     (p' = p \<or> p' = \<lparr>pb_last_cid = Some root, pb_last_at = pe_instant PE (io_out (rt_io w'))\<rparr>)"
proof -
  obtain p' x' where "publish_root PE E url h root p (io_out (rt_io w)) = (Inr p', x')"
    and "p' = p \<or> p' = \<lparr>pb_last_cid = Some root, pb_last_at = pe_instant PE x'\<rparr>"
    using publish_root_records [of PE E url h root p "io_out (rt_io w)"] by blast
  then show ?thesis
    by (intro exI [of _ p'] exI [of _ "w\<lparr>rt_io := (rt_io w)\<lparr>io_out := x'\<rparr>\<rparr>"]) (auto simp: zoom_def outside_only_def)
qed

lemma publisher_tick_cases:
  "publisher_tick PE E url h warm p w = (Inr p, w) \<or>
   (\<exists>root. st_root_cid (rt_stats w) = Some root \<and>
      publisher_tick PE E url h warm p w = on_out (publish_root PE E url h root p) w)"
  by (simp add: publisher_tick_def split: option.split)

text \<open>The periodic publisher. With no root, with the current root published recently, or with a
  root that is no CID, a tick does nothing at all. Otherwise, so always when the root has changed, it
  publishes the document and the name: it touches only the outside world, never fails, and either
  leaves its record as it was, so that the next tick tries again, or records this root and the time.\<close>

lemma publisher_progress:
  "case st_root_cid (rt_stats w) of
     None \<Rightarrow> publisher_tick PE E url h warm p w = (Inr p, w)
   | Some root \<Rightarrow>
       if pb_last_cid p = Some root \<and> pe_instant PE (io_out (rt_io w)) - pb_last_at p < warm
       then publisher_tick PE E url h warm p w = (Inr p, w)
       else if cid_try_from E root then \<exists>p' w'. publisher_tick PE E url h warm p w = (Inr p', w') \<and>
         on_out (publish_root PE E url h root p) w = (Inr p', w') \<and> outside_only w w' \<and>
         (p' = p \<or> p' = \<lparr>pb_last_cid = Some root, pb_last_at = pe_instant PE (io_out (rt_io w'))\<rparr>)
       else publisher_tick PE E url h warm p w = (Inr p, w)"
proof (cases "st_root_cid (rt_stats w)")
  case None
  then show ?thesis by (simp add: publisher_tick_silent)
next
  case (Some root)
  have "publisher_tick PE E url h warm p w = (Inr p, w)" if "\<not> cid_try_from E root"
    using Some that by (simp add: publisher_tick_def)
  then show ?thesis
    using publisher_tick_silent [of w p PE warm E url h] publisher_tick_publishes [OF Some, of E p PE warm url h]
      publish_root_out [of PE E url h root p w] Some by auto
qed

section \<open>The first publication\<close>

text \<open>
  What Kubo promises of stored documents and published names, seen through two observers of the
  outside: a stored block stays readable and publishing a name makes it point to the path given.
\<close>

definition names_ok :: "('x, 'p) env \<Rightarrow> ('x \<Rightarrow> string \<Rightarrow> bytes option) \<Rightarrow> ('x \<Rightarrow> string \<Rightarrow> string option) \<Rightarrow> bool" where
  "names_ok E stored names \<longleftrightarrow>
     (\<forall>url data x c x'. dag_put_cbor E url data x = (Inr c, x') \<longrightarrow> stored x' c = Some data) \<and>
     (\<forall>url key c h x v x'. name_publish E url key c h x = (Inr v, x') \<longrightarrow>
        names x' key = Some (ipfs_arg c) \<and> stored x' = stored x)"

lemma published_document:
  assumes "names_ok E stored names" and "document_id E doc = Some doc_id" and "did_try_from E doc_id = Some d"
    and "do_publish_own_document wait_ready E url doc key h x = (Inr (), x')"
  shows "\<exists>c. names x' (key_alias E (did_ipns d)) = Some (ipfs_arg c) \<and> stored x' c = Some doc"
proof -
  from assms(4) obtain x1 x2 c v where c: "dag_put_cbor E url doc x1 = (Inr c, x2)"
    and v: "name_publish E url (key_alias E (did_ipns d)) c h x2 = (Inr v, x')"
    by (auto simp: do_publish_own_document_def assms(2,3) and_then_def Let_def split: prod.splits sum.splits)
  from assms(1) c v have "stored x2 c = Some doc" "stored x' = stored x2" "names x' (key_alias E (did_ipns d)) = Some (ipfs_arg c)"
    unfolding names_ok_def by blast+
  then show ?thesis by auto
qed

text \<open>C29: without \<open>--root-cid\<close> the document published at start-up has no link to the runtime, whatever
  root start-up finds afterwards, and nothing orders that publication against the publisher. When it
  finishes after the publisher has published and recorded the root, the published name points to the
  document without the link, and the publisher leaves it there until the warm-up time has passed.\<close>

theorem first_publication_unlinks:
  assumes "names_ok E stored names" and "cl_root_cid cli = None"
    and "own_document E I cli x0 = (Inr (our_did, doc), x1)"
    and "document_id E doc = Some our_did" and "did_try_from E our_did = Some d"
    and "publisher_tick PE E url h warm p0 w0 = (Inr p, w1)" and "p \<noteq> p0"
    and "on_out (first_publication expired wait_ready E I url doc h) w1 = (Inr True, w2)"
    and "pe_instant PE (io_out (rt_io w2)) - pb_last_at p < warm"
  shows "(\<exists>plain. id_build I None = Inr plain \<and> id_encode I plain = Inr doc) \<and>
    (\<exists>c. names (io_out (rt_io w2)) (key_alias E (did_ipns d)) = Some (ipfs_arg c) \<and> stored (io_out (rt_io w2)) c = Some doc) \<and>
    publisher_tick PE E url h warm p w2 = (Inr p, w2)"
proof (intro conjI)
  show "\<exists>plain. id_build I None = Inr plain \<and> id_encode I plain = Inr doc"
    using assms(2,3) by (auto simp: own_document_def and_then_def with_context_def split: sum.splits prod.splits)
  from assms(8) obtain x2 where pub: "do_publish_own_document wait_ready E url doc (id_ipns_secret_key I) h (io_out (rt_io w1)) = (Inr (), x2)"
    and w2: "w2 = w1\<lparr>rt_io := (rt_io w1)\<lparr>io_out := x2\<rparr>\<rparr>"
    by (auto simp: first_publication_def and_then_def attempt_def timed_def zoom_def split: prod.splits if_splits elim!: is_ok.elims)
  show "\<exists>c. names (io_out (rt_io w2)) (key_alias E (did_ipns d)) = Some (ipfs_arg c) \<and> stored (io_out (rt_io w2)) c = Some doc"
    using published_document [OF assms(1,4,5) pub] w2 by simp
  have "pb_last_cid p = st_root_cid (rt_stats w1)"
  proof -
    obtain root where "st_root_cid (rt_stats w0) = Some root" "on_out (publish_root PE E url h root p0) w0 = (Inr p, w1)"
      using publisher_tick_cases [of PE E url h warm p0 w0] assms(6,7) by auto
    then show ?thesis using publish_root_out [of PE E url h root p0 w0] assms(7) by (auto simp: outside_only_def)
  qed
  then show "publisher_tick PE E url h warm p w2 = (Inr p, w2)"
    using w2 assms(9) by (intro publisher_tick_silent) simp
qed

section \<open>The loop\<close>

text \<open>What the outbox drain leaves: the queue empty, nothing else of the runtime touched.\<close>

lemma send_one: "on_out (send_envelope_out E our_did e) w =
    (Inr (), w\<lparr>rt_io := (rt_io w)\<lparr>io_out := snd (send_envelope_out E our_did e (io_out (rt_io w)))\<rparr>\<rparr>)"
proof -
  have "fst (send_envelope_out E our_did e (io_out (rt_io w))) = Inr ()"
    by (simp add: send_envelope_out_def and_then_def attempt_def split: option.split prod.split sum.split)
  then show ?thesis
    by (cases "send_envelope_out E our_did e (io_out (rt_io w))") (simp add: zoom_def)
qed

lemma drain_one:
  "io_queue (rt_io w) = [e] \<Longrightarrow> \<exists>x. drain_envelopes E our_did w =
     (Inr (), w\<lparr>rt_io := (rt_io w)\<lparr>io_queue := [], io_out := snd (send_envelope_out E our_did e x)\<rparr>\<rparr>)"
  using send_one [of E our_did e "w\<lparr>rt_io := (rt_io w)\<lparr>io_queue := []\<rparr>\<rparr>"]
  by (auto simp: drain_envelopes_def and_then_def)

lemma drain_envelopes_effect:
  "\<exists>w'. drain_envelopes E our_did w = (Inr (), w') \<and> io_queue (rt_io w') = [] \<and> rt_stats w' = rt_stats w \<and>
     rt_registry w' = rt_registry w"
proof -
  have "\<exists>x. for_each (\<lambda>e. on_out (send_envelope_out E our_did e)) q w = (Inr (), w\<lparr>rt_io := (rt_io w)\<lparr>io_out := x\<rparr>\<rparr>)"
    for q and w :: "('a, 'b) runtime"
  proof (induction q arbitrary: w)
    case Nil
    then show ?case by (auto intro: exI [of _ "io_out (rt_io w)"])
  next
    case (Cons e q)
    let ?w = "w\<lparr>rt_io := (rt_io w)\<lparr>io_out := snd (send_envelope_out E our_did e (io_out (rt_io w)))\<rparr>\<rparr>"
    have "on_out (send_envelope_out E our_did e) w = (Inr (), ?w)" using send_one [of E our_did e w] by blast
    with Cons.IH [of ?w] show ?case by (auto simp: and_then_def)
  qed
  from this [of "io_queue (rt_io w)" "w\<lparr>rt_io := (rt_io w)\<lparr>io_queue := []\<rparr>\<rparr>"] show ?thesis
    by (auto simp: drain_envelopes_def)
qed

end
