(* ===== verification/Group_Facts.thy ===== *)
theory Group_Facts
  imports Runtime_State Actor_Facts
begin

text \<open>
  What group entries of an access list amount to with the plugins of the repository: the injected
  \<open>+owners\<close> entry, and groups backed by the bundled set actor.
\<close>

lemma in_group_unresolved:
  assumes "\<exists>e. rg key = fail e"
  shows "in_group E rg key n = ret False"
proof -
  from assms obtain e where "rg key = fail e" ..
  then show ?thesis by (simp add: in_group_def fun_eq_iff and_then_def attempt_def Let_def)
qed

text \<open>The \<open>+owners\<close> entry that loading injects grants nothing: the resolver the entity gate uses
  refuses the reference, so no caller is ever found in that group, owner or not.\<close>

lemma owners_entry_inert:
  "in_group E (\<lambda>g. query_actor_group E g caller) OWNERS_PRINCIPAL n = ret False"
proof (rule in_group_unresolved)
  have "strip_prefix ''+#'' OWNERS_PRINCIPAL = None"
    by (simp add: OWNERS_PRINCIPAL_def strip_prefix_def starts_with_def)
  then show "\<exists>e. query_actor_group E OWNERS_PRINCIPAL caller = fail e" by (rule query_unresolved)
qed

text \<open>C35: a group backed by the bundled set actor has no members. The query reads the output of the
  export, the set actor answers through \<open>ma_reply\<close> and outputs nothing, so the query finds the caller
  outside the group even when the set contains it.\<close>

theorem set_group_never_contains:
  assumes "cbor_faithful E" and "cbor_decode E [] = None"
    and "wasm_call E = set_export (codec_of E)"
    and "map_of (rt_registry w) fragment = Some ep" and "ep_backend ep = Extism xt"
    and "\<not> sm_borrowed (xt_mem xt)" and "Ma_reply \<in> set (xt_fns xt)"
  shows "fst (query_actor_group E (''+#'' @ fragment) caller w) = Inr []"
proof -
  let ?query = "CArray [CText '':contains'', CText caller]"
  obtain n x where n: "now_nanos E (io_out (rt_io w)) = (n, x)" by (rule prod.exhaust)
  let ?io = "(rt_io w)\<lparr>io_out := x\<rparr>"
  let ?now = "saturating_mul (as_secs n) 1000000000"
  let ?msg = "contains_message E fragment ?now (enc E ?query)"
  have verb: "parse_verb (codec_of E) (lm_content ?msg) = Some ('':contains'', [CText caller])"
    by (simp add: parse_verb_def contains_message_def codec_faithful [OF assms(1)])
  have "set_verb (set_is_writer (xt_mem xt) (lm_from ?msg)) (sm_members (xt_mem xt)) '':contains'' [CText caller] =
      (cbor_ok (CBool (caller \<in> set (sm_members (xt_mem xt)))), sm_members (xt_mem xt), False)"
    by (simp add: set_verb_def arg_text_def)
  then obtain res ep' io' where
    d: "dispatch_to E ''handle_call'' \<lparr>ci_msg = ?msg\<rparr> (ep, ?io) = (Inr res, (ep', io'))" and o: "dr_output res = []"
    using set_read_dispatch [OF assms(1,3,5,6,7) verb, of _ _ ?io] by metis
  have "strip_prefix ''+#'' (''+#'' @ fragment) = Some fragment"
    by (simp add: strip_prefix_def starts_with_def)
  then show ?thesis
    using d o n
    by (simp add: query_actor_group_def assms(2,4) and_then_def with_context_def encode_or_def now_secs_def
        enc_faithful [OF assms(1)] zoom_def Let_def with_plugin_def handle_call_def contained_def)
qed

end
