(* ===== verification/Witness_Plugins.thy ===== *)
theory Witness_Plugins
  imports Reference_Env Daemon_Facts Group_Facts
begin

text \<open>
  Concrete inputs for the properties about plugins, access lists, gates and schedules: the bundled
  actors and a plugin that asks for deletions, linked to the reference environment, and small
  runtimes that hold them. Each witness applies its property where every hypothesis holds.
\<close>

section \<open>Concrete instances\<close>

definition ref_codec :: codec where
  "ref_codec = \<lparr>cd_enc = ref_encode, cd_dec = ref_decode\<rparr>"

lemma codec_of_ref [simp]: "codec_of (ref_env wn wc) = ref_codec"
  by (simp add: codec_of_def ref_codec_def ref_env_def)

definition mem_new :: "'p \<Rightarrow> bytes \<Rightarrow> string list \<Rightarrow> bool \<Rightarrow> (ref_world, 'p) act" where
  "mem_new p b fs wasi = ret p"

definition counter_env :: "(ref_world, counter_mem) env" where
  "counter_env = ref_env (mem_new counter_new) (counter_export ref_codec)"

definition set_env :: "(ref_world, set_mem_state) env" where
  "set_env = ref_env (mem_new set_new) (set_export ref_codec)"

definition register_env :: "(ref_world, register_mem) env" where
  "register_env = ref_env (mem_new register_new) (register_export ref_codec)"

text \<open>The bytes that encode a value, in a form the simplifier does not unfold.\<close>

lemma parse_ref:
  "parse_verb ref_codec (replicate (Suc (to_nat (CArray (CText v # args)))) 0) = Some (v, args)"
  by (simp add: parse_verb_def ref_codec_def ref_decode_encode del: replicate_Suc)

definition instance_of :: "'p \<Rightarrow> 'p extism" where
  "instance_of p = \<lparr>xt_mem = p, xt_fns = [Ma_reply, Ma_set_state], xt_state = state_ctx_new [],
     xt_create = [], xt_delete = []\<rparr>"

definition entity_of :: "'p \<Rightarrow> 'p entity_plugin" where
  "entity_of p = \<lparr>ep_fragment = ''thing'', ep_kind = Stateful, ep_acl = ''open'', ep_parent = None,
     ep_backend = Extism (instance_of p)\<rparr>"

definition call_message :: "string \<Rightarrow> cbor list \<Rightarrow> local_message" where
  "call_message verb args =
     \<lparr>lm_id = ''m'', lm_from = ''did:ma:a'', lm_to = ''did:ma:r#thing'', lm_created_at = 0, lm_expires = 0,
      lm_reply_to = None, lm_content_type = ''application/x-ma-term'',
      lm_content = replicate (Suc (to_nat (CArray (CText verb # args)))) 0\<rparr>"

lemma parse_call: "parse_verb ref_codec (lm_content (call_message verb args)) = Some (verb, args)"
  by (simp only: call_message_def local_message.simps parse_ref)

lemma instance_simps [simp]:
  "xt_mem (instance_of p) = p" "xt_fns (instance_of p) = [Ma_reply, Ma_set_state]"
  "ep_backend (entity_of p) = Extism (instance_of p)"
  by (simp_all add: instance_of_def entity_of_def)

definition io0 :: "ref_world io" where
  "io0 = \<lparr>io_out = ref_world0, io_queue = [], io_spawned = []\<rparr>"

lemma ref_plugin_envs:
  "cbor_faithful counter_env" "wasm_call counter_env = counter_export (codec_of counter_env)" "codec_of counter_env = ref_codec"
  "cbor_faithful set_env" "wasm_call set_env = set_export (codec_of set_env)" "codec_of set_env = ref_codec"
  "cbor_faithful register_env" "wasm_call register_env = register_export (codec_of register_env)" "codec_of register_env = ref_codec"
  by (simp_all add: counter_env_def set_env_def register_env_def ref_cbor_faithful)

theorem counter_dispatch_witness:
  "\<exists>res ep' io' xt'.
    dispatch_to counter_env ''handle_call'' \<lparr>ci_msg = call_message '':inc'' [CInteger 5]\<rparr> (entity_of counter_new, io0) =
      (Inr res, (ep', io')) \<and>
    io_queue io' = [(''thing'', reply_envelope (call_message '':inc'' [CInteger 5]) (enc counter_env (cbor_ok (CInteger 5))))] \<and>
    ep_backend ep' = Extism xt' \<and> xt_mem xt' = \<lparr>cm_value = 5, cm_borrowed = False\<rparr>"
proof -
  have v: "counter_verb (cm_value (xt_mem (instance_of counter_new))) '':inc'' [CInteger 5] =
      (cbor_ok (CInteger 5), 5, True)"
    by code_simp
  have m: "\<not> cm_borrowed (xt_mem (instance_of counter_new))" "Ma_reply \<in> set (xt_fns (instance_of counter_new))"
    "Ma_set_state \<in> set (xt_fns (instance_of counter_new))" "ep_fragment (entity_of counter_new) = ''thing''"
    "io_queue io0 = []"
    by (simp_all add: counter_new_def entity_of_def io0_def)
  have "parse_verb (codec_of counter_env) (lm_content (call_message '':inc'' [CInteger 5])) = Some ('':inc'', [CInteger 5])"
    by (simp add: ref_plugin_envs parse_call)
  from counter_dispatch [OF ref_plugin_envs(1,2) instance_simps(3) m(1-3) this v, of io0]
  show ?thesis unfolding m(4,5) append_Nil by blast
qed

theorem set_write_traps_witness:
  "dead_after set_env (entity_of (set_new\<lparr>sm_parent := Some ''did:ma:a''\<rparr>))
     (instance_of (set_new\<lparr>sm_parent := Some ''did:ma:a''\<rparr>)) (call_message '':add'' [CText ''x'']) io0"
proof -
  have "set_verb (set_is_writer (set_new\<lparr>sm_parent := Some ''did:ma:a''\<rparr>) (lm_from (call_message '':add'' [CText ''x''])))
      (sm_members (set_new\<lparr>sm_parent := Some ''did:ma:a''\<rparr>)) '':add'' [CText ''x''] = (cbor_ok CNull, [''x''], True)"
    by (simp add: set_is_writer_def call_message_def set_new_def set_verb_def arg_text_def)
  then show ?thesis
    using set_write_traps [of set_env] by (simp add: set_env_def ref_cbor_faithful parse_call)
qed

theorem register_write_traps_witness:
  "dead_after register_env (entity_of (register_new\<lparr>rm_parent := Some ''did:ma:a''\<rparr>))
     (instance_of (register_new\<lparr>rm_parent := Some ''did:ma:a''\<rparr>)) (call_message '':set'' [CText ''k'', CText ''v'']) io0"
proof -
  have "\<exists>st. register_verb (register_is_writer (register_new\<lparr>rm_parent := Some ''did:ma:a''\<rparr>)
        (lm_from (call_message '':set'' [CText ''k'', CText ''v''])))
      (rm_state (register_new\<lparr>rm_parent := Some ''did:ma:a''\<rparr>)) '':set'' [CText ''k'', CText ''v''] = (cbor_ok CNull, st, True)"
    by (simp add: register_is_writer_def call_message_def register_new_def register_verb_def register_read_def arg_text_def)
  then show ?thesis
    using register_write_traps [of register_env] by (auto simp: register_env_def ref_cbor_faithful parse_call)
qed

lemma call_from [simp]: "lm_from (call_message verb args) = ''did:ma:a''"
  by (simp add: call_message_def)

lemma well_formed_call: "codec_of E = ref_codec \<Longrightarrow> well_formed_calls E (map (\<lambda>(v, args). call_message v args) cs)"
  by (auto simp: well_formed_calls_def list_all_iff parse_call)

definition owned_set :: set_mem_state where
  "owned_set = set_new\<lparr>sm_members := [''b''], sm_parent := Some ''did:ma:a''\<rparr>"

theorem set_actor_history_witness:
  "\<exists>rs ep' io' xt'. calls set_env [call_message '':contains'' [CText ''b''], call_message '':add'' [CText ''x''], call_message '':count'' []]
      (entity_of owned_set, io0) = (rs, (ep', io')) \<and>
    map isl rs = [False, True, True] \<and> length (io_queue io') = 1 \<and>
    ep_backend ep' = Extism xt' \<and> sm_borrowed (xt_mem xt') \<and> sm_members (xt_mem xt') = [''b'', ''x'']"
proof -
  let ?ms = "[call_message '':contains'' [CText ''b''], call_message '':add'' [CText ''x''], call_message '':count'' []]"
  have v: "set_verdict set_env owned_set (call_message '':contains'' [CText ''b'']) = (cbor_ok (CBool True), [''b''], False)"
    "set_verdict set_env owned_set (call_message '':add'' [CText ''x'']) = (cbor_ok CNull, [''b'', ''x''], True)"
    by (simp_all add: verdict_def ref_plugin_envs parse_call set_verb_def arg_text_def set_is_writer_def owned_set_def set_new_def)
  have w: "well_formed_calls set_env ?ms"
    using well_formed_call [OF ref_plugin_envs(6), of "[('':contains'', [CText ''b'']), ('':add'', [CText ''x'']), ('':count'', [])]"]
    by simp
  have i: "\<not> sm_borrowed (xt_mem (instance_of owned_set))" "Ma_reply \<in> set (xt_fns (instance_of owned_set))"
    "sc_pending (xt_state (instance_of owned_set)) = None" "distinct (sm_members (xt_mem (instance_of owned_set)))"
    by (simp_all add: owned_set_def set_new_def instance_of_def state_ctx_new_def)
  have "io_queue io0 = []" by (simp add: io0_def)
  then show ?thesis
    using conjunct1 [OF set_actor_history [OF ref_plugin_envs(4,5) instance_simps(3) i w, of io0]] by (auto simp: v numeral_2_eq_2)
qed

definition owned_register :: register_mem where
  "owned_register = register_new\<lparr>rm_parent := Some ''did:ma:a''\<rparr>"

theorem register_history_witness:
  "\<exists>rs ep' io' xt'. calls register_env [call_message '':set'' [CText ''k'', CText ''v''], call_message '':get'' [CText ''k'']]
      (entity_of owned_register, io0) = (rs, (ep', io')) \<and>
    map isl rs = [True, True] \<and> io_queue io' = [] \<and>
    ep_backend ep' = Extism xt' \<and> rm_borrowed (xt_mem xt') \<and> register_inv (rm_state (xt_mem xt'))"
proof -
  let ?ms = "[call_message '':set'' [CText ''k'', CText ''v''], call_message '':get'' [CText ''k'']]"
  have v: "persisting (register_verdict register_env owned_register (call_message '':set'' [CText ''k'', CText ''v'']))"
    by (simp add: verdict_def ref_plugin_envs parse_call register_verb_def register_read_def arg_text_def register_is_writer_def
        owned_register_def register_new_def)
  have w: "well_formed_calls register_env ?ms"
    using well_formed_call [OF ref_plugin_envs(9), of "[('':set'', [CText ''k'', CText ''v'']), ('':get'', [CText ''k''])]"] by simp
  have i: "\<not> rm_borrowed (xt_mem (instance_of owned_register))" "Ma_reply \<in> set (xt_fns (instance_of owned_register))"
    "sc_pending (xt_state (instance_of owned_register)) = None" "register_inv (rm_state (xt_mem (instance_of owned_register)))"
    by (simp_all add: owned_register_def register_new_def instance_of_def state_ctx_new_def)
  have "io_queue io0 = []" by (simp add: io0_def)
  then show ?thesis
    using conjunct1 [OF register_history [OF ref_plugin_envs(7,8) instance_simps(3) i w, of io0]] v by (auto simp: numeral_2_eq_2)
qed

section \<open>A plugin that asks for deletions\<close>

text \<open>Every export asks for the deletion of the entity \<open>child\<close>, whatever it is given.\<close>

definition asker :: "string \<Rightarrow> bytes \<Rightarrow> unit \<Rightarrow> unit wasm_run" where
  "asker f b p = Wasm_host Ma_delete_entity (replicate (Suc (to_nat (CText ''child''))) 0) p (\<lambda>_. Wasm_ret [] p)"

definition asker_env :: "(ref_world, unit) env" where
  "asker_env = ref_env (mem_new ()) asker"

definition asker_kind :: kind_node where
  "asker_kind = \<lparr>kn_protocol = ''/ma/asker/0.0.1'', kn_api = [''handle_cast''], kn_host_functions = [''ma_delete_entity''],
     kn_evaluator = EExtism, kn_attributes = [], kn_allow = []\<rparr>"

definition asker_node :: entity_node where
  "asker_node = \<lparr>en_kind = ''/ma/asker/0.0.1'', en_behaviour = Some (ipld_link_new ''bW''), en_acl = ''open'',
     en_state = None, en_parent = None, en_label = None, en_lifecycle = New\<rparr>"

definition asker_xt :: "unit extism" where
  "asker_xt = \<lparr>xt_mem = (), xt_fns = [Ma_delete_entity], xt_state = state_ctx_new [], xt_create = [], xt_delete = []\<rparr>"

definition asker_ep :: "unit entity_plugin" where
  "asker_ep = \<lparr>ep_fragment = ''asker'', ep_kind = Stateless, ep_acl = ''open'', ep_parent = None, ep_backend = Extism asker_xt\<rparr>"

definition io_wasm :: "ref_world io" where
  "io_wasm = \<lparr>io_out = ref_world0\<lparr>rw_blobs := [(''bW'', [0, 97])]\<rparr>, io_queue = [], io_spawned = []\<rparr>"

lemma asker_faithful [simp]: "cbor_faithful asker_env" and asker_call [simp]: "wasm_call asker_env = asker"
  by (simp_all add: asker_env_def ref_cbor_faithful)

lemma ref_cat_bytes:
  "cat_bytes (ref_env wn wc) u c x = (case map_of (rw_blobs x) c of Some b \<Rightarrow> Inr b | None \<Rightarrow> Inl (Error ''no blob''), x)"
  by (simp add: ref_env_def)

lemma asker_simps:
  "kn_plugin_kind asker_kind = Stateless" "map snd (linked_fns asker_kind) = [Ma_delete_entity]"
  "kn_evaluator asker_kind = EExtism" "kn_api asker_kind = [''handle_cast'']" "en_behaviour asker_node = Some (ipld_link_new ''bW'')"
  "en_acl asker_node = ''open''" "en_parent asker_node = None"
  "cat_bytes asker_env u ''bW'' (io_out io_wasm) = (Inr [0, 97], io_out io_wasm)" "wasm_new asker_env b fs wasi x = (Inr (), x)"
  "link_cid (ipld_link_new ''bW'') = ''bW''"
  by (simp_all add: kn_plugin_kind_def asker_kind_def linked_fns_def all_fns_def asker_node_def asker_env_def ref_cat_bytes
      mem_new_def io_wasm_def ref_world0_def ipld_link_new_def)

lemma asker_load:
  "load asker_env ''asker'' asker_node asker_kind ''did:ma:r'' ''http://k'' io_wasm = (Inr (asker_ep, Running), io_wasm)"
  by (simp add: load_def Let_def asker_simps load_state_def start_instance_def asker_ep_def asker_xt_def and_then_def zoom_def
      with_context_def map_err_def)

lemma asker_decode [simp]: "cbor_decode asker_env (replicate (Suc (to_nat v)) 0) = Some v"
  by (simp add: asker_env_def ref_env_def ref_decode_encode del: replicate_Suc)

lemma asker_run:
  assumes "Ma_delete_entity \<in> set (xt_fns xt)"
  shows "run_wasm asker_env fragment (asker f b p) (xt, io) =
    (Inr [], (xt\<lparr>xt_mem := p, xt_delete := xt_delete xt @ [''child'']\<rparr>, io))"
  using assms
  by (simp add: asker_def host_call_def ma_delete_entity_fn_def from_cbor_bytes_def and_then_def encode_or_def
      enc_faithful(1) set_mem_def del: replicate_Suc)

lemma asker_dispatch:
  assumes "ep_backend ep = Extism xt" and "Ma_delete_entity \<in> set (xt_fns xt)"
  shows "dispatch_to asker_env export input (ep, io) =
    (Inr (fst (collect [] (xt\<lparr>xt_delete := xt_delete xt @ [''child'']\<rparr>))),
     (ep\<lparr>ep_backend := Extism (snd (collect [] (xt\<lparr>xt_delete := xt_delete xt @ [''child'']\<rparr>)))\<rparr>, io))"
  by (rule dispatch_to_run [OF asker_faithful assms(1)]) (simp add: asker_run [OF assms(2)])

theorem least_privilege_witness:
  "\<exists>res ep' io'. dispatch_to asker_env ''handle_cast'' \<lparr>ci_msg = call_message '':x'' []\<rparr> (asker_ep, io_wasm) = (Inr res, (ep', io')) \<and>
    dr_delete_requests res = [''child''] \<and> dr_create_requests res = [] \<and> dr_pending_state res = None \<and> io_queue io' = []"
proof -
  have b: "ep_backend asker_ep = Extism asker_xt" "Ma_delete_entity \<in> set (xt_fns asker_xt)" "xt_delete asker_xt = []"
    by (simp_all add: asker_ep_def asker_xt_def)
  note d = asker_dispatch [OF b(1,2), of "''handle_cast''" "\<lparr>ci_msg = call_message '':x'' []\<rparr>" io_wasm]
  have k: "kn_host_functions asker_kind = [''ma_delete_entity'']" "io_queue io_wasm = []"
    by (simp_all add: asker_kind_def io_wasm_def)
  have "dr_delete_requests (fst (collect [] (asker_xt\<lparr>xt_delete := xt_delete asker_xt @ [''child'']\<rparr>))) = [''child'']"
    by (simp add: collect_def b(3))
  with d least_privilege [OF asker_load rtranclp.rtrancl_refl d] show ?thesis
    by (auto simp: k)
qed

theorem dispatch_queues_witness:
  "\<exists>res ep' xt'. dispatch_to asker_env ''handle_cast'' \<lparr>ci_msg = call_message '':x'' []\<rparr>
      (asker_ep\<lparr>ep_backend := Extism (asker_xt\<lparr>xt_delete := [''older'']\<rparr>)\<rparr>, io_wasm) = (Inr res, (ep', io_wasm)) \<and>
    prefix [''older''] (dr_delete_requests res) \<and> ep_backend ep' = Extism xt' \<and> xt_delete xt' = []"
proof -
  let ?xt = "asker_xt\<lparr>xt_delete := [''older'']\<rparr>"
  let ?ep = "asker_ep\<lparr>ep_backend := Extism ?xt\<rparr>"
  have b: "ep_backend ?ep = Extism ?xt" "Ma_delete_entity \<in> set (xt_fns ?xt)"
    by (simp_all add: asker_xt_def)
  note d = asker_dispatch [OF b, of "''handle_cast''" "\<lparr>ci_msg = call_message '':x'' []\<rparr>" io_wasm]
  from dispatch_queues [OF b(1) d] d show ?thesis by auto
qed

section \<open>Runtimes\<close>

definition ref_config :: config where
  "ref_config = \<lparr>cf_kubo_rpc_url = ''http://k'', cf_kubo_key_alias = ''ma'', cf_log_level = ''info'', cf_log_level_stdout = ''info'',
     cf_did_resolver_positive_ttl_secs = 60, cf_did_resolver_negative_ttl_secs = 10, cf_log_file = None, cf_config_path = None,
     cf_secret_bundle_passphrase = Some ''pw'',
     cf_extra = []\<rparr>"

definition runtime_of :: "(string \<times> 'p entity_plugin) list \<Rightarrow> (ref_world, 'p) runtime" where
  "runtime_of reg = (empty_runtime ref_world0 ref_config)\<lparr>rt_registry := reg\<rparr>"

lemma runtime_of_simps [simp]:
  "rt_registry (runtime_of reg) = reg" "rt_kinds (runtime_of reg) = []" "rt_acl_cache (runtime_of reg) = []"
  "st_owners (rt_stats (runtime_of reg)) = []" "st_root_cid (rt_stats (runtime_of reg)) = None"
  "st_config_path (rt_stats (runtime_of reg)) = None"
  "io_out (rt_io (runtime_of reg)) = ref_world0" "io_queue (rt_io (runtime_of reg)) = []"
  by (simp_all add: runtime_of_def empty_runtime_def startup_stats_def ref_config_def)

definition ref_message :: message where
  "ref_message = \<lparr>msg_id = ''m'', msg_from = ''did:ma:a'', msg_to = ''did:ma:r#thing'', msg_message_type = ''application/x-ma-rpc'',
     msg_content_type = ''application/x-ma-term'', msg_created_at = 0, msg_exp = 0, msg_reply_to = None, msg_payload = []\<rparr>"

definition rpc_ctx0 :: rpc_ctx where
  "rpc_ctx0 = \<lparr>rc_our_did = ''did:ma:r'', rc_kubo_rpc_url = ''http://k''\<rparr>"

text \<open>A group resolver that acts on the state: it counts its calls.\<close>

definition counted_groups :: "string \<Rightarrow> (nat, string list) act" where
  "counted_groups g n = (Inr (if g = ''+staff'' then [''did:ma:a''] else []), Suc n)"

theorem check_full_refines_spec_witness:
  "(\<exists>mem. answer_sheet counted_groups (group_keys [(''+staff'', Allow [''rpc''])]) 0 (Suc 0) mem \<and>
      acl_permits base_env [(''+staff'', Allow [''rpc''])] mem ''did:ma:a#x'' [''rpc'']) \<and>
   (\<exists>mem. answer_sheet counted_groups (group_keys [(''+staff'', Deny)]) 0 (Suc 0) mem \<and>
      \<not> acl_permits base_env [(''+staff'', Deny)] mem ''did:ma:a#x'' [''rpc''])"
proof (rule conjI)
  have run: "check_full base_env [(''+staff'', Allow [''rpc''])] ''did:ma:a#x'' [''rpc''] counted_groups 0 = (Inr (), Suc 0)"
    by (simp add: check_full_def denied_entry_def and_then_def in_group_run answers_def counted_groups_def
        ref_normalize_def ref_check_cap_def starts_with_def GROUP_PREFIX_def)
  have ok: "hm_ok [(''+staff'', Allow [''rpc''])]" by (simp add: hm_ok_def)
  from conjunct1 [OF check_full_refines_spec [OF ok run]]
  show "\<exists>mem. answer_sheet counted_groups (group_keys [(''+staff'', Allow [''rpc''])]) 0 (Suc 0) mem \<and>
      acl_permits base_env [(''+staff'', Allow [''rpc''])] mem ''did:ma:a#x'' [''rpc'']" by simp
  have "\<exists>e. check_full base_env [(''+staff'', Deny)] ''did:ma:a#x'' [''rpc''] counted_groups 0 = (Inl e, Suc 0)"
    by (simp add: check_full_def denied_entry_def and_then_def in_group_run answers_def counted_groups_def
        ref_normalize_def ref_check_cap_def starts_with_def GROUP_PREFIX_def)
  then obtain e where run': "check_full base_env [(''+staff'', Deny)] ''did:ma:a#x'' [''rpc''] counted_groups 0 = (Inl e, Suc 0)" ..
  have ok': "hm_ok [(''+staff'', Deny)]" by (simp add: hm_ok_def)
  from conjunct1 [OF check_full_refines_spec [OF ok' run']]
  show "\<exists>mem. answer_sheet counted_groups (group_keys [(''+staff'', Deny)]) 0 (Suc 0) mem \<and>
      \<not> acl_permits base_env [(''+staff'', Deny)] mem ''did:ma:a#x'' [''rpc'']" by simp
qed

theorem set_group_never_contains_witness:
  "fst (query_actor_group set_env ''+#thing'' ''did:ma:a''
     (runtime_of [(''thing'', entity_of (set_new\<lparr>sm_members := [''did:ma:a'']\<rparr>))])) = Inr []"
proof -
  have "cbor_decode set_env [] = None" by (simp add: set_env_def ref_env_def ref_decode_nil)
  from set_group_never_contains [OF ref_plugin_envs(4) this ref_plugin_envs(5),
      of "runtime_of [(''thing'', entity_of (set_new\<lparr>sm_members := [''did:ma:a'']\<rparr>))]" "''thing''"]
  show ?thesis by (simp add: set_new_def)
qed

theorem unlisted_ids_untranslated_witness:
  "t_lang i18n_unset ''nb'' ''kind-not-found'' = ''kind-not-found''"
  using unlisted_ids_untranslated [OF i18n_reach.unset, of "''kind-not-found''" "''nb''"] by (simp add: MESSAGE_IDS_def)

theorem rpc_rejected_without_effect_witness:
  "\<exists>e. handle_rpc_message base_env rpc_ctx0 [(''*'', Allow [''crud''])] ref_message (runtime_of []) = Some (Inl e, runtime_of [])"
  by (rule rpc_rejected_without_effect)
    (simp_all add: rpc_ctx0_def ref_message_def starts_with_def is_owner_def ref_check_cap_def ref_normalize_def CAP_RPC_def)

theorem entity_gate_fail_closed_witness:
  "(\<exists>e. handle_entity_plugin_message base_env rpc_ctx0 ref_message (CText '':x'') (entity_of ()) (runtime_of [(''thing'', entity_of ())]) =
      Some (Inl e, runtime_of [(''thing'', entity_of ())])) \<and>
   (\<exists>r x. handle_rpc_message base_env rpc_ctx0 [] ref_message (runtime_of [(''thing'', entity_of ())]) =
      Some (r, (runtime_of [(''thing'', entity_of ())])\<lparr>rt_io := (rt_io (runtime_of [(''thing'', entity_of ())]))\<lparr>io_out := x\<rparr>\<rparr>))"
proof -
  let ?w = "runtime_of [(''thing'', entity_of ())]"
  have c: "ep_acl (entity_of ()) = [] \<or> map_of (rt_acl_cache ?w) (''acls.'' @ ep_acl (entity_of ())) = None" by simp
  have "extract_fragment (msg_to ref_message) (rc_our_did rpc_ctx0) = Some ''thing''"
    by (simp add: extract_fragment_def ref_message_def rpc_ctx0_def strip_prefix_def starts_with_def)
  moreover have "map_of (rt_registry ?w) ''thing'' = Some (entity_of ())" by simp
  ultimately show ?thesis
    using entity_gate_fail_closed [OF c, of base_env rpc_ctx0 ref_message "CText '':x''" "''thing''" "[]"] by blast
qed

theorem deletion_requests_safe_witness:
  "\<exists>w'. for_each (delete_one asker_ep) [''child'', ''thing''] (runtime_of [(''asker'', asker_ep), (''thing'', entity_of ()),
      (''child'', (entity_of ())\<lparr>ep_parent := Some ''asker''\<rparr>)]) = (Inr (), w') \<and>
    map_of (rt_registry w') ''child'' = None \<and> parents_present (rt_registry w')"
proof -
  let ?w = "runtime_of [(''asker'', asker_ep), (''thing'', entity_of ()), (''child'', (entity_of ())\<lparr>ep_parent := Some ''asker''\<rparr>)]"
  obtain r w' where r: "for_each (delete_one asker_ep) [''child'', ''thing''] ?w = (r, w')" by (rule prod.exhaust)
  have "parents_present (rt_registry ?w)"
    by (auto simp: parents_present_def entity_of_def asker_ep_def split: if_splits)
  with deletion_requests_safe [OF r] have "parents_present (rt_registry w')" "r = Inr ()" by blast+
  moreover have "map_of (rt_registry w') ''child'' = None"
    using r by (auto simp: delete_one_def and_then_def may_delete_def asker_ep_def entity_of_def hm_remove_def)
  ultimately show ?thesis using r by blast
qed

definition sched_ctx0 :: scheduler_ctx where
  "sched_ctx0 = \<lparr>sx_kubo_rpc_url = ''http://k'', sx_our_did = ''did:ma:r''\<rparr>"

definition ref_job :: job where
  "ref_job = \<lparr>jb_timing = Once_secs 3, jb_fragment = ''gone'', jb_schedule_id = None, jb_content = [], jb_again = Some 9\<rparr>"

theorem random_never_ends_witness:
  "\<exists>s' d. fire_job base_env sched_ctx0 ref_job \<lparr>sd_rt = runtime_of [], sd_jobs = []\<rparr> = (Inr (), s') \<and>
     1 \<le> d \<and> d \<le> max 9 1 \<and> sd_jobs s' = sd_jobs \<lparr>sd_rt = runtime_of [] :: (ref_world, unit) runtime, sd_jobs = []\<rparr> @ [ref_job\<lparr>jb_timing := Once_secs d\<rparr>]"
proof (rule random_never_ends)
  show "gen_in_range base_env" by (simp add: gen_in_range_def ref_env_def)
  show "\<exists>i x'. sched_add base_env n x = (Inr i, x')" for n x by (simp add: ref_env_def)
  show "jb_again ref_job = Some 9" by (simp add: ref_job_def)
qed

end
