(* ===== verification/Witness_Runtime.thy ===== *)
theory Witness_Runtime
  imports Witness_Plugins
begin

text \<open>
  Concrete inputs for the properties about a runtime with a manifest in the block store: manifest
  edits, bootstrap and export, claims, start-up and shutdown.
\<close>

section \<open>Runtimes with a manifest\<close>

definition stored_world :: "runtime_manifest \<Rightarrow> ref_world" where
  "stored_world m = ref_world0\<lparr>rw_blocks := [(''bR'', json_of_manifest m)], rw_blobs := [(''bW'', [0, 97])]\<rparr>"

definition stored_io :: "runtime_manifest \<Rightarrow> ref_world io" where
  "stored_io m = \<lparr>io_out = stored_world m, io_queue = [], io_spawned = []\<rparr>"

definition runtime_with :: "runtime_manifest \<Rightarrow> (ref_world, 'p) runtime" where
  "runtime_with m = (runtime_of [])\<lparr>rt_io := stored_io m, rt_stats := (rt_stats (runtime_of [] :: (ref_world, 'p) runtime))\<lparr>st_root_cid := Some ''bR''\<rparr>\<rparr>"

lemma runtime_with_simps [simp]:
  "rt_io (runtime_with m) = stored_io m" "st_root_cid (rt_stats (runtime_with m)) = Some ''bR''"
  "st_owners (rt_stats (runtime_with m)) = []" "rt_registry (runtime_with m) = []" "io_out (stored_io m) = stored_world m"
  by (simp_all add: runtime_with_def stored_io_def)

lemma stored_block: "ref_blocks (stored_world m) ''bR'' = Some (json_of_manifest m)"
  by (simp add: stored_world_def ref_blocks_def)

lemma runtime_with_holds: "manifest_ok m \<Longrightarrow> holds_manifest ref_blocks (runtime_with m) m"
  by (simp add: holds_manifest_def stored_block)

definition crud_ctx0 :: crud_ctx where
  "crud_ctx0 = \<lparr>cc_our_did = ''did:ma:r'', cc_kubo_rpc_url = ''http://k''\<rparr>"

definition base_runtime :: "(ref_world, unit) runtime" where
  "base_runtime = runtime_with manifest_example"

theorem manifest_cycle_refines_witness:
  "\<exists>new w'. with_manifest_crud base_env crud_ctx0 (remove_entity ''fortune'') base_runtime = (Inr new, w') \<and>
    st_root_cid (rt_stats w') = Some new \<and> holds_manifest ref_blocks w' (remove_entity ''fortune'' manifest_example)"
proof -
  have "manifest_ok (remove_entity ''fortune'' manifest_example)" by (rule manifest_ok_edits [OF manifest_example_ok])
  from manifest_cycle_refines [where f = "remove_entity ''fortune''", OF ref_kubo_ok _ this, of base_runtime]
  show ?thesis using runtime_with_holds [OF manifest_example_ok] unfolding base_runtime_def by blast
qed

definition asker_request :: create_entity_request where
  "asker_request = \<lparr>cr_fragment = ''fresh'', cr_kind_protocol = ''/ma/asker/0.0.1'', cr_behaviour_cid = ''bW'', cr_parent = ''asker''\<rparr>"

definition creating_runtime :: "(ref_world, unit) runtime" where
  "creating_runtime = (runtime_with manifest_example)\<lparr>rt_kinds := [(''/ma/asker/0.0.1'', asker_kind)]\<rparr>"

lemma creating_load:
  "\<exists>ep. load asker_env (cr_fragment asker_request) (created_node asker_ep asker_request) asker_kind
      (rc_our_did rpc_ctx0) (rc_kubo_rpc_url rpc_ctx0) (rt_io creating_runtime) = (Inr (ep, Running), stored_io manifest_example)"
proof -
  have n: "en_behaviour (created_node asker_ep asker_request) = Some (ipld_link_new ''bW'')"
    by (simp add: created_node_def asker_request_def)
  have c: "cat_bytes asker_env u ''bW'' (stored_world m) = (Inr [0, 97], stored_world m)" for u m
    by (simp add: asker_env_def ref_cat_bytes stored_world_def)
  have i: "(stored_io m)\<lparr>io_out := stored_world m\<rparr> = stored_io m" for m by (simp add: stored_io_def)
  have "rt_io creating_runtime = stored_io manifest_example" by (simp add: creating_runtime_def)
  then show ?thesis
    by (simp add: load_def Let_def asker_simps n c i load_state_def start_instance_def and_then_def zoom_def with_context_def map_err_def)
qed

theorem creation_deadlocks_witness:
  "for_each_p (create_one asker_env rpc_ctx0 asker_ep) [asker_request] creating_runtime = None"
proof -
  have k: "map_of (rt_kinds creating_runtime) (cr_kind_protocol asker_request) = Some asker_kind"
    "st_root_cid (rt_stats creating_runtime) = Some ''bR''"
    by (simp_all add: creating_runtime_def asker_request_def)
  obtain ep where l: "load asker_env (cr_fragment asker_request) (created_node asker_ep asker_request) asker_kind
      (rc_our_did rpc_ctx0) (rc_kubo_rpc_url rpc_ctx0) (rt_io creating_runtime) = (Inr (ep, Running), stored_io manifest_example)"
    using creating_load by blast
  show ?thesis
    by (rule creation_deadlocks [OF k(1) l k(2) _ _ manifest_example_ok, where blocks = ref_blocks])
      (simp_all add: asker_env_def ref_kubo_ok stored_block)
qed

definition secret_message :: message where
  "secret_message = ref_message\<lparr>msg_message_type := ''application/x-ma-crud'',
     msg_payload := replicate (Suc (to_nat (CArray [CText '':get'', CText '':config.secret_key'']))) 0\<rparr>"

theorem protected_keys_unreachable_witness:
  "dispatch_management base_env crud_ctx0 secret_message =
     send_crud_i18n_errorf base_env crud_ctx0 secret_message ''application/x-ma-crud-reply'' ''config-key-protected'' [(''key'', ''secret_key'')]"
proof -
  have c: "const_message_type_crud base_env = ''application/x-ma-crud''" "const_message_type_crud_reply base_env = ''application/x-ma-crud-reply''"
    by (simp_all add: ref_env_def)
  have m: "msg_message_type secret_message = const_message_type_crud base_env" by (simp add: secret_message_def c)
  have "cbor_decode base_env (msg_payload secret_message) = Some (CArray [CText '':get'', CText '':config.secret_key''])"
    by (simp add: secret_message_def ref_env_def ref_decode_encode del: replicate_Suc)
  then have d: "decode_crud_payload base_env (msg_payload secret_message) = Inr (Crud_Get '':config.secret_key'')"
    by (simp add: decode_crud_payload_def crud_op_of_cbor_def)
  have p: "parse_path '':config.secret_key'' = Inr (''config'', [''secret_key''])" by code_simp
  have k: "is_protected_config_key ''secret_key''" by code_simp
  obtain path tail args where r: "crud_route (Crud_Get '':config.secret_key'') = (path, tail, args)" by (rule prod_cases3)
  then have "path = '':config.secret_key''" by (simp add: crud_route_def)
  with p have "parse_path path = Inr (''config'', [''secret_key''])" by simp
  from protected_keys_unreachable [OF m d r this k, of crud_ctx0 base_runtime] show ?thesis unfolding c by blast
qed

theorem daemon_key_set_get_witness:
  "daemon_config_key_value (set_daemon_config_key ''log_level'' (YString ''debug'') ref_config) ''log_level'' = YString ''debug'' \<and>
   daemon_config_key_value (set_daemon_config_key ''log_file'' (YInt 3) ref_config) ''log_file'' = YNull"
  using daemon_key_set_get [of "''log_level''" "YString ''debug''" ref_config] daemon_key_set_get [of "''log_file''" "YInt 3" ref_config]
  by (simp add: DAEMON_CONFIG_KEYS_def Let_def daemon_value_ok_def)

section \<open>Bootstrap and shutdown\<close>

lemma ref_acl_codec: "acl_codec (ref_env wn wc)"
proof -
  have "entry_of_json (entry_json e) = Some e" for e
    by (cases e) (simp_all add: entry_of_json_def enc_strings_roundtrip, simp add: enc_strings_def)
  then show ?thesis by (simp add: acl_codec_def dec_hash_map_enc)
qed

definition descriptor :: bootstrap_runtime where
  "descriptor = \<lparr>bs_kinds = [(''/ma/set/0.0.1'', \<lparr>bk_api = [''handle_call''], bk_host_functions = [''ma_reply''],
       bk_evaluator = EExtism, bk_attributes = [(''stateful'', JBool True)], bk_allow = []\<rparr>)],
     bs_acl = Some [(''*'', Allow [''rpc''])],
     bs_entities = [(''members'', Bs_Inline ''/ma/set/0.0.1'' (Some (ipld_link_new ''bW'')) ''open'' None)],
     bs_acls = [(''open'', [(''*'', Allow [''*''])])]\<rparr>"

lemma descriptor_ok: "bootstrap_ok descriptor"
proof -
  have "path_str (protocol_segments ''/ma/set/0.0.1'') = ''/ma/set/0.0.1''" by code_simp
  then show ?thesis
    by (simp add: bootstrap_ok_def descriptor_def kinds_ok_def bt_ok_def hm_ok_def acl_or_default_def prefix_free_def)
qed

definition ref_cli :: cli where
  "ref_cli = \<lparr>cl_gen_headless_config = False, cl_owner = [''did:ma:a''], cl_gen_root_cid = Some ''boot.yaml'', cl_root_cid = Some ''bO'', cl_i18n = None\<rparr>"

definition first_cli :: cli where
  "first_cli = ref_cli\<lparr>cl_root_cid := None\<rparr>"

lemma ref_pins_ok: "pins_ok base_env ref_blocks (\<lambda>x. set (rw_pins x))"
  by (simp add: pins_ok_def pin_add_def post_checked_def and_then_def ref_env_def ref_http_def ref_blocks_def)

lemma ref_read_file: "read_to_string base_env p x = (Inr [], x)"
  by (simp add: ref_env_def)

theorem bootstrap_export_roundtrip_witness:
  "(\<exists>root x' x''. gen_root_cid (\<lambda>_. Some descriptor) (\<lambda>_. Inr ()) (ret ()) base_env ref_cli ref_config None ''boot.yaml'' ref_world0 = (Inr root, x') \<and>
    export_runtime base_env root (cf_kubo_rpc_url ref_config) x' = (Inr (descriptor\<lparr>bs_acl := Some (acl_or_default (bs_acl descriptor))\<rparr>), x'')) \<and>
   (\<exists>root x' x''. gen_root_cid (\<lambda>_. Some descriptor) (\<lambda>_. Inr ()) (ret ()) base_env first_cli ref_config None ''boot.yaml'' ref_world0 = (Inr root, x') \<and>
    root \<in> set (rw_pins x') \<and>
    export_runtime base_env root (cf_kubo_rpc_url ref_config) x' = (Inr (descriptor\<lparr>bs_acl := Some (acl_or_default (bs_acl descriptor))\<rparr>), x''))"
proof -
  have r: "\<exists>root x' x''. gen_root_cid (\<lambda>_. Some descriptor) (\<lambda>_. Inr ()) (ret ()) base_env cli ref_config None ''boot.yaml'' ref_world0 = (Inr root, x') \<and>
      (cl_root_cid cli = None \<longrightarrow> root \<in> (\<lambda>x. set (rw_pins x)) x') \<and>
      export_runtime base_env root (cf_kubo_rpc_url ref_config) x' = (Inr (descriptor\<lparr>bs_acl := Some (acl_or_default (bs_acl descriptor))\<rparr>), x'')" for cli
    by (rule bootstrap_export_roundtrip [where raw = "[]" and pinned = "\<lambda>x. set (rw_pins x)", OF ref_kubo_ok ref_acl_codec descriptor_ok])
      (simp_all add: ref_pins_ok ref_read_file)
  show ?thesis using r [of ref_cli] r [of first_cli] by (simp add: first_cli_def) blast
qed

theorem shutdown_links_no_state_witness:
  "\<exists>new w'. save_all_entity_states set_env ''bR'' ''http://k'' ((runtime_with manifest_example)\<lparr>rt_registry := [(''thing'', entity_of set_new)]\<rparr>) = (Inr new, w') \<and>
    ref_blocks (io_out (rt_io w')) new = Some (json_of_manifest manifest_example)"
  by (rule shutdown_links_no_state [OF _ manifest_example_ok])
    (simp_all add: set_env_def ref_kubo_ok stored_block bundled_no_save_state)

section \<open>Claims\<close>

theorem claim_sequential_witness:
  "\<exists>w'. handle_claim base_env ''did:ma:a'' base_runtime = (Inr (claimed_reply [''did:ma:a'']), w') \<and>
    st_owners (rt_stats w') = [''did:ma:a''] \<and> handle_claim base_env ''did:ma:b'' w' = (Inr already_claimed_reply, w') \<and>
    claims_in_turn base_env [''did:ma:b'', ''did:ma:c''] w' = (Inr [already_claimed_reply, already_claimed_reply], w')"
proof -
  have "st_owners (rt_stats base_runtime) = []" by (simp add: base_runtime_def)
  with conjunct2 [OF claim_sequential [of base_runtime base_env "''did:ma:a''"]] obtain w' where
    1: "handle_claim base_env ''did:ma:a'' base_runtime = (Inr (claimed_reply [''did:ma:a'']), w')"
      "st_owners (rt_stats w') = [''did:ma:a'']"
    and 2: "\<forall>others. claims_in_turn base_env others w' = (Inr (replicate (length others) already_claimed_reply), w')" by auto
  from 1(2) conjunct1 [OF claim_sequential [of w' base_env "''did:ma:b''"]]
  have "handle_claim base_env ''did:ma:b'' w' = (Inr already_claimed_reply, w')" by simp
  with 1 2 [THEN spec, of "[''did:ma:b'', ''did:ma:c'']"] show ?thesis by (auto simp: numeral_2_eq_2)
qed

text \<open>Two claims: the first reads and lets go, then both go on.\<close>

theorem claims_never_deadlock_witness:
  "\<exists>cs g w. (guarded_claims base_env ^^ 2) ([(''did:ma:a'', Before_check), (''did:ma:b'', Before_check)], no_guards, base_runtime) (cs, g, w) \<and>
    gd_stats_readers g = 2 \<and>
    claims_run base_env (phases [(''did:ma:a'', Before_check), (''did:ma:b'', Before_check)], base_runtime) (phases cs, w)"
proof -
  let ?cs = "[(''did:ma:a'', Before_check), (''did:ma:b'', Before_check)]"
  let ?c1 = "[(''did:ma:a'', Checking), (''did:ma:b'', Before_check)]" and ?c2 = "[(''did:ma:a'', Checking), (''did:ma:b'', Checking)]"
  let ?g1 = "no_guards\<lparr>gd_stats_readers := 1\<rparr>" and ?g2 = "no_guards\<lparr>gd_stats_readers := Suc (Suc 0)\<rparr>"
  have "guarded_claims base_env (?cs, no_guards, base_runtime) (?c1, ?g1, base_runtime)"
    using guarded_claims.proceed [of 0 ?cs "''did:ma:a''" Before_check base_env no_guards base_runtime] by (simp add: no_guards_def)
  moreover have "guarded_claims base_env (?c1, ?g1, base_runtime) (?c2, ?g2, base_runtime)"
    using guarded_claims.proceed [of 1 ?c1 "''did:ma:b''" Before_check base_env ?g1 base_runtime] by (simp add: no_guards_def)
  ultimately have run: "(guarded_claims base_env ^^ 2) (?cs, no_guards, base_runtime) (?c2, ?g2, base_runtime)"
    by (auto simp: numeral_2_eq_2)
  have "\<forall>c \<in> set ?cs. snd c = Before_check" by simp
  from claims_never_deadlock [OF this run] run show ?thesis by (intro exI [of _ ?c2] exI [of _ ?g2] exI [of _ base_runtime]) simp
qed

theorem claim_race_witness:
  "\<exists>w'. claims_run base_env ([(''did:ma:a'', Arrived), (''did:ma:b'', Arrived)], base_runtime)
      ([(''did:ma:a'', Answered (claimed_reply [''did:ma:a''])), (''did:ma:b'', Answered (claimed_reply [''did:ma:b'']))], w') \<and>
    st_owners (rt_stats w') = [''did:ma:b'']"
  using claim_race [of base_runtime base_env "''did:ma:a''" "''did:ma:b''"] by (auto simp: base_runtime_def)

theorem claimed_owner_shown_verbatim_witness:
  "\<exists>w1 page w2. handle_claim base_env ''<script>'' base_runtime = (Inr (claimed_reply [''<script>'']), w1) \<and>
    handle_index base_env w1 = (Inr page, w2) \<and> sublist ''<script>'' page"
proof -
  have o: "st_owners (rt_stats base_runtime) = []" by (simp add: base_runtime_def)
  obtain w1 where 1: "handle_claim base_env ''<script>'' base_runtime = (Inr (claimed_reply [''<script>'']), w1)"
    using handle_claim_granted [OF o] by blast
  obtain now w2 where "now_unix_secs base_env w1 = (Inr now, w2)"
    using succeedsE [OF succeeds_startup_parts(4)] by blast
  then obtain page where 2: "handle_index base_env w1 = (Inr page, w2)"
    by (simp add: handle_index_def and_then_def)
  from claimed_owner_shown_verbatim [OF o 1 2] 1 2 show ?thesis by blast
qed

lemma ref_files_apart: "files_apart (ref_env wn wc) ref_blocks"
  by (simp add: files_apart_def ref_env_def)

theorem claim_lost_witness:
  "\<exists>w1 new w2 w3. handle_claim base_env ''did:ma:a'' (runtime_with (minimal_manifest ''bA'' [])) = (Inr (claimed_reply [''did:ma:a'']), w1) \<and>
    with_manifest_crud base_env crud_ctx0 (insert_acl ''open'' ''bL'') w1 = (Inr new, w2) \<and> st_owners (rt_stats w2) = [] \<and>
    handle_claim base_env ''did:ma:b'' w2 = (Inr (claimed_reply [''did:ma:b'']), w3)"
proof -
  let ?m = "minimal_manifest ''bA'' []"
  let ?f = "insert_acl ''open'' ''bL''"
  have h: "holds_manifest ref_blocks (runtime_with ?m) ?m" "manifest_ok (?f ?m)" "mf_config (?f ?m) = mf_config ?m"
    by (rule runtime_with_holds [OF minimal_manifest_ok], rule manifest_ok_edits(3) [OF minimal_manifest_ok])
      (simp add: insert_acl_def)
  show ?thesis
    using claim_lost [where f = ?f, OF ref_kubo_ok ref_files_apart runtime_with_simps(3) h] by blast
qed

section \<open>The daemon\<close>

definition ref_args :: startup_args where
  "ref_args = \<lparr>sa_our_did = ''did:ma:r'', sa_endpoint_id = ''e'', sa_owner = [''did:ma:a''], sa_root_cid = Some ''bR'', sa_lang = Some ''nb'',
     sa_lang_cid = None, sa_runtime_ipns_id = ''k51'', sa_signing_key = Inr (), sa_secret_bundle = Inr ''bundle''\<rparr>"

lemma ref_startup_root:
  "startup_root base_env u (sa_root_cid ref_args) i x = (Inr (Some ''bR''), x)"
  by (simp add: startup_root_def ref_args_def ref_env_def starts_with_def)

lemma ref_startable: "startable base_env ref_args ref_config"
  by (simp add: startable_def ref_env_def ref_args_def ref_config_def)

theorem startup_leaves_witness:
  "\<exists>w. startup (\<lambda>_. []) base_env ref_args (empty_runtime ref_world0 ref_config) = (Inr (), w) \<and> st_owners (rt_stats w) = [''did:ma:a'']"
proof -
  let ?w0 = "empty_runtime ref_world0 ref_config :: (ref_world, unit) runtime"
  obtain r w where s: "startup (\<lambda>_. []) base_env ref_args ?w0 = (r, w)" by (rule prod.exhaust)
  note l = startup_leaves [OF ref_startup_root s]
  have "rt_config ?w0 = ref_config" by (simp add: empty_runtime_def)
  with conjunct2 [OF l] ref_startable have "r = Inr ()" by simp
  with conjunct1 [OF l] s show ?thesis
    by (auto simp: resolve_owners_def ref_args_def empty_runtime_def ref_config_def)
qed

lemma ref_reachable: "\<exists>w. reachable (\<lambda>_. []) base_env ref_args w"
proof -
  let ?w0 = "empty_runtime ref_world0 ref_config :: (ref_world, unit) runtime"
  have "startup_root base_env (cf_kubo_rpc_url (rt_config ?w0)) (sa_root_cid ref_args) (sa_runtime_ipns_id ref_args)
      (io_out (rt_io ?w0)) = (Inr (Some ''bR''), io_out (rt_io ?w0))" by (rule ref_startup_root)
  note s = startup_then [OF this]
  have "rt_config ?w0 = ref_config" by (simp add: empty_runtime_def)
  with succeedsE [OF succeeds_startup_from [OF ref_startable]] s
  obtain w where "startup (\<lambda>_. []) base_env ref_args ?w0 = (Inr (), w)" by (metis old.unit.exhaust)
  then show ?thesis by (blast intro: reachable.started)
qed

theorem no_entity_ever_created_witness:
  "\<exists>w. reachable (\<lambda>_. []) base_env ref_args w \<and> create_one base_env rpc_ctx0 (entity_of ()) asker_request w = Some (Inr (), w)"
  using ref_reachable no_entity_ever_created by blast

end
