(* ===== verification/Served_Facts.thy ===== *)
theory Served_Facts
  imports Daemon_Facts Group_Facts
begin

text \<open>
  What a message does all the way through the daemon: a verb of a counter from the inbox to the reply
  on the wire, and a schedule request from the inbox of the scheduler entity to the call it makes.
\<close>

section \<open>A verb is served\<close>

lemma direct_grant:
  assumes "map_of acl (normalize_principal E caller) \<noteq> Some Deny" and "map_of acl ''*'' \<noteq> Some Deny"
    and "check_cap E acl caller cap" and "cap \<in> set caps"
  shows "check_full E acl caller caps rg w = (Inr (), w)"
  using assms by (auto simp: check_full_def Let_def denied_entry_def list_ex_iff)

lemma entity_gate_direct:
  assumes "ep_acl entity \<noteq> []" and "map_of (rt_acl_cache w) (''acls.'' @ ep_acl entity) = Some acl"
    and "map_of acl (normalize_principal E (gate_caller (rc_our_did ctx) from)) \<noteq> Some Deny"
    and "map_of acl ''*'' \<noteq> Some Deny" and "check_cap E acl (gate_caller (rc_our_did ctx) from) verb"
  shows "entity_gate E ctx entity from (Some verb) w = (Inr (), w)"
  using assms(1,2) direct_grant [OF assms(3-5), of "[verb, ''*'']" "\<lambda>g. query_actor_group E g (gate_caller (rc_our_did ctx) from)" w]
  by (simp add: entity_gate_def Let_def with_context_def)

text \<open>Saving pending state changes the bookkeeping of one instance and the world outside.\<close>

lemma save_pending_effect:
  assumes "map_of (rt_registry w) name = Some p" and "ep_backend p = Extism xt"
  shows "\<exists>w' p' xt'. save_pending E url name ep pending w = (Inr (), w') \<and> rt_stats w' = rt_stats w \<and>
    rt_config w' = rt_config w \<and> io_queue (rt_io w') = io_queue (rt_io w) \<and>
    map fst (rt_registry w') = map fst (rt_registry w) \<and>
    map_of (rt_registry w') name = Some p' \<and> ep_backend p' = Extism xt' \<and> xt_mem xt' = xt_mem xt"
proof (cases pending)
  case None
  then show ?thesis using assms by (simp add: save_pending_def)
next
  case (Some b)
  obtain r x where "ipfs_add E url b (io_out (rt_io w)) = (r, x)" by (rule prod.exhaust)
  then show ?thesis using Some assms
    by (cases r) (simp_all add: save_pending_def and_then_def attempt_def zoom_def with_plugin_def mark_saved_def)
qed

lemma counter_entity_served:
  assumes E: "cbor_faithful E" "wasm_call E = counter_export (codec_of E)"
    and ep: "map_of (rt_registry w) fragment = Some ep" "ep_fragment ep = fragment" "ep_kind ep = Stateful"
      "ep_backend ep = Extism xt" "\<not> cm_borrowed (xt_mem xt)" "Ma_reply \<in> set (xt_fns xt)" "Ma_set_state \<in> set (xt_fns xt)"
      "xt_create xt = []" "xt_delete xt = []"
    and gate: "entity_gate E ctx ep (msg_from m) (Some verb) w = (Inr (), w)"
    and verb: "counter_verb (cm_value (xt_mem xt)) verb args = (result, v, persists)"
    and msg: "msg = rpc_local_message E m (enc E (CArray (CText verb # args)))"
  shows "\<exists>w' ep' xt'. handle_entity_plugin_message E ctx m (CArray (CText verb # args)) ep w = Some (Inr (), w') \<and>
    rt_stats w' = rt_stats w \<and> rt_config w' = rt_config w \<and>
    io_queue (rt_io w') = io_queue (rt_io w) @ [(fragment, reply_envelope msg (enc E result))] \<and>
    map fst (rt_registry w') = map fst (rt_registry w) \<and> map_of (rt_registry w') fragment = Some ep' \<and>
    ep_backend ep' = Extism xt' \<and> xt_mem xt' = \<lparr>cm_value = v, cm_borrowed = False\<rparr>"
proof -
  let ?c = "collect [] (counter_after E v persists xt)"
  have c: "dr_create_requests (fst ?c) = []" "dr_delete_requests (fst ?c) = []"
    "xt_mem (snd ?c) = \<lparr>cm_value = v, cm_borrowed = False\<rparr>"
    using ep(8,9) by (simp_all add: collect_def counter_after_def)
  let ?io = "(rt_io w)\<lparr>io_queue := io_queue (rt_io w) @ [(fragment, reply_envelope msg (enc E result))]\<rparr>"
  let ?ep = "ep\<lparr>ep_backend := Extism (snd ?c)\<rparr>"
  let ?w = "put_plugin fragment ?ep (w\<lparr>rt_io := ?io\<rparr>)"
  have "parse_verb (codec_of E) (lm_content msg) = Some (verb, args)"
    by (simp add: msg rpc_local_message_def parse_verb_def codec_faithful [OF E(1)])
  from counter_run [OF E ep(4-7) this verb, of "rt_io w"]
  have "dispatch_entity E ep \<lparr>ci_msg = msg\<rparr> w = (Inr (fst ?c), ?w)"
    by (simp add: dispatch_entity_def ep(1-3) handle_call_def with_plugin_def)
  moreover obtain w' p' xt' where
    "save_pending E (rc_kubo_rpc_url ctx) fragment ep (dr_pending_state (fst ?c)) ?w = (Inr (), w')" "rt_stats w' = rt_stats w"
    "rt_config w' = rt_config w" "io_queue (rt_io w') = io_queue ?io" "map fst (rt_registry w') = map fst (rt_registry w)"
    "map_of (rt_registry w') fragment = Some p'" "ep_backend p' = Extism xt'" "xt_mem xt' = xt_mem (snd ?c)"
    using save_pending_effect [of ?w fragment ?ep "snd ?c" E "rc_kubo_rpc_url ctx" ep "dr_pending_state (fst ?c)"] ep(1) by auto
  ultimately show ?thesis
    using c gate
    by (intro exI [of _ w'] exI [of _ p'] exI [of _ xt'])
      (simp add: handle_entity_plugin_message_def verb_of_term_def then_p_def encode_or_def enc_faithful [OF E(1)]
        with_context_def ep(2) msg live_def)
qed

text \<open>C6: a verb of a counter is served. When the inbox holds one message, a verb for a counter whose
  entity gate admits the sender directly and whose transport gate lets it pass, a tick of the loop
  counts the message, leaves the new value in the counter and no envelope behind, keeps every other
  entity, and its last act on the outside world is to send the counter's one reply, with the result of
  the verb, from the counter's fragment to the sender.\<close>

theorem counter_served:
  assumes E: "cbor_faithful E" "wasm_call E = counter_export (codec_of E)"
    and ep: "map_of (rt_registry w) fragment = Some ep" "ep_fragment ep = fragment" "ep_kind ep = Stateful"
      "ep_backend ep = Extism xt" "\<not> cm_borrowed (xt_mem xt)" "Ma_reply \<in> set (xt_fns xt)" "Ma_set_state \<in> set (xt_fns xt)"
      "xt_create xt = []" "xt_delete xt = []"
    and q: "io_queue (rt_io w) = []"
    and m: "msg_message_type m = const_message_type_rpc E" "msg_to m = our_did @ ''#'' @ fragment"
      "cbor_decode E (msg_payload m) = Some (CArray (CText verb # args))"
    and transport: "fst (rpc_gate E \<lparr>rc_our_did = our_did, rc_kubo_rpc_url = url\<rparr> (rt_root_acl w) (msg_from m) w) = Inr ()"
    and entity: "ep_acl ep \<noteq> []" "map_of (rt_acl_cache w) (''acls.'' @ ep_acl ep) = Some acl"
      "map_of acl (normalize_principal E (gate_caller our_did (msg_from m))) \<noteq> Some Deny"
      "map_of acl ''*'' \<noteq> Some Deny" "check_cap E acl (gate_caller our_did (msg_from m)) verb"
    and verb: "counter_verb (cm_value (xt_mem xt)) verb args = (result, v, persists)"
  shows "\<exists>w' x ep' xt'. tick E our_did \<lparr>in_rpc = [m], in_ipfs = [], in_crud = []\<rparr> w = Some (Inr (), w') \<and>
    st_rpc_requests (rt_stats w') = st_rpc_requests (rt_stats w) + 1 \<and>
    io_queue (rt_io w') = [] \<and> io_out (rt_io w') = snd (send_envelope_out E our_did
      (fragment, reply_envelope (rpc_local_message E m (enc E (CArray (CText verb # args)))) (enc E result)) x) \<and>
    map fst (rt_registry w') = map fst (rt_registry w) \<and> map_of (rt_registry w') fragment = Some ep' \<and>
    ep_backend ep' = Extism xt' \<and> xt_mem xt' = \<lparr>cm_value = v, cm_borrowed = False\<rparr>"
proof -
  let ?url = "cf_kubo_rpc_url (rt_config w)"
  let ?ctx = "\<lparr>rc_our_did = our_did, rc_kubo_rpc_url = ?url\<rparr>"
  let ?w = "w\<lparr>rt_stats := (rt_stats w)\<lparr>st_rpc_requests := st_rpc_requests (rt_stats w) + 1\<rparr>\<rparr>"
  let ?msg = "rpc_local_message E m (enc E (CArray (CText verb # args)))"
  let ?e = "(fragment, reply_envelope ?msg (enc E result))"
  have "fst (rpc_gate E ?ctx (rt_root_acl w) (msg_from m) ?w) = Inr ()"
    using transport unfolding rpc.passes_iff by simp
  then have t: "rpc_gate E ?ctx (rt_root_acl w) (msg_from m) ?w = (Inr (), ?w)"
    by (metis rpc.keeps_state prod.collapse)
  have g: "entity_gate E ?ctx ep (msg_from m) (Some verb) ?w = (Inr (), ?w)"
    by (rule entity_gate_direct) (use entity in simp_all)
  obtain w1 ep' xt' where
    "handle_entity_plugin_message E ?ctx m (CArray (CText verb # args)) ep ?w = Some (Inr (), w1)" and
    w1: "rt_stats w1 = rt_stats ?w" "io_queue (rt_io w1) = [?e]" "map fst (rt_registry w1) = map fst (rt_registry w)"
      "map_of (rt_registry w1) fragment = Some ep'" "ep_backend ep' = Extism xt'" "xt_mem xt' = \<lparr>cm_value = v, cm_borrowed = False\<rparr>"
    using counter_entity_served [OF E _ ep(2-9) g verb refl] ep(1) q by auto
  moreover have "extract_fragment (msg_to m) our_did = Some fragment"
    using strip_prefix_append [of "our_did @ ''#''" fragment] by (simp add: extract_fragment_def m(2))
  ultimately have "handle_rpc_message E ?ctx (rt_root_acl w) m ?w = Some (Inr (), w1)"
    using t ep(1) m
    by (simp add: handle_rpc_message_def with_context_def ok_or_def lift_res_def attempt_p_def then_p_def live_def)
  then have s: "serve_rpc E our_did ?url m w = Some (Inr (), w1)"
    by (simp add: serve_rpc_def attempt_p_def then_p_def live_def)
  obtain x where d: "drain_envelopes E our_did w1 =
      (Inr (), w1\<lparr>rt_io := (rt_io w1)\<lparr>io_queue := [], io_out := snd (send_envelope_out E our_did ?e x)\<rparr>\<rparr>)"
    using drain_one [OF w1(2)] by blast
  have "tick E our_did \<lparr>in_rpc = [m], in_ipfs = [], in_crud = []\<rparr> w =
      Some (Inr (), w1\<lparr>rt_io := (rt_io w1)\<lparr>io_queue := [], io_out := snd (send_envelope_out E our_did ?e x)\<rparr>\<rparr>)"
    using s d by (simp add: tick_def Let_def then_p_def live_def)
  then show ?thesis using w1 by auto
qed

section \<open>A scheduled verb\<close>

text \<open>The content of the call a request asks for decodes to the verb and its arguments.\<close>

lemma encode_verb_content_parses:
  assumes "cbor_faithful E"
  shows "\<exists>content. encode_verb_content E (a # b # c # CText verb # args) = Inr content \<and>
    parse_verb (codec_of E) content = Some (verb, args)"
proof -
  let ?v = "if args = [] then CText verb else CArray (CText verb # args)"
  have "verb_term (a # b # c # CText verb # args) = Some ?v" by (simp add: verb_term_def)
  then have "encode_verb_content E (a # b # c # CText verb # args) = Inr (enc E ?v)"
    by (simp add: encode_verb_content_def enc_faithful [OF assms])
  then show ?thesis by (auto simp: parse_verb_def codec_faithful [OF assms])
qed

lemma interval_request_spawns:
  assumes "cbor_faithful E" and "parse_duration E dur = Inr secs"
    and "lm_content msg = enc E (CArray (CText '':interval'' # CText dur # CText target # CText verb # args))"
  shows "\<exists>content res. parse_verb (codec_of E) content = Some (verb, args) \<and>
    dispatch_to E ''handle_cast'' \<lparr>ci_msg = msg\<rparr> (scheduler_plugin dbg E, io) =
      (Inr res, (scheduler_plugin dbg E, io\<lparr>io_spawned := io_spawned io @
        [\<lparr>sp_fragment = bare_fragment target, sp_request = Interval secs content\<rparr>]\<rparr>))"
proof -
  obtain content where c: "encode_verb_content E (CText '':interval'' # CText dur # CText target # CText verb # args) = Inr content"
    "parse_verb (codec_of E) content = Some (verb, args)"
    using encode_verb_content_parses [OF assms(1)] by blast
  then show ?thesis
    by (intro exI [of _ content])
      (simp add: scheduler_plugin_def new_native_def dispatch_to_def make_native_dispatch_def assms(3)
        enc_faithful [OF assms(1)] parse_schedule_request_def request_of_def assms(2))
qed

text \<open>A scheduled call of a counter takes effect; nobody is asked whether it may.\<close>

lemma counter_scheduled:
  assumes E: "cbor_faithful E" "wasm_call E = counter_export (codec_of E)"
    and ep: "map_of (rt_registry w) fragment = Some ep" "ep_kind ep = Stateful" "ep_backend ep = Extism xt"
      "\<not> cm_borrowed (xt_mem xt)" "Ma_reply \<in> set (xt_fns xt)" "Ma_set_state \<in> set (xt_fns xt)"
    and content: "parse_verb (codec_of E) content = Some (verb, args)"
    and verb: "counter_verb (cm_value (xt_mem xt)) verb args = (result, v, persists)"
  shows "\<exists>w' ep' xt'. dispatch_scheduled E ctx fragment i content w = (Inr (), w') \<and>
    map_of (rt_registry w') fragment = Some ep' \<and> ep_backend ep' = Extism xt' \<and>
    xt_mem xt' = \<lparr>cm_value = v, cm_borrowed = False\<rparr>"
proof -
  obtain n x where n: "now_nanos E (io_out (rt_io w)) = (n, x)" by (rule prod.exhaust)
  let ?msg = "scheduled_message E ctx fragment content (as_nanos_u64 n)"
  let ?c = "collect [] (counter_after E v persists xt)"
  let ?io = "(rt_io w)\<lparr>io_out := x\<rparr>"
  let ?io1 = "?io\<lparr>io_queue := io_queue ?io @ [(ep_fragment ep, reply_envelope ?msg (enc E result))]\<rparr>"
  let ?ep = "ep\<lparr>ep_backend := Extism (snd ?c)\<rparr>"
  let ?w = "put_plugin fragment ?ep (w\<lparr>rt_io := ?io1\<rparr>)"
  have "parse_verb (codec_of E) (lm_content ?msg) = Some (verb, args)" by (simp add: scheduled_message_def content)
  from counter_run [OF E ep(3-6) this verb, of ?io]
  have "with_plugin fragment ep (handle_call E \<lparr>ci_msg = ?msg\<rparr>) (w\<lparr>rt_io := ?io\<rparr>) = (Inr (fst ?c), ?w)"
    by (simp add: handle_call_def with_plugin_def ep(1))
  then have d: "dispatch_scheduled E ctx fragment i content w =
      save_pending E (sx_kubo_rpc_url ctx) fragment ep (dr_pending_state (fst ?c)) ?w"
    using n ep(1,2) by (simp add: dispatch_scheduled_def and_then_def attempt_def zoom_def Let_def)
  have "xt_mem (snd ?c) = \<lparr>cm_value = v, cm_borrowed = False\<rparr>" by (simp add: collect_def counter_after_def)
  then show ?thesis
    unfolding d using save_pending_effect [of ?w fragment ?ep "snd ?c" E "sx_kubo_rpc_url ctx" ep "dr_pending_state (fst ?c)"] ep(1)
    by auto
qed

text \<open>What the scheduler entity does with a message its list admits: the request is left for its task.\<close>

lemma scheduler_serves:
  assumes E: "cbor_faithful E"
    and request: "parse_duration E dur = Inr secs"
    and sch: "map_of (rt_registry w) SCHEDULER_FRAGMENT = Some (scheduler_plugin dbg E)"
    and admitted: "entity_gate E ctx (scheduler_plugin dbg E) (msg_from m) (Some '':interval'') w = (Inr (), w)"
  shows "\<exists>content w1. parse_verb (codec_of E) content = Some (verb, args) \<and>
    handle_entity_plugin_message E ctx m (CArray (CText '':interval'' # CText dur # CText target # CText verb # args))
      (scheduler_plugin dbg E) w = Some (Inr (), w1) \<and>
    rt_io w1 = (rt_io w)\<lparr>io_spawned := io_spawned (rt_io w) @
      [\<lparr>sp_fragment = bare_fragment target, sp_request = Interval secs content\<rparr>]\<rparr>"
proof -
  let ?request = "CArray (CText '':interval'' # CText dur # CText target # CText verb # args)"
  let ?msg = "rpc_local_message E m (enc E ?request)"
  obtain content where c: "encode_verb_content E (CText '':interval'' # CText dur # CText target # CText verb # args) = Inr content"
    "parse_verb (codec_of E) content = Some (verb, args)"
    using encode_verb_content_parses [OF E] by blast
  let ?io = "(rt_io w)\<lparr>io_spawned := io_spawned (rt_io w) @
      [\<lparr>sp_fragment = bare_fragment target, sp_request = Interval secs content\<rparr>]\<rparr>"
  let ?res = "\<lparr>dr_output = enc E (CText '':ok''), dr_pending_state = None, dr_create_requests = [], dr_delete_requests = []\<rparr>"
  have "lm_content ?msg = enc E ?request" by (simp add: rpc_local_message_def)
  then have d: "handle_cast E \<lparr>ci_msg = ?msg\<rparr> (scheduler_plugin dbg E, rt_io w) = (Inr ?res, (scheduler_plugin dbg E, ?io))"
    by (simp add: handle_cast_def scheduler_plugin_def new_native_def dispatch_to_def make_native_dispatch_def enc_faithful [OF E]
        parse_schedule_request_def request_of_def request c(1))
  have frag: "ep_fragment (scheduler_plugin dbg E) = SCHEDULER_FRAGMENT" "ep_kind (scheduler_plugin dbg E) = Stateless"
    by (simp_all add: scheduler_plugin_def new_native_def)
  let ?w1 = "put_plugin SCHEDULER_FRAGMENT (scheduler_plugin dbg E) (w\<lparr>rt_io := ?io\<rparr>)"
  have "dispatch_entity E (scheduler_plugin dbg E) \<lparr>ci_msg = ?msg\<rparr> w = (Inr ?res, ?w1)"
    using d by (simp add: dispatch_entity_def frag with_plugin_def sch)
  then have "handle_entity_plugin_message E ctx m ?request (scheduler_plugin dbg E) w = Some (Inr (), ?w1)"
    using admitted
    by (simp add: handle_entity_plugin_message_def verb_of_term_def then_p_def live_def with_context_def encode_or_def
        enc_faithful [OF E] save_pending_def)
  with c(2) show ?thesis by (intro exI [of _ content] exI [of _ ?w1]) simp
qed

text \<open>The same message at the RPC service.\<close>

lemma scheduler_message_served:
  assumes "fst (rpc_gate E ctx acl (msg_from m) w) = Inr ()" and "msg_message_type m = const_message_type_rpc E"
    and "msg_to m = rc_our_did ctx @ ''#'' @ fragment" and "cbor_decode E (msg_payload m) = Some v"
    and "map_of (rt_registry w) fragment = Some ep"
    and "handle_entity_plugin_message E ctx m v ep w = Some (Inr (), w1)"
  shows "handle_rpc_message E ctx acl m w = Some (Inr (), w1)"
proof -
  have "rpc_gate E ctx acl (msg_from m) w = (Inr (), w)" using assms(1) by (metis rpc.keeps_state prod.collapse)
  moreover have "extract_fragment (msg_to m) (rc_our_did ctx) = Some fragment"
    using strip_prefix_append [of "rc_our_did ctx @ ''#''" fragment] by (simp add: extract_fragment_def assms(3))
  ultimately show ?thesis using assms(2,4-6)
    by (simp add: handle_rpc_message_def with_context_def ok_or_def lift_res_def attempt_p_def then_p_def live_def)
qed

text \<open>A counter that is ready for a call and whose access list refuses every message.\<close>

definition closed_counter :: "('x, counter_mem) runtime \<Rightarrow> string \<Rightarrow> counter_mem entity_plugin \<Rightarrow> i64 \<Rightarrow> bool" where
  "closed_counter w fragment ep value \<longleftrightarrow> map_of (rt_registry w) fragment = Some ep \<and> ep_kind ep = Stateful \<and>
     (ep_acl ep = [] \<or> map_of (rt_acl_cache w) (''acls.'' @ ep_acl ep) = None) \<and>
     (\<exists>xt. ep_backend ep = Extism xt \<and> xt_mem xt = \<lparr>cm_value = value, cm_borrowed = False\<rparr> \<and>
        Ma_reply \<in> set (xt_fns xt) \<and> Ma_set_state \<in> set (xt_fns xt))"

text \<open>Each firing of a job for it carries out the verb, although its list refuses the verb as a message.\<close>

lemma closed_counter_fires:
  assumes E: "cbor_faithful E" "wasm_call E = counter_export (codec_of E)"
    and c: "parse_verb (codec_of E) content = Some (verb, args)" and closed: "closed_counter (sd_rt s) fragment ep n"
  shows "\<forall>rctx direct. \<exists>e. handle_entity_plugin_message E rctx direct (CArray (CText verb # args)) ep (sd_rt s) =
      Some (Inl e, sd_rt s)"
    and "\<exists>s2 ep' xt'. fire_job E ctx (plain_job (Every_secs secs) fragment None content) s = (Inr (), s2) \<and>
      map_of (rt_registry (sd_rt s2)) fragment = Some ep' \<and> ep_backend ep' = Extism xt' \<and>
      xt_mem xt' = \<lparr>cm_value = fst (snd (counter_verb n verb args)), cm_borrowed = False\<rparr>"
proof -
  from closed obtain xt where ep: "map_of (rt_registry (sd_rt s)) fragment = Some ep" "ep_kind ep = Stateful" "ep_backend ep = Extism xt"
    "xt_mem xt = \<lparr>cm_value = n, cm_borrowed = False\<rparr>" "Ma_reply \<in> set (xt_fns xt)" "Ma_set_state \<in> set (xt_fns xt)"
    and shut: "ep_acl ep = [] \<or> map_of (rt_acl_cache (sd_rt s)) (''acls.'' @ ep_acl ep) = None"
    unfolding closed_counter_def by blast
  show "\<forall>rctx direct. \<exists>e. handle_entity_plugin_message E rctx direct (CArray (CText verb # args)) ep (sd_rt s) =
      Some (Inl e, sd_rt s)"
    using entity_gate_closed [OF shut] gate_closed_message by blast
  obtain result v persists where v: "counter_verb n verb args = (result, v, persists)" by (metis prod_cases3)
  obtain w2 ep' xt' where f: "dispatch_scheduled E ctx fragment None content (sd_rt s) = (Inr (), w2)"
    "map_of (rt_registry w2) fragment = Some ep'" "ep_backend ep' = Extism xt'" "xt_mem xt' = \<lparr>cm_value = v, cm_borrowed = False\<rparr>"
    using counter_scheduled [OF E ep(1-3) _ ep(5,6) c, of result v persists ctx None] ep(4) v by auto
  have "fire_job E ctx (plain_job (Every_secs secs) fragment None content) s = (Inr (), s\<lparr>sd_rt := w2\<rparr>)"
    using f(1) by (simp add: fire_job_def plain_job_def and_then_def zoom_def)
  with f(2-4) show "\<exists>s2 ep' xt'. fire_job E ctx (plain_job (Every_secs secs) fragment None content) s = (Inr (), s2) \<and>
      map_of (rt_registry (sd_rt s2)) fragment = Some ep' \<and> ep_backend ep' = Extism xt' \<and>
      xt_mem xt' = \<lparr>cm_value = fst (snd (counter_verb n verb args)), cm_borrowed = False\<rparr>"
    by (intro exI [of _ "s\<lparr>sd_rt := w2\<rparr>"] exI [of _ ep'] exI [of _ xt']) (simp add: v)
qed

text \<open>C25: a schedule goes round the access list of its target. Let a caller pass the transport gate and be
  admitted by the list \<open>scheduler\<close> for \<open>:interval\<close>; nothing is asked of the lists of other entities. Its
  message to the scheduler entity is accepted and its task registers a repeating job with the requested
  period. In every later state of the scheduler where the target is a counter whose own list is
  missing, and which refuses every message, each firing of that job carries out the verb on it.\<close>

theorem scheduled_call_skips_acl:
  assumes E: "cbor_faithful E" "wasm_call E = counter_export (codec_of E)"
    and sched: "\<And>n x. \<exists>i x'. sched_add E n x = (Inr i, x')"
    and request: "parse_duration E dur = Inr secs"
    and m: "msg_message_type m = const_message_type_rpc E" "msg_to m = our_did @ ''#'' @ SCHEDULER_FRAGMENT"
      "cbor_decode E (msg_payload m) = Some (CArray (CText '':interval'' # CText dur # CText target # CText verb # args))"
    and transport: "fst (rpc_gate E \<lparr>rc_our_did = our_did, rc_kubo_rpc_url = url\<rparr> root_acl (msg_from m) w) = Inr ()"
    and sch: "map_of (rt_registry w) SCHEDULER_FRAGMENT = Some (scheduler_plugin dbg E)"
    and admitted: "map_of (rt_acl_cache w) ''acls.scheduler'' = Some acl"
      "map_of acl (normalize_principal E (gate_caller our_did (msg_from m))) \<noteq> Some Deny"
      "map_of acl ''*'' \<noteq> Some Deny" "check_cap E acl (gate_caller our_did (msg_from m)) '':interval''"
    and idle: "io_spawned (rt_io w) = []"
  shows "\<exists>w1 s1 j. handle_rpc_message E \<lparr>rc_our_did = our_did, rc_kubo_rpc_url = url\<rparr> root_acl m w = Some (Inr (), w1) \<and>
    run_spawned E \<lparr>sd_rt = w1, sd_jobs = jobs\<rparr> = (Inr (), s1) \<and>
    sd_jobs s1 = jobs @ [j] \<and> jb_timing j = Every_secs secs \<and> jb_fragment j = bare_fragment target \<and>
    (\<forall>s ep n ctx. closed_counter (sd_rt s) (bare_fragment target) ep n \<longrightarrow>
      (\<forall>rctx direct. \<exists>e. handle_entity_plugin_message E rctx direct (CArray (CText verb # args)) ep (sd_rt s) =
         Some (Inl e, sd_rt s)) \<and>
      (\<exists>s2 ep' xt'. fire_job E ctx j s = (Inr (), s2) \<and> map_of (rt_registry (sd_rt s2)) (bare_fragment target) = Some ep' \<and>
         ep_backend ep' = Extism xt' \<and>
         xt_mem xt' = \<lparr>cm_value = fst (snd (counter_verb n verb args)), cm_borrowed = False\<rparr>))"
proof -
  let ?ctx = "\<lparr>rc_our_did = our_did, rc_kubo_rpc_url = url\<rparr>" and ?frag = "bare_fragment target"
  have acl: "ep_acl (scheduler_plugin dbg E) = ''scheduler''"
    by (simp add: scheduler_plugin_def new_native_def scheduler_entity_node_def SCHEDULER_ACL_def)
  have gate: "entity_gate E ?ctx (scheduler_plugin dbg E) (msg_from m) (Some '':interval'') w = (Inr (), w)"
    by (rule entity_gate_direct) (use admitted acl in simp_all)
  obtain content w1 where c: "parse_verb (codec_of E) content = Some (verb, args)"
    and 1: "handle_entity_plugin_message E ?ctx m (CArray (CText '':interval'' # CText dur # CText target # CText verb # args))
      (scheduler_plugin dbg E) w = Some (Inr (), w1)"
    and io: "rt_io w1 = (rt_io w)\<lparr>io_spawned := [\<lparr>sp_fragment = ?frag, sp_request = Interval secs content\<rparr>]\<rparr>"
    using scheduler_serves [OF E(1) request sch gate, of verb args target] idle by auto
  have served: "handle_rpc_message E ?ctx root_acl m w = Some (Inr (), w1)"
    using m(2) by (intro scheduler_message_served [OF transport m(1) _ m(3) sch 1]) simp
  let ?j = "plain_job (Every_secs secs) ?frag None content"
  obtain i x where a: "sched_add E (length jobs) (io_out (rt_io w)) = (Inr i, x)" using sched by blast
  let ?s1 = "\<lparr>sd_rt = w1\<lparr>rt_io := (rt_io w1)\<lparr>io_spawned := [], io_out := x\<rparr>\<rparr>, sd_jobs = jobs @ [?j]\<rparr>"
  have run: "run_spawned E \<lparr>sd_rt = w1, sd_jobs = jobs\<rparr> = (Inr (), ?s1)"
    by (simp add: run_spawned_def register_schedule_def add_job_def and_then_def attempt_def zoom_def a io)
  have "jb_timing ?j = Every_secs secs" "jb_fragment ?j = ?frag" by (simp_all add: plain_job_def)
  with served run closed_counter_fires [OF E c] show ?thesis
    by (intro exI [of _ w1] exI [of _ ?s1] exI [of _ ?j] conjI) simp_all
qed

end
