(* ===== verification/Witness_Served.thy ===== *)
theory Witness_Served
  imports Witness_Runtime Served_Facts
begin

text \<open>
  Concrete inputs for the properties that span the daemon: a counter that serves a verb, a counter
  with no access list that is scheduled, and a started daemon.
\<close>

definition inc_five :: cbor where
  "inc_five = CArray [CText '':inc'', CInteger 5]"

definition inc_message :: message where
  "inc_message = ref_message\<lparr>msg_payload := enc counter_env inc_five\<rparr>"

definition open_runtime :: "(ref_world, counter_mem) runtime" where
  "open_runtime = (runtime_of [(''thing'', entity_of counter_new)])\<lparr>
     rt_root_acl := [(''*'', Allow [''rpc''])], rt_acl_cache := [(''acls.open'', [(''did:ma:a'', Allow [''*''])])]\<rparr>"

lemma counter_inc: "counter_verb (cm_value (xt_mem (instance_of counter_new))) '':inc'' [CInteger 5] = (cbor_ok (CInteger 5), 5, True)"
  by code_simp

theorem counter_served_witness:
  "\<exists>w' ep' xt'. tick counter_env ''did:ma:r'' \<lparr>in_rpc = [inc_message], in_ipfs = [], in_crud = []\<rparr> open_runtime = Some (Inr (), w') \<and>
     io_queue (rt_io w') = [] \<and> map_of (rt_registry w') ''thing'' = Some ep' \<and> ep_backend ep' = Extism xt' \<and>
     xt_mem xt' = \<lparr>cm_value = 5, cm_borrowed = False\<rparr>"
proof -
  have ep: "map_of (rt_registry open_runtime) ''thing'' = Some (entity_of counter_new)"
    "ep_fragment (entity_of counter_new) = ''thing''" "ep_kind (entity_of counter_new) = Stateful"
    "\<not> cm_borrowed (xt_mem (instance_of counter_new))" "Ma_reply \<in> set (xt_fns (instance_of counter_new))"
    "Ma_set_state \<in> set (xt_fns (instance_of counter_new))" "xt_create (instance_of counter_new) = []"
    "xt_delete (instance_of counter_new) = []" "io_queue (rt_io open_runtime) = []"
    by (simp_all add: open_runtime_def entity_of_def instance_of_def counter_new_def)
  have m: "msg_message_type inc_message = const_message_type_rpc counter_env" "msg_to inc_message = ''did:ma:r'' @ ''#'' @ ''thing''"
    "cbor_decode counter_env (msg_payload inc_message) = Some (CArray (CText '':inc'' # [CInteger 5]))"
    using enc_faithful [OF ref_plugin_envs(1), of inc_five]
    by (simp_all add: inc_message_def ref_message_def inc_five_def) (simp add: counter_env_def ref_env_def)
  have g: "fst (rpc_gate counter_env \<lparr>rc_our_did = ''did:ma:r'', rc_kubo_rpc_url = []\<rparr> (rt_root_acl open_runtime)
      (msg_from inc_message) open_runtime) = Inr ()"
    unfolding rpc.passes_iff
    by (simp add: open_runtime_def inc_message_def ref_message_def counter_env_def ref_check_cap_def ref_normalize_def CAP_RPC_def)
  have a: "ep_acl (entity_of counter_new) \<noteq> []"
    "map_of (rt_acl_cache open_runtime) (''acls.'' @ ep_acl (entity_of counter_new)) = Some [(''did:ma:a'', Allow [''*''])]"
    "map_of [(''did:ma:a'', Allow [''*''])] (normalize_principal counter_env (gate_caller ''did:ma:r'' (msg_from inc_message))) \<noteq> Some Deny"
    "map_of [(''did:ma:a'', Allow [''*''])] ''*'' \<noteq> Some Deny"
    "check_cap counter_env [(''did:ma:a'', Allow [''*''])] (gate_caller ''did:ma:r'' (msg_from inc_message)) '':inc''"
    by (simp_all add: open_runtime_def entity_of_def inc_message_def ref_message_def counter_env_def gate_caller_def
        strip_prefix_def starts_with_def ref_check_cap_def ref_normalize_def)
  from counter_served [OF ref_plugin_envs(1,2) ep(1-3) instance_simps(3) ep(4-9) m g a counter_inc] show ?thesis by blast
qed

definition closed_runtime :: "(ref_world, counter_mem) runtime" where
  "closed_runtime = (runtime_of [(''thing'', entity_of counter_new), (''scheduler'', scheduler_plugin (\<lambda>_. []) counter_env)])\<lparr>
     rt_root_acl := [(''*'', Allow [''rpc''])], rt_acl_cache := [(''acls.scheduler'', [(''did:ma:a'', Allow ['':interval''])])]\<rparr>"

definition tick_request :: message where
  "tick_request = ref_message\<lparr>msg_to := ''did:ma:r#scheduler'', msg_payload :=
     enc counter_env (CArray [CText '':interval'', CText ''30s'', CText ''did:ma:r#thing'', CText '':inc'', CInteger 5])\<rparr>"

lemma thirty_seconds: "parse_duration E ''30s'' = Inr 30"
proof -
  have "parse_u64 ''30'' = Some 30" "is_digit (CHR ''3'')" "is_digit (CHR ''0'')" "\<not> is_digit (CHR ''s'')"
    "unit_secs (CHR ''s'') 30 = Some 30"
    by (simp_all add: parse_u64_def dec_val_def digit_val_def is_digit_def unit_secs_def)
  then show ?thesis by (simp add: parse_duration_def)
qed

theorem scheduled_call_skips_acl_witness:
  "\<exists>w1 s1 j s2 ep' xt'.
     handle_rpc_message counter_env rpc_ctx0 (rt_root_acl closed_runtime) tick_request closed_runtime = Some (Inr (), w1) \<and>
     run_spawned counter_env \<lparr>sd_rt = w1, sd_jobs = []\<rparr> = (Inr (), s1) \<and> sd_jobs s1 = [j] \<and> jb_timing j = Every_secs 30 \<and>
     (\<exists>e. handle_entity_plugin_message counter_env rpc_ctx0 inc_message inc_five (entity_of counter_new) closed_runtime =
       Some (Inl e, closed_runtime)) \<and>
     fire_job counter_env sched_ctx0 j \<lparr>sd_rt = closed_runtime, sd_jobs = [j]\<rparr> = (Inr (), s2) \<and>
     map_of (rt_registry (sd_rt s2)) ''thing'' = Some ep' \<and> ep_backend ep' = Extism xt' \<and>
     xt_mem xt' = \<lparr>cm_value = 5, cm_borrowed = False\<rparr>"
proof -
  have s: "\<exists>i x'. sched_add counter_env n x = (Inr i, x')" for n x
    by (simp add: counter_env_def ref_env_def)
  have r: "bare_fragment ''did:ma:r#thing'' = ''thing''"
    by code_simp
  have m: "msg_message_type tick_request = const_message_type_rpc counter_env"
    "msg_to tick_request = ''did:ma:r'' @ ''#'' @ SCHEDULER_FRAGMENT"
    "cbor_decode counter_env (msg_payload tick_request) = Some (CArray (CText '':interval'' # CText ''30s'' # CText ''did:ma:r#thing'' #
      CText '':inc'' # [CInteger 5]))"
    using enc_faithful [OF ref_plugin_envs(1)]
    by (simp_all add: tick_request_def ref_message_def SCHEDULER_FRAGMENT_def) (simp add: counter_env_def ref_env_def)
  have t: "fst (rpc_gate counter_env \<lparr>rc_our_did = ''did:ma:r'', rc_kubo_rpc_url = ''http://k''\<rparr> (rt_root_acl closed_runtime)
      (msg_from tick_request) closed_runtime) = Inr ()"
    unfolding rpc.passes_iff
    by (simp add: closed_runtime_def tick_request_def ref_message_def counter_env_def ref_check_cap_def ref_normalize_def CAP_RPC_def)
  have a: "map_of (rt_registry closed_runtime) SCHEDULER_FRAGMENT = Some (scheduler_plugin (\<lambda>_. []) counter_env)"
    "map_of (rt_acl_cache closed_runtime) ''acls.scheduler'' = Some [(''did:ma:a'', Allow ['':interval''])]"
    "map_of [(''did:ma:a'', Allow ['':interval''])] (normalize_principal counter_env (gate_caller ''did:ma:r'' (msg_from tick_request))) \<noteq> Some Deny"
    "map_of [(''did:ma:a'', Allow ['':interval''])] ''*'' \<noteq> Some Deny"
    "check_cap counter_env [(''did:ma:a'', Allow ['':interval''])] (gate_caller ''did:ma:r'' (msg_from tick_request)) '':interval''"
    "io_spawned (rt_io closed_runtime) = []"
    by (simp_all add: closed_runtime_def SCHEDULER_FRAGMENT_def tick_request_def ref_message_def counter_env_def gate_caller_def
        strip_prefix_def starts_with_def ref_check_cap_def ref_normalize_def runtime_of_def empty_runtime_def)
  have c: "closed_counter closed_runtime ''thing'' (entity_of counter_new) 0"
    by (simp add: closed_counter_def closed_runtime_def entity_of_def counter_new_def)
  have v: "fst (snd (counter_verb 0 '':inc'' [CInteger 5])) = 5" by code_simp
  obtain w1 s1 j where 1: "handle_rpc_message counter_env rpc_ctx0 (rt_root_acl closed_runtime) tick_request closed_runtime = Some (Inr (), w1)"
      "run_spawned counter_env \<lparr>sd_rt = w1, sd_jobs = []\<rparr> = (Inr (), s1)" "sd_jobs s1 = [j]" "jb_timing j = Every_secs 30"
    and f: "\<And>s ep n ctx. closed_counter (sd_rt s) ''thing'' ep n \<Longrightarrow>
      (\<forall>rctx direct. \<exists>e. handle_entity_plugin_message counter_env rctx direct (CArray (CText '':inc'' # [CInteger 5])) ep (sd_rt s) =
         Some (Inl e, sd_rt s)) \<and>
      (\<exists>s2 ep' xt'. fire_job counter_env ctx j s = (Inr (), s2) \<and> map_of (rt_registry (sd_rt s2)) ''thing'' = Some ep' \<and>
         ep_backend ep' = Extism xt' \<and> xt_mem xt' = \<lparr>cm_value = fst (snd (counter_verb n '':inc'' [CInteger 5])), cm_borrowed = False\<rparr>)"
    using scheduled_call_skips_acl [OF ref_plugin_envs(1,2) s thirty_seconds m t a, where jobs = "[]"]
    unfolding r rpc_ctx0_def append_Nil by blast
  have "closed_counter (sd_rt \<lparr>sd_rt = closed_runtime, sd_jobs = [j]\<rparr>) ''thing'' (entity_of counter_new) 0" using c by simp
  from f [OF this, of sched_ctx0] 1 show ?thesis
    unfolding v inc_five_def scheduled.simps by blast
qed

definition off_config :: config where
  "off_config = ref_config\<lparr>cf_extra := [(''crud_service'', YBool False)]\<rparr>"

theorem crud_off_protects_witness:
  "\<exists>w'. for_each_p (\<lambda>ib. tick counter_env ''did:ma:r'' (enabled_inboxes off_config ib))
      [\<lparr>in_rpc = [], in_ipfs = [], in_crud = [inc_message]\<rparr>] open_runtime = Some (Inr (), w') \<and>
     rt_root_acl w' = rt_root_acl open_runtime \<and> rt_config w' = rt_config open_runtime"
proof -
  let ?ib = "\<lparr>in_rpc = [], in_ipfs = [], in_crud = [inc_message]\<rparr>"
  have off: "\<not> get_bool_setting off_config ''crud_service'' True"
    by (simp add: off_config_def get_bool_setting_def)
  then have "\<exists>w'. for_each_p (\<lambda>ib. tick counter_env ''did:ma:r'' (enabled_inboxes off_config ib)) [?ib] open_runtime = Some (Inr (), w')"
    by (simp add: enabled_inboxes_def tick_def then_p_def live_def Let_def drain_envelopes_def open_runtime_def)
  with crud_off_protects [OF off] show ?thesis by blast
qed

theorem reachable_well_formed_witness:
  "\<exists>w. reachable (\<lambda>_. []) base_env ref_args w \<and> distinct (map fst (rt_registry w)) \<and>
     st_our_did (rt_stats w) = sa_our_did ref_args"
proof -
  obtain w where "reachable (\<lambda>_. []) base_env ref_args w"
    using ref_reachable by blast
  with reachable_well_formed [OF this] show ?thesis by blast
qed

end
