(* ===== verification/Witness_Publish.thy ===== *)
theory Witness_Publish
  imports Daemon_Facts Witness_Runtime
begin

text \<open>
  The witness of the race between the two publications: a Kubo that holds one key, stores the
  documents it is given and remembers the path of each published name.
\<close>

definition named_alias :: string where
  "named_alias = ''ma-'' @ replicate 16 (CHR ''0'')"

definition named_keys :: json where
  "named_keys = JObject [(''Keys'', JArray [JObject [(''Name'', JString named_alias), (''Id'', JString ''k51reference'')]])]"

definition named_http :: "http_request \<Rightarrow> (ref_world, http_response) act" where
  "named_http rq x =
     (case rq_body rq of
        Some mp \<Rightarrow>
          (case mp_data mp of
             PBytes b \<Rightarrow>
               (case store_under b (rw_blobs x) of (c, bs) \<Rightarrow>
                  (Inr \<lparr>rs_status = 200, rs_body = Body_json (cid_json c)\<rparr>, x\<lparr>rw_blobs := bs\<rparr>))
           | PJson _ \<Rightarrow> (Inr \<lparr>rs_status = 500, rs_body = Body_text []\<rparr>, x))
      | None \<Rightarrow>
          (case map_of (rq_query rq) ''key'' of
             Some key \<Rightarrow>
               (let path = the (map_of (rq_query rq) ''arg'') in
                (Inr \<lparr>rs_status = 200, rs_body = Body_json (JObject [(''Value'', JString path)])\<rparr>,
                 x\<lparr>rw_blocks := (key, JString path) # rw_blocks x\<rparr>))
           | None \<Rightarrow> (Inr \<lparr>rs_status = 200, rs_body = Body_json named_keys\<rparr>, x)))"

definition named_env :: "(ref_world, unit) env" where
  "named_env = base_env\<lparr>http_post := named_http\<rparr>"

definition named_stored :: "ref_world \<Rightarrow> string \<Rightarrow> bytes option" where
  "named_stored x = map_of (rw_blobs x)"

definition named_names :: "ref_world \<Rightarrow> string \<Rightarrow> string option" where
  "named_names x key = Option.bind (map_of (rw_blocks x) key) dec_string"

lemma named_dag_put:
  "dag_put_cbor named_env url b x = (case store_under b (rw_blobs x) of (c, bs) \<Rightarrow> (Inr c, x\<lparr>rw_blobs := bs\<rparr>))"
  by (simp add: dag_put_cbor_def post_checked_def named_env_def named_http_def and_then_def cid_json_def
      option_field_def dag_put_cid_of_json_def req_field_def ipld_link_new_def option_or_def split: prod.splits)

lemma ipfs_arg_nonempty [simp]: "ipfs_arg c \<noteq> []"
  by (simp add: ipfs_arg_def)

lemma named_publish:
  "name_publish named_env url key c h x = (Inr (ipfs_arg c), x\<lparr>rw_blocks := (key, JString (ipfs_arg c)) # rw_blocks x\<rparr>)"
  by (simp add: name_publish_def post_checked_def named_env_def named_http_def and_then_def default_field_def Let_def)

lemma named_names_ok: "names_ok named_env named_stored named_names"
  unfolding names_ok_def named_dag_put named_publish named_stored_def named_names_def
  by (auto dest: store_under_spec split: prod.splits)

lemma named_list_keys: "list_keys named_env url x = (Inr [(named_alias, ''k51reference'')], x)"
proof -
  have "trim named_alias = named_alias" "trim ''k51reference'' = ''k51reference''"
    unfolding named_alias_def by code_simp+
  then show ?thesis
    by (simp add: list_keys_def post_checked_def named_env_def named_http_def and_then_def named_keys_def
        default_field_def key_list_entry_of_json_def key_entry_def List.map_filter_def named_alias_def)
qed

lemma named_alias: "key_alias named_env ipns = named_alias"
  by (simp add: key_alias_def named_env_def ref_env_def named_alias_def)

lemma named_ensure: "ensure_kubo_ipns_key named_env url named_alias ''k51reference'' key x = (Inr (), x)"
proof -
  have "trim ''k51reference'' = ''k51reference''" by code_simp
  then show ?thesis by (simp add: ensure_kubo_ipns_key_def and_then_def named_list_keys)
qed

lemma named_own:
  "do_publish_own_document (ret ()) named_env url b key h x =
     (Inr (), x\<lparr>rw_blobs := snd (store_under b (rw_blobs x)),
        rw_blocks := (named_alias, JString (ipfs_arg (fst (store_under b (rw_blobs x))))) # rw_blocks x\<rparr>)"
proof -
  have "document_id named_env b = Some ''did:ma:k51reference''"
    "did_try_from named_env ''did:ma:k51reference'' = Some \<lparr>did_ipns = ''k51reference'', did_base_id = ''did:ma:k51reference''\<rparr>"
    by (simp_all add: named_env_def ref_env_def ref_normalize_def starts_with_def)
  then show ?thesis
    by (simp add: do_publish_own_document_def and_then_def named_alias named_ensure named_dag_put named_publish Let_def
        split_beta)
qed

lemma named_root:
  "publish_runtime_root_cid named_env url key root h x =
     (Inr (ipfs_arg root), x\<lparr>rw_blocks := (named_alias, JString (ipfs_arg root)) # rw_blocks x\<rparr>)"
proof -
  have "ipns_from_secret named_env key = Some ''k51reference''" by (simp add: named_env_def ref_env_def)
  then show ?thesis
    by (simp add: publish_runtime_root_cid_def and_then_def with_context_def named_alias named_ensure named_publish)
qed

definition named_identity :: "string option identity" where
  "named_identity = \<lparr>id_build = Inr, id_did = (\<lambda>_. ''did:ma:k51reference''),
     id_encode = (\<lambda>d. Inr (if d = None then [1] else [2])), id_ipns_secret_key = []\<rparr>"

definition named_publisher :: "(ref_world, unit) publisher_env" where
  "named_publisher = \<lparr>pe_instant = rw_clock, pe_load_bundle = ret (), pe_build_document = (\<lambda>_ _. Inr [2]),
     pe_ipns_secret_key = (\<lambda>_. []), pe_runtime_ipns_key = [], pe_wait_ready = ret (), pe_expired = (\<lambda>_. False)\<rparr>"

definition named_cli :: cli where
  "named_cli = \<lparr>cl_gen_headless_config = False, cl_owner = [], cl_gen_root_cid = None, cl_root_cid = None, cl_i18n = None\<rparr>"

lemma named_tick:
  "publisher_tick named_publisher named_env url 24 300 (publisher_start 1000 300) base_runtime =
     (Inr \<lparr>pb_last_cid = Some ''bR'', pb_last_at = 1000\<rparr>, snd (publisher_tick named_publisher named_env url 24 300 (publisher_start 1000 300) base_runtime)) \<and>
   rw_clock (io_out (rt_io (snd (publisher_tick named_publisher named_env url 24 300 (publisher_start 1000 300) base_runtime)))) = 1000"
proof -
  have "cid_try_from named_env ''bR''" by (simp add: named_env_def ref_env_def starts_with_def)
  then show ?thesis
    by (simp add: publisher_tick_def base_runtime_def publisher_start_def publish_root_def named_publisher_def timed_def
        and_then_def attempt_def zoom_def named_own named_root stored_world_def ref_world0_def)
qed

theorem first_publication_unlinks_witness:
  "\<exists>p w1 w2. publisher_tick named_publisher named_env ''http://k'' 24 300 (publisher_start 1000 300) base_runtime = (Inr p, w1) \<and>
     on_out (first_publication (\<lambda>_. False) (ret ()) named_env named_identity ''http://k'' [1] 24) w1 = (Inr True, w2) \<and>
     (\<exists>c. named_names (io_out (rt_io w2)) named_alias = Some (ipfs_arg c) \<and> named_stored (io_out (rt_io w2)) c = Some [1]) \<and>
     publisher_tick named_publisher named_env ''http://k'' 24 300 p w2 = (Inr p, w2)"
proof -
  define w1 where "w1 = snd (publisher_tick named_publisher named_env ''http://k'' 24 300 (publisher_start 1000 300) base_runtime)"
  define p where "p = \<lparr>pb_last_cid = Some ''bR'', pb_last_at = (1000::nat)\<rparr>"
  have t: "publisher_tick named_publisher named_env ''http://k'' 24 300 (publisher_start 1000 300) base_runtime = (Inr p, w1)"
    and c: "rw_clock (io_out (rt_io w1)) = 1000"
    using named_tick unfolding p_def w1_def by blast+
  have new: "p \<noteq> publisher_start 1000 300" by (simp add: p_def publisher_start_def)
  obtain w2 where f: "on_out (first_publication (\<lambda>_. False) (ret ()) named_env named_identity ''http://k'' [1] 24) w1 = (Inr True, w2)"
    and c2: "rw_clock (io_out (rt_io w2)) = 1000"
    by (simp add: first_publication_def and_then_def attempt_def timed_def zoom_def named_own c)
  have o: "own_document named_env named_identity named_cli ref_world0 = (Inr (''did:ma:k51reference'', [1]), ref_world0)"
    by (simp add: own_document_def named_cli_def named_identity_def and_then_def with_context_def)
  have d: "document_id named_env [1] = Some ''did:ma:k51reference''"
    "did_try_from named_env ''did:ma:k51reference'' = Some \<lparr>did_ipns = ''k51reference'', did_base_id = ''did:ma:k51reference''\<rparr>"
    by (simp_all add: named_env_def ref_env_def ref_normalize_def starts_with_def)
  have n: "cl_root_cid named_cli = None" and w: "pe_instant named_publisher (io_out (rt_io w2)) - pb_last_at p < 300"
    by (simp_all add: named_cli_def named_publisher_def p_def c2)
  from first_publication_unlinks [OF named_names_ok n o d t new f w] t f show ?thesis
    unfolding named_alias by blast
qed

end
