(* ===== verification/Manifest_Refinement.thy ===== *)
theory Manifest_Refinement
  imports Daemon_Facts
begin

text \<open>
  The daemon refines the machine of \<open>Manifest_Spec\<close>: whatever the loop, the scheduler and the claims do,
  in any order and number, the manifest stored under the root moves by steps of the machine alone.
\<close>

section \<open>The abstraction\<close>

definition manifest_from :: "('x \<Rightarrow> string \<Rightarrow> json option) \<Rightarrow> runtime_manifest \<Rightarrow> ('x, 'p) runtime \<Rightarrow> bool" where
  "manifest_from blocks m0 w \<longleftrightarrow> (\<exists>m. holds_manifest blocks w m \<and> manifest_step\<^sup>*\<^sup>* m0 m)"

lemma holds_manifest_edited:
  "holds_manifest blocks w m \<Longrightarrow> edits w w' \<Longrightarrow> grows blocks (here w) (here w') \<Longrightarrow> holds_manifest blocks w' m"
  by (auto simp: holds_manifest_def edits_def dest: growsD)

section \<open>A block store that keeps what it has\<close>

locale block_store =
  fixes E :: "('x, 'p) env" and blocks :: "'x \<Rightarrow> string \<Rightarrow> json option"
  assumes keeping: "keeps_blocks E blocks"
begin

lemma store: "kubo_ok E blocks" "surroundings E (grows blocks)"
  using keeping by (simp_all add: keeps_blocks_def)

lemma cycle_refines:
  assumes "edit_allowed e"
  shows "keeps (manifest_from blocks m0) (with_manifest_crud E ctx (edit_fun e))"
proof (rule keepsI)
  fix w :: "('x, 'p) runtime" assume "manifest_from blocks m0 w"
  then obtain m where m: "holds_manifest blocks w m" "manifest_step\<^sup>*\<^sup>* m0 m" by (auto simp: manifest_from_def)
  from cycle_steps [OF store(1) m(1) assms, of ctx]
  have "holds_manifest blocks (snd (with_manifest_crud E ctx (edit_fun e) w)) (apply_edit e m)" by auto
  moreover have "manifest_step\<^sup>*\<^sup>* m0 (apply_edit e m)" using m(2) edit [OF assms, of m] by (rule rtranclp.rtrancl_into_rtrancl)
  ultimately show "manifest_from blocks m0 (snd (with_manifest_crud E ctx (edit_fun e) w))"
    unfolding manifest_from_def by blast
qed

end

sublocale block_store \<subseteq> managed: crud_frame E "grows blocks" "manifest_from blocks m0" for m0
proof (intro crud_frame.intro crud_frame_axioms.intro)
  fix w w'
  assume "manifest_from blocks m0 w" "edits w w'" "grows blocks (here w) (here w')"
  then show "manifest_from blocks m0 w'" unfolding manifest_from_def by (blast intro: holds_manifest_edited)
qed (rule store cycle_refines; assumption)+

section \<open>Refinement\<close>

context block_store
begin

lemma refines:
  assumes "holds_manifest blocks w m" and "(daemon_step E (grows blocks) our_did)\<^sup>*\<^sup>* w w'"
  shows "\<exists>m'. holds_manifest blocks w' m' \<and> manifest_step\<^sup>*\<^sup>* m m'"
  using managed.steps [OF assms(2), of m] assms(1) by (auto simp: manifest_from_def)

end

text \<open>C1: the daemon refines a machine whose state is one manifest and whose steps are the nine edits of
  the management service, each only when its handler's check passes. Over a block store that keeps
  what it has, any run of ticks, scheduled calls, registrations, claims and changes of the world
  outside, in any order, ends with the root naming a stored manifest that the machine reaches from the
  one before: no message, plugin, failure or interleaving loses the manifest or changes it in another way.\<close>

theorem daemon_refines_manifest_machine:
  assumes "keeps_blocks E blocks" and "holds_manifest blocks w m"
    and "(daemon_step E (grows blocks) our_did)\<^sup>*\<^sup>* w w'"
  shows "\<exists>m'. holds_manifest blocks w' m' \<and> manifest_step\<^sup>*\<^sup>* m m'"
  by (rule block_store.refines [OF block_store.intro [OF assms(1)] assms(2,3)])

text \<open>C7: no protected configuration key, such as the passphrase of the secret bundle, is ever published.
  If the manifest under the root has none, then after any run of the daemon, whatever was sent to it,
  the manifest then under the root has none either.\<close>

theorem secrets_never_published:
  assumes "keeps_blocks E blocks" and "holds_manifest blocks w m" and "publishes_no_secret m"
    and "(daemon_step E (grows blocks) our_did)\<^sup>*\<^sup>* w w'"
  shows "\<exists>m'. holds_manifest blocks w' m' \<and> list_all (\<lambda>(key, val). \<not> is_protected_config_key key) (mf_config m')"
proof -
  obtain m' where m': "holds_manifest blocks w' m'" "manifest_step\<^sup>*\<^sup>* m m'"
    using block_store.refines [OF block_store.intro [OF assms(1)] assms(2,4)] by blast
  have "publishes_no_secret m'"
    using steps_no_secret [OF m'(2) _ assms(3)] assms(2) by (simp add: holds_manifest_def)
  then have "\<not> is_protected_config_key key" if "(key, val) \<in> set (mf_config m')" for key val
    using that weak_map_of_SomeI [of key val "mf_config m'"] by (auto simp: publishes_no_secret_def)
  with m'(1) show ?thesis by (auto simp: list_all_iff)
qed

end
