(* ===== verification/Restart.thy ===== *)
theory Restart
  imports Manifest_Refinement
begin

text \<open>
  From one life of the daemon to the next: what start-up finds in the block store, what shutdown
  publishes, and that the next start comes back to it.
\<close>

section \<open>Start-up\<close>

sublocale block_store \<subseteq> kept: start_frame E "grows blocks" "\<lambda>w. grows blocks x0 (here w)" for x0
proof (intro start_frame.intro start_frame_axioms.intro frame.intro frame_axioms.intro)
  show "grows blocks x0 (here w')" if "grows blocks x0 (here w)" "grows blocks (here w) (here w')" for w w'
    using that by (rule grows_trans)
qed (simp_all add: store)

lemma empty_runtime_at [simp]:
  "here (empty_runtime x config) = x" "rt_config (empty_runtime x config) = config"
  "(empty_runtime x config)\<lparr>rt_io := (rt_io (empty_runtime x config))\<lparr>io_out := y\<rparr>\<rparr> = empty_runtime y config"
  by (simp_all add: empty_runtime_def)

context block_store
begin

text \<open>Once the root is known start-up never loses what is stored under it.\<close>

lemma startup_holds:
  assumes "startup_root E (cf_kubo_rpc_url config) (sa_root_cid args) (sa_runtime_ipns_id args) x0 = (Inr (Some root), x1)"
    and "blocks x1 root = Some (json_of_manifest m)" and "manifest_ok m" and "startable E args config"
  shows "\<exists>w. startup dbg E args (empty_runtime x0 config) = (Inr (), w) \<and> holds_manifest blocks w m"
proof -
  let ?w1 = "empty_runtime x1 config" and ?given = "args\<lparr>sa_root_cid := Some root\<rparr>"
  have s: "startup dbg E args (empty_runtime x0 config) = startup_from dbg E args config (Some root) ?w1"
    using startup_then [of E "empty_runtime x0 config" args "Some root" x1] assms(1) by simp
  have "startup dbg E ?given ?w1 = startup_from dbg E ?given config (Some root) ?w1"
    using startup_then [of E ?w1 ?given "Some root" x1] by (simp add: startup_root_def)
  also have "\<dots> = startup_from dbg E args config (Some root) ?w1" by (simp add: startup_from_def publisher_settings_def)
  finally have g: "startup dbg E ?given ?w1 = startup dbg E args (empty_runtime x0 config)" using s by simp
  obtain w where w: "startup dbg E args (empty_runtime x0 config) = (Inr (), w)"
    unfolding s using succeedsE [OF succeeds_startup_from [OF assms(4)]] by (metis old.unit.exhaust)
  have "grows blocks x1 (here w)"
    using keepsD [OF kept.startup, of x1 ?w1 dbg ?given] by (simp add: g w)
  moreover have "st_root_cid (rt_stats w) = Some root"
    using startup_from_leaves [of dbg E args config "Some root" ?w1 w] w s by simp
  ultimately show ?thesis using w assms(2,3) by (auto simp: holds_manifest_def dest: growsD)
qed

end

section \<open>Saving the entities\<close>

text \<open>What saving may do to a manifest: give entities it already has a new address.\<close>

definition relinked :: "runtime_manifest \<Rightarrow> runtime_manifest \<Rightarrow> bool" where
  "relinked m m' \<longleftrightarrow> map fst (mf_entities m') = map fst (mf_entities m) \<and> m' = m\<lparr>mf_entities := mf_entities m'\<rparr>"

lemma relinked_refl [simp]: "relinked m m"
  by (simp add: relinked_def)

lemma relinked_trans: "relinked m m' \<Longrightarrow> relinked m' m'' \<Longrightarrow> relinked m m''"
  by (cases m; cases m'; cases m'') (simp add: relinked_def)

lemma relinked_insert: "map_of (mf_entities m) name = Some l \<Longrightarrow> relinked m (m\<lparr>mf_entities := hm_insert name l' (mf_entities m)\<rparr>)"
  by (simp add: relinked_def update_known_keys)

lemma relinked_ok: "relinked m m' \<Longrightarrow> manifest_ok m \<Longrightarrow> manifest_ok m'"
  by (cases m; cases m') (simp add: relinked_def manifest_ok_def hm_ok_def)

lemma save_entity_relinks:
  "\<exists>m' w'. save_entity_state E url e m w = (Inr m', w') \<and> relinked m m' \<and> (no_save_state (wasm_call E) \<longrightarrow> m' = m)"
proof (cases "no_save_state (wasm_call E)")
  case True
  then show ?thesis using save_entity_nothing [of E url e m w] by auto
next
  case False
  then show ?thesis
    by (auto simp: save_entity_state_def and_then_def attempt_def relinked_insert split: prod.split sum.split option.split)
qed

lemma save_entities_relink:
  "\<exists>m' w'. fold_act (save_entity_state E url) es m w = (Inr m', w') \<and> relinked m m' \<and> (no_save_state (wasm_call E) \<longrightarrow> m' = m)"
proof (induction es arbitrary: m w)
  case (Cons e es)
  obtain m1 w1 where 1: "save_entity_state E url e m w = (Inr m1, w1)" "relinked m m1" "no_save_state (wasm_call E) \<longrightarrow> m1 = m"
    using save_entity_relinks by blast
  obtain m2 w2 where "fold_act (save_entity_state E url) es m1 w1 = (Inr m2, w2)" "relinked m1 m2"
    "no_save_state (wasm_call E) \<longrightarrow> m2 = m1" using Cons.IH by blast
  with 1 show ?case by (auto simp: and_then_def intro: relinked_trans)
qed simp

subsection \<open>It goes through the world step by step\<close>

context surroundings
begin

lemma state_saved: "keeps (\<lambda>p. reaches x0 (snd p)) (trigger_save E url)"
proof (rule keepsI)
  fix p :: "('x, 'p) plug"
  assume p: "reaches x0 (snd p)"
  obtain ep io where e: "p = (ep, io)" by (rule prod.exhaust)
  have add: "reaches x0 io1 \<Longrightarrow> reaches x0 (snd (outside (ipfs_add E url b) io1))" for b io1
    by (rule keepsD [OF reaches_outside]) (rule foreign)
  show "reaches x0 (snd (snd (trigger_save E url p)))"
  proof (cases "ep_backend ep")
    case (Extism xt)
    have "reaches x0 (snd (snd (plugin_call E (ep_fragment ep) ''save_state'' [] (xt, io))))"
      using p by (intro run.plugin_call_keeps) (simp add: e)
    with add show ?thesis
      by (auto simp: e trigger_save_def Extism Let_def split: prod.splits sum.splits option.splits) (metis snd_conv)+
  qed (use p in \<open>simp add: e trigger_save_def\<close>)
qed

lemma root_named: "keeps (R x0) (publish_runtime_root_cid E url secret cid h)"
  unfolding publish_runtime_root_cid_def ensure_kubo_ipns_key_def import_key_def name_publish_def Let_def
  by (auto intro!: keeps_and_then keeps_with_context keeps_ok_or listed post parsed split: option.split prod.split)

end

lemma trigger_save_fragment: "ep_fragment (fst (snd (trigger_save E url (ep, io)))) = ep_fragment ep"
  by (auto simp: trigger_save_def mark_saved_def Let_def split: prod.split sum.split option.split entity_backend.split)

context message_frame
begin

lemma save_all: "keeps P (save_all_entity_states E root url)"
proof -
  have t: "keeps P (with_plugin name ep (trigger_save E url))" for name ep
    by (rule plugin [OF trigger_save_fragment state_saved])
  show ?thesis
    unfolding save_all_entity_states_def save_entity_state_def
    by (auto intro!: keeps_and_then keeps_with_context keeps_attempt keeps_fold_act io kubo t split: sum.split option.split)
qed

end

section \<open>Names\<close>

text \<open>
  Kubo's name service as the program uses it: \<open>keyring x\<close> lists its keys, each with the name it stands for,
  \<open>names x\<close> the path a name points to. \<open>key/list\<close> answers the keys, \<open>name/publish\<close> lets the name of a key it
  holds point to the path given, \<open>name/resolve\<close> answers that path; keys are not lost by any call.
\<close>

definition keys_json :: "(string \<times> string) list \<Rightarrow> json" where
  "keys_json keys = JObject [(''Keys'', JArray (map (\<lambda>k. JObject [(''Name'', JString (fst k)), (''Id'', JString (snd k))]) keys))]"

definition clean :: "string \<Rightarrow> bool" where
  "clean s \<longleftrightarrow> s \<noteq> [] \<and> trim s = s"

definition keys_kept :: "('x \<Rightarrow> (string \<times> string) list) \<Rightarrow> 'x \<Rightarrow> 'x \<Rightarrow> bool" where
  "keys_kept keyring x y \<longleftrightarrow> set (keyring x) \<subseteq> set (keyring y)"

definition answered :: "('x \<Rightarrow> (string \<times> string) list) \<Rightarrow> ('x \<Rightarrow> string \<Rightarrow> string option) \<Rightarrow> ('x, http_response) act \<Rightarrow> 'x \<Rightarrow> json \<Rightarrow>
    (string \<Rightarrow> string option) \<Rightarrow> bool" where
  "answered keyring names m x j names' \<longleftrightarrow>
     (\<exists>x'. m x = (Inr \<lparr>rs_status = 200, rs_body = Body_json j\<rparr>, x') \<and> keyring x' = keyring x \<and> names x' = names')"

locale network = block_store E blocks for E :: "('x, 'p) env" and blocks +
  fixes keyring :: "'x \<Rightarrow> (string \<times> string) list" and names :: "'x \<Rightarrow> string \<Rightarrow> string option"
  assumes keys_stay: "surroundings E (keys_kept keyring)"
    and keys_clean: "(key, ipns) \<in> set (keyring x) \<Longrightarrow> clean key \<and> clean ipns"
    and keys_distinct: "distinct (map fst (keyring x))"
    and listing: "answered keyring names (http_post E \<lparr>rq_url = api_url url ''key/list'', rq_query = [], rq_body = None\<rparr>) x
      (keys_json (keyring x)) (names x)"
    and publishing: "(key, ipns) \<in> set (keyring x) \<Longrightarrow>
      answered keyring names (http_post E \<lparr>rq_url = api_url url ''name/publish'',
         rq_query = [(''arg'', path), (''key'', key), (''allow-offline'', ''true''), (''lifetime'', lifetime), (''resolve'', ''false''),
           (''quieter'', ''true'')], rq_body = None\<rparr>) x
        (JObject [(''Name'', JString ipns), (''Value'', JString path)]) ((names x)(ipns \<mapsto> path))"
    and resolving: "names x ipns = Some path \<Longrightarrow>
      answered keyring names (http_post E \<lparr>rq_url = api_url url ''name/resolve'',
         rq_query = [(''arg'', ''/ipns/'' @ ipns), (''recursive'', ''true'')], rq_body = None\<rparr>) x
        (JObject [(''Path'', JString path)]) (names x)"
    and addresses: "blocks x cid = Some j \<Longrightarrow> clean cid \<and> clean (ipfs_arg cid) \<and> ipfs_arg cid = ''/ipfs/'' @ cid"
begin

lemma key_entries: "List.map_filter key_entry (map (\<lambda>k. \<lparr>kl_name = fst k, kl_name_lower = [], kl_id = snd k, kl_id_lower = []\<rparr>) keys) = keys"
  if "\<forall>k \<in> set keys. clean (fst k) \<and> clean (snd k)" for keys
  using that by (induction keys) (auto simp: map_filter_simps key_entry_def clean_def)

lemma keys_decode: "key_list_of_json (keys_json keys) =
    Some (map (\<lambda>k. \<lparr>kl_name = fst k, kl_name_lower = [], kl_id = snd k, kl_id_lower = []\<rparr>) keys)"
proof -
  have "dec_list key_list_entry_of_json (JArray (map (\<lambda>k. JObject [(''Name'', JString (fst k)), (''Id'', JString (snd k))]) keys)) =
      Some (map (\<lambda>k. \<lparr>kl_name = fst k, kl_name_lower = [], kl_id = snd k, kl_id_lower = []\<rparr>) keys)"
    by (induction keys) (simp_all add: key_list_entry_of_json_def default_field_def)
  then show ?thesis by (simp add: keys_json_def default_field_def)
qed

lemma list_keys_answer: "\<exists>x'. list_keys E url x = (Inr (keyring x), x') \<and> keyring x' = keyring x \<and> names x' = names x"
proof -
  have k: "\<forall>k \<in> set (keyring x). clean (fst k) \<and> clean (snd k)" using keys_clean by auto
  show ?thesis
    using listing [of url x] key_entries [OF k]
    by (auto simp: answered_def list_keys_def post_checked_def and_then_def keys_decode)
qed

lemma root_published:
  assumes "ipns_from_secret E secret = Some ipns" and "(key_alias E ipns, ipns) \<in> set (keyring x)" and "clean (ipfs_arg cid)"
  shows "\<exists>v x'. publish_runtime_root_cid E url secret cid h x = (Inr v, x') \<and> names x' ipns = Some (ipfs_arg cid) \<and>
    keyring x' = keyring x"
proof -
  obtain x1 where 1: "list_keys E url x = (Inr (keyring x), x1)" "keyring x1 = keyring x" "names x1 = names x"
    using list_keys_answer by blast
  have "find (\<lambda>k. fst k = key_alias E ipns) (keyring x) = Some (key_alias E ipns, ipns)"
  proof -
    have "find (\<lambda>k. fst k = a) ks = Some (a, i)" if "(a, i) \<in> set ks" "distinct (map fst ks)" for ks :: "(string \<times> string) list" and a i
      using that by (induction ks) (auto simp: image_iff)
    then show ?thesis using assms(2) keys_distinct by blast
  qed
  then have e: "ensure_kubo_ipns_key E url (key_alias E ipns) ipns secret x = (Inr (), x1)"
    using 1 keys_clean [OF assms(2)] by (simp add: ensure_kubo_ipns_key_def and_then_def clean_def)
  from publishing [of "key_alias E ipns" ipns x1 url "ipfs_arg cid" "show_nat (unat h) @ ''h''"] assms(2) 1 obtain x2 where
    "http_post E \<lparr>rq_url = api_url url ''name/publish'', rq_query = [(''arg'', ipfs_arg cid), (''key'', key_alias E ipns),
        (''allow-offline'', ''true''), (''lifetime'', show_nat (unat h) @ ''h''), (''resolve'', ''false''), (''quieter'', ''true'')], rq_body = None\<rparr> x1 =
      (Inr \<lparr>rs_status = 200, rs_body = Body_json (JObject [(''Name'', JString ipns), (''Value'', JString (ipfs_arg cid))])\<rparr>, x2)"
    "keyring x2 = keyring x1" "names x2 = (names x1)(ipns \<mapsto> ipfs_arg cid)"
    by (auto simp: answered_def)
  then show ?thesis
    using e 1 assms(1,3)
    by (simp add: publish_runtime_root_cid_def name_publish_def post_checked_def and_then_def with_context_def ok_or_def
        default_field_def clean_def Let_def)
qed

lemma root_resolved:
  assumes "names x ipns = Some (ipfs_arg cid)" and "(key, ipns) \<in> set (keyring x)"
    and "clean cid" and "clean (ipfs_arg cid)" and "ipfs_arg cid = ''/ipfs/'' @ cid"
  shows "\<exists>x'. resolve_runtime_root_cid_by_ipns_id E url ipns x = (Inr (Some cid), x')"
proof -
  obtain x1 where 1: "list_keys E url x = (Inr (keyring x), x1)" "names x1 = names x" using list_keys_answer by blast
  have "find (\<lambda>k. snd k = ipns) (keyring x) \<noteq> None" using assms(2) by (auto simp: find_None_iff)
  then obtain k where k: "find (\<lambda>k. snd k = ipns) (keyring x) = Some k" by blast
  then have "snd k = ipns" by (auto simp: find_Some_iff)
  with k obtain key' where f: "find (\<lambda>k. snd k = ipns) (keyring x) = Some (key', ipns)" by (cases k) simp
  from resolving [of x1 ipns "ipfs_arg cid" url] 1 assms(1) obtain x2 where
    "http_post E \<lparr>rq_url = api_url url ''name/resolve'', rq_query = [(''arg'', ''/ipns/'' @ ipns), (''recursive'', ''true'')],
        rq_body = None\<rparr> x1 = (Inr \<lparr>rs_status = 200, rs_body = Body_json (JObject [(''Path'', JString (ipfs_arg cid))])\<rparr>, x2)"
    by (auto simp: answered_def)
  moreover have "strip_prefix ''/ipfs/'' (ipfs_arg cid) = Some cid" unfolding assms(5) by (rule strip_prefix_append)
  ultimately show ?thesis
    using 1 f assms(3,4)
    by (simp add: resolve_runtime_root_cid_by_ipns_id_def resolve_ipns_path_def post_checked_def and_then_def
        default_field_def clean_def Let_def del: append.simps)
qed

end

section \<open>From one life to the next\<close>

context network
begin

lemma saved_manifest:
  assumes "holds_manifest blocks w m" and "st_root_cid (rt_stats w) = Some root"
  shows "\<exists>new w' m'. save_all_entity_states E root url w = (Inr new, w') \<and> blocks (here w') new = Some (json_of_manifest m') \<and>
    relinked m m' \<and> (no_save_state (wasm_call E) \<longrightarrow> m' = m)"
proof -
  have m: "manifest_ok m" "blocks (here w) root = Some (json_of_manifest m)" using assms by (auto simp: holds_manifest_def)
  obtain x1 where 1: "dag_get E manifest_of_json url root (here w) = (Inr m, x1)"
    using kubo_ok_get [where dec = manifest_of_json, OF store(1) m(2) manifest_rt [OF m(1)]] .
  let ?w1 = "w\<lparr>rt_io := (rt_io w)\<lparr>io_out := x1\<rparr>\<rparr>"
  obtain m' w2 where 2: "fold_act (save_entity_state E url) (rt_registry w) m ?w1 = (Inr m', w2)" "relinked m m'"
    "no_save_state (wasm_call E) \<longrightarrow> m' = m" using save_entities_relink by blast
  obtain new x3 where 3: "dag_put E url (json_of_manifest m') (here w2) = (Inr new, x3)"
    "blocks x3 = (blocks (here w2))(new \<mapsto> json_of_manifest m')" using kubo_ok_put [OF store(1)] .
  have p: "blocks (snd (pin_update E url root new x3)) = blocks x3" by (rule kubo_ok_pin [OF store(1)])
  have "save_all_entity_states E root url w = (Inr new, w2\<lparr>rt_io := (rt_io w2)\<lparr>io_out := snd (pin_update E url root new x3)\<rparr>\<rparr>)"
    using 1 2(1) 3(1) by (simp add: save_all_entity_states_def and_then_def with_context_def zoom_def attempt_def split: prod.split)
  with 2 3 p show ?thesis by auto
qed

lemma keys_frame: "message_frame E (keys_kept keyring) (\<lambda>w. keys_kept keyring x0 (here w))"
  by (intro message_frame.intro message_frame_axioms.intro keys_stay) (auto simp: keys_kept_def)

lemma shutdown_publishes:
  assumes "holds_manifest blocks w m" and "\<And>x. \<not> pe_expired PE x"
    and "ipns_from_secret E (pe_runtime_ipns_key PE) = Some ipns" and "(key_alias E ipns, ipns) \<in> set (keyring (here w))"
  shows "\<exists>w' new m'. shutdown PE E h w = (Inr (), w') \<and> blocks (here w') new = Some (json_of_manifest m') \<and>
    relinked m m' \<and> (no_save_state (wasm_call E) \<longrightarrow> m' = m) \<and> names (here w') ipns = Some (ipfs_arg new) \<and>
    (key_alias E ipns, ipns) \<in> set (keyring (here w'))"
proof -
  obtain root where root: "st_root_cid (rt_stats w) = Some root" and b: "blocks (here w) root = Some (json_of_manifest m)"
    using assms(1) by (auto simp: holds_manifest_def)
  let ?url = "cf_kubo_rpc_url (rt_config w)"
  obtain saved w1 m1 where 1: "save_all_entity_states E root ?url w = (Inr saved, w1)" "blocks (here w1) saved = Some (json_of_manifest m1)"
    "relinked m m1" "no_save_state (wasm_call E) \<longrightarrow> m1 = m"
    using saved_manifest [OF assms(1) root] by blast
  have "keys_kept keyring (here w) (here w1)"
    using keepsD [OF message_frame.save_all [OF keys_frame], of "here w" w root ?url] 1(1) by (simp add: keys_kept_def)
  then have k: "(key_alias E ipns, ipns) \<in> set (keyring (here w1))" using assms(4) by (auto simp: keys_kept_def)
  obtain x new m' where new: "x = (if rt_registry w = [] then here w else here w1)" "new = (if rt_registry w = [] then root else saved)"
    "blocks x new = Some (json_of_manifest m')" "relinked m m'" "no_save_state (wasm_call E) \<longrightarrow> m' = m"
    "(key_alias E ipns, ipns) \<in> set (keyring x)"
    using b 1 k assms(4) by (cases "rt_registry w = []") auto
  obtain v x2 where 2: "publish_runtime_root_cid E ?url (pe_runtime_ipns_key PE) new h x = (Inr v, x2)"
    "names x2 ipns = Some (ipfs_arg new)" "keyring x2 = keyring x"
    using root_published [OF assms(3) new(6)] addresses [OF new(3)] by blast
  have "grows blocks x x2"
    using keepsD [OF surroundings.root_named [OF store(2)], of x x] 2(1) by (metis grows_refl snd_conv)
  then have b2: "blocks x2 new = Some (json_of_manifest m')" using new(3) by (rule growsD)
  obtain w2 where "shutdown PE E h w = (Inr (), w2)" "here w2 = x2"
    using root assms(2) 1(1) 2(1) new(1,2)
    by (cases "rt_registry w = []") (simp_all add: shutdown_def and_then_def gets_def attempt_def zoom_def timed_def)
  with new(4-6) 2(2,3) b2 show ?thesis by (intro exI [of _ w2] exI [of _ new] exI [of _ m'] conjI) simp_all
qed

lemma restarts:
  assumes "holds_manifest blocks w m" and "\<And>x. \<not> pe_expired PE x"
    and "ipns_from_secret E (pe_runtime_ipns_key PE) = Some (sa_runtime_ipns_id args)"
    and "(key_alias E (sa_runtime_ipns_id args), sa_runtime_ipns_id args) \<in> set (keyring (here w))"
    and "sa_root_cid args = None" and "startable E args config"
  shows "\<exists>w1 w2 m'. shutdown PE E h w = (Inr (), w1) \<and> startup dbg E args (empty_runtime (here w1) config) = (Inr (), w2) \<and>
    holds_manifest blocks w2 m' \<and> relinked m m' \<and> (no_save_state (wasm_call E) \<longrightarrow> m' = m)"
proof -
  let ?id = "sa_runtime_ipns_id args"
  obtain w1 new m' where 1: "shutdown PE E h w = (Inr (), w1)" "blocks (here w1) new = Some (json_of_manifest m')"
    "relinked m m'" "no_save_state (wasm_call E) \<longrightarrow> m' = m" "names (here w1) ?id = Some (ipfs_arg new)"
    "(key_alias E ?id, ?id) \<in> set (keyring (here w1))"
    using shutdown_publishes [OF assms(1-4), of h] by blast
  obtain x2 where r: "resolve_runtime_root_cid_by_ipns_id E (cf_kubo_rpc_url config) ?id (here w1) = (Inr (Some new), x2)"
    using root_resolved [OF 1(5,6)] addresses [OF 1(2)] by blast
  have "grows blocks (here w1) x2"
    using keepsD [OF surroundings.resolved [OF store(2)], of "here w1" "here w1"] r by (metis grows_refl snd_conv)
  then have b: "blocks x2 new = Some (json_of_manifest m')" using 1(2) by (rule growsD)
  have "startup_root E (cf_kubo_rpc_url config) (sa_root_cid args) ?id (here w1) = (Inr (Some new), x2)"
    using r by (simp add: startup_root_def assms(5) and_then_def with_context_def)
  from startup_holds [OF this b _ assms(6)] relinked_ok [OF 1(3)] assms(1) obtain w2 where
    "startup dbg E args (empty_runtime (here w1) config) = (Inr (), w2)" "holds_manifest blocks w2 m'"
    unfolding holds_manifest_def by blast
  with 1(1,3,4) show ?thesis by blast
qed

end

text \<open>C3: the next life of the daemon takes up where the last one stopped. After any run from a runtime that
  holds a manifest, a shutdown that is given the time to publish, and a start without \<open>--root-cid\<close> on the
  same machine (where the job scheduler starts and the bundle gives its keys), which finds the root
  under the runtime's name, the daemon holds the manifest of the
  last moment: it is reached from the first one by the machine's edits alone, with the same lists,
  kinds, configuration and entities, each entity at most at a new address (its state saved), and not
  even that when no plugin has \<open>save_state\<close>, as the bundled ones.\<close>

theorem restart_keeps_manifest:
  assumes "network E blocks keyring names" and "holds_manifest blocks w0 m0"
    and "(daemon_step E (grows blocks) our_did)\<^sup>*\<^sup>* w0 w"
    and "\<forall>x. \<not> pe_expired PE x" and "ipns_from_secret E (pe_runtime_ipns_key PE) = Some (sa_runtime_ipns_id args)"
    and "(key_alias E (sa_runtime_ipns_id args), sa_runtime_ipns_id args) \<in> set (keyring (here w))"
    and "sa_root_cid args = None" and "startable E args config"
  shows "\<exists>m w1 w2 m'. manifest_step\<^sup>*\<^sup>* m0 m \<and> shutdown PE E h w = (Inr (), w1) \<and>
    startup dbg E args (empty_runtime (here w1) config) = (Inr (), w2) \<and> holds_manifest blocks w2 m' \<and>
    map fst (mf_entities m') = map fst (mf_entities m) \<and> m' = m\<lparr>mf_entities := mf_entities m'\<rparr> \<and>
    (no_save_state (wasm_call E) \<longrightarrow> m' = m)"
proof -
  obtain m where m: "holds_manifest blocks w m" "manifest_step\<^sup>*\<^sup>* m0 m"
    using block_store.refines [OF network.axioms(1) [OF assms(1)] assms(2,3)] by blast
  then show ?thesis
    using network.restarts [OF assms(1) m(1) _ assms(5-8)] assms(4) unfolding relinked_def by blast
qed

end
