(* ===== verification/Access_Facts.thy ===== *)
theory Access_Facts
  imports Crud_Facts Rpc_Facts
begin

text \<open>
  What an edit of the access lists does to the gates that are already running: the manifest names the
  lists by address, the gates read copies in memory, and the two meet only when a copy is replaced.
\<close>

section \<open>Loading a list\<close>

definition stored_list :: "('x, 'p) env \<Rightarrow> ('x \<Rightarrow> string \<Rightarrow> json option) \<Rightarrow> 'x \<Rightarrow> string \<Rightarrow> acl_map option" where
  "stored_list E blocks x cid = Option.bind (blocks x cid) (acl_of_json E)"

lemma load_acl_outcome:
  assumes "kubo_ok E blocks"
  shows "\<exists>r x'. load_acl_from_cid E url cid x = (r, x') \<and> blocks x' = blocks x \<and>
    (case stored_list E blocks x cid of Some acl \<Rightarrow> r = Inr (inject_owners acl) | None \<Rightarrow> \<exists>e. r = Inl e)"
proof -
  obtain r x' where g: "dag_get E (acl_of_json E) url cid x = (r, x')" by (metis surj_pair)
  have b: "blocks x' = blocks x" by (rule kubo_ok_get_blocks [OF assms g])
  have "case stored_list E blocks x cid of Some acl \<Rightarrow> r = Inr acl | None \<Rightarrow> \<exists>e. r = Inl e"
  proof (cases "blocks x cid")
    case None
    with kubo_ok_get_missing [OF assms None, of "acl_of_json E" url] g show ?thesis by (auto simp: stored_list_def)
  next
    case (Some j)
    obtain q y where "dag_get_json E url cid x = (q, y)" "case blocks x cid of Some j \<Rightarrow> q = Inr (Body_json j) | None \<Rightarrow> \<exists>e. q = Inl e"
      using assms unfolding kubo_ok_def by metis
    with g Some show ?thesis
      by (auto simp: stored_list_def dag_get_def and_then_Inr ok_or_def split: option.splits)
  qed
  with g b show ?thesis
    by (cases r) (auto simp: load_acl_from_cid_def and_then_def with_context_def split: option.splits)
qed

lemma stored_list_blocks: "blocks x' = blocks x \<Longrightarrow> stored_list E blocks x' = stored_list E blocks x"
  by (simp add: stored_list_def fun_eq_iff)

section \<open>The copies the gates read\<close>

lemma cache_update_outcome:
  assumes "kubo_ok E blocks"
  shows "\<exists>x'. acl_cache_update E ctx key cid w = (Inr (), w\<lparr>rt_io := (rt_io w)\<lparr>io_out := x'\<rparr>, rt_acl_cache :=
      (case stored_list E blocks (io_out (rt_io w)) cid of
         Some acl \<Rightarrow> hm_insert key (inject_owners acl) (rt_acl_cache w) | None \<Rightarrow> rt_acl_cache w)\<rparr>) \<and>
    blocks x' = blocks (io_out (rt_io w))"
proof -
  obtain r x' where "load_acl_from_cid E (cc_kubo_rpc_url ctx) cid (io_out (rt_io w)) = (r, x')" "blocks x' = blocks (io_out (rt_io w))"
    "case stored_list E blocks (io_out (rt_io w)) cid of Some acl \<Rightarrow> r = Inr (inject_owners acl) | None \<Rightarrow> \<exists>e. r = Inl e"
    using load_acl_outcome [OF assms] by blast
  then show ?thesis
    by (intro exI [of _ x']) (auto simp: acl_cache_update_def and_then_def attempt_def zoom_def split: option.splits)
qed

lemma cycle_outcome:
  assumes "kubo_ok E blocks" and "holds_manifest blocks w m" and "manifest_ok (f m)"
  shows "\<exists>new w1. with_manifest_crud E ctx f w = (Inr new, w1) \<and> holds_manifest blocks w1 (f m) \<and>
    rt_acl_cache w1 = rt_acl_cache w \<and> rt_root_acl w1 = rt_root_acl w"
proof -
  obtain new w1 where c: "with_manifest_crud E ctx f w = (Inr new, w1)" "holds_manifest blocks w1 (f m)"
    using with_manifest_holds [where f = f, OF assms] by blast
  with with_manifest_effect [OF c(1)] show ?thesis by auto
qed

lemma holds_manifest_update:
  assumes "holds_manifest blocks w m" and "rt_stats w' = rt_stats w" and "blocks (io_out (rt_io w')) = blocks (io_out (rt_io w))"
  shows "holds_manifest blocks w' m"
  using assms by (simp add: holds_manifest_def)

section \<open>The edits\<close>

text \<open>C24: what an edit of a named access list does. Setting it publishes the new address and answers ok; the
  copy that the entities' gates read becomes the list stored there, but if there is no readable list at
  that address the copy stays as it was: a revocation published that way is answered ok and has no
  effect on this runtime. Deleting it publishes a manifest without it and shuts every entity that uses it.\<close>

theorem named_list_edit:
  assumes "kubo_ok E blocks" and "holds_manifest blocks w m" and "is_cidv1 cid"
  shows "(\<exists>new w'. handle_root_acls E ctx message [name] (Some []) [CText cid] rt w = send_crud_ok_cid E ctx message rt new w' \<and>
      holds_manifest blocks w' (insert_acl name cid m) \<and>
      rt_acl_cache w' = (case stored_list E blocks (io_out (rt_io w')) cid of
          Some acl \<Rightarrow> hm_insert (''acls.'' @ name) (inject_owners acl) (rt_acl_cache w)
        | None \<Rightarrow> rt_acl_cache w)) \<and>
    (\<exists>new w'. handle_root_acls E ctx message [name] (Some []) [] rt w = send_crud_ok_cid E ctx message rt new w' \<and>
      holds_manifest blocks w' (remove_acl name m) \<and>
      (\<forall>entity sender verb. ep_acl entity = name \<longrightarrow> (\<exists>e. entity_gate E rctx entity sender verb w' = (Inl e, w'))))"
proof (intro conjI)
  have ok: "manifest_ok (insert_acl name cid m)" "manifest_ok (remove_acl name m)"
    using assms(2) by (simp_all add: holds_manifest_def manifest_ok_edits)
  obtain new w1 where 1: "with_manifest_crud E ctx (insert_acl name cid) w = (Inr new, w1)"
    "holds_manifest blocks w1 (insert_acl name cid m)" "rt_acl_cache w1 = rt_acl_cache w"
    using cycle_outcome [where f = "insert_acl name cid", OF assms(1,2) ok(1)] by blast
  obtain x' where 2: "acl_cache_update E ctx (''acls.'' @ name) cid w1 = (Inr (), w1\<lparr>rt_io := (rt_io w1)\<lparr>io_out := x'\<rparr>, rt_acl_cache :=
      (case stored_list E blocks (io_out (rt_io w1)) cid of
         Some acl \<Rightarrow> hm_insert (''acls.'' @ name) (inject_owners acl) (rt_acl_cache w1) | None \<Rightarrow> rt_acl_cache w1)\<rparr>)" (is "_ = (_, ?w')")
    and x': "blocks x' = blocks (io_out (rt_io w1))"
    using cache_update_outcome [OF assms(1), of ctx "''acls.'' @ name" cid w1] by blast
  show "\<exists>new w'. handle_root_acls E ctx message [name] (Some []) [CText cid] rt w = send_crud_ok_cid E ctx message rt new w' \<and>
      holds_manifest blocks w' (insert_acl name cid m) \<and>
      rt_acl_cache w' = (case stored_list E blocks (io_out (rt_io w')) cid of
          Some acl \<Rightarrow> hm_insert (''acls.'' @ name) (inject_owners acl) (rt_acl_cache w) | None \<Rightarrow> rt_acl_cache w)"
  proof (intro exI conjI)
    show "handle_root_acls E ctx message [name] (Some []) [CText cid] rt w = send_crud_ok_cid E ctx message rt new ?w'"
      using assms(3) by (simp add: handle_root_acls_def and_then_def 1(1) 2 del: append.simps)
    show "holds_manifest blocks ?w' (insert_acl name cid m)"
      using x' by (intro holds_manifest_update [OF 1(2)]) simp_all
  qed (simp add: 1(3) stored_list_blocks [OF x'] split: option.split)
  obtain new' w2 where 3: "with_manifest_crud E ctx (remove_acl name) w = (Inr new', w2)"
    "holds_manifest blocks w2 (remove_acl name m)"
    using cycle_outcome [where f = "remove_acl name", OF assms(1,2) ok(2)] by blast
  let ?w2 = "w2\<lparr>rt_acl_cache := hm_remove (''acls.'' @ name) (rt_acl_cache w2)\<rparr>"
  have "handle_root_acls E ctx message [name] (Some []) [] rt w = send_crud_ok_cid E ctx message rt new' ?w2"
    by (simp add: handle_root_acls_def and_then_def 3(1) modify_def)
  moreover have "holds_manifest blocks ?w2 (remove_acl name m)" by (intro holds_manifest_update [OF 3(2)]) simp_all
  moreover have "\<exists>e. entity_gate E rctx entity sender verb ?w2 = (Inl e, ?w2)" if "ep_acl entity = name" for entity sender verb
    using that by (intro entity_gate_closed) simp
  ultimately show "\<exists>new w'. handle_root_acls E ctx message [name] (Some []) [] rt w = send_crud_ok_cid E ctx message rt new w' \<and>
      holds_manifest blocks w' (remove_acl name m) \<and>
      (\<forall>entity sender verb. ep_acl entity = name \<longrightarrow> (\<exists>e. entity_gate E rctx entity sender verb w' = (Inl e, w')))" by blast
qed

section \<open>Wider lists admit more\<close>

text \<open>Entries are ordered by what they allow: a denial is below every entry.\<close>

instantiation capability_entry :: preorder
begin

fun less_eq_capability_entry :: "capability_entry \<Rightarrow> capability_entry \<Rightarrow> bool" where
  "less_eq_capability_entry Deny e = True"
| "less_eq_capability_entry (Allow cs) Deny = False"
| "less_eq_capability_entry (Allow cs) (Allow ds) = (set cs \<subseteq> set ds)"

definition less_capability_entry :: "capability_entry \<Rightarrow> capability_entry \<Rightarrow> bool" where
  "less_capability_entry e e' \<longleftrightarrow> e \<le> e' \<and> \<not> e' \<le> e"

instance
proof
  fix x y z :: capability_entry
  show "x \<le> x" by (cases x) simp_all
  show "x \<le> y \<Longrightarrow> y \<le> z \<Longrightarrow> x \<le> z" by (cases x; cases y; cases z) auto
qed (simp add: less_capability_entry_def)

end

lemma below_deny [simp]: "e \<le> Deny \<longleftrightarrow> e = Deny"
  by (cases e) simp_all

lemma above_allow: "Allow cs \<le> e \<Longrightarrow> \<exists>ds. e = Allow ds \<and> set cs \<subseteq> set ds"
  by (cases e) simp_all

text \<open>One list is wider than another if it has the same principals in the same order and no entry allows less.\<close>

definition wider :: "acl_map \<Rightarrow> acl_map \<Rightarrow> bool" where
  "wider acl acl' \<longleftrightarrow> list_all2 (\<lambda>e e'. fst e = fst e' \<and> snd e \<le> snd e') acl acl'"

lemma wider_look: "wider acl acl' \<Longrightarrow> map_of acl' k = Some Deny \<Longrightarrow> map_of acl k = Some Deny"
  unfolding wider_def by (induction acl acl' rule: list_all2_induct) (auto split: if_splits)

lemma wider_denies: "wider acl acl' \<Longrightarrow> (k, Deny) \<in> set acl' \<Longrightarrow> (k, Deny) \<in> set acl"
  unfolding wider_def by (induction acl acl' rule: list_all2_induct) auto

lemma wider_allows: "wider acl acl' \<Longrightarrow> (k, Allow cs) \<in> set acl \<Longrightarrow> \<exists>ds. (k, Allow ds) \<in> set acl' \<and> set cs \<subseteq> set ds"
  unfolding wider_def by (induction acl acl' rule: list_all2_induct) (auto dest!: above_allow)

text \<open>If the capability test of \<open>ma_core\<close> admits more under a wider list, so does the whole check, groups
  included: no edit that only adds capabilities locks anybody out.\<close>

lemma wider_permits:
  assumes "wider acl acl'" and "\<And>cap. check_cap E acl caller cap \<Longrightarrow> check_cap E acl' caller cap"
    and "acl_permits E acl mem caller caps"
  shows "acl_permits E acl' mem caller caps"
proof -
  have "group_allows E acl mem caller caps \<Longrightarrow> group_allows E acl' mem caller caps"
    unfolding group_allows_def grants_def by (meson subsetD wider_allows [OF assms(1)])
  moreover have "group_denies E acl' mem caller \<Longrightarrow> group_denies E acl mem caller"
    unfolding group_denies_def using wider_denies [OF assms(1)] by blast
  ultimately show ?thesis
    using assms(2,3) wider_look [OF assms(1)] unfolding acl_permits_def by blast
qed

lemma wider_list_admits:
  assumes "wider acl acl'" and "\<And>cap. check_cap E acl caller cap \<Longrightarrow> check_cap E acl' caller cap" and "quiet rg w"
    and "check_full E acl caller caps rg w = (Inr (), w)"
  shows "check_full E acl' caller caps rg w = (Inr (), w)"
proof -
  have "acl_permits E acl (answers rg w) caller caps" using check_full_decides [OF assms(3)] assms(4) by (metis fst_conv)
  from check_full_permits [OF assms(3) wider_permits [OF assms(1,2) this]] show ?thesis .
qed

end
