(* ===== verification/Liveness.thy ===== *)
theory Liveness
  imports Daemon_Facts
begin

text \<open>
  The event loop goes on: in every reachable state a tick ends and is no error, whatever arrives. The
  task that creates an entity can wait for its own lock (\<open>creation_deadlocks\<close>), but no reachable state
  has a kind it could create.
\<close>

section \<open>Tasks that end\<close>

definition ends :: "('w \<Rightarrow> bool) \<Rightarrow> ('w, 'a) pact \<Rightarrow> bool" where
  "ends P m \<longleftrightarrow> (\<forall>w. P w \<longrightarrow> (\<exists>r w'. m w = Some (r, w') \<and> P w'))"

definition completes :: "('w \<Rightarrow> bool) \<Rightarrow> ('w, 'a) pact \<Rightarrow> bool" where
  "completes P m \<longleftrightarrow> (\<forall>w. P w \<longrightarrow> (\<exists>a w'. m w = Some (Inr a, w') \<and> P w'))"

lemma ends_live: "keeps P m \<Longrightarrow> ends P (live m)"
  by (auto simp: ends_def live_def keeps_def) (metis snd_conv surj_pair)

lemma ends_then:
  assumes "ends P m" and "\<And>a. ends P (f a)"
  shows "ends P (then_p m f)"
  unfolding ends_def
proof (intro allI impI)
  fix w assume "P w"
  then obtain r v where r: "m w = Some (r, v)" "P v" using assms(1) unfolding ends_def by blast
  show "\<exists>r w'. then_p m f w = Some (r, w') \<and> P w'"
  proof (cases r)
    case (Inr a)
    then show ?thesis using r assms(2) [of a] by (simp add: then_p_def ends_def)
  qed (use r in \<open>simp add: then_p_def\<close>)
qed

lemma ends_for_each: "(\<And>x. ends P (f x)) \<Longrightarrow> ends P (for_each_p f xs)"
  by (induction xs) (simp_all add: ends_then ends_live)

lemma completes_ends: "completes P m \<Longrightarrow> ends P m"
  unfolding completes_def ends_def by blast

lemma completes_live: "keeps P m \<Longrightarrow> succeeds m \<Longrightarrow> completes P (live m)"
  unfolding completes_def live_def succeeds_def keeps_def by (metis snd_conv)

lemma completes_attempt: "ends P m \<Longrightarrow> completes P (attempt_p m)"
  unfolding completes_def ends_def attempt_p_def by fastforce

lemma completes_then:
  assumes "completes P m" and "\<And>a. completes P (f a)"
  shows "completes P (then_p m f)"
  unfolding completes_def
proof (intro allI impI)
  fix w assume "P w"
  then obtain a v where "m w = Some (Inr a, v)" "P v" using assms(1) unfolding completes_def by blast
  with assms(2) [of a] show "\<exists>a w'. then_p m f w = Some (Inr a, w') \<and> P w'" by (simp add: then_p_def completes_def)
qed

lemma completes_for_each: "(\<And>x. completes P (f x)) \<Longrightarrow> completes P (for_each_p f xs)"
  by (induction xs) (auto intro!: completes_then completes_live)

lemma completes_fun: "(\<And>w. completes P (m w)) \<Longrightarrow> completes P (\<lambda>w. m w w)"
  by (simp add: completes_def)

lemma succeeds_for_each: "(\<And>x. succeeds (f x)) \<Longrightarrow> succeeds (for_each f xs)"
  by (induction xs) auto

section \<open>The tasks of the loop\<close>

lemma create_ends: "ends no_kinds (create_one E ctx entity req)"
  by (simp add: ends_def no_kinds_def create_one_def)

lemma entity_message_ends: "ends no_kinds (handle_entity_plugin_message E ctx msg term entity)"
  unfolding handle_entity_plugin_message_def dispatch_entity_def delete_one_def
  by (intro ends_then ends_live ends_for_each create_ends keeps_for_each keeps_with_context keeps_encode_or kinds.entity_gate
      kinds.save kinds.serving) (simp_all add: kinds.called split: plugin_kind.split)

lemma rpc_message_ends: "ends no_kinds (handle_rpc_message E ctx acl msg)"
  unfolding handle_rpc_message_def
  by (auto intro!: ends_then ends_live completes_ends [OF completes_attempt] keeps_with_context kinds.rpc_gate kinds.rpc_replies
      entity_message_ends split: option.split sum.split cbor.split)

lemma rpc_served: "completes no_kinds (serve_rpc E our_did url msg)"
proof -
  have "completes no_kinds (\<lambda>w. then_p (attempt_p (handle_rpc_message E ctx (rt_root_acl w) msg)) (\<lambda>_. live (ret ())) w)" for ctx
    by (rule completes_fun) (intro completes_then completes_attempt rpc_message_ends completes_live keeps_ret succeeds_simple)
  then show ?thesis unfolding serve_rpc_def
    by (intro completes_then completes_live kinds.serving succeeds_simple) simp_all
qed

lemma others_succeed: "succeeds (serve_ipfs E our_did url msg)" "succeeds (serve_crud E our_did url msg)"
  unfolding serve_ipfs_def serve_crud_def by (intro succeeds_and_then succeeds_simple)+

lemma drain_succeeds: "succeeds (drain_envelopes E our_did)"
proof -
  have "succeeds (on_out (send_envelope_out E our_did e))" for e
    unfolding succeeds_def using send_one [of E our_did e] by blast
  then show ?thesis unfolding drain_envelopes_def by (intro succeeds_and_then succeeds_simple succeeds_for_each)
qed

lemma tick_completes: "completes no_kinds (tick E our_did ib)"
  unfolding tick_def Let_def
  by (rule completes_fun) (intro completes_then completes_for_each completes_live succeeds_for_each rpc_served others_succeed
      drain_succeeds keeps_for_each kinds.serve_ipfs kinds.serve_crud kinds.drain)

text \<open>C4: the event loop never stops. In every state a started daemon can reach, whatever the three inboxes
  hold and whatever the plugins and the world outside answer, the tick ends, and ends without an error,
  and the state it leaves is one from which the next tick does the same (a call of plugin code ends or
  traps, as everywhere in the model).\<close>

theorem every_tick_returns:
  assumes "reachable dbg E args w"
  shows "\<exists>w'. tick E (sa_our_did args) ib w = Some (Inr (), w') \<and> reachable dbg E args w'"
proof -
  have "no_kinds w" using reachable_no_kinds [OF assms] by (simp add: no_kinds_def)
  then obtain a w' where t: "tick E (sa_our_did args) ib w = Some (Inr a, w')"
    using tick_completes unfolding completes_def by blast
  then have "reachable dbg E args w'" using assms by (blast intro: stepped ticks)
  with t show ?thesis by simp
qed

end
