(* ===== verification/Witness_Refinement.thy ===== *)
theory Witness_Refinement
  imports Manifest_Refinement Access_Facts Liveness Witness_Runtime
begin

text \<open>The block store of the reference environment keeps what it has, and runs of the daemon over it.\<close>

lemma store_grows: "store_under j (rw_blocks x) = (c, bs) \<Longrightarrow> rw_blocks x' = bs \<Longrightarrow> grows ref_blocks x x'"
  using store_under_spec [of j "rw_blocks x" c bs] by (auto simp: grows_def ref_blocks_def)

lemma same_blocks_grows: "rw_blocks x' = rw_blocks x \<Longrightarrow> grows ref_blocks x x'"
  by (simp add: grows_def ref_blocks_def)

lemma ref_keeps_blocks: "keeps_blocks base_env ref_blocks"
proof -
  have "grows ref_blocks x (snd (http_post base_env rq x))" for rq x
    by (auto simp: ref_env_def ref_http_def split: option.split payload.split prod.split
        intro: store_grows same_blocks_grows)
  then have "surroundings base_env (grows ref_blocks)"
    by (intro surroundings.intro)
      (auto simp: ref_env_def no_wasm_new_def split: prod.split intro: grows_trans same_blocks_grows)
  then show ?thesis by (simp add: keeps_blocks_def ref_kubo_ok)
qed

interpretation reference: block_store base_env ref_blocks
  by unfold_locales (rule ref_keeps_blocks)

section \<open>A run\<close>

text \<open>A tick that serves a management message, and a claim after it.\<close>

lemma base_run:
  "\<exists>r w1 r2 w2. tick base_env ''did:ma:r'' \<lparr>in_rpc = [], in_ipfs = [], in_crud = [secret_message]\<rparr> base_runtime = Some (r, w1) \<and>
     handle_claim base_env ''did:ma:o'' w1 = (r2, w2) \<and>
     (daemon_step base_env (grows ref_blocks) ''did:ma:r'')\<^sup>*\<^sup>* base_runtime w2"
proof -
  obtain r w1 where t: "tick base_env ''did:ma:r'' \<lparr>in_rpc = [], in_ipfs = [], in_crud = [secret_message]\<rparr> base_runtime = Some (r, w1)"
    by (cases "tick base_env ''did:ma:r'' \<lparr>in_rpc = [], in_ipfs = [], in_crud = [secret_message]\<rparr> base_runtime")
      (auto simp: tick_def Let_def then_p_def live_def split: prod.splits sum.splits)
  obtain r2 w2 where c: "handle_claim base_env ''did:ma:o'' w1 = (r2, w2)" by (metis surj_pair)
  have "(daemon_step base_env (grows ref_blocks) ''did:ma:r'')\<^sup>*\<^sup>* base_runtime w2"
    using daemon_step.ticks [OF t] daemon_step.claims [OF c] by (meson rtranclp.rtrancl_refl rtranclp.rtrancl_into_rtrancl)
  with t c show ?thesis by blast
qed

lemma base_holds: "holds_manifest ref_blocks base_runtime manifest_example"
  unfolding base_runtime_def by (rule runtime_with_holds [OF manifest_example_ok])

theorem daemon_refines_manifest_machine_witness:
  "\<exists>r w1 r2 w2 m'. tick base_env ''did:ma:r'' \<lparr>in_rpc = [], in_ipfs = [], in_crud = [secret_message]\<rparr> base_runtime = Some (r, w1) \<and>
     handle_claim base_env ''did:ma:o'' w1 = (r2, w2) \<and>
     holds_manifest ref_blocks w2 m' \<and> manifest_step\<^sup>*\<^sup>* manifest_example m'"
  using base_run daemon_refines_manifest_machine [OF ref_keeps_blocks base_holds] by blast

theorem secrets_never_published_witness:
  "\<exists>r w1 r2 w2 m'. tick base_env ''did:ma:r'' \<lparr>in_rpc = [], in_ipfs = [], in_crud = [secret_message]\<rparr> base_runtime = Some (r, w1) \<and>
     handle_claim base_env ''did:ma:o'' w1 = (r2, w2) \<and>
     holds_manifest ref_blocks w2 m' \<and> list_all (\<lambda>(key, val). \<not> is_protected_config_key key) (mf_config m')"
proof -
  have "\<not> is_protected_config_key ''i18n''" "\<not> is_protected_config_key ''owners''" by code_simp+
  then have "publishes_no_secret manifest_example" by (auto simp: publishes_no_secret_def manifest_example_def)
  then show ?thesis
    using base_run secrets_never_published [OF ref_keeps_blocks base_holds] by blast
qed

text \<open>An edit of a named list of that runtime.\<close>

theorem named_list_edit_witness:
  "(\<exists>new w'. handle_root_acls base_env crud_ctx0 secret_message [''friends''] (Some []) [CText ''bafyunknown''] ''reply'' base_runtime =
        send_crud_ok_cid base_env crud_ctx0 secret_message ''reply'' new w' \<and>
      holds_manifest ref_blocks w' (insert_acl ''friends'' ''bafyunknown'' manifest_example)) \<and>
   (\<exists>new w'. handle_root_acls base_env crud_ctx0 secret_message [''friends''] (Some []) [] ''reply'' base_runtime =
        send_crud_ok_cid base_env crud_ctx0 secret_message ''reply'' new w' \<and>
      holds_manifest ref_blocks w' (remove_acl ''friends'' manifest_example))"
proof -
  have "is_cidv1 ''bafyunknown''" by code_simp
  from named_list_edit [OF ref_kubo_ok base_holds this, where ctx = crud_ctx0 and message = secret_message and name = "''friends''" and rt = "''reply''"]
  show ?thesis by blast
qed

text \<open>A started daemon that gets a management message.\<close>

theorem every_tick_returns_witness:
  "\<exists>w w'. reachable (\<lambda>_. []) base_env ref_args w \<and>
     tick base_env (sa_our_did ref_args) \<lparr>in_rpc = [ref_message], in_ipfs = [], in_crud = [secret_message]\<rparr> w = Some (Inr (), w')"
  using ref_reachable every_tick_returns by blast

text \<open>A runtime that lets nobody manage it gets a call and a management message.\<close>

definition closed_runtime :: "(ref_world, unit) runtime" where
  "closed_runtime = base_runtime\<lparr>rt_root_acl := []\<rparr>"

theorem only_managers_manage_witness:
  "\<exists>r w'. for_each_p (tick base_env ''did:ma:r'') [\<lparr>in_rpc = [ref_message], in_ipfs = [], in_crud = [secret_message]\<rparr>] closed_runtime = Some (r, w') \<and>
     st_root_cid (rt_stats w') = Some ''bR'' \<and> rt_root_acl w' = []"
proof -
  let ?ibs = "[\<lparr>in_rpc = [ref_message], in_ipfs = [], in_crud = [secret_message]\<rparr>]"
  have "no_kinds closed_runtime"
    by (simp add: no_kinds_def closed_runtime_def base_runtime_def runtime_with_def)
  then obtain r w' where t: "for_each_p (tick base_env ''did:ma:r'') ?ibs closed_runtime = Some (r, w')"
    using completes_for_each [of no_kinds "tick base_env ''did:ma:r''" ?ibs, OF tick_completes] unfolding completes_def by blast
  have "\<not> may_manage base_env closed_runtime (msg_from secret_message)"
    by (simp add: may_manage_def is_owner_def closed_runtime_def base_runtime_def ref_check_cap_def)
  then have "\<forall>ib \<in> set ?ibs. \<forall>msg \<in> set (in_crud ib). \<not> may_manage base_env closed_runtime (msg_from msg)" by simp
  from only_managers_manage [OF this t] t show ?thesis by (auto simp: closed_runtime_def base_runtime_def)
qed

end
