(* ===== verification/Witness_Restart.thy ===== *)
theory Witness_Restart
  imports Restart Witness_Refinement
begin

text \<open>
  A machine with a content-addressed block store and a name service: the address of a document is
  computed from the document, a stored document has an entry with an empty key, and an entry under
  any other key is the path that name points to. One key is known.
\<close>

instance json :: countable
  by countable_datatype

definition net_cid :: "json \<Rightarrow> string" where
  "net_cid j = ''bafyreference'' @ replicate (to_nat j) (CHR ''x'')"

definition net_doc :: "string \<Rightarrow> json option" where
  "net_doc c = (let j = from_nat (length c - 13) in if c = net_cid j then Some j else None)"

lemma net_doc_cid [simp]: "net_doc (net_cid j) = Some j"
  by (simp add: net_doc_def net_cid_def)

lemma net_docD: "net_doc c = Some j \<Longrightarrow> c = net_cid j"
  by (auto simp: net_doc_def Let_def split: if_splits)

definition net_blocks :: "ref_world \<Rightarrow> string \<Rightarrow> json option" where
  "net_blocks x c = (case net_doc c of Some j \<Rightarrow> if ([], j) \<in> set (rw_blocks x) then Some j else None | None \<Rightarrow> None)"

definition net_names :: "ref_world \<Rightarrow> string \<Rightarrow> string option" where
  "net_names x ipns = (case map_of (rw_blocks x) ipns of Some (JString path) \<Rightarrow> Some path | _ \<Rightarrow> None)"

definition net_ipns :: string where
  "net_ipns = ''k51reference''"

definition net_keys :: "ref_world \<Rightarrow> (string \<times> string) list" where
  "net_keys x = [(key_alias base_env net_ipns, net_ipns)]"

definition net_http :: "http_request \<Rightarrow> (ref_world, http_response) act" where
  "net_http rq x =
     (case rq_body rq of
        Some mp \<Rightarrow>
          (case mp_data mp of
             PJson j \<Rightarrow> (Inr \<lparr>rs_status = 200, rs_body = Body_json (cid_json (net_cid j))\<rparr>, x\<lparr>rw_blocks := ([], j) # rw_blocks x\<rparr>)
           | PBytes _ \<Rightarrow> (Inr \<lparr>rs_status = 200, rs_body = Body_text []\<rparr>, x))
      | None \<Rightarrow>
          if rq_query rq = [] then (Inr \<lparr>rs_status = 200, rs_body = Body_json (keys_json (net_keys x))\<rparr>, x)
          else (case (map_of (rq_query rq) ''output-codec'', map_of (rq_query rq) ''key'', map_of (rq_query rq) ''recursive'') of
              (Some _, _, _) \<Rightarrow>
                (case net_blocks x (the (map_of (rq_query rq) ''arg'')) of
                   Some j \<Rightarrow> (Inr \<lparr>rs_status = 200, rs_body = Body_json j\<rparr>, x)
                 | None \<Rightarrow> (Inr \<lparr>rs_status = 500, rs_body = Body_text ''not found''\<rparr>, x))
            | (_, Some key, _) \<Rightarrow>
                (case (map_of (net_keys x) key, map_of (rq_query rq) ''arg'') of
                   (Some ipns, Some path) \<Rightarrow>
                     (Inr \<lparr>rs_status = 200, rs_body = Body_json (JObject [(''Name'', JString ipns), (''Value'', JString path)])\<rparr>,
                      x\<lparr>rw_blocks := (ipns, JString path) # rw_blocks x\<rparr>)
                 | _ \<Rightarrow> (Inr \<lparr>rs_status = 500, rs_body = Body_text ''no key''\<rparr>, x))
            | (_, _, Some _) \<Rightarrow>
                (case net_names x (drop 6 (the (map_of (rq_query rq) ''arg''))) of
                   Some path \<Rightarrow> (Inr \<lparr>rs_status = 200, rs_body = Body_json (JObject [(''Path'', JString path)])\<rparr>, x)
                 | None \<Rightarrow> (Inr \<lparr>rs_status = 500, rs_body = Body_text ''not found''\<rparr>, x))
            | _ \<Rightarrow> (Inr \<lparr>rs_status = 200, rs_body = Body_text []\<rparr>, x)))"

definition net_env :: "(ref_world, unit) env" where
  "net_env = base_env\<lparr>http_post := net_http\<rparr>"

lemma net_grows: "set (rw_blocks x) \<subseteq> set (rw_blocks x') \<Longrightarrow> grows net_blocks x x'"
  by (auto simp: grows_def net_blocks_def split: option.splits if_splits)

lemma net_http_grows: "set (rw_blocks x) \<subseteq> set (rw_blocks (snd (net_http rq x)))"
  by (auto simp: net_http_def split: option.split payload.split)

lemma net_dag_put: "dag_put net_env url j x = (Inr (net_cid j), x\<lparr>rw_blocks := ([], j) # rw_blocks x\<rparr>)"
  by (simp add: dag_put_def post_checked_def net_env_def net_http_def and_then_def cid_json_def
      option_field_def dag_put_cid_of_json_def req_field_def ipld_link_new_def option_or_def split: prod.splits)

lemma net_dag_get_json:
  "dag_get_json net_env url c x =
     ((case net_blocks x c of Some j \<Rightarrow> Inr (Body_json j) | None \<Rightarrow> Inl (Error ''HTTP status'')), x)"
  by (simp add: dag_get_json_def post_checked_def net_env_def net_http_def and_then_def split: option.splits)

lemma net_pin_update: "pin_update net_env url a b x = (Inr (), x)"
  by (simp add: pin_update_def net_env_def net_http_def and_then_def)

lemma net_put_blocks: "net_blocks (x\<lparr>rw_blocks := ([], j) # rw_blocks x\<rparr>) = (net_blocks x)(net_cid j \<mapsto> j)"
  by (auto simp: net_blocks_def fun_eq_iff dest: net_docD split: option.split)

lemma net_kubo_ok: "kubo_ok net_env net_blocks"
  unfolding kubo_ok_def net_dag_put net_dag_get_json net_pin_update
  by (auto simp: net_put_blocks net_blocks_def split: option.split)

lemma net_surroundings:
  assumes "\<And>x y. R x (x\<lparr>rw_blobs := y\<rparr>)" "\<And>x y. R x (x\<lparr>rw_sent := y\<rparr>)" "\<And>x. R x x" "\<And>x rq. R x (snd (net_http rq x))"
    and "\<And>x y z. R x y \<Longrightarrow> R y z \<Longrightarrow> R x z"
  shows "surroundings net_env R"
  using assms(1-4)
  by (intro surroundings.intro) (auto simp: net_env_def ref_env_def no_wasm_new_def split: prod.split intro: assms(5))

lemma net_keeps_blocks: "keeps_blocks net_env net_blocks"
proof -
  have "surroundings net_env (grows net_blocks)"
    by (rule net_surroundings) (rule net_grows [OF net_http_grows] grows_trans; assumption | rule net_grows; simp)+
  then show ?thesis by (simp add: keeps_blocks_def net_kubo_ok)
qed

lemma net_alias: "key_alias net_env net_ipns = key_alias base_env net_ipns"
  by (simp add: key_alias_def net_env_def)

lemma letters_clean: "s \<noteq> [] \<Longrightarrow> hd s \<notin> ws_bytes \<Longrightarrow> last s \<notin> ws_bytes \<Longrightarrow> clean s"
  by (simp add: clean_def trim_id)

lemma no_white: "CHR ''b'' \<notin> ws_bytes" "CHR ''/'' \<notin> ws_bytes" "CHR ''e'' \<notin> ws_bytes" "CHR ''x'' \<notin> ws_bytes"
  by code_simp+

lemma net_cid_plain: "clean (net_cid j) \<and> clean (ipfs_arg (net_cid j)) \<and> ipfs_arg (net_cid j) = ''/ipfs/'' @ net_cid j"
proof -
  have l: "last (net_cid j) \<notin> ws_bytes" using no_white by (simp add: net_cid_def)
  have a: "ipfs_arg (net_cid j) = ''/ipfs/'' @ net_cid j"
    by (simp add: ipfs_arg_def net_cid_def trim_start_str.simps starts_with_def)
  have "clean (net_cid j)" using l no_white by (intro letters_clean) (simp_all add: net_cid_def)
  moreover have "clean (''/ipfs/'' @ net_cid j)" using l no_white by (intro letters_clean) (simp_all add: net_cid_def)
  ultimately show ?thesis using a by simp
qed

interpretation net: network net_env net_blocks net_keys net_names
proof (intro network.intro block_store.intro network_axioms.intro net_keeps_blocks)
  show "surroundings net_env (keys_kept net_keys)"
    by (rule net_surroundings) (simp_all add: keys_kept_def net_keys_def)
  show "clean key \<and> clean ipns" if "(key, ipns) \<in> set (net_keys x)" for key ipns x
  proof -
    have "clean (key_alias base_env net_ipns) \<and> clean net_ipns" by (simp add: key_alias_def ref_env_def) code_simp
    then show ?thesis using that by (simp add: net_keys_def)
  qed
  show "clean cid \<and> clean (ipfs_arg cid) \<and> ipfs_arg cid = ''/ipfs/'' @ cid" if "net_blocks x cid = Some j" for x cid j
  proof -
    have "cid = net_cid j" using that by (auto simp: net_blocks_def split: option.splits if_splits dest: net_docD)
    then show ?thesis using net_cid_plain by blast
  qed
qed (auto simp: answered_def net_env_def net_http_def net_keys_def net_names_def fun_eq_iff split: option.splits json.splits)

section \<open>A life\<close>

definition net_runtime :: "(ref_world, unit) runtime" where
  "net_runtime = (runtime_with manifest_example)\<lparr>rt_stats := (rt_stats (runtime_with manifest_example :: (ref_world, unit) runtime))
     \<lparr>st_root_cid := Some (net_cid (json_of_manifest manifest_example))\<rparr>,
     rt_io := (stored_io manifest_example)\<lparr>io_out := (stored_world manifest_example)\<lparr>rw_blocks := [([], json_of_manifest manifest_example)]\<rparr>\<rparr>\<rparr>"

definition net_publisher :: "(ref_world, unit) publisher_env" where
  "net_publisher = \<lparr>pe_instant = rw_clock, pe_load_bundle = ret (), pe_build_document = (\<lambda>_ _. Inr []), pe_ipns_secret_key = (\<lambda>_. []),
     pe_runtime_ipns_key = [], pe_wait_ready = ret (), pe_expired = (\<lambda>_. False)\<rparr>"

definition net_args :: startup_args where
  "net_args = ref_args\<lparr>sa_root_cid := None, sa_runtime_ipns_id := net_ipns\<rparr>"

lemma net_holds: "holds_manifest net_blocks net_runtime manifest_example"
  using manifest_example_ok by (simp add: holds_manifest_def net_runtime_def net_blocks_def)

theorem restart_keeps_manifest_witness:
  "\<exists>r w m w1 w2. handle_claim net_env ''did:ma:o'' net_runtime = (r, w) \<and> manifest_step\<^sup>*\<^sup>* manifest_example m \<and>
    shutdown net_publisher net_env 8760 w = (Inr (), w1) \<and>
    startup (\<lambda>_. []) net_env net_args (empty_runtime (here w1) ref_config) = (Inr (), w2) \<and> holds_manifest net_blocks w2 m"
proof -
  obtain r w where c: "handle_claim net_env ''did:ma:o'' net_runtime = (r, w)" by (rule prod.exhaust)
  then have s: "(daemon_step net_env (grows net_blocks) ''did:ma:r'')\<^sup>*\<^sup>* net_runtime w" by (blast intro: daemon_step.claims)
  have "\<forall>x. \<not> pe_expired net_publisher x" by (simp add: net_publisher_def)
  moreover have "ipns_from_secret net_env (pe_runtime_ipns_key net_publisher) = Some (sa_runtime_ipns_id net_args)"
    by (simp add: net_env_def ref_env_def net_args_def net_ipns_def)
  moreover have "(key_alias net_env (sa_runtime_ipns_id net_args), sa_runtime_ipns_id net_args) \<in> set (net_keys (here w))"
    by (simp add: net_args_def net_keys_def net_alias)
  moreover have "sa_root_cid net_args = None" by (simp add: net_args_def)
  moreover have "startable net_env net_args ref_config"
    by (simp add: startable_def net_env_def ref_env_def net_args_def ref_args_def ref_config_def)
  moreover have "no_save_state (wasm_call net_env)" by (simp add: no_save_state_def net_env_def no_wasm_call_def)
  ultimately show ?thesis
    using c restart_keeps_manifest [OF net.network_axioms net_holds s, of net_publisher net_args ref_config 8760 "\<lambda>_. []"] by blast
qed

end
