(* ===== verification/First_Run.thy ===== *)
theory First_Run
  imports Daemon_Facts
begin

text \<open>
  The main program of \<open>src/src/main.rs\<close> up to the point where \<open>startup\<close> takes over: the first run, which
  makes a configuration and a secret bundle, the identity read from the bundle, the endpoint, the own
  document and the wait for Kubo. Then what a machine that ran the daemon once is left with.
\<close>

section \<open>The program\<close>

text \<open>
  Foreign to it: \<open>Config\<close> and \<open>SecretBundle\<close> of \<open>ma_core\<close>, the endpoint (of which its identifier is
  read), the documents built from a bundle, the publisher that checks Kubo's address and waits for it.
\<close>

record ('x, 'b, 'd) installation =
  in_gen_headless :: "('x, unit) act"
  in_from_args :: "('x, config) act"
  in_init_logging :: "config \<Rightarrow> ('x, unit) act"
  in_signing_key :: "'b \<Rightarrow> unit res"
  in_secret_bundle :: "config \<Rightarrow> string res"
  in_load :: "string \<Rightarrow> string \<Rightarrow> ('x, 'b) act"
  in_save :: "'b \<Rightarrow> string \<Rightarrow> string \<Rightarrow> ('x, unit) act"
  in_generate_key :: "'b \<Rightarrow> string \<Rightarrow> ('x, 'b) act"
  in_get_key :: "'b \<Rightarrow> string \<Rightarrow> bytes option"
  in_endpoint :: "'b \<Rightarrow> ('x, string) act"
  in_identity :: "'b \<Rightarrow> string \<Rightarrow> 'd identity"
  in_publisher :: "string \<Rightarrow> unit res"
  in_wait_ready :: "('x, unit) act"

definition load_secret_bundle :: "('x, 'b, 'd) installation \<Rightarrow> config \<Rightarrow> ('x, 'b) act" where
  "load_secret_bundle I config =
     and_then (ok_or (Error ''secret_bundle_passphrase is required (env or config)'') (cf_secret_bundle_passphrase config)) (\<lambda>passphrase.
     and_then (lift_res (in_secret_bundle I config)) (\<lambda>bundle_path.
     with_context (''failed to load secret bundle from '' @ bundle_path) (in_load I bundle_path passphrase)))"

text \<open>The two places that write a new configuration do the same.\<close>

definition gen_headless_config :: "('x, 'b, 'd) installation \<Rightarrow> ('x, unit) act" where
  "gen_headless_config I =
     and_then (in_gen_headless I) (\<lambda>_.
     and_then (in_from_args I) (\<lambda>config.
     and_then (load_secret_bundle I config) (\<lambda>bundle.
     and_then (with_context ''failed to generate 'runtime_ipns' key'' (in_generate_key I bundle ''runtime_ipns'')) (\<lambda>bundle.
     and_then (ok_or (Error ''secret_bundle_passphrase missing after gen_headless'') (cf_secret_bundle_passphrase config)) (\<lambda>passphrase.
     and_then (lift_res (in_secret_bundle I config)) (\<lambda>bundle_path.
     with_context ''failed to re-save bundle with 'runtime_ipns' key'' (in_save I bundle bundle_path passphrase)))))))"

text \<open>The language of the configuration is read before a first run writes a new one.\<close>

definition first_config :: "('x, 'p) env \<Rightarrow> ('x, 'b, 'd) installation \<Rightarrow> cli \<Rightarrow> ('x, config \<times> string option) act" where
  "first_config E I cli =
     and_then (in_from_args I) (\<lambda>config.
     and_then (in_init_logging I config) (\<lambda>_.
     let lang_base = effective_lang_base cli config in
     and_then (lift_res (in_secret_bundle I config)) (\<lambda>bundle_path.
     and_then (\<lambda>x. (if path_exists E bundle_path x then ret config
         else and_then (gen_headless_config I) (\<lambda>_. in_from_args I)) x) (\<lambda>config.
     ret (config, lang_base)))))"

definition MISSING_RUNTIME_IPNS :: error where
  "MISSING_RUNTIME_IPNS = Error (''secret bundle is missing extra key '' @ [CHR 0x27] @ ''runtime_ipns'' @ [CHR 0x27])"

text \<open>The bundle with the key and the identifier of the runtime's own name.\<close>

definition runtime_identity :: "('x, 'p) env \<Rightarrow> ('x, 'b, 'd) installation \<Rightarrow> config \<Rightarrow> ('x, 'b \<times> bytes \<times> string) act" where
  "runtime_identity E I config =
     and_then (load_secret_bundle I config) (\<lambda>secrets.
     and_then (ok_or MISSING_RUNTIME_IPNS (in_get_key I secrets ''runtime_ipns'')) (\<lambda>runtime_ipns_key.
     and_then (with_context ''failed to derive runtime IPNS id from 'runtime_ipns' key''
         (ok_or (Error []) (ipns_from_secret E runtime_ipns_key))) (\<lambda>runtime_ipns_id.
     ret (secrets, runtime_ipns_key, runtime_ipns_id))))"

text \<open>
  What a run of the program up to here ends with: only a configuration, a printed root, or a daemon
  about to start. The document it then holds is published by a task of its own (\<open>first_publication\<close>).
\<close>

datatype boot =
    Configured
  | Printed_root string
  | Booted config startup_args bytes

definition boot_daemon :: "('x, 'p) env \<Rightarrow> ('x, 'b, 'd) installation \<Rightarrow> cli \<Rightarrow> config \<Rightarrow> string option \<Rightarrow> ('x, boot) act" where
  "boot_daemon E I cli config lang_base =
     and_then (check_root_cid E cli) (\<lambda>_.
     and_then (runtime_identity E I config) (\<lambda>(secrets, runtime_ipns_key, runtime_ipns_id).
     and_then (in_endpoint I secrets) (\<lambda>endpoint_id.
     and_then (own_document E (in_identity I secrets endpoint_id) cli) (\<lambda>(our_did, doc_cbor).
     and_then (with_context (''invalid kubo_rpc_url: '' @ cf_kubo_rpc_url config) (lift_res (in_publisher I (cf_kubo_rpc_url config)))) (\<lambda>_.
     and_then (with_context ''kubo RPC is not reachable'' (in_wait_ready I)) (\<lambda>_.
     ret (Booted config (startup_args_of E cli config lang_base our_did endpoint_id runtime_ipns_id
       (in_signing_key I secrets) (in_secret_bundle I config)) doc_cbor)))))))"

definition boot_main :: "(string \<Rightarrow> bootstrap_runtime option) \<Rightarrow> ('x, 'p) env \<Rightarrow> ('x, 'b, 'd) installation \<Rightarrow> cli \<Rightarrow> ('x, boot) act" where
  "boot_main from_yaml E I cli =
     (if cl_gen_headless_config cli then and_then (gen_headless_config I) (\<lambda>_. ret Configured)
      else and_then (first_config E I cli) (\<lambda>(config, lang_base).
        case cl_gen_root_cid cli of
          Some yaml_path \<Rightarrow>
            and_then (gen_root_cid from_yaml (in_publisher I) (in_wait_ready I) E cli config lang_base yaml_path) (\<lambda>root. ret (Printed_root root))
        | None \<Rightarrow> boot_daemon E I cli config lang_base))"

text \<open>A whole start: what \<open>boot_main\<close> found is handed to \<open>startup\<close>, on an empty runtime.\<close>

definition start_main :: "(string \<Rightarrow> bootstrap_runtime option) \<Rightarrow> (cbor \<Rightarrow> string) \<Rightarrow> ('x, 'p) env \<Rightarrow> ('x, 'b, 'd) installation \<Rightarrow> cli \<Rightarrow> 'x \<Rightarrow>
    ('x, 'p) runtime res option" where
  "start_main from_yaml dbg E I cli x =
     (case boot_main from_yaml E I cli x of
        (Inl e, _) \<Rightarrow> Some (Inl e)
      | (Inr (Booted config args _), x') \<Rightarrow>
          (case startup dbg E args (empty_runtime x' config) of
             (Inl e, _) \<Rightarrow> Some (Inl e)
           | (Inr _, w) \<Rightarrow> Some (Inr w))
      | _ \<Rightarrow> None)"

text \<open>A start that succeeds leaves a reachable state.\<close>

lemma start_main_reachable:
  assumes "start_main from_yaml dbg E I cli x = Some (Inr w)"
  shows "\<exists>args. reachable dbg E args w"
  using assms by (auto simp: start_main_def split: prod.splits sum.splits boot.splits intro: reachable.started)

section \<open>A machine the program can write to\<close>

text \<open>
  \<open>conf x\<close> is the configuration the machine gives and \<open>saved x\<close> its bundle files, each with the passphrase
  it was written under. The calls into \<open>ma_core\<close> succeed and do what their documentation says: a new
  headless installation has a bundle without the runtime's own key, which the program adds itself.
\<close>

definition holds_bundle :: "('x, 'b, 'd) installation \<Rightarrow> ('x \<Rightarrow> config) \<Rightarrow> ('x \<Rightarrow> string \<Rightarrow> ('b \<times> string) option) \<Rightarrow> 'x \<Rightarrow> 'b \<Rightarrow> bool" where
  "holds_bundle I conf saved x b \<longleftrightarrow> (\<exists>pass p. cf_secret_bundle_passphrase (conf x) = Some pass \<and>
     in_secret_bundle I (conf x) = Inr p \<and> saved x p = Some (b, pass))"

locale installed =
  fixes E :: "('x, 'p) env" and I :: "('x, 'b, 'd) installation"
    and conf :: "'x \<Rightarrow> config" and saved :: "'x \<Rightarrow> string \<Rightarrow> ('b \<times> string) option"
  assumes from_args: "\<exists>x'. in_from_args I x = (Inr (conf x), x') \<and> conf x' = conf x \<and> saved x' = saved x"
    and logging: "\<exists>x'. in_init_logging I c x = (Inr (), x') \<and> conf x' = conf x \<and> saved x' = saved x"
    and found: "path_exists E p x \<longleftrightarrow> saved x p \<noteq> None"
    and load: "saved x p = Some (b, pass) \<Longrightarrow> \<exists>x'. in_load I p pass x = (Inr b, x') \<and> conf x' = conf x \<and> saved x' = saved x"
    and generate: "\<exists>b' x'. in_generate_key I b n x = (Inr b', x') \<and> in_get_key I b' n \<noteq> None \<and> conf x' = conf x \<and> saved x' = saved x"
    and save: "\<exists>x'. in_save I b p pass x = (Inr (), x') \<and> conf x' = conf x \<and> saved x' = (saved x)(p \<mapsto> (b, pass))"
    and headless: "\<exists>x' b pass p. in_gen_headless I x = (Inr (), x') \<and> cf_secret_bundle_passphrase (conf x') = Some pass \<and>
      in_secret_bundle I (conf x') = Inr p \<and> saved x' p = Some (b, pass) \<and> in_get_key I b ''runtime_ipns'' = None"
    and named: "in_get_key I b n = Some k \<Longrightarrow> ipns_from_secret E k \<noteq> None"
begin

lemma bundle_loads:
  assumes "holds_bundle I conf saved x b"
  shows "\<exists>x'. load_secret_bundle I (conf x) x = (Inr b, x') \<and> conf x' = conf x \<and> saved x' = saved x"
proof -
  from assms obtain pass p where b: "cf_secret_bundle_passphrase (conf x) = Some pass" "in_secret_bundle I (conf x) = Inr p"
    "saved x p = Some (b, pass)" by (auto simp: holds_bundle_def)
  from load [OF b(3)] b(1,2) show ?thesis
    by (auto simp: load_secret_bundle_def ok_or_def lift_res_def and_then_def with_context_def)
qed

lemma known_config:
  assumes "holds_bundle I conf saved x b"
  shows "\<exists>x'. first_config E I cli x = (Inr (conf x, effective_lang_base cli (conf x)), x') \<and> conf x' = conf x \<and> saved x' = saved x"
proof -
  obtain x1 where 1: "in_from_args I x = (Inr (conf x), x1)" "conf x1 = conf x" "saved x1 = saved x" using from_args by blast
  obtain x2 where 2: "in_init_logging I (conf x) x1 = (Inr (), x2)" "conf x2 = conf x1" "saved x2 = saved x1" using logging by blast
  from assms obtain p pass where p: "in_secret_bundle I (conf x) = Inr p" "saved x p = Some (b, pass)" by (auto simp: holds_bundle_def)
  then have "path_exists E p x2" using 1 2 by (simp add: found)
  then show ?thesis using 1 2 p(1) by (simp add: first_config_def and_then_def lift_res_def Let_def)
qed

lemma known_identity:
  assumes "holds_bundle I conf saved x b" and "in_get_key I b ''runtime_ipns'' = Some k"
  shows "\<exists>ipns x'. runtime_identity E I (conf x) x = (Inr (b, k, ipns), x') \<and> conf x' = conf x \<and> saved x' = saved x"
proof -
  obtain ipns where "ipns_from_secret E k = Some ipns" using named [OF assms(2)] by blast
  with bundle_loads [OF assms(1)] assms(2) show ?thesis
    by (auto simp: runtime_identity_def and_then_def with_context_def ok_or_def)
qed

lemma missing_identity:
  assumes "holds_bundle I conf saved x b" and "in_get_key I b ''runtime_ipns'' = None"
  shows "\<exists>x'. runtime_identity E I (conf x) x = (Inl MISSING_RUNTIME_IPNS, x') \<and> conf x' = conf x \<and> saved x' = saved x"
  using bundle_loads [OF assms(1)] assms(2) by (auto simp: runtime_identity_def and_then_def ok_or_def)

text \<open>Making a configuration ends with a complete bundle.\<close>

lemma new_config:
  "\<exists>b k x'. gen_headless_config I x = (Inr (), x') \<and> holds_bundle I conf saved x' b \<and> in_get_key I b ''runtime_ipns'' = Some k"
proof -
  obtain x1 b pass p where 1: "in_gen_headless I x = (Inr (), x1)" "cf_secret_bundle_passphrase (conf x1) = Some pass"
    "in_secret_bundle I (conf x1) = Inr p" "saved x1 p = Some (b, pass)" using headless by blast
  obtain x2 where 2: "in_from_args I x1 = (Inr (conf x1), x2)" "conf x2 = conf x1" "saved x2 = saved x1" using from_args by blast
  have "holds_bundle I conf saved x2 b" using 1 2 by (simp add: holds_bundle_def)
  then obtain x3 where 3: "load_secret_bundle I (conf x1) x2 = (Inr b, x3)" "conf x3 = conf x1"
    using bundle_loads [of x2 b] 2 by auto
  obtain b' x4 where 4: "in_generate_key I b ''runtime_ipns'' x3 = (Inr b', x4)" "in_get_key I b' ''runtime_ipns'' \<noteq> None"
    "conf x4 = conf x3" using generate by blast
  obtain x5 where 5: "in_save I b' p pass x4 = (Inr (), x5)" "conf x5 = conf x4" "saved x5 = (saved x4)(p \<mapsto> (b', pass))"
    using save by blast
  have "gen_headless_config I x = (Inr (), x5)"
    using 1 2 3 4 5 by (simp add: gen_headless_config_def and_then_def with_context_def ok_or_def lift_res_def)
  moreover have "holds_bundle I conf saved x5 b'" using 1 3 4 5 by (simp add: holds_bundle_def)
  ultimately show ?thesis using 4(2) by blast
qed

lemma fresh_config:
  assumes "in_secret_bundle I (conf x) = Inr p" and "saved x p = None"
  shows "\<exists>b k x'. first_config E I cli x = (Inr (conf x', effective_lang_base cli (conf x)), x') \<and> holds_bundle I conf saved x' b \<and>
    in_get_key I b ''runtime_ipns'' = Some k"
proof -
  obtain x1 where 1: "in_from_args I x = (Inr (conf x), x1)" "conf x1 = conf x" "saved x1 = saved x" using from_args by blast
  obtain x2 where 2: "in_init_logging I (conf x) x1 = (Inr (), x2)" "conf x2 = conf x1" "saved x2 = saved x1" using logging by blast
  obtain b k x3 where 3: "gen_headless_config I x2 = (Inr (), x3)" "holds_bundle I conf saved x3 b" "in_get_key I b ''runtime_ipns'' = Some k"
    using new_config by blast
  obtain x4 where 4: "in_from_args I x3 = (Inr (conf x3), x4)" "conf x4 = conf x3" "saved x4 = saved x3" using from_args by blast
  have "\<not> path_exists E p x2" using 1 2 assms(2) by (simp add: found)
  then have "first_config E I cli x = (Inr (conf x4, effective_lang_base cli (conf x)), x4)"
    using 1 2 3 4 assms(1) by (simp add: first_config_def and_then_def lift_res_def Let_def)
  moreover have "holds_bundle I conf saved x4 b" using 3(2) 4 by (simp add: holds_bundle_def)
  ultimately show ?thesis using 3(3) by blast
qed

end

section \<open>One identity, and the first run that was cut short\<close>


text \<open>C28: a first run that is cut short is not repaired. When the daemon stops after the new configuration
  and bundle are written and before the runtime's own key is added to the bundle, the bundle exists
  and so counts as complete: every later start ends with the error that the key is missing, and
  changes nothing that would make the next one better.\<close>

theorem interrupted_first_run_stuck:
  assumes "installed E I conf saved" and "in_gen_headless I x = (Inr (), x1)"
    and "conf y = conf x1" and "saved y = saved x1"
    and "\<not> cl_gen_headless_config cli" and "cl_gen_root_cid cli = None" and "cl_root_cid cli = None"
  shows "\<exists>y'. boot_main from_yaml E I cli y = (Inl MISSING_RUNTIME_IPNS, y') \<and> conf y' = conf y \<and> saved y' = saved y"
proof -
  obtain b pass p where "cf_secret_bundle_passphrase (conf x1) = Some pass" "in_secret_bundle I (conf x1) = Inr p"
    "saved x1 p = Some (b, pass)" and k: "in_get_key I b ''runtime_ipns'' = None"
    using installed.headless [OF assms(1), of x] assms(2) by auto
  then have "holds_bundle I conf saved y b" using assms(3,4) by (simp add: holds_bundle_def)
  then obtain y1 where 1: "first_config E I cli y = (Inr (conf y, effective_lang_base cli (conf y)), y1)"
    "conf y1 = conf y" "saved y1 = saved y" using installed.known_config [OF assms(1)] by blast
  have "holds_bundle I conf saved y1 b" using 1 \<open>holds_bundle I conf saved y b\<close> by (simp add: holds_bundle_def)
  from installed.missing_identity [OF assms(1) this k] obtain y2 where
    2: "runtime_identity E I (conf y1) y1 = (Inl MISSING_RUNTIME_IPNS, y2)" "conf y2 = conf y1" "saved y2 = saved y1" by blast
  have "boot_daemon E I cli (conf y) lang y1 = (Inl MISSING_RUNTIME_IPNS, y2)" for lang
    using 1(2) 2(1) by (simp add: boot_daemon_def check_root_cid_def assms(7) and_then_def)
  with 1 2 show ?thesis by (simp add: boot_main_def assms(5,6) and_then_def)
qed

end
