(* ===== verification/Witness_First_Run.thy ===== *)
theory Witness_First_Run
  imports First_Run Witness_Runtime
begin

text \<open>
  A machine for the first run: the configuration has a passphrase once one was written, and a bundle
  file is kept as a JSON document, with the passphrase it was written under.
\<close>

definition disk_conf :: "ref_world \<Rightarrow> config" where
  "disk_conf x = ref_config\<lparr>cf_secret_bundle_passphrase := (if rw_blobs x = [] then None else Some ''pw'')\<rparr>"

fun bundle_of_json :: "json \<Rightarrow> (bool \<times> string) option" where
  "bundle_of_json (JArray [JBool key, JString pass]) = Some (key, pass)"
| "bundle_of_json _ = None"

definition disk_saved :: "ref_world \<Rightarrow> string \<Rightarrow> (bool \<times> string) option" where
  "disk_saved x p = Option.bind (map_of (rw_blocks x) p) bundle_of_json"

definition disk_write :: "string \<Rightarrow> bool \<times> string \<Rightarrow> ref_world \<Rightarrow> ref_world" where
  "disk_write p b x = x\<lparr>rw_blocks := (p, JArray [JBool (fst b), JString (snd b)]) # rw_blocks x\<rparr>"

lemma disk_simps [simp]:
  "disk_saved (disk_write p b x) = (disk_saved x)(p \<mapsto> b)" "disk_conf (disk_write p b x) = disk_conf x"
  "rw_blobs (disk_write p b x) = rw_blobs x"
  "disk_saved (x\<lparr>rw_blobs := bs\<rparr>) = disk_saved x"
  by (auto simp: disk_saved_def disk_write_def disk_conf_def)

definition disk_env :: "(ref_world, unit) env" where
  "disk_env = base_env\<lparr>path_exists := (\<lambda>p x. disk_saved x p \<noteq> None)\<rparr>"

definition disk_install :: "(ref_world, bool, unit) installation" where
  "disk_install =
     \<lparr>in_gen_headless = modify (\<lambda>x. disk_write ''bundle'' (False, ''pw'') (x\<lparr>rw_blobs := [(''config'', [])]\<rparr>)),
      in_from_args = gets disk_conf,
      in_init_logging = (\<lambda>_. ret ()),
      in_signing_key = (\<lambda>_. Inr ()),
      in_secret_bundle = (\<lambda>_. Inr ''bundle''),
      in_load = (\<lambda>p pass x. (case disk_saved x p of
          Some b \<Rightarrow> if snd b = pass then Inr (fst b) else Inl (Error ''wrong passphrase'')
        | None \<Rightarrow> Inl (Error ''no file''), x)),
      in_save = (\<lambda>b p pass. modify (disk_write p (b, pass))),
      in_generate_key = (\<lambda>_ _. ret True),
      in_get_key = (\<lambda>b _. if b then Some [1] else None),
      in_endpoint = (\<lambda>_. ret ''endpoint''),
      in_identity = (\<lambda>_ _. \<lparr>id_build = (\<lambda>_. Inr ()), id_did = (\<lambda>_. ''did:ma:k51reference''), id_encode = (\<lambda>_. Inr []), id_ipns_secret_key = []\<rparr>),
      in_publisher = (\<lambda>_. Inr ()),
      in_wait_ready = ret ()\<rparr>"

interpretation disk: installed disk_env disk_install disk_conf disk_saved
  by unfold_locales (auto simp: disk_install_def disk_env_def ref_env_def disk_conf_def split: if_splits)

definition plain_cli :: cli where
  "plain_cli = \<lparr>cl_gen_headless_config = False, cl_owner = [], cl_gen_root_cid = None, cl_root_cid = None, cl_i18n = None\<rparr>"


theorem interrupted_first_run_stuck_witness:
  "\<exists>x1 y'. in_gen_headless disk_install ref_world0 = (Inr (), x1) \<and>
    boot_main (\<lambda>_. None) disk_env disk_install plain_cli x1 = (Inl MISSING_RUNTIME_IPNS, y')"
proof -
  obtain x1 where 1: "in_gen_headless disk_install ref_world0 = (Inr (), x1)"
    by (simp add: disk_install_def)
  from interrupted_first_run_stuck [OF disk.installed_axioms, OF 1 refl refl, of plain_cli] 1 show ?thesis
    by (auto simp: plain_cli_def)
qed

end
