(* ===== verification/Build_Script.thy ===== *)
theory Build_Script
  imports I18n "HOL-Library.Multiset"
begin

text \<open>
  The build script, \<open>src/build.rs\<close>: every \<open>.ftl\<close> file of the directory \<open>i18n/\<close> becomes one entry of the
  table of bundled languages, by its stem, in the order of the stems. A panic of the script is an
  error. Foreign: the listing of the directory and the canonical paths; the content of a file is what
  \<open>include_str!\<close> puts in its place.
\<close>

section \<open>The script\<close>

record dir_entry =
  de_name :: string
  de_canonical :: "string option"

definition rsplit_once :: "char \<Rightarrow> string \<Rightarrow> (string \<times> string) option" where
  "rsplit_once c s = map_option (\<lambda>(after, before). (rev before, rev after)) (split_once c (rev s))"

text \<open>\<open>Path::file_stem\<close> and \<open>Path::extension\<close> of a file name: a leading dot starts no extension.\<close>

definition file_parts :: "string \<Rightarrow> string \<times> string option" where
  "file_parts name =
     (if name = ''..'' then (name, None)
      else case rsplit_once (CHR ''.'') name of
        None \<Rightarrow> (name, None)
      | Some (before, after) \<Rightarrow> if before = [] then (name, None) else (before, Some after))"

definition forward_slashes :: "string \<Rightarrow> string" where
  "forward_slashes = map (\<lambda>c. if c = CHR 0x5C then CHR ''/'' else c)"

fun lang_entries :: "dir_entry list \<Rightarrow> (string \<times> string) list res" where
  "lang_entries [] = Inr []"
| "lang_entries (e # es) =
     (if snd (file_parts (de_name e)) \<noteq> Some ''ftl'' then lang_entries es
      else case de_canonical e of
        None \<Rightarrow> Inl (Error (''cannot canonicalize '' @ de_name e))
      | Some path \<Rightarrow> (case lang_entries es of
            Inl err \<Rightarrow> Inl err
          | Inr entries \<Rightarrow> Inr ((fst (file_parts (de_name e)), forward_slashes path) # entries)))"

definition bundled_entries :: "dir_entry list \<Rightarrow> (string \<times> string) list res" where
  "bundled_entries dir = (case lang_entries dir of Inl e \<Rightarrow> Inl e | Inr entries \<Rightarrow> Inr (sort_key fst entries))"

definition quoted :: "string \<Rightarrow> string" where
  "quoted s = [CHR 0x22] @ s @ [CHR 0x22]"

definition bundled_line :: "string \<times> string \<Rightarrow> string" where
  "bundled_line e = ''    ('' @ quoted (fst e) @ '', include_str!('' @ quoted (snd e) @ '')),'' @ [CHR 0x0A]"

definition bundled_header :: string where
  "bundled_header = concat (map (\<lambda>l. l @ [CHR 0x0A])
     [''/// Auto-generated by build.rs '' @ [CHR 0xE2, CHR 0x80, CHR 0x94] @ '' do not edit by hand.'',
      ''/// Each entry is `(lang_code, ftl_content)`.'',
      ''/// To add a language: drop a `lang/<code>.ftl` file with a'',
      ''/// `lang-name = <autonym>` key and rebuild.'',
      ''pub const BUNDLED_LANGS: &[(&str, &str)] = &[''])"

text \<open>The file the script writes, and the table a compiled daemon has for the content of the files.\<close>

definition bundled_source :: "(string \<times> string) list \<Rightarrow> string" where
  "bundled_source entries = bundled_header @ concat (map bundled_line entries) @ ''];'' @ [CHR 0x0A]"

definition build_main :: "dir_entry list option \<Rightarrow> string res" where
  "build_main listing =
     (case listing of
        None \<Rightarrow> Inl (Error ''cannot read i18n/ directory'')
      | Some dir \<Rightarrow> (case bundled_entries dir of Inl e \<Rightarrow> Inl e | Inr entries \<Rightarrow> Inr (bundled_source entries)))"

definition compiled_langs :: "(string \<Rightarrow> string) \<Rightarrow> (string \<times> string) list \<Rightarrow> (string \<times> string) list" where
  "compiled_langs content entries = map (\<lambda>(code, path). (code, content path)) entries"

section \<open>What is bundled\<close>

lemma split_once_parts: "split_once c s = Some (a, b) \<longleftrightarrow> s = a @ c # b \<and> c \<notin> set a"
proof (induction s arbitrary: a)
  case (Cons x xs)
  then show ?case by (cases a) auto
qed simp

lemma rsplit_once_parts: "rsplit_once c s = Some (a, b) \<longleftrightarrow> s = a @ c # b \<and> c \<notin> set b"
proof -
  have "rsplit_once c s = Some (a, b) \<longleftrightarrow> split_once c (rev s) = Some (rev b, rev a)"
    by (auto simp: rsplit_once_def)
  also have "\<dots> \<longleftrightarrow> rev s = rev b @ c # rev a \<and> c \<notin> set b" by (simp add: split_once_parts)
  also have "rev s = rev b @ c # rev a \<longleftrightarrow> s = a @ c # b"
    by (metis append_assoc append.simps rev.simps(2) rev_append rev_rev_ident)
  finally show ?thesis .
qed

lemma ftl_name: "snd (file_parts name) = Some ''ftl'' \<longleftrightarrow> fst (file_parts name) \<noteq> [] \<and> name = fst (file_parts name) @ ''.ftl''"
  by (auto simp: file_parts_def rsplit_once_parts split: option.splits)

lemma named_ftl: "code \<noteq> [] \<Longrightarrow> file_parts (code @ ''.ftl'') = (code, Some ''ftl'')"
proof -
  assume "code \<noteq> []"
  moreover have "rsplit_once (CHR ''.'') (code @ ''.ftl'') = Some (code, ''ftl'')" by (simp add: rsplit_once_parts)
  moreover have "code @ ''.ftl'' \<noteq> ''..''" by (cases code; cases "tl code") auto
  ultimately show ?thesis by (simp add: file_parts_def)
qed

definition is_ftl :: "dir_entry \<Rightarrow> bool" where
  "is_ftl e \<longleftrightarrow> snd (file_parts (de_name e)) = Some ''ftl''"

definition entry_of :: "dir_entry \<Rightarrow> string \<times> string" where
  "entry_of e = (fst (file_parts (de_name e)), forward_slashes (the (de_canonical e)))"

lemma lang_entries_all:
  assumes "\<forall>e \<in> set dir. is_ftl e \<longrightarrow> de_canonical e \<noteq> None"
  shows "lang_entries dir = Inr (map entry_of (filter is_ftl dir))"
  using assms by (induction dir) (auto simp: is_ftl_def entry_of_def)

lemma entry_of_keys:
  assumes "distinct (map de_name dir)"
  shows "distinct (map (fst \<circ> entry_of) (filter is_ftl dir))"
proof -
  have "inj_on (fst \<circ> entry_of) (set (filter is_ftl dir))"
  proof (rule inj_onI)
    fix x y assume e: "x \<in> set (filter is_ftl dir)" "y \<in> set (filter is_ftl dir)" "(fst \<circ> entry_of) x = (fst \<circ> entry_of) y"
    then have "de_name x = de_name y" by (simp add: is_ftl_def entry_of_def ftl_name)
    with e assms show "x = y" by (auto simp: distinct_map dest: inj_onD)
  qed
  with assms show ?thesis by (simp add: distinct_map distinct_filter)
qed

lemma filter_key: "distinct (map f zs) \<Longrightarrow> k \<in> set zs \<Longrightarrow> filter (\<lambda>x. f k = f x) zs = [k]"
proof (induction zs)
  case (Cons z zs)
  have "filter (\<lambda>x. f z = f x) zs = []" using Cons.prems(1) by (auto simp: filter_empty_conv)
  with Cons show ?case by (auto simp: image_iff)
qed simp

lemma sort_key_order:
  assumes "mset ys = mset xs" and "distinct (map f xs)"
  shows "sort_key f ys = sort_key f xs"
proof (rule properties_for_sort_key [symmetric])
  show "sorted (map f (sort_key f ys))" and ys: "mset (sort_key f ys) = mset xs" using assms(1) by simp_all
  then have d: "distinct (map f (sort_key f ys))" using assms(2) by (metis mset_eq_imp_distinct_iff mset_map)
  fix k assume k: "k \<in> set (sort_key f ys)"
  then have "k \<in> set xs" using ys by (metis mset_eq_setD)
  then show "filter (\<lambda>x. f k = f x) (sort_key f ys) = filter (\<lambda>x. f k = f x) xs"
    using filter_key [OF d k] filter_key [OF assms(2)] by simp
qed

section \<open>The table\<close>

lemma compiled_look:
  assumes "distinct (map fst es)"
  shows "map_of (compiled_langs content es) code = Some text \<longleftrightarrow> (\<exists>path. (code, path) \<in> set es \<and> text = content path)"
proof -
  have "map_of (compiled_langs content es) code = map_option content (map_of es code)"
    by (simp add: compiled_langs_def map_of_map)
  then have "map_of (compiled_langs content es) code = Some text \<longleftrightarrow> (\<exists>path. map_of es code = Some path \<and> text = content path)"
    by auto
  then show ?thesis using assms by simp
qed

lemma listed_entry:
  assumes "\<forall>e \<in> set dir. is_ftl e \<longrightarrow> de_canonical e \<noteq> None" and "code \<noteq> []"
  shows "(code, path) \<in> entry_of ` {e \<in> set dir. is_ftl e} \<longleftrightarrow>
    (\<exists>raw. \<lparr>de_name = code @ ''.ftl'', de_canonical = Some raw\<rparr> \<in> set dir \<and> path = forward_slashes raw)"
proof
  assume "(code, path) \<in> entry_of ` {e \<in> set dir. is_ftl e}"
  then obtain e where e: "e \<in> set dir" "is_ftl e" "code = fst (file_parts (de_name e))"
    "path = forward_slashes (the (de_canonical e))" by (auto simp: entry_of_def)
  then obtain raw where "de_canonical e = Some raw" using assms(1) by auto
  moreover from this e have "e = \<lparr>de_name = code @ ''.ftl'', de_canonical = Some raw\<rparr>"
    by (cases e) (simp add: is_ftl_def ftl_name)
  ultimately show "\<exists>raw. \<lparr>de_name = code @ ''.ftl'', de_canonical = Some raw\<rparr> \<in> set dir \<and> path = forward_slashes raw"
    using e(1,4) by auto
next
  assume "\<exists>raw. \<lparr>de_name = code @ ''.ftl'', de_canonical = Some raw\<rparr> \<in> set dir \<and> path = forward_slashes raw"
  then obtain raw where "\<lparr>de_name = code @ ''.ftl'', de_canonical = Some raw\<rparr> \<in> set dir" "path = forward_slashes raw" by blast
  then show "(code, path) \<in> entry_of ` {e \<in> set dir. is_ftl e}"
    using named_ftl [OF assms(2)] by (force simp: is_ftl_def entry_of_def)
qed

lemma bundled_entries_all:
  assumes "\<forall>e \<in> set dir. is_ftl e \<longrightarrow> de_canonical e \<noteq> None"
  shows "bundled_entries dir = Inr (sort_key fst (map entry_of (filter is_ftl dir)))"
  using lang_entries_all [OF assms] by (simp add: bundled_entries_def)

text \<open>The table of bundled languages is complete and does not depend on the build machine. For a
  directory whose Fluent files can be resolved, in whatever order it is listed, the script writes the
  same source; its entries are sorted by language code, each code once; and a code is in the compiled
  table with a text exactly if the directory has the file \<open><code>.ftl\<close> with that content.\<close>

lemma bundle_complete:
  assumes "distinct (map de_name dir)" and "\<forall>e \<in> set dir. is_ftl e \<longrightarrow> de_canonical e \<noteq> None" and "code \<noteq> []"
  shows "\<exists>entries. bundled_entries dir = Inr entries \<and> sorted (map fst entries) \<and> distinct (map fst entries) \<and>
    (\<forall>dir'. mset dir' = mset dir \<longrightarrow> build_main (Some dir') = Inr (bundled_source entries)) \<and>
    (map_of (compiled_langs content entries) code = Some text \<longleftrightarrow>
      (\<exists>path. \<lparr>de_name = code @ ''.ftl'', de_canonical = Some path\<rparr> \<in> set dir \<and> text = content (forward_slashes path)))"
proof -
  let ?raw = "map entry_of (filter is_ftl dir)" and ?es = "sort_key fst (map entry_of (filter is_ftl dir))"
  have d: "distinct (map fst ?raw)" using entry_of_keys [OF assms(1)] by simp
  then have de: "distinct (map fst ?es)" by (metis mset_eq_imp_distinct_iff mset_map mset_sort)
  have order: "build_main (Some dir') = Inr (bundled_source ?es)" if m: "mset dir' = mset dir" for dir'
  proof -
    have "bundled_entries dir' = Inr (sort_key fst (map entry_of (filter is_ftl dir')))"
      using assms(2) mset_eq_setD [OF m] by (intro bundled_entries_all) simp
    also have "sort_key fst (map entry_of (filter is_ftl dir')) = ?es"
      using m d by (intro sort_key_order) (simp_all add: mset_filter [symmetric] del: mset_filter, metis mset_filter mset_map)
    finally show ?thesis by (simp add: build_main_def)
  qed
  have "map_of (compiled_langs content ?es) code = Some text \<longleftrightarrow> (\<exists>path. (code, path) \<in> set ?es \<and> text = content path)"
    by (rule compiled_look [OF de])
  also have "\<dots> \<longleftrightarrow> (\<exists>path. \<lparr>de_name = code @ ''.ftl'', de_canonical = Some path\<rparr> \<in> set dir \<and> text = content (forward_slashes path))"
    using listed_entry [OF assms(2,3)] by auto
  finally show ?thesis
    using order de bundled_entries_all [OF assms(2)] by (intro exI [of _ ?es]) simp
qed

theorem bundle_complete_witness:
  "\<exists>entries. bundled_entries [\<lparr>de_name = ''nb.ftl'', de_canonical = Some ''/i18n/nb.ftl''\<rparr>, \<lparr>de_name = ''README.md'', de_canonical = None\<rparr>,
      \<lparr>de_name = ''en.ftl'', de_canonical = Some ''/i18n/en.ftl''\<rparr>] = Inr entries \<and> sorted (map fst entries) \<and>
    (map_of (compiled_langs (\<lambda>path. ''text of '' @ path) entries) ''en'' = Some ''text of /i18n/en.ftl'')"
proof -
  let ?dir = "[\<lparr>de_name = ''nb.ftl'', de_canonical = Some ''/i18n/nb.ftl''\<rparr>, \<lparr>de_name = ''README.md'', de_canonical = None\<rparr>,
      \<lparr>de_name = ''en.ftl'', de_canonical = Some ''/i18n/en.ftl''\<rparr>]"
  have "\<forall>e \<in> set ?dir. is_ftl e \<longrightarrow> de_canonical e \<noteq> None" by code_simp
  moreover have "forward_slashes ''/i18n/en.ftl'' = ''/i18n/en.ftl''" by code_simp
  ultimately show ?thesis
    using bundle_complete [of ?dir "''en''" "\<lambda>path. ''text of '' @ path" "''text of /i18n/en.ftl''"] by auto
qed

end
