(* ===== verification/Unit_Tests.thy ===== *)
theory Unit_Tests
  imports Acl Ipfs Schema Reference_Env
begin

text \<open>
  The unit tests of the source, run on the model: those of \<open>src/src/acl.rs\<close> with the reference
  principals and capabilities, of \<open>src/src/entity.rs\<close> and of \<open>src/src/lib.rs\<close>, under their own names.
\<close>

section \<open>Access lists\<close>

definition run_check :: "acl_map \<Rightarrow> string \<Rightarrow> string list \<Rightarrow> (string \<Rightarrow> string list) \<Rightarrow> bool" where
  "run_check acl caller caps groups =
     (case check_full base_env acl caller caps (\<lambda>g. ret (groups g)) ref_world0 of (Inr _, _) \<Rightarrow> True | (Inl _, _) \<Rightarrow> False)"

lemmas run_check_simps = run_check_def check_full_def denied_entry_def ref_normalize_def ref_check_cap_def
  in_group_def and_then_def attempt_def GROUP_PREFIX_def starts_with_def ref_env_simps

lemma check_full_or_semantics:
  "run_check [(''did:ma:alice'', Allow [''write''])] ''did:ma:alice'' [''read'', ''write''] (\<lambda>_. [])"
  by (simp add: run_check_simps)

lemma check_full_direct_deny_beats_group_allow:
  "\<not> run_check [(''did:ma:alice'', Deny), (''+carlotta.friends'', Allow [''fortune''])] ''did:ma:alice'' [''fortune'']
     (\<lambda>g. if g = ''+carlotta.friends'' then [''did:ma:alice''] else [])"
  by (simp add: run_check_simps)

lemma check_full_groups_accumulate_caps:
  "run_check [(''+project.readers'', Allow [''read'']), (''+project.writers'', Allow [''write''])] ''did:ma:alice'' [''read'']
     (\<lambda>_. [''did:ma:alice''])"
  "run_check [(''+project.readers'', Allow [''read'']), (''+project.writers'', Allow [''write''])] ''did:ma:alice'' [''write'']
     (\<lambda>_. [''did:ma:alice''])"
  "\<not> run_check [(''+project.readers'', Allow [''read'']), (''+project.writers'', Allow [''write''])] ''did:ma:bob'' [''read'']
     (\<lambda>_. [])"
  by (simp_all add: run_check_simps)

lemma check_full_deep_group_path:
  "run_check [(''+alice.project4.admins'', Allow [''admin''])] ''did:ma:alice'' [''admin'']
     (\<lambda>g. if g = ''+alice.project4.admins'' then [''did:ma:alice''] else [])"
  by (simp add: run_check_simps)

lemma check_full_allow_via_allow_entry:
  "run_check [(''did:ma:alice'', Allow [''read''])] ''did:ma:alice'' [''read''] (\<lambda>_. [])"
  by (simp add: run_check_simps)

lemma check_full_deny_wins_over_wildcard_allow:
  "\<not> run_check [(''*'', Allow [''rpc'', ''ipfs'']), (''did:ma:bandit'', Deny)] ''did:ma:bandit'' [''rpc''] (\<lambda>_. [])"
  by (simp add: run_check_simps)

lemma check_full_group_deny:
  "\<not> run_check [(''+alice.enemies'', Deny)] ''did:ma:alice'' [''fortune'']
     (\<lambda>g. if g = ''+alice.enemies'' then [''did:ma:alice''] else [])"
  by (simp add: run_check_simps)

lemma check_full_group_deny_wins_over_group_allow:
  "\<not> run_check [(''+alice.enemies'', Deny), (''+alice.friends'', Allow [''fortune''])] ''did:ma:alice'' [''fortune'']
     (\<lambda>_. [''did:ma:alice''])"
  by (simp add: run_check_simps)

lemma check_full_group_non_member_denied:
  "\<not> run_check [(''+carlotta.friends'', Allow [''fortune''])] ''did:ma:stranger'' [''fortune''] (\<lambda>_. [])"
  by (simp add: run_check_simps)

section \<open>Documents\<close>

definition python_kinds :: kind_tree where
  "python_kinds = insert_protocol ''/ma/stateful/python/0.0.1'' (ipld_link_new ''bafyBBB'')
     (insert_protocol ''/ma/stateless/python/0.0.1'' (ipld_link_new ''bafyAAA'') [])"

lemma python_segments:
  "protocol_segments ''/ma/stateless/python/0.0.1'' = [''ma'', ''stateless'', ''python'', ''0.0.1'']"
  "protocol_segments ''/ma/stateful/python/0.0.1'' = [''ma'', ''stateful'', ''python'', ''0.0.1'']"
  by code_simp+

lemma kind_tree_nested_serialization:
  "json_of_kind_tree python_kinds = JObject [(''ma'', JObject
     [(''stateful'', JObject [(''python'', JObject [(''0.0.1'', JObject [(''/'', JString ''bafyBBB'')])])]),
      (''stateless'', JObject [(''python'', JObject [(''0.0.1'', JObject [(''/'', JString ''bafyAAA'')])])])])]"
  by code_simp

lemma kind_tree_protocol_ids_roundtrip:
  "protocol_ids python_kinds = [''/ma/stateful/python/0.0.1'', ''/ma/stateless/python/0.0.1'']"
  by code_simp

lemma kind_tree_remove_prunes_empty_branches:
  "remove_protocol ''/ma/stateless/python/0.0.1''
     (insert_protocol ''/ma/stateless/python/0.0.1'' (ipld_link_new ''bafyAAA'') []) = (True, [])"
  by code_simp

fun field_of :: "json \<Rightarrow> string \<Rightarrow> json option" where
  "field_of (JObject fs) k = map_of fs k"
| "field_of _ _ = None"

definition python_entity :: entity_node where
  "python_entity = \<lparr>en_kind = ''/ma/stateless/python/0.0.1'', en_behaviour = Some (ipld_link_new ''bafybehaviour''),
     en_acl = [], en_state = None, en_parent = None, en_label = None, en_lifecycle = New\<rparr>"

lemma serializing_entity_without_state_omits_state_field: "field_of (json_of_entity_node python_entity) ''state'' = None"
  by code_simp

lemma serializing_entity_always_includes_acl_field: "field_of (json_of_entity_node python_entity) ''acl'' = Some (JString [])"
  by code_simp

lemma deserializing_entity_accepts_missing_state_field:
  "map_option en_state (entity_node_of_json (JObject [(''kind'', JString ''/ma/stateless/python/0.0.1''),
     (''behaviour'', JObject [(''/'', JString ''bafybehaviour'')]), (''acl'', JString [])])) = Some None"
  by code_simp

lemma deserializing_entity_accepts_null_state_field:
  "map_option en_state (entity_node_of_json (JObject [(''kind'', JString ''/ma/stateless/python/0.0.1''),
     (''behaviour'', JObject [(''/'', JString ''bafybehaviour'')]), (''acl'', JString []), (''state'', JNull)])) = Some None"
  by code_simp

lemma deserializing_entity_accepts_missing_behaviour_field:
  "map_option en_behaviour (entity_node_of_json (JObject [(''kind'', JString ''/ma/scheduler/0.0.1''),
     (''acl'', JString ''open'')])) = Some None"
  by code_simp

section \<open>Mismatch texts\<close>

lemma handles_wrapped_context_text:
  "extract_imported_ipns_id_from_error_text
     (''failed to publish own DID document: imported key IPNS id '' @ [CHR 0x27] @ ''k51abc'' @ [CHR 0x27] @
      '' does not match document DID IPNS '' @ [CHR 0x27] @ ''12D3xyz'' @ [CHR 0x27]) = Some ''k51abc''"
  by code_simp

lemma returns_none_for_unrelated_error_text:
  "extract_imported_ipns_id_from_error_text ''kubo publish failed with timeout'' = None"
  by code_simp

lemma returns_none_when_imported_id_is_empty:
  "extract_imported_ipns_id_from_error_text
     (''imported key IPNS id '' @ [CHR 0x27] @ [CHR 0x27] @ '' does not match document DID IPNS '' @ [CHR 0x27] @
      ''12D3xyz'' @ [CHR 0x27]) = None"
  by code_simp

end
