(* ===== verification/Spec2Isabelle.thy ===== *)
theory Spec2Isabelle
  imports Witness_Served Witness_Publish Witness_Restart Witness_First_Run Build_Script Unit_Tests
begin

text \<open>
  \<^bold>\<open>A verification library for the ma runtime daemon.\<close>

  The program is a daemon that hosts small WebAssembly actors (entities). Its whole persistent state
  is a manifest: a content-addressed document in a Kubo block store, which links the entities, kinds
  and access lists, and whose address (the root) is what the daemon publishes under its name. Signed
  messages arrive on three services: RPC (calls to entities), CRUD (management of the manifest) and
  IPFS (publishing documents for others). A status server shows the state and lets the first visitor
  claim the runtime, a scheduler calls entities at set times, and a publisher announces the root.

  \<^bold>\<open>Conventions.\<close> A fallible computation returns \<open>'a res = error + 'a\<close>; an effect is an action
  \<open>('s, 'a) act = 's => 'a res * 's\<close>, so an error carries the state reached before it. A task that
  can wait for a lock it holds is a \<open>pact\<close> (theory \<open>Rpc\<close>), where \<open>None\<close> means that it never continues.
  Strings are byte strings (UTF-8), \<open>u64\<close> and \<open>i64\<close> are 64-bit words, \<open>BTreeMap\<close> is a list sorted by
  key and \<open>HashMap\<close> an association list without duplicates, whose order is whatever the run has.
  What is not in the repository is a field of the record \<open>env\<close> (theory \<open>Env\<close>): \<open>ma_core\<close>, CBOR, HTTP,
  the wasm engine, the clock, randomness. No law about it is assumed globally; a theorem that needs one
  names it as a hypothesis, and its witness instantiates it with the definitions of \<open>Reference_Env\<close>.
  The contracts of foreign services are predicates (\<open>kubo_ok\<close>) or, where many lemmas rest on one, locales
  (\<open>surroundings\<close>, \<open>block_store\<close>, \<open>network\<close>, \<open>installed\<close>): the clients are proved inside them, and they are
  interpreted on concrete services in the witness theories, since no code of the repository provides them.
  Error texts that foreign code writes into a message are not modelled. Arithmetic is that of a
  release build: it wraps. Each handler of the main loop runs to its end before the next one starts,
  as in the source; the claim handler of the status server, which does not, is cut at its locks, and
  modelled once more with the guards of these locks, for which a step may have to wait.

  \<^bold>\<open>Theories, bottom up.\<close>
  \<^item> \<open>Prelude\<close>, \<open>Strings\<close>, \<open>Values\<close>: results, actions, dictionaries; Rust's \<open>str\<close>; CBOR, YAML and JSON values.
  \<^item> \<open>Kind_Tree\<close>, \<open>Schema\<close>, \<open>Wire\<close> (\<open>src/entity.rs\<close>): the kind tree, the published documents and the
    messages, each with its serde form; look-up laws, the index invariant, round trips.
  \<^item> \<open>Env\<close>, \<open>Kubo\<close> (\<open>src/kubo.rs\<close>): foreign code as a record; the block store calls.
  \<^item> \<open>Acl\<close> (\<open>src/acl.rs\<close>): \<open>check_full\<close>, against a declarative specification, for every group resolver:
    what a run learnt about groups is its answer sheet.
  \<^item> \<open>Plugin\<close> (\<open>src/plugin.rs\<close>): loading, host functions, dispatch, pending state; a locale states what
    every host function keeps, and least privilege and sender authenticity are its interpretations.
  \<^item> \<open>Actors\<close>, \<open>Actor_Facts\<close> (\<open>plugins/\<close>): the counter, set, register and root actors, and
    every history of calls of the set and the register, the trap in \<open>persist\<close> included.
  \<^item> \<open>I18n\<close> (\<open>src/i18n.rs\<close>): the message table and the FTL parser; \<open>Build_Script\<close> (\<open>build.rs\<close>): the table of
    bundled languages that the build makes for it.
  \<^item> \<open>Runtime_State\<close>, \<open>Group_Facts\<close>: the state the handlers share; group entries of access lists.
  \<^item> \<open>Rpc\<close>, \<open>Rpc_Facts\<close> (\<open>src/rpc.rs\<close>): the gates, dispatch, creation and deletion requests.
  \<^item> \<open>Crud_Base\<close>, \<open>Crud\<close>, \<open>Crud_Facts\<close> (\<open>src/crud/\<close>): the manifest cycle as a refinement of editing one
    abstract manifest, its atomicity, the gate, the configuration keys. \<open>Access_Facts\<close>: what edits of the
    access lists do to the gates that are running.
  \<^item> \<open>Bootstrap\<close>, \<open>Bootstrap_Facts\<close> (\<open>src/bootstrap.rs\<close>): publish and export, loading, shutdown saving.
  \<^item> \<open>Status\<close>, \<open>Status_Facts\<close> (\<open>src/status.rs\<close>): the pages and the claim, alone,
    interleaved, and with its locks (no deadlock).
  \<^item> \<open>Schedule\<close>, \<open>Schedule_Facts\<close>, \<open>Scheduler_Actor\<close> (\<open>src/schedule.rs\<close>, \<open>src/scheduler_actor.rs\<close>).
  \<^item> \<open>Ipfs\<close> (\<open>src/ipfs.rs\<close>, \<open>src/lib.rs\<close>): publishing, storing, the keys of the block store.
  \<^item> \<open>Daemon\<close> (\<open>src/main.rs\<close>): start-up with its error exits, the own document, one tick of the event loop, the publisher, shutdown.
    \<open>First_Run\<close>: the program before that, from the command line over the first run to the identity.
  \<^item> \<open>Outside\<close>, \<open>Daemon_Frame\<close>, \<open>Daemon_Facts\<close>: \<open>Outside\<close> has the locale of relations on the outer world that every
    foreign call respects, \<open>Daemon_Frame\<close> the locales of invariants that the handlers keep (of messages, of
    management, of everything), each proved once per handler; \<open>Daemon_Facts\<close> the step relation of the whole
    daemon, its reachable states and what holds in them.
  \<^item> \<open>Manifest_Spec\<close>, \<open>Manifest_Refinement\<close>: the abstract machine whose state is one manifest and whose steps
    are the nine edits with their conditions, and the proof that every run of the daemon refines it.
  \<^item> \<open>Liveness\<close>: every tick of a reachable daemon ends, without an error.
  \<^item> \<open>Restart\<close>: from one life to the next, what shutdown publishes and the next start-up finds.
  \<^item> \<open>Served_Facts\<close>: what a message does all the way through these components.
  \<^item> \<open>Reference_Env\<close>, \<open>Witness_Plugins\<close>, \<open>Witness_Runtime\<close>, \<open>Witness_Served\<close>, \<open>Witness_Publish\<close>,
    \<open>Witness_Refinement\<close>, \<open>Witness_Restart\<close>, \<open>Witness_First_Run\<close>: concrete inputs for every property with hypotheses.
  \<^item> \<open>Unit_Tests\<close>: the unit tests of the source, run on the model.

  \<^bold>\<open>Recursion.\<close> No definition has fuel. Loops of the source run over finite lists and are structural
  or have a measure; a run of wasm code is a finite tree of host calls that ends or traps, so code
  that never returns has no run; a random schedule, which never ends, is one step that leaves the next job.

  \<^bold>\<open>Not modelled.\<close> What \<open>ma_core\<close>, clap and the logging library do: reading a configuration, the form of
  secret bundles, the network endpoint, parsing the command line (its options are the record \<open>cli\<close>); the
  program's calls to them are modelled. The socket, request matching and CORS of the status
  server (its route table and origin filter are modelled); cron expressions and timers (the scheduler
  library); the content of the translation files and of the example descriptors.
\<close>

end
